(* ===== verification/JsPrelude.thy ===== *)
theory JsPrelude
  imports Main "HOL-Library.Char_ord" "HOL-Library.List_Lexorder"
begin

text \<open>
  The part of JavaScript that the modelled modules use, and the generic lemmas the components
  share: values, property access and assignment, strict equality, truthiness, strings and
  \<open>JSON.stringify\<close>.

  Domain of the model. A string is a list of code units below 256, which is Isabelle's
  \<^typ>\<open>string\<close>. A number is an integer (of magnitude below \<open>10 ^ 21\<close>, so that its text is
  its decimal numeral), a finite non-integer, identified by the text \<open>Number::toString\<close> gives
  it, an infinity or not-a-number. An object is the list of its own enumerable string-keyed
  properties in the order \<open>Object.keys\<close> lists them; objects have no getters and no \<open>toJSON\<close>,
  as every object that \<open>JSON.parse\<close> or an object literal makes.
\<close>

section \<open>Values\<close>

named_theorems js_defs \<open>the operations of the language, unfolded by the component proofs\<close>

datatype jsnum = NInt int | NFrac string | NInf bool | NNaN

datatype jsval =
    JUndef
  | JNull
  | JBool bool
  | JNum jsnum
  | JStr string
  | JArr "jsval list"
  | JObj "(string \<times> jsval) list"

type_synonym jsobj = "(string \<times> jsval) list"

abbreviation JInt :: "int \<Rightarrow> jsval" where
  "JInt i \<equiv> JNum (NInt i)"

subsection \<open>Property access\<close>

text \<open>\<open>v?.k\<close>: undefined on \<open>undefined\<close>, \<open>null\<close> and primitives, and for an absent property.\<close>

fun obj_get :: "jsobj \<Rightarrow> string \<Rightarrow> jsval" where
  "obj_get [] k = JUndef"
| "obj_get ((k', v) # kvs) k = (if k = k' then v else obj_get kvs k)"

fun js_get :: "jsval \<Rightarrow> string \<Rightarrow> jsval" where
  "js_get (JObj kvs) k = obj_get kvs k"
| "js_get _ k = JUndef"

definition nullish :: "jsval \<Rightarrow> bool" where
  "nullish v \<longleftrightarrow> v = JUndef \<or> v = JNull"

text \<open>\<open>v.k\<close>: a TypeError (\<open>None\<close>) on \<open>undefined\<close> and \<open>null\<close>.\<close>

definition js_prop :: "jsval \<Rightarrow> string \<Rightarrow> jsval option" where
  "js_prop v k = (if nullish v then None else Some (js_get v k))"

text \<open>\<open>a ?? b\<close>\<close>

definition js_or_nullish :: "jsval \<Rightarrow> jsval \<Rightarrow> jsval" where
  "js_or_nullish a b = (if nullish a then b else a)"

text \<open>The default value of a parameter.\<close>

definition js_default :: "jsval \<Rightarrow> jsval \<Rightarrow> jsval" where
  "js_default d v = (if v = JUndef then d else v)"

fun own_keys :: "jsval \<Rightarrow> string list" where
  "own_keys (JObj kvs) = map fst kvs"
| "own_keys _ = []"

definition has_own :: "jsval \<Rightarrow> string \<Rightarrow> bool" where
  "has_own v k \<longleftrightarrow> k \<in> set (own_keys v)"

fun is_plain_object :: "jsval \<Rightarrow> bool" where
  "is_plain_object (JObj _) = True"
| "is_plain_object _ = False"

fun is_string :: "jsval \<Rightarrow> bool" where
  "is_string (JStr _) = True"
| "is_string _ = False"

fun is_bool :: "jsval \<Rightarrow> bool" where
  "is_bool (JBool _) = True"
| "is_bool _ = False"

fun is_array :: "jsval \<Rightarrow> bool" where
  "is_array (JArr _) = True"
| "is_array _ = False"

fun js_items :: "jsval \<Rightarrow> jsval list" where
  "js_items (JArr xs) = xs"
| "js_items _ = []"

fun is_nonempty_string :: "jsval \<Rightarrow> bool" where
  "is_nonempty_string (JStr s) \<longleftrightarrow> s \<noteq> []"
| "is_nonempty_string _ = False"

fun is_integer :: "jsval \<Rightarrow> bool" where
  "is_integer (JNum (NInt _)) = True"
| "is_integer _ = False"

fun is_nonneg_integer :: "jsval \<Rightarrow> bool" where
  "is_nonneg_integer (JNum (NInt i)) \<longleftrightarrow> 0 \<le> i"
| "is_nonneg_integer _ = False"

fun truthy :: "jsval \<Rightarrow> bool" where
  "truthy JUndef = False"
| "truthy JNull = False"
| "truthy (JBool b) = b"
| "truthy (JNum (NInt i)) \<longleftrightarrow> i \<noteq> 0"
| "truthy (JNum NNaN) = False"
| "truthy (JNum _) = True"
| "truthy (JStr s) \<longleftrightarrow> s \<noteq> []"
| "truthy (JArr _) = True"
| "truthy (JObj _) = True"

text \<open>
  \<open>a === b\<close>. Two objects or arrays are equal only when they are the same reference; the
  modelled code only compares values that come from different positions of its inputs, so two
  of them are never equal here.
\<close>

fun strict_eq :: "jsval \<Rightarrow> jsval \<Rightarrow> bool" where
  "strict_eq (JNum NNaN) _ = False"
| "strict_eq (JArr _) _ = False"
| "strict_eq (JObj _) _ = False"
| "strict_eq a b \<longleftrightarrow> a = b"

subsection \<open>Objects: assignment and spread\<close>

definition is_digit :: "char \<Rightarrow> bool" where
  "is_digit c \<longleftrightarrow> c \<in> set ''0123456789''"

definition digit_val :: "char \<Rightarrow> nat" where
  "digit_val c = of_char c - 48"

definition nat_of_digits :: "string \<Rightarrow> nat" where
  "nat_of_digits s = foldl (\<lambda>n c. 10 * n + digit_val c) 0 s"

text \<open>An array index: a canonical numeral below \<open>2 ^ 32 - 1\<close>; such keys come first, in order.\<close>

definition is_index_key :: "string \<Rightarrow> bool" where
  "is_index_key s \<longleftrightarrow> s \<noteq> [] \<and> list_all is_digit s \<and> (s = ''0'' \<or> hd s \<noteq> CHR ''0'') \<and>
     nat_of_digits s < 4294967295"

fun insert_prop :: "string \<Rightarrow> jsval \<Rightarrow> jsobj \<Rightarrow> jsobj" where
  "insert_prop k v [] = [(k, v)]"
| "insert_prop k v ((k', v') # kvs) =
     (if is_index_key k \<and> (is_index_key k' \<longrightarrow> nat_of_digits k < nat_of_digits k')
      then (k, v) # (k', v') # kvs else (k', v') # insert_prop k v kvs)"

fun update_prop :: "string \<Rightarrow> jsval \<Rightarrow> jsobj \<Rightarrow> jsobj" where
  "update_prop k v [] = []"
| "update_prop k v ((k', v') # kvs) =
     (if k = k' then (k, v) # kvs else (k', v') # update_prop k v kvs)"

text \<open>Defining an own data property, as an object literal and a spread do.\<close>

definition obj_put :: "string \<Rightarrow> jsval \<Rightarrow> jsobj \<Rightarrow> jsobj" where
  "obj_put k v kvs = (if k \<in> set (map fst kvs) then update_prop k v kvs else insert_prop k v kvs)"

text \<open>
  The assignment \<open>o[k] = v\<close> on an object made by a literal: for the key \<open>__proto__\<close> it runs the
  setter of \<open>Object.prototype\<close>, which never makes an own property.
\<close>

definition obj_assign :: "string \<Rightarrow> jsval \<Rightarrow> jsobj \<Rightarrow> jsobj" where
  "obj_assign k v kvs = (if k = ''__proto__'' then kvs else obj_put k v kvs)"


definition obj_remove :: "string \<Rightarrow> jsobj \<Rightarrow> jsobj" where
  "obj_remove k kvs = filter (\<lambda>(k', v). k' \<noteq> k) kvs"

definition has_exact_keys :: "jsval \<Rightarrow> string list \<Rightarrow> bool" where
  "has_exact_keys v expected \<longleftrightarrow>
     is_plain_object v \<and> length (own_keys v) = length expected \<and> list_all (has_own v) expected"

section \<open>Exceptions\<close>

text \<open>A computation that throws is the left alternative of a sum.\<close>

fun and_then :: "'e + 'a \<Rightarrow> ('a \<Rightarrow> 'e + 'b) \<Rightarrow> 'e + 'b" where
  "and_then (Inl e) f = Inl e"
| "and_then (Inr x) f = f x"

lemma and_then_Inr: "and_then m f = Inr y \<longleftrightarrow> (\<exists>x. m = Inr x \<and> f x = Inr y)"
  by (cases m) auto

lemma and_then_Inl: "and_then m f = Inl e \<longleftrightarrow> m = Inl e \<or> (\<exists>x. m = Inr x \<and> f x = Inl e)"
  by (cases m) auto

section \<open>Strings\<close>

definition is_space :: "char \<Rightarrow> bool" where
  "is_space c \<longleftrightarrow> c \<in> {CHR 0x09, CHR 0x0A, CHR 0x0B, CHR 0x0C, CHR 0x0D, CHR 0x20, CHR 0xA0}"

definition js_trim :: "string \<Rightarrow> string" where
  "js_trim s = rev (dropWhile is_space (rev (dropWhile is_space s)))"

fun starts_with :: "string \<Rightarrow> string \<Rightarrow> bool" where
  "starts_with s [] = True"
| "starts_with [] (p # ps) = False"
| "starts_with (c # s) (p # ps) \<longleftrightarrow> c = p \<and> starts_with s ps"

fun js_includes :: "string \<Rightarrow> string \<Rightarrow> bool" where
  "js_includes [] p \<longleftrightarrow> p = []"
| "js_includes (c # s) p \<longleftrightarrow> starts_with (c # s) p \<or> js_includes s p"

fun split_on :: "char \<Rightarrow> string \<Rightarrow> string list" where
  "split_on c [] = [[]]"
| "split_on c (x # s) = (if x = c then [] # split_on c s
     else (case split_on c s of [] \<Rightarrow> [[x]] | w # ws \<Rightarrow> (x # w) # ws))"

fun join_with :: "string \<Rightarrow> string list \<Rightarrow> string" where
  "join_with sep [] = []"
| "join_with sep [x] = x"
| "join_with sep (x # y # zs) = x @ sep @ join_with sep (y # zs)"

definition is_lower_hex :: "char \<Rightarrow> bool" where
  "is_lower_hex c \<longleftrightarrow> c \<in> set ''0123456789abcdef''"

definition is_hex :: "char \<Rightarrow> bool" where
  "is_hex c \<longleftrightarrow> c \<in> set ''0123456789abcdefABCDEF''"

section \<open>Decimal text of integers\<close>

definition dec_digit :: "nat \<Rightarrow> char" where
  "dec_digit n = ''0123456789'' ! n"

fun dec_nat :: "nat \<Rightarrow> string" where
  "dec_nat n = (if n < 10 then [dec_digit n] else dec_nat (n div 10) @ [dec_digit (n mod 10)])"

declare dec_nat.simps [simp del]

definition dec_int :: "int \<Rightarrow> string" where
  "dec_int i = (if i < 0 then CHR ''-'' # dec_nat (nat (- i)) else dec_nat (nat i))"

section \<open>Spread\<close>

text \<open>The own properties that \<open>{ ...v }\<close> copies: the elements of an array and the characters of a
  string are properties too.\<close>

fun js_spread :: "jsval \<Rightarrow> jsobj" where
  "js_spread (JObj kvs) = kvs"
| "js_spread (JArr xs) = map (\<lambda>(i, x). (dec_nat i, x)) (enumerate 0 xs)"
| "js_spread (JStr s) = map (\<lambda>(i, c). (dec_nat i, JStr [c])) (enumerate 0 s)"
| "js_spread _ = []"

text \<open>\<open>{ ...v, k: w }\<close>\<close>

definition js_put :: "string \<Rightarrow> jsval \<Rightarrow> jsval \<Rightarrow> jsval" where
  "js_put k w v = JObj (obj_put k w (js_spread v))"

section \<open>JSON text\<close>

definition hex_digit :: "nat \<Rightarrow> char" where
  "hex_digit n = ''0123456789abcdef'' ! n"

definition escape_char :: "char \<Rightarrow> string" where
  "escape_char c =
     (if c = CHR 0x22 then [CHR 0x5C, CHR 0x22]
      else if c = CHR 0x5C then [CHR 0x5C, CHR 0x5C]
      else if c = CHR 0x08 then [CHR 0x5C, CHR ''b'']
      else if c = CHR 0x09 then [CHR 0x5C, CHR ''t'']
      else if c = CHR 0x0A then [CHR 0x5C, CHR ''n'']
      else if c = CHR 0x0C then [CHR 0x5C, CHR ''f'']
      else if c = CHR 0x0D then [CHR 0x5C, CHR ''r'']
      else if (of_char c :: nat) < 32 then
        [CHR 0x5C, CHR ''u'', CHR ''0'', CHR ''0'', hex_digit (of_char c div 16), hex_digit (of_char c mod 16)]
      else [c])"

text \<open>Most characters are their own escape; the test on the bits of the character makes evaluation quick.\<close>

fun plain_char :: "char \<Rightarrow> bool" where
  "plain_char (Char b0 b1 b2 b3 b4 b5 b6 b7) \<longleftrightarrow> (b5 \<or> b6 \<or> b7) \<and>
     \<not> (b5 \<and> b1 \<and> \<not> b0 \<and> \<not> b2 \<and> \<not> b3 \<and> \<not> b4 \<and> \<not> b6 \<and> \<not> b7) \<and>
     \<not> (b6 \<and> b4 \<and> b3 \<and> b2 \<and> \<not> b0 \<and> \<not> b1 \<and> \<not> b5 \<and> \<not> b7)"

lemma plain_char_iff: "plain_char c \<longleftrightarrow> c \<noteq> CHR 0x22 \<and> c \<noteq> CHR 0x5C \<and> \<not> (of_char c :: nat) < 32"
  by (cases c) (auto simp: of_bool_def)

lemma escape_char_plain: "plain_char c \<Longrightarrow> escape_char c = [c]"
  unfolding plain_char_iff by (auto simp: escape_char_def)

definition escape_special :: "char \<Rightarrow> string" where "escape_special c = escape_char c"

lemmas escape_special_code [code] = escape_special_def [unfolded escape_char_def]

lemma escape_char_code [code]: "escape_char c = (if plain_char c then [c] else escape_special c)"
  by (simp add: escape_special_def escape_char_plain)

definition quote_json :: "string \<Rightarrow> string" where
  "quote_json s = CHR 0x22 # concat (map escape_char s) @ [CHR 0x22]"

fun num_json :: "jsnum \<Rightarrow> string" where
  "num_json (NInt i) = dec_int i"
| "num_json (NFrac t) = t"
| "num_json (NInf b) = ''null''"
| "num_json NNaN = ''null''"

definition or_null_text :: "string option \<Rightarrow> string" where
  "or_null_text t = (case t of None \<Rightarrow> ''null'' | Some s \<Rightarrow> s)"

text \<open>The members of an object whose value has a JSON text, each as \<open>"key":text\<close>.\<close>

fun member_texts :: "(string \<times> string option) list \<Rightarrow> string list" where
  "member_texts [] = []"
| "member_texts ((k, t) # kts) =
     (case t of None \<Rightarrow> member_texts kts | Some s \<Rightarrow> (quote_json k @ '':'' @ s) # member_texts kts)"

text \<open>\<open>JSON.stringify(v)\<close>; \<open>None\<close> is the result \<open>undefined\<close>.\<close>

primrec json_stringify :: "jsval \<Rightarrow> string option" where
  "json_stringify JUndef = None"
| "json_stringify JNull = Some ''null''"
| "json_stringify (JBool b) = Some (if b then ''true'' else ''false'')"
| "json_stringify (JNum n) = Some (num_json n)"
| "json_stringify (JStr s) = Some (quote_json s)"
| "json_stringify (JArr xs) =
     Some (''['' @ join_with '','' (map or_null_text (map json_stringify xs)) @ '']'')"
| "json_stringify (JObj kvs) =
     Some (''{'' @ join_with '','' (member_texts (map (map_prod id json_stringify) kvs)) @ ''}'')"

section \<open>Laws of property access\<close>

lemma obj_get_absent: "k \<notin> set (map fst kvs) \<Longrightarrow> obj_get kvs k = JUndef"
  by (induction kvs) auto

lemma obj_get_map_of: "obj_get kvs k = (case map_of kvs k of None \<Rightarrow> JUndef | Some v \<Rightarrow> v)"
  by (induction kvs) auto

lemma obj_get_remove: "obj_get (obj_remove k kvs) k' = (if k' = k then JUndef else obj_get kvs k')"
  by (induction kvs) (auto simp: obj_remove_def)

lemma obj_get_update:
  "k \<in> set (map fst kvs) \<Longrightarrow> obj_get (update_prop k v kvs) k' = (if k' = k then v else obj_get kvs k')"
  by (induction k v kvs rule: update_prop.induct) (simp_all split: if_splits, metis)

lemma obj_get_insert:
  "k \<notin> set (map fst kvs) \<Longrightarrow> obj_get (insert_prop k v kvs) k' = (if k' = k then v else obj_get kvs k')"
  by (induction k v kvs rule: insert_prop.induct) (simp_all split: if_splits, metis)

lemma obj_get_put [simp]: "obj_get (obj_put k v kvs) k' = (if k' = k then v else obj_get kvs k')"
  unfolding obj_put_def by (simp add: obj_get_update obj_get_insert)

lemma keys_update [simp]: "map fst (update_prop k v kvs) = map fst kvs"
  by (induction k v kvs rule: update_prop.induct) simp_all

lemma keys_insert [simp]: "set (map fst (insert_prop k v kvs)) = insert k (set (map fst kvs))"
  by (induction k v kvs rule: insert_prop.induct) (simp_all add: insert_commute)

lemma keys_put [simp]: "fst ` set (obj_put k v kvs) = insert k (fst ` set kvs)"
  using keys_insert [of k v kvs] arg_cong [OF keys_update [of k v kvs], of set]
  unfolding obj_put_def by (simp add: insert_absorb del: keys_update)

lemma distinct_keys_insert:
  "k \<notin> set (map fst kvs) \<Longrightarrow> distinct (map fst kvs) \<Longrightarrow> distinct (map fst (insert_prop k v kvs))"
proof (induction k v kvs rule: insert_prop.induct)
  case (1 k v)
  then show ?case by simp
next
  case (2 k v k' v' kvs)
  then show ?case using keys_insert [of k v kvs] by simp blast
qed

lemma distinct_keys_put: "distinct (map fst kvs) \<Longrightarrow> distinct (map fst (obj_put k v kvs))"
  unfolding obj_put_def by (simp add: distinct_keys_insert)

lemma js_get_put [simp]:
  "js_get (js_put k w v) k' = (if k' = k then w else obj_get (js_spread v) k')"
  by (simp add: js_put_def)

lemma js_spread_put [simp]: "js_spread (js_put k w v) = obj_put k w (js_spread v)"
  by (simp add: js_put_def)

lemma js_put_object [simp]: "is_plain_object (js_put k w v)"
  by (simp add: js_put_def)

lemma js_get_non_object: "\<not> is_plain_object v \<Longrightarrow> js_get v k = JUndef"
  by (cases v) auto

lemma is_plain_object_iff: "is_plain_object v \<longleftrightarrow> (\<exists>kvs. v = JObj kvs)"
  by (cases v) auto

lemma is_string_iff: "is_string v \<longleftrightarrow> (\<exists>s. v = JStr s)"
  by (cases v) auto

lemma is_nonempty_string_iff: "is_nonempty_string v \<longleftrightarrow> (\<exists>s. v = JStr s \<and> s \<noteq> [])"
  by (cases v) auto

lemma is_nonneg_integer_iff: "is_nonneg_integer v \<longleftrightarrow> (\<exists>i. v = JInt i \<and> 0 \<le> i)"
  by (induction v rule: is_nonneg_integer.induct) auto

lemma is_array_iff: "is_array v \<longleftrightarrow> (\<exists>xs. v = JArr xs)"
  by (cases v) auto

lemma strict_eq_imp_eq: "strict_eq a b \<Longrightarrow> a = b"
  by (induction a b rule: strict_eq.induct) auto

lemma strict_eq_str [simp]:
  "strict_eq (JStr s) b \<longleftrightarrow> b = JStr s"
  "strict_eq a (JStr s) \<longleftrightarrow> a = JStr s"
  by (auto dest: strict_eq_imp_eq)

lemma strict_eq_null [simp]:
  "strict_eq JNull b \<longleftrightarrow> b = JNull"
  "strict_eq a JNull \<longleftrightarrow> a = JNull"
  by (auto dest: strict_eq_imp_eq)

lemma strict_eq_int [simp]:
  "strict_eq (JInt i) b \<longleftrightarrow> b = JInt i"
  "strict_eq a (JInt i) \<longleftrightarrow> a = JInt i"
  by (auto dest: strict_eq_imp_eq)

lemma has_exact_keys_set:
  assumes "has_exact_keys v ks" and "distinct ks"
  shows "set (own_keys v) = set ks" and "distinct (own_keys v)"
proof -
  from assms(1) have sub: "set ks \<subseteq> set (own_keys v)" and len: "length (own_keys v) = length ks"
    by (auto simp: has_exact_keys_def has_own_def list_all_iff)
  have "card (set (own_keys v)) \<le> length ks"
    using len card_length [of "own_keys v"] by simp
  moreover have "card (set ks) = length ks"
    using assms(2) by (rule distinct_card)
  ultimately show eq: "set (own_keys v) = set ks"
    using sub by (metis List.finite_set card_seteq)
  show "distinct (own_keys v)"
    using eq len \<open>card (set ks) = length ks\<close> by (metis card_distinct)
qed

lemma has_exact_keysD: "has_exact_keys v ks \<Longrightarrow> is_plain_object v"
  by (simp add: has_exact_keys_def)

lemma starts_with_append: "starts_with s p \<longleftrightarrow> (\<exists>t. s = p @ t)"
  by (induction s p rule: starts_with.induct) auto

lemma js_includes_iff: "js_includes s p \<longleftrightarrow> (\<exists>a b. s = a @ p @ b)"
proof (induction s p rule: js_includes.induct)
  case (1 p)
  then show ?case by auto
next
  case (2 c s p)
  then show ?case
    by (simp add: starts_with_append) (metis append_Cons append_Nil append_eq_Cons_conv)
qed

end
