(* ===== verification/CanonicalJson.thy ===== *)
theory CanonicalJson
  imports JsPrelude "HOL-Library.Multiset"
begin

text \<open>
  The canonical JSON text that the attempt journal, the integration settlement and the managed
  observations use for identity: \<open>canonicalize\<close>, \<open>canonicalJson\<close> and \<open>digestOf\<close> of
  \<open>managed-worker-attempt-journal.mjs\<close>. The hash \<open>createHash("sha256")\<close> of \<open>node:crypto\<close> is the
  parameter \<open>H\<close>, from the hashed text to the hexadecimal digest.

  Main results: the text of a JSON value can be read back in one way only, so equal canonical
  texts mean equal canonical forms; and the canonical form does not depend on the order of the
  keys.
\<close>

section \<open>The canonical form\<close>

type_synonym hash = "string \<Rightarrow> string"

text \<open>\<open>for (const key of Object.keys(value).sort()) out[key] = canonicalize(value[key])\<close>\<close>

definition assign_all :: "jsobj \<Rightarrow> jsobj" where
  "assign_all kvs = foldl (\<lambda>out (k, v). obj_assign k v out) [] kvs"

primrec canonicalize :: "jsval \<Rightarrow> jsval" where
  "canonicalize JUndef = JUndef"
| "canonicalize JNull = JNull"
| "canonicalize (JBool b) = JBool b"
| "canonicalize (JNum n) = JNum n"
| "canonicalize (JStr s) = JStr s"
| "canonicalize (JArr xs) = JArr (map canonicalize xs)"
| "canonicalize (JObj kvs) = JObj (assign_all (sort_key fst (map (map_prod id canonicalize) kvs)))"

definition canonicalJson :: "jsval \<Rightarrow> string option" where
  "canonicalJson v = json_stringify (canonicalize v)"

text \<open>\<open>digestOf\<close> hashes a text, so its argument is never \<open>undefined\<close>.\<close>

definition digestOf :: "hash \<Rightarrow> jsval \<Rightarrow> string" where
  "digestOf H v = ''sha256:'' @ H (or_null_text (canonicalJson v))"

section \<open>JSON values\<close>

definition num_char :: "char \<Rightarrow> bool" where
  "num_char c \<longleftrightarrow> c \<in> set ''0123456789+-.e''"

text \<open>The text of a finite non-integer: it starts like a number and has a point or an exponent.\<close>

definition frac_text :: "string \<Rightarrow> bool" where
  "frac_text t \<longleftrightarrow> t \<noteq> [] \<and> (is_digit (hd t) \<or> hd t = CHR ''-'') \<and> list_all num_char t \<and>
     (CHR ''.'' \<in> set t \<or> CHR ''e'' \<in> set t)"

fun json_num :: "jsnum \<Rightarrow> bool" where
  "json_num (NInt i) = True"
| "json_num (NFrac t) = frac_text t"
| "json_num _ = False"

text \<open>What \<open>JSON.parse\<close> returns: no \<open>undefined\<close>, only finite numbers, distinct keys.\<close>

primrec json_value :: "jsval \<Rightarrow> bool" where
  "json_value JUndef = False"
| "json_value JNull = True"
| "json_value (JBool b) = True"
| "json_value (JNum n) = json_num n"
| "json_value (JStr s) = True"
| "json_value (JArr xs) = list_all id (map json_value xs)"
| "json_value (JObj kvs) =
     (distinct (map fst kvs) \<and> list_all snd (map (map_prod id json_value) kvs))"

lemma json_value_arr [simp]: "json_value (JArr xs) \<longleftrightarrow> (\<forall>x\<in>set xs. json_value x)"
  by (simp add: list_all_iff)

lemma json_value_obj [simp]:
  "json_value (JObj kvs) \<longleftrightarrow> distinct (map fst kvs) \<and> (\<forall>(k, v)\<in>set kvs. json_value v)"
  by (auto simp: list_all_iff)

declare json_value.simps(6,7) [simp del]

text \<open>The JSON text of a value that has one.\<close>

definition json_text :: "jsval \<Rightarrow> string" where
  "json_text v = or_null_text (json_stringify v)"

lemma json_stringify_Some: "v \<noteq> JUndef \<Longrightarrow> json_stringify v = Some (json_text v)"
  by (cases v) (simp_all add: json_text_def or_null_text_def)

lemma member_texts_Some:
  "\<forall>(k, v)\<in>set kvs. v \<noteq> JUndef \<Longrightarrow>
     member_texts (map (map_prod id json_stringify) kvs) =
     map (\<lambda>(k, v). quote_json k @ '':'' @ json_text v) kvs"
  by (induction kvs) (auto simp: json_stringify_Some)

lemma json_value_not_undef: "json_value v \<Longrightarrow> v \<noteq> JUndef"
  by auto

section \<open>Unique readability of JSON text\<close>

subsection \<open>Strings\<close>

lemma hex_digit_inj: "m < 16 \<Longrightarrow> n < 16 \<Longrightarrow> hex_digit m = hex_digit n \<Longrightarrow> m = n"
  using nth_eq_iff_index_eq [of "''0123456789abcdef''" m n] by (simp add: hex_digit_def)

lemma hex_digits_inj:
  assumes "hex_digit (of_char c div 16) = hex_digit (of_char d div 16)"
    and "hex_digit (of_char c mod 16) = hex_digit (of_char d mod 16)"
    and "of_char c < (32 :: nat)" and "of_char d < (32 :: nat)"
  shows "c = d"
proof -
  from assms have "of_char c div 16 = (of_char d div 16 :: nat)" and "of_char c mod 16 = (of_char d mod 16 :: nat)"
    by (auto intro: hex_digit_inj)
  then have "of_char c = (of_char d :: nat)"
    by (metis div_mult_mod_eq)
  then show ?thesis by simp
qed

lemma escape_char_prefix_free:
  assumes "escape_char c @ r = escape_char d @ r'"
  shows "c = d \<and> r = r'"
  using assms unfolding escape_char_def
  by (auto split: if_splits) (rule hex_digits_inj)

lemma escape_char_not_quote: "escape_char c @ r \<noteq> CHR 0x22 # r'"
  unfolding escape_char_def by auto

lemma escaped_prefix_free:
  "concat (map escape_char s) @ CHR 0x22 # r = concat (map escape_char s') @ CHR 0x22 # r' \<Longrightarrow>
   s = s' \<and> r = r'"
proof (induction s arbitrary: s')
  case Nil
  then show ?case
    using escape_char_not_quote by (cases s') (auto, metis)
next
  case (Cons c s)
  show ?case
  proof (cases s')
    case Nil
    with Cons.prems escape_char_not_quote show ?thesis by auto
  next
    case (Cons d t)
    with \<open>concat (map escape_char (c # s)) @ _ = _\<close>
    have "c = d \<and> concat (map escape_char s) @ CHR 0x22 # r = concat (map escape_char t) @ CHR 0x22 # r'"
      by (intro escape_char_prefix_free) simp
    with Cons.IH Cons show ?thesis by auto
  qed
qed

lemma quote_json_prefix_free: "quote_json s @ r = quote_json s' @ r' \<Longrightarrow> s = s' \<and> r = r'"
  by (rule escaped_prefix_free) (simp add: quote_json_def)

subsection \<open>Numbers\<close>

lemma dec_digit_is_digit: "k < 10 \<Longrightarrow> is_digit (dec_digit k)"
  using nth_mem [of k "''0123456789''"] by (simp add: is_digit_def dec_digit_def)

lemma dec_digit_val: "k < 10 \<Longrightarrow> digit_val (dec_digit k) = k"
proof -
  assume "k < 10"
  then have "k \<in> {0, 1, 2, 3, 4, 5, 6, 7, 8, 9}" by auto
  then show ?thesis
    by (elim insertE) (simp_all add: dec_digit_def digit_val_def)
qed

lemma dec_nat_digits: "list_all is_digit (dec_nat n)"
proof (induction n rule: dec_nat.induct)
  case (1 n)
  show ?case
  proof (cases "n < 10")
    case True
    then show ?thesis by (subst dec_nat.simps) (simp add: dec_digit_is_digit)
  next
    case False
    with 1 have "list_all is_digit (dec_nat (n div 10))" by simp
    with False show ?thesis by (subst dec_nat.simps) (simp add: dec_digit_is_digit)
  qed
qed

lemma dec_nat_nonempty [simp]: "dec_nat n \<noteq> []"
  by (subst dec_nat.simps) simp

lemma nat_of_digits_snoc: "nat_of_digits (s @ [c]) = 10 * nat_of_digits s + digit_val c"
  by (simp add: nat_of_digits_def)

lemma nat_of_dec_nat [simp]: "nat_of_digits (dec_nat n) = n"
proof (induction n rule: dec_nat.induct)
  case (1 n)
  show ?case
  proof (cases "n < 10")
    case True
    then show ?thesis by (subst dec_nat.simps) (simp add: nat_of_digits_def dec_digit_val)
  next
    case False
    with 1 have "nat_of_digits (dec_nat (n div 10)) = n div 10" by simp
    with False show ?thesis by (subst dec_nat.simps) (simp add: nat_of_digits_snoc dec_digit_val)
  qed
qed

lemma dec_nat_inj: "dec_nat m = dec_nat n \<Longrightarrow> m = n"
  by (metis nat_of_dec_nat)

lemma not_digit:
  "\<not> is_digit CHR ''-''" "\<not> is_digit CHR ''.''" "\<not> is_digit CHR ''e''"
  by (simp_all add: is_digit_def)

lemma digit_num_char: "is_digit c \<Longrightarrow> num_char c"
proof -
  have "set ''0123456789'' \<subseteq> set ''0123456789+-.e''" by simp
  then show "is_digit c \<Longrightarrow> num_char c" unfolding is_digit_def num_char_def by blast
qed

lemma dec_nat_no_minus: "CHR ''-'' \<notin> set (dec_nat n)"
  using dec_nat_digits [of n] not_digit(1) by (metis list_all_iff)

lemma dec_int_inj: "dec_int i = dec_int j \<Longrightarrow> i = j"
proof -
  assume eq: "dec_int i = dec_int j"
  have minus: "CHR ''-'' # t \<noteq> dec_nat n" for t n
    using dec_nat_no_minus [of n] by (metis list.set_intros(1))
  show ?thesis
  proof (cases "i < 0 \<longleftrightarrow> j < 0")
    case True
    show ?thesis
    proof (cases "i < 0")
      case neg: True
      with True eq have "nat (- i) = nat (- j)"
        by (intro dec_nat_inj) (simp add: dec_int_def)
      with True neg show ?thesis by simp
    next
      case False
      with True eq have "nat i = nat j"
        by (intro dec_nat_inj) (simp add: dec_int_def)
      with True False show ?thesis by simp
    qed
  next
    case False
    with eq minus [of "dec_nat (nat (- i))" "nat j"] minus [of "dec_nat (nat (- j))" "nat i"]
    show ?thesis by (simp add: dec_int_def split: if_splits)
  qed
qed

lemma dec_int_chars: "c \<in> set (dec_int i) \<Longrightarrow> is_digit c \<or> c = CHR ''-''"
  using dec_nat_digits by (auto simp: dec_int_def list_all_iff split: if_splits)

lemma dec_int_nonempty [simp]: "dec_int i \<noteq> []"
  by (simp add: dec_int_def)

lemma dec_int_num_chars: "list_all num_char (dec_int i)"
proof -
  have "num_char CHR ''-''" by (simp add: num_char_def)
  then show ?thesis using dec_int_chars digit_num_char by (metis list_all_iff)
qed

lemma num_json_chars: "json_num n \<Longrightarrow> list_all num_char (num_json n)"
  using dec_int_num_chars by (cases n) (simp_all add: frac_text_def)

lemma num_json_first:
  "json_num n \<Longrightarrow> num_json n \<noteq> [] \<and> (is_digit (hd (num_json n)) \<or> hd (num_json n) = CHR ''-'')"
  using dec_int_chars [OF hd_in_set [OF dec_int_nonempty]] by (cases n) (auto simp: frac_text_def)

lemma num_json_inj: "json_num m \<Longrightarrow> json_num n \<Longrightarrow> num_json m = num_json n \<Longrightarrow> m = n"
proof (cases m; cases n)
  fix i j assume "m = NInt i" "n = NInt j" "num_json m = num_json n"
  then show "m = n" by (simp add: dec_int_inj)
next
  fix i t assume a: "json_num n" "m = NInt i" "n = NFrac t" "num_json m = num_json n"
  then have "CHR ''.'' \<in> set (dec_int i) \<or> CHR ''e'' \<in> set (dec_int i)" by (simp add: frac_text_def)
  then show "m = n" using dec_int_chars not_digit by fastforce
next
  fix i t assume a: "json_num m" "n = NInt i" "m = NFrac t" "num_json m = num_json n"
  then have "CHR ''.'' \<in> set (dec_int i) \<or> CHR ''e'' \<in> set (dec_int i)" by (simp add: frac_text_def)
  then show "m = n" using dec_int_chars not_digit by fastforce
qed auto

text \<open>What follows a value inside an array, an object or at the end of the text.\<close>

definition delimited :: "string \<Rightarrow> bool" where
  "delimited r \<longleftrightarrow> r = [] \<or> hd r \<in> {CHR '','', CHR '']'', CHR ''}''}"

lemma takeWhile_num: "list_all num_char t \<Longrightarrow> delimited r \<Longrightarrow> takeWhile num_char (t @ r) = t"
  by (cases r) (auto simp: delimited_def num_char_def list_all_iff takeWhile_append)

lemma num_json_prefix_free:
  assumes "json_num m" and "json_num n" and "delimited r" and "delimited r'"
    and eq: "num_json m @ r = num_json n @ r'"
  shows "m = n \<and> r = r'"
proof -
  have "num_json m = takeWhile num_char (num_json m @ r)"
    using assms(1-4) by (simp add: takeWhile_num num_json_chars)
  also have "\<dots> = takeWhile num_char (num_json n @ r')"
    by (simp add: eq)
  also have "\<dots> = num_json n"
    using assms by (simp add: takeWhile_num num_json_chars)
  finally have "num_json m = num_json n" .
  with eq num_json_inj [OF assms(1,2)] show ?thesis by simp
qed

subsection \<open>Sequences\<close>

text \<open>The elements after the first, each after a comma, then the closing character.\<close>

definition tail_text :: "('a \<Rightarrow> string) \<Rightarrow> char \<Rightarrow> 'a list \<Rightarrow> string \<Rightarrow> string" where
  "tail_text E close xs r = concat (map (\<lambda>x. CHR '','' # E x) xs) @ close # r"

lemma join_with_comma: "join_with '','' (x # xs) = x @ concat (map (\<lambda>y. CHR '','' # y) xs)"
  by (induction xs arbitrary: x) auto

lemma join_tail_text: "join_with '','' (map E (x # xs)) @ close # r = E x @ tail_text E close xs r"
  by (simp only: list.map join_with_comma) (simp add: tail_text_def comp_def)

lemma tail_text_delimited: "close \<in> {CHR '']'', CHR ''}''} \<Longrightarrow> delimited (tail_text E close xs r)"
  by (cases xs) (auto simp: tail_text_def delimited_def)

definition reads_once :: "('a \<Rightarrow> string) \<Rightarrow> ('a \<Rightarrow> bool) \<Rightarrow> 'a \<Rightarrow> bool" where
  "reads_once E Q x \<longleftrightarrow> (\<forall>y r r'. Q y \<longrightarrow> delimited r \<longrightarrow> delimited r' \<longrightarrow> E x @ r = E y @ r' \<longrightarrow> x = y \<and> r = r')"

lemma reads_onceD:
  "reads_once E Q x \<Longrightarrow> Q y \<Longrightarrow> delimited r \<Longrightarrow> delimited r' \<Longrightarrow> E x @ r = E y @ r' \<Longrightarrow> x = y \<and> r = r'"
  by (auto simp: reads_once_def)

lemma tail_text_reads_once:
  assumes close: "close \<in> {CHR '']'', CHR ''}''}"
  shows "\<lbrakk>\<forall>x\<in>set xs. reads_once E Q x; \<forall>y\<in>set ys. Q y; tail_text E close xs r = tail_text E close ys r'\<rbrakk> \<Longrightarrow>
    xs = ys \<and> r = r'"
proof (induction xs arbitrary: ys)
  case Nil
  with close show ?case by (cases ys) (auto simp: tail_text_def)
next
  case (Cons x xs)
  show ?case
  proof (cases ys)
    case Nil
    with Cons.prems close show ?thesis by (auto simp: tail_text_def)
  next
    case ys: (Cons y zs)
    with Cons.prems have "E x @ tail_text E close xs r = E y @ tail_text E close zs r'"
      by (simp add: tail_text_def)
    moreover have "reads_once E Q x" "Q y" using Cons.prems ys by simp_all
    ultimately have "x = y \<and> tail_text E close xs r = tail_text E close zs r'"
      using reads_onceD tail_text_delimited [OF close] by metis
    with Cons.IH [of zs] Cons.prems ys show ?thesis by simp
  qed
qed

lemma join_reads_once:
  assumes close: "close \<in> {CHR '']'', CHR ''}''}"
    and reads: "\<forall>x\<in>set xs. reads_once E Q x" and ok: "\<forall>y\<in>set ys. Q y"
    and first: "\<And>z t. z \<in> set xs \<union> set ys \<Longrightarrow> E z @ t \<noteq> close # r \<and> E z @ t \<noteq> close # r'"
    and eq: "join_with '','' (map E xs) @ close # r = join_with '','' (map E ys) @ close # r'"
  shows "xs = ys \<and> r = r'"
proof (cases xs; cases ys)
  assume "xs = []" "ys = []"
  with eq show ?thesis by simp
next
  fix y zs assume "xs = []" and ys: "ys = y # zs"
  with eq have "close # r = E y @ tail_text E close zs r'"
    using join_tail_text [of E y zs close r'] by simp
  with first [of y "tail_text E close zs r'"] ys show ?thesis by simp
next
  fix x ws assume xs: "xs = x # ws" and "ys = []"
  with eq have "E x @ tail_text E close ws r = close # r'"
    using join_tail_text [of E x ws close r] by simp
  with first [of x "tail_text E close ws r"] xs show ?thesis by simp
next
  fix x ws y zs assume xs: "xs = x # ws" and ys: "ys = y # zs"
  have "E x @ tail_text E close ws r = E y @ tail_text E close zs r'"
    using eq join_tail_text [of E x ws close r] join_tail_text [of E y zs close r'] xs ys by simp
  then have "x = y \<and> tail_text E close ws r = tail_text E close zs r'"
    using reads ok xs ys tail_text_delimited [OF close] by (intro reads_onceD [of E Q]) auto
  with tail_text_reads_once [OF close, of ws E Q zs r r'] reads ok xs ys show ?thesis by simp
qed

subsection \<open>Values\<close>

definition member_text :: "string \<times> jsval \<Rightarrow> string" where
  "member_text = (\<lambda>(k, v). quote_json k @ '':'' @ json_text v)"

lemma json_text_simps:
  "json_text JNull = ''null''"
  "json_text (JBool b) = (if b then ''true'' else ''false'')"
  "json_text (JNum n) = num_json n"
  "json_text (JStr s) = quote_json s"
  "json_text (JArr xs) = ''['' @ join_with '','' (map json_text xs) @ '']''"
proof -
  have "map json_text xs = map or_null_text (map json_stringify xs)"
    by (simp add: json_text_def comp_def)
  then show "json_text (JArr xs) = ''['' @ join_with '','' (map json_text xs) @ '']''"
    by (simp only:) (simp add: json_text_def or_null_text_def)
qed (simp_all add: json_text_def or_null_text_def)

lemma json_text_obj:
  "\<forall>(k, v)\<in>set kvs. v \<noteq> JUndef \<Longrightarrow> json_text (JObj kvs) = ''{'' @ join_with '','' (map member_text kvs) @ ''}''"
  using member_texts_Some [of kvs] by (simp add: json_text_def or_null_text_def member_text_def)

lemma json_text_obj_value:
  "json_value (JObj kvs) \<Longrightarrow> json_text (JObj kvs) = ''{'' @ join_with '','' (map member_text kvs) @ ''}''"
  by (rule json_text_obj) auto

text \<open>The first character of a JSON text tells the kind of the value.\<close>

fun value_kind :: "jsval \<Rightarrow> nat" where
  "value_kind JNull = 0"
| "value_kind (JBool b) = (if b then 1 else 2)"
| "value_kind (JStr s) = 3"
| "value_kind (JArr xs) = 4"
| "value_kind (JObj kvs) = 5"
| "value_kind _ = 6"

definition char_kind :: "char \<Rightarrow> nat" where
  "char_kind c = (if c = CHR ''n'' then 0 else if c = CHR ''t'' then 1 else if c = CHR ''f'' then 2
     else if c = CHR 0x22 then 3 else if c = CHR ''['' then 4 else if c = CHR ''{'' then 5 else 6)"

lemma number_first:
  assumes "json_num n"
  shows "\<exists>c t. num_json n = c # t \<and> char_kind c = 6 \<and> c \<notin> {CHR '']'', CHR ''}''}"
proof -
  have "c = CHR ''-'' \<or> is_digit c \<Longrightarrow> char_kind c = 6 \<and> c \<notin> {CHR '']'', CHR ''}''}" for c
    by (auto simp: is_digit_def char_kind_def)
  with num_json_first [OF assms] show ?thesis by (metis list.collapse)
qed

lemma json_text_first:
  assumes "json_value v"
  shows "\<exists>c t. json_text v = c # t \<and> char_kind c = value_kind v \<and> c \<notin> {CHR '']'', CHR ''}''}"
proof (cases v)
  case (JNum n)
  with assms number_first [of n] show ?thesis by (simp add: json_text_simps)
next
  case (JObj kvs)
  with assms show ?thesis by (simp add: json_text_obj_value char_kind_def del: json_value_obj)
next
  case (JBool b)
  then show ?thesis by (cases b) (simp_all add: json_text_simps char_kind_def)
qed (use assms in \<open>simp_all add: json_text_simps quote_json_def char_kind_def\<close>)

lemma same_kind:
  "json_value v \<Longrightarrow> json_value w \<Longrightarrow> json_text v @ r = json_text w @ r' \<Longrightarrow> value_kind v = value_kind w"
  using json_text_first [of v] json_text_first [of w] by auto

lemma json_text_not_close: "json_value z \<Longrightarrow> c \<in> {CHR '']'', CHR ''}''} \<Longrightarrow> json_text z @ t \<noteq> c # r"
  using json_text_first [of z] by auto

lemma kind_arr: "value_kind w = 4 \<Longrightarrow> \<exists>ys. w = JArr ys"
  by (cases w) (auto split: if_splits)

lemma kind_obj: "value_kind w = 5 \<Longrightarrow> \<exists>ys. w = JObj ys"
  by (cases w) (auto split: if_splits)

lemma reads_once_arr:
  assumes xs: "json_value (JArr xs)" and IH: "\<And>x. x \<in> set xs \<Longrightarrow> reads_once json_text json_value x"
  shows "reads_once json_text json_value (JArr xs)"
  unfolding reads_once_def
proof (intro allI impI)
  fix w r r'
  assume w: "json_value w" and eq: "json_text (JArr xs) @ r = json_text w @ r'"
  obtain ys where ws: "w = JArr ys"
    using same_kind [OF xs w eq] kind_arr [of w] by auto
  have "xs = ys \<and> r = r'"
  proof (rule join_reads_once [of "CHR '']''" xs json_text json_value ys])
    show "json_text z @ t \<noteq> CHR '']'' # r \<and> json_text z @ t \<noteq> CHR '']'' # r'" if "z \<in> set xs \<union> set ys" for z t
    proof -
      have "json_value z" using that w ws xs by auto
      then show ?thesis by (simp add: json_text_not_close)
    qed
    show "join_with '','' (map json_text xs) @ CHR '']'' # r = join_with '','' (map json_text ys) @ CHR '']'' # r'"
      using eq by (simp add: ws json_text_simps)
  qed (use IH w ws in simp_all)
  with ws show "JArr xs = w \<and> r = r'" by simp
qed

lemma reads_once_member:
  assumes "reads_once json_text json_value v"
  shows "reads_once member_text (\<lambda>(k, v). json_value v) (k, v)"
  unfolding reads_once_def
proof (intro allI impI)
  fix lw s s'
  assume a: "case lw of (l, w) \<Rightarrow> json_value w" "delimited s" "delimited s'" "member_text (k, v) @ s = member_text lw @ s'"
  obtain l w where lw: "lw = (l, w)" by (cases lw)
  have "k = l \<and> CHR '':'' # json_text v @ s = CHR '':'' # json_text w @ s'"
    using a(4) by (intro quote_json_prefix_free) (simp add: member_text_def lw)
  with reads_onceD [OF assms, of w s s'] a lw show "(k, v) = lw \<and> s = s'" by simp
qed

lemma reads_once_obj:
  assumes kvs: "json_value (JObj kvs)"
    and IH: "\<And>k v. (k, v) \<in> set kvs \<Longrightarrow> reads_once json_text json_value v"
  shows "reads_once json_text json_value (JObj kvs)"
  unfolding reads_once_def
proof (intro allI impI)
  fix w r r'
  assume w: "json_value w" and eq: "json_text (JObj kvs) @ r = json_text w @ r'"
  obtain lvs where ws: "w = JObj lvs"
    using same_kind [OF kvs w eq] kind_obj [of w] by auto
  have "kvs = lvs \<and> r = r'"
  proof (rule join_reads_once [of "CHR ''}''" kvs member_text "\<lambda>(k, v). json_value v" lvs])
    show "\<forall>x\<in>set kvs. reads_once member_text (\<lambda>(k, v). json_value v) x"
      using IH reads_once_member by auto
    show "\<forall>y\<in>set lvs. case y of (k, v) \<Rightarrow> json_value v" using w ws by auto
    show "member_text z @ t \<noteq> CHR ''}'' # r \<and> member_text z @ t \<noteq> CHR ''}'' # r'" for z t
      by (simp add: member_text_def quote_json_def split: prod.split)
    show "join_with '','' (map member_text kvs) @ CHR ''}'' # r = join_with '','' (map member_text lvs) @ CHR ''}'' # r'"
      using eq w kvs by (simp add: ws json_text_obj_value del: json_value_obj)
  qed simp
  with ws show "JObj kvs = w \<and> r = r'" by simp
qed

lemma reads_once_num:
  assumes "json_value (JNum n)"
  shows "reads_once json_text json_value (JNum n)"
  unfolding reads_once_def
proof (intro allI impI)
  fix w r r'
  assume w: "json_value w" and d: "delimited r" "delimited r'" and eq: "json_text (JNum n) @ r = json_text w @ r'"
  obtain m where m: "w = JNum m"
    using same_kind [OF assms w eq] w by (cases w) (auto split: if_splits)
  show "JNum n = w \<and> r = r'"
    using num_json_prefix_free [of n m r r'] assms w d eq m by (simp add: json_text_simps)
qed

lemma reads_once_str: "reads_once json_text json_value (JStr s)"
  unfolding reads_once_def
proof (intro allI impI)
  fix w r r'
  assume w: "json_value w" and eq: "json_text (JStr s) @ r = json_text w @ r'"
  obtain t where t: "w = JStr t"
    using same_kind [OF _ w eq] by (cases w) (auto split: if_splits)
  show "JStr s = w \<and> r = r'"
    using quote_json_prefix_free [of s r t r'] eq t by (simp add: json_text_simps)
qed

lemma reads_once_const:
  assumes "v = JNull \<or> (\<exists>b. v = JBool b)"
  shows "reads_once json_text json_value v"
  unfolding reads_once_def
proof (intro allI impI)
  fix w r r'
  assume w: "json_value w" and eq: "json_text v @ r = json_text w @ r'"
  have "json_value v" using assms by auto
  from same_kind [OF this w eq] assms have "w = v"
    by (cases w) (auto split: if_splits)
  with eq show "v = w \<and> r = r'" by simp
qed

lemma json_text_reads_once: "json_value v \<Longrightarrow> reads_once json_text json_value v"
proof (induction v)
  case (JArr xs)
  then show ?case by (intro reads_once_arr) auto
next
  case (JObj kvs)
  show ?case
  proof (rule reads_once_obj [OF JObj.prems])
    fix k v assume kv: "(k, v) \<in> set kvs"
    with JObj.prems have "json_value v" by auto
    with JObj.IH [OF kv, of v] show "reads_once json_text json_value v" by simp
  qed
qed (simp_all add: reads_once_num reads_once_str reads_once_const)

lemma json_text_inj: "json_value v \<Longrightarrow> json_value w \<Longrightarrow> json_text v = json_text w \<Longrightarrow> v = w"
  using reads_onceD [OF json_text_reads_once, of v w "[]" "[]"] by (simp add: delimited_def)

section \<open>The canonical form of an object\<close>

abbreviation keep :: "string \<times> jsval \<Rightarrow> bool" where
  "keep \<equiv> \<lambda>(k, v). k \<noteq> ''__proto__''"

lemma set_insert_prop: "set (insert_prop k v kvs) = insert (k, v) (set kvs)"
  by (induction k v kvs rule: insert_prop.induct) (simp_all add: insert_commute)

lemma foldl_assign:
  "distinct (map fst kvs) \<Longrightarrow> set (map fst kvs) \<inter> set (map fst out) = {} \<Longrightarrow> distinct (map fst out) \<Longrightarrow>
   distinct (map fst (foldl (\<lambda>out (k, v). obj_assign k v out) out kvs)) \<and>
   set (foldl (\<lambda>out (k, v). obj_assign k v out) out kvs) = set out \<union> {kv \<in> set kvs. keep kv}"
proof (induction kvs arbitrary: out)
  case Nil
  then show ?case by simp
next
  case (Cons kv kvs)
  obtain k v where kv: "kv = (k, v)" by (cases kv)
  let ?out = "obj_assign k v out"
  have k: "k \<notin> set (map fst out)" using Cons.prems kv by auto
  have new: "set ?out = set out \<union> (if keep kv then {kv} else {})"
    using k kv by (simp add: obj_assign_def obj_put_def set_insert_prop)
  have "distinct (map fst ?out)"
    using Cons.prems(3) by (simp add: obj_assign_def distinct_keys_put)
  moreover have "set (map fst kvs) \<inter> set (map fst ?out) = {}"
    using Cons.prems(1,2) kv new by (auto simp: image_iff split: if_splits)
  ultimately have "distinct (map fst (foldl (\<lambda>out (k, v). obj_assign k v out) ?out kvs)) \<and>
    set (foldl (\<lambda>out (k, v). obj_assign k v out) ?out kvs) = set ?out \<union> {kv \<in> set kvs. keep kv}"
    using Cons.IH [of ?out] Cons.prems(1) by simp
  then show ?case using new kv by auto
qed

lemma assign_all_keys: "distinct (map fst kvs) \<Longrightarrow> distinct (map fst (assign_all kvs))"
  and assign_all_set: "distinct (map fst kvs) \<Longrightarrow> set (assign_all kvs) = {kv \<in> set kvs. keep kv}"
  using foldl_assign [of kvs "[]"] by (simp_all add: assign_all_def)

lemma assign_all_filter: "assign_all (filter keep kvs) = assign_all kvs"
proof -
  have "foldl (\<lambda>out (k, v). obj_assign k v out) out (filter keep kvs) =
    foldl (\<lambda>out (k, v). obj_assign k v out) out kvs" for out
    by (induction kvs arbitrary: out) (auto simp: obj_assign_def)
  then show ?thesis by (simp add: assign_all_def)
qed

lemma fst_map_prod_id [simp]: "map fst (map (map_prod id f) kvs) = map fst kvs"
  by (induction kvs) auto

lemma distinct_keys_sort: "distinct (map fst kvs) \<Longrightarrow> distinct (map fst (sort_key fst kvs))"
  by (metis distinct_map distinct_sort set_sort)

text \<open>The properties of a canonical object, before they are put in the order of own keys.\<close>

abbreviation canonical_members :: "jsobj \<Rightarrow> jsobj" where
  "canonical_members kvs \<equiv> sort_key fst (map (map_prod id canonicalize) kvs)"

lemma canonical_members_distinct:
  "distinct (map fst kvs) \<Longrightarrow> distinct (map fst (canonical_members kvs))"
  by (rule distinct_keys_sort) simp

lemma canonicalize_obj_set:
  "distinct (map fst kvs) \<Longrightarrow>
   set (assign_all (canonical_members kvs)) = {kv \<in> map_prod id canonicalize ` set kvs. keep kv}"
  using assign_all_set [OF canonical_members_distinct] by simp

lemma obj_get_in: "distinct (map fst kvs) \<Longrightarrow> (k, v) \<in> set kvs \<Longrightarrow> obj_get kvs k = v"
  by (simp add: obj_get_map_of)

lemma obj_get_cases:
  assumes "distinct (map fst kvs)"
  shows "k \<notin> set (map fst kvs) \<and> obj_get kvs k = JUndef \<or> (k, obj_get kvs k) \<in> set kvs"
  using assms obj_get_in [OF assms] obj_get_absent [of k kvs] by fastforce

lemma canonicalize_get:
  assumes "distinct (own_keys v)" and "k \<noteq> ''__proto__''"
  shows "js_get (canonicalize v) k = canonicalize (js_get v k)"
proof (cases v)
  case (JObj kvs)
  let ?c = "assign_all (canonical_members kvs)"
  from JObj assms(1) have d: "distinct (map fst kvs)" by simp
  have dc: "distinct (map fst ?c)" by (rule assign_all_keys [OF canonical_members_distinct [OF d]])
  from obj_get_cases [OF d, of k] show ?thesis
  proof
    assume a: "k \<notin> set (map fst kvs) \<and> obj_get kvs k = JUndef"
    then have "k \<notin> set (map fst ?c)"
      using canonicalize_obj_set [OF d] by (auto simp: image_iff)
    with a show ?thesis by (simp add: JObj obj_get_absent)
  next
    assume "(k, obj_get kvs k) \<in> set kvs"
    then have "(k, canonicalize (obj_get kvs k)) \<in> set ?c"
      using canonicalize_obj_set [OF d] assms(2) by force
    with obj_get_in [OF dc] show ?thesis by (simp add: JObj)
  qed
qed auto

lemma canonicalize_json_value: "json_value v \<Longrightarrow> json_value (canonicalize v)"
proof (induction v)
  case (JObj kvs)
  then have d: "distinct (map fst kvs)" by simp
  have "json_value w" if "(k, w) \<in> set (assign_all (canonical_members kvs))" for k w
  proof -
    from that obtain v where "(k, v) \<in> set kvs" "w = canonicalize v"
      using canonicalize_obj_set [OF d] by (auto simp: map_prod_def)
    with JObj show ?thesis by fastforce
  qed
  with assign_all_keys [OF canonical_members_distinct [OF d]] show ?case
    by (auto simp: map_prod_def)
qed auto

lemma canonicalJson_text: "json_value v \<Longrightarrow> canonicalJson v = Some (json_text (canonicalize v))"
  unfolding canonicalJson_def
  by (rule json_stringify_Some) (metis canonicalize_json_value json_value.simps(1))

subsection \<open>Order of keys\<close>

lemma sort_key_unique:
  assumes "mset kvs = mset lvs" and "distinct (map fst kvs)"
  shows "sort_key fst kvs = sort_key fst lvs"
proof (rule sort_key_inj_key_eq)
  show "mset kvs = mset (sort_key fst lvs)" using assms(1) by simp
  show "inj_on fst (set kvs)" using assms(2) by (simp add: distinct_map)
qed simp

lemma canonicalize_obj_perm:
  assumes "mset kvs = mset lvs" and "distinct (map fst kvs)"
  shows "canonicalize (JObj kvs) = canonicalize (JObj lvs)"
proof -
  have "mset (map (map_prod id canonicalize) kvs) = mset (map (map_prod id canonicalize) lvs)"
    using assms(1) by simp
  with assms(2) have "canonical_members kvs = canonical_members lvs"
    by (intro sort_key_unique) simp_all
  then show ?thesis by simp
qed

text \<open>Two values that differ only in the order of the keys of their objects, at any depth.\<close>

inductive same_content :: "jsval \<Rightarrow> jsval \<Rightarrow> bool" where
  same_refl: "same_content v v"
| same_arr: "list_all2 same_content xs ys \<Longrightarrow> same_content (JArr xs) (JArr ys)"
| same_obj: "list_all2 (rel_prod (=) same_content) kvs lvs \<Longrightarrow> same_content (JObj kvs) (JObj lvs)"
| same_perm: "mset kvs = mset lvs \<Longrightarrow> distinct (map fst kvs) \<Longrightarrow> same_content (JObj kvs) (JObj lvs)"
| same_trans: "same_content u v \<Longrightarrow> same_content v w \<Longrightarrow> same_content u w"

lemma same_content_canonicalize: "same_content v w \<Longrightarrow> canonicalize v = canonicalize w"
proof (induction rule: same_content.induct)
  case (same_arr xs ys)
  then have "map canonicalize xs = map canonicalize ys"
    by (simp add: list_all2_conv_all_nth list_eq_iff_nth_eq)
  then show ?case by simp
next
  case (same_obj kvs lvs)
  then have "map (map_prod id canonicalize) kvs = map (map_prod id canonicalize) lvs"
    by (auto simp: list_all2_conv_all_nth list_eq_iff_nth_eq rel_prod_sel prod_eq_iff)
  then show ?case by simp
next
  case (same_perm kvs lvs)
  then show ?case by (rule canonicalize_obj_perm)
qed auto

section \<open>Identity by canonical text\<close>

text \<open>The canonical text does not depend on the order of the keys of any object, at any depth.\<close>

theorem canonical_key_order:
  assumes "same_content v w"
  shows "canonicalJson v = canonicalJson w"
  using same_content_canonicalize [OF assms] by (simp add: canonicalJson_def)

theorem canonical_key_order_witness:
  "canonicalJson (JObj [(''a'', JNull), (''b'', JBool True)]) = canonicalJson (JObj [(''b'', JBool True), (''a'', JNull)])"
  by (rule canonical_key_order, rule same_content.same_perm) auto

text \<open>Two JSON values have the same canonical text exactly when they have the same canonical form.\<close>

theorem canonical_text_identity:
  assumes "json_value v" and "json_value w"
  shows "canonicalJson v = canonicalJson w \<longleftrightarrow> canonicalize v = canonicalize w"
  using assms json_text_inj canonicalize_json_value by (auto simp: canonicalJson_text)

theorem canonical_text_identity_witness: "canonicalJson (JStr ''a'') \<noteq> canonicalJson (JArr [JStr ''a''])"
  using canonical_text_identity [of "JStr ''a''" "JArr [JStr ''a'']"] by simp

end
