(* ===== verification/AttemptJournal.thy ===== *)
theory AttemptJournal
  imports CanonicalJson
begin

text \<open>
  The managed worker attempt journal, \<open>agent-launch-core/src/lib/managed-worker-attempt-journal.mjs\<close>:
  a hash-chained list of events for one repository and subject. This theory holds the data and the
  operations; the theories \<open>JournalFacts\<close> and \<open>JournalReachable\<close> prove what they guarantee.

  An event is untrusted JSON until \<open>validateAttemptJournal\<close> has accepted it, so events, payloads and
  the arguments that come from callers are \<^typ>\<open>jsval\<close>. A refusal keeps its code, its reason and
  its detail; the schema version that every refusal carries is a constant and is left out.
\<close>

section \<open>Vocabulary\<close>

datatype event_kind =
    ReservationClaimed | PendingPublished | SupervisorBound | SpawnStarted | SandboxBound
  | ExecutionTerminated | DeliveryObserved
  | IntegrationIntent | IntegrationGitEffect | IntegrationStatusEffect | IntegrationCompleted
  | RunResultRecorded | RunOriginalRecorded | LifecycleFailureRecorded | ProofVerificationRecorded
  | DeliveryReceiptRecorded | CompletionObservationRecorded
  | AttemptTerminal | ReservationReleased

fun kind_name :: "event_kind \<Rightarrow> string" where
  "kind_name ReservationClaimed = ''reservation_claimed''"
| "kind_name PendingPublished = ''pending_published''"
| "kind_name SupervisorBound = ''supervisor_bound''"
| "kind_name SpawnStarted = ''spawn_started''"
| "kind_name SandboxBound = ''sandbox_bound''"
| "kind_name ExecutionTerminated = ''execution_terminated''"
| "kind_name DeliveryObserved = ''delivery_observed''"
| "kind_name IntegrationIntent = ''integration_intent''"
| "kind_name IntegrationGitEffect = ''integration_git_effect''"
| "kind_name IntegrationStatusEffect = ''integration_status_effect''"
| "kind_name IntegrationCompleted = ''integration_completed''"
| "kind_name RunResultRecorded = ''run_result_recorded''"
| "kind_name RunOriginalRecorded = ''run_original_recorded''"
| "kind_name LifecycleFailureRecorded = ''lifecycle_failure_recorded''"
| "kind_name ProofVerificationRecorded = ''proof_verification_recorded''"
| "kind_name DeliveryReceiptRecorded = ''delivery_receipt_recorded''"
| "kind_name CompletionObservationRecorded = ''completion_observation_recorded''"
| "kind_name AttemptTerminal = ''attempt_terminal''"
| "kind_name ReservationReleased = ''reservation_released''"

definition all_event_kinds :: "event_kind list" where
  "all_event_kinds = [ReservationClaimed, PendingPublished, SupervisorBound, SpawnStarted, SandboxBound,
     ExecutionTerminated, DeliveryObserved, IntegrationIntent, IntegrationGitEffect,
     IntegrationStatusEffect, IntegrationCompleted, RunResultRecorded, RunOriginalRecorded,
     LifecycleFailureRecorded, ProofVerificationRecorded, DeliveryReceiptRecorded,
     CompletionObservationRecorded, AttemptTerminal, ReservationReleased]"

text \<open>\<open>EVENT_KIND_VALUES.has(v)\<close>, together with the member it is.\<close>

definition event_kind_of :: "jsval \<Rightarrow> event_kind option" where
  "event_kind_of v = (case v of JStr s \<Rightarrow> find (\<lambda>k. kind_name k = s) all_event_kinds | _ \<Rightarrow> None)"

fun informational :: "event_kind \<Rightarrow> bool" where
  "informational RunResultRecorded = True"
| "informational RunOriginalRecorded = True"
| "informational LifecycleFailureRecorded = True"
| "informational ProofVerificationRecorded = True"
| "informational DeliveryReceiptRecorded = True"
| "informational CompletionObservationRecorded = True"
| "informational _ = False"

fun integration_kind :: "event_kind \<Rightarrow> bool" where
  "integration_kind IntegrationIntent = True"
| "integration_kind IntegrationGitEffect = True"
| "integration_kind IntegrationStatusEffect = True"
| "integration_kind IntegrationCompleted = True"
| "integration_kind _ = False"

datatype refusal_code =
    UNKNOWN_SCHEMA_VERSION | UNKNOWN_EVENT_KIND | UNEXPECTED_KEYS | SEQUENCE_GAP | CHAIN_BROKEN
  | DIGEST_MISMATCH | BINDING_MISMATCH | GENERATION_NOT_FROZEN | WK_TIP_NOT_FROZEN
  | ILLEGAL_TRANSITION | UNREADABLE | RELEASE_WITHOUT_PROOF | LIVENESS_UNAVAILABLE

datatype refusal = Refusal (refusal_code: refusal_code) (refusal_reason: string) (refusal_detail: jsobj)

datatype release_proof = ExactTerminal | AuthenticatedDeath | CompletedDelivery

fun proof_name :: "release_proof \<Rightarrow> string" where
  "proof_name ExactTerminal = ''exact_terminal''"
| "proof_name AuthenticatedDeath = ''authenticated_death''"
| "proof_name CompletedDelivery = ''completed_delivery''"

definition liveness_live :: jsval where "liveness_live = JStr ''live''"
definition liveness_dead :: jsval where "liveness_dead = JStr ''dead''"
definition liveness_indeterminate :: jsval where "liveness_indeterminate = JStr ''indeterminate''"

definition liveness_value :: "jsval \<Rightarrow> bool" where
  "liveness_value v \<longleftrightarrow> v \<in> {liveness_live, liveness_dead, liveness_indeterminate}"

definition journal_schema_version :: jsval where
  "journal_schema_version = JStr ''managed-worker-attempt-journal.v1''"

section \<open>Attempt tuples\<close>

definition attempt_tuple_keys :: "string list" where
  "attempt_tuple_keys = [''assigned_unit'', ''launch_ref'', ''run_id'', ''retry_id'']"

definition isValidAttemptTuple :: "jsval \<Rightarrow> bool" where
  "isValidAttemptTuple t \<longleftrightarrow>
     has_exact_keys t attempt_tuple_keys \<and>
     is_nonempty_string (js_get t ''assigned_unit'') \<and>
     is_nonempty_string (js_get t ''launch_ref'') \<and>
     is_nonempty_string (js_get t ''run_id'') \<and>
     is_nonneg_integer (js_get t ''retry_id'')"

definition sameAttempt :: "jsval \<Rightarrow> jsval \<Rightarrow> bool" where
  "sameAttempt l r \<longleftrightarrow>
     strict_eq (js_get l ''assigned_unit'') (js_get r ''assigned_unit'') \<and>
     strict_eq (js_get l ''launch_ref'') (js_get r ''launch_ref'') \<and>
     strict_eq (js_get l ''run_id'') (js_get r ''run_id'') \<and>
     strict_eq (js_get l ''retry_id'') (js_get r ''retry_id'')"

definition tuple_object :: "jsval \<Rightarrow> jsval" where
  "tuple_object t = JObj
     [(''assigned_unit'', js_get t ''assigned_unit''), (''launch_ref'', js_get t ''launch_ref''),
      (''run_id'', js_get t ''run_id''), (''retry_id'', js_get t ''retry_id'')]"

definition attemptKey :: "jsval \<Rightarrow> string" where
  "attemptKey t = or_null_text (canonicalJson (tuple_object t))"

section \<open>Payload shapes\<close>

text \<open>The regular expressions of the payload checks, on strings.\<close>

definition hex64 :: "string \<Rightarrow> bool" where
  "hex64 s \<longleftrightarrow> length s = 64 \<and> list_all is_lower_hex s"

fun is_hex64 :: "jsval \<Rightarrow> bool" where
  "is_hex64 (JStr s) = hex64 s"
| "is_hex64 _ = False"

fun is_sha256_text :: "jsval \<Rightarrow> bool" where
  "is_sha256_text (JStr s) \<longleftrightarrow> starts_with s ''sha256:'' \<and> hex64 (drop 7 s)"
| "is_sha256_text _ = False"

definition ref_char :: "char \<Rightarrow> bool" where
  "ref_char c \<longleftrightarrow> c \<in> set ''ABCDEFGHIJKLMNOPQRSTUVWXYZabcdefghijklmnopqrstuvwxyz0123456789._-''"

fun is_ref_id :: "jsval \<Rightarrow> bool" where
  "is_ref_id (JStr s) \<longleftrightarrow> 1 \<le> length s \<and> length s \<le> 200 \<and> list_all ref_char s"
| "is_ref_id _ = False"

text \<open>\<open>typeof v === "string" && path.isAbsolute(v)\<close> on a POSIX system\<close>

fun is_absolute_path :: "jsval \<Rightarrow> bool" where
  "is_absolute_path (JStr s) \<longleftrightarrow> s \<noteq> [] \<and> hd s = CHR ''/''"
| "is_absolute_path _ = False"

definition release_facts :: "jsval list" where
  "release_facts = [JStr ''delivery ref unchanged; canonical review not attempted'',
     JStr ''delivery ref restored; canonical review not written'']"

fun is_release_intent :: "jsval \<Rightarrow> jsval \<Rightarrow> bool" where
  "is_release_intent (JStr i) (JStr r) \<longleftrightarrow> i = ''release-'' @ r"
| "is_release_intent _ _ = False"

definition valid_assignment_change :: "jsval \<Rightarrow> bool" where
  "valid_assignment_change v \<longleftrightarrow>
     has_exact_keys v [''alternative'', ''intent_id'', ''request_digest'', ''assignment_digest'',
       ''credential'', ''original'', ''storage''] \<and>
     is_hex64 (js_get v ''request_digest'') \<and>
     is_sha256_text (js_get v ''assignment_digest'') \<and>
     has_exact_keys (js_get v ''credential'') [''kind'', ''launchRef'', ''runId'', ''retryId''] \<and>
     strict_eq (js_get (js_get v ''credential'') ''kind'') (JStr ''identity_store_tuple'') \<and>
     is_nonempty_string (js_get (js_get v ''credential'') ''launchRef'') \<and>
     is_nonempty_string (js_get (js_get v ''credential'') ''runId'') \<and>
     is_nonneg_integer (js_get (js_get v ''credential'') ''retryId'') \<and>
     has_exact_keys (js_get v ''original'') [''ref_id'', ''sha256''] \<and>
     is_nonempty_string (js_get (js_get v ''original'') ''ref_id'') \<and>
     is_hex64 (js_get (js_get v ''original'') ''sha256'') \<and>
     has_exact_keys (js_get v ''storage'') [''state_dir''] \<and>
     is_absolute_path (js_get (js_get v ''storage'') ''state_dir'')"

definition isValidCompletionObservation :: "jsval \<Rightarrow> jsval \<Rightarrow> bool" where
  "isValidCompletionObservation v invocationId =
     (if \<not> is_plain_object v \<or> \<not> strict_eq (js_get v ''intent_id'') invocationId then False
      else if strict_eq (js_get v ''alternative'') (JStr ''delivery'') \<and>
              strict_eq (js_get v ''phase'') (JStr ''released_zero_effects'')
      then has_exact_keys v [''alternative'', ''intent_id'', ''phase'', ''known_effects'', ''released_intent_id''] \<and>
           is_nonempty_string (js_get v ''released_intent_id'') \<and>
           is_release_intent (js_get v ''intent_id'') (js_get v ''released_intent_id'') \<and>
           js_get v ''known_effects'' \<in> set release_facts
      else if strict_eq (js_get v ''alternative'') (JStr ''delivery'')
      then has_exact_keys v [''alternative'', ''intent_id'', ''phase'', ''known_effects''] \<and>
           strict_eq (js_get v ''phase'') (JStr ''before_materialization'') \<and>
           is_nonempty_string (js_get v ''known_effects'')
      else strict_eq (js_get v ''alternative'') (JStr ''assignment_change_requested'') \<and>
           valid_assignment_change v)"

definition isValidDeliveryReceipt :: "jsval \<Rightarrow> jsval \<Rightarrow> jsval \<Rightarrow> bool" where
  "isValidDeliveryReceipt receipt tuple invocationId \<longleftrightarrow>
     has_exact_keys receipt [''repository'', ''unit'', ''producer'', ''producer_tuple'', ''source'',
       ''delivery'', ''result'', ''storage''] \<and>
     is_nonempty_string (js_get receipt ''repository'') \<and>
     strict_eq (js_get receipt ''unit'') (js_get tuple ''assigned_unit'') \<and>
     strict_eq (js_get receipt ''producer'') (JStr ''workspace_deliver_work'') \<and>
     has_exact_keys (js_get receipt ''producer_tuple'') [''launch_ref'', ''run_id'', ''retry_id''] \<and>
     strict_eq (js_get (js_get receipt ''producer_tuple'') ''launch_ref'') (js_get tuple ''launch_ref'') \<and>
     is_nonempty_string (js_get (js_get receipt ''producer_tuple'') ''run_id'') \<and>
     strict_eq (js_get (js_get receipt ''producer_tuple'') ''retry_id'') (js_get tuple ''retry_id'') \<and>
     has_exact_keys (js_get receipt ''source'') [''digest'', ''version''] \<and>
     is_nonempty_string (js_get (js_get receipt ''source'') ''digest'') \<and>
     (js_get (js_get receipt ''source'') ''version'' = JNull \<or>
      is_nonempty_string (js_get (js_get receipt ''source'') ''version'')) \<and>
     has_exact_keys (js_get receipt ''delivery'') [''commit'', ''base''] \<and>
     is_nonempty_string (js_get (js_get receipt ''delivery'') ''commit'') \<and>
     is_nonempty_string (js_get (js_get receipt ''delivery'') ''base'') \<and>
     has_exact_keys (js_get receipt ''result'') [''ref_id'', ''sha256''] \<and>
     strict_eq (js_get (js_get receipt ''result'') ''ref_id'') invocationId \<and>
     is_hex64 (js_get (js_get receipt ''result'') ''sha256'') \<and>
     has_exact_keys (js_get receipt ''storage'') [''state_dir''] \<and>
     is_absolute_path (js_get (js_get receipt ''storage'') ''state_dir'')"

text \<open>\<open>INVOCATION_OBSERVATION_PAYLOADS[kind]\<close>: the field that carries the observation; the keys are
  \<open>dispatch_tuple\<close>, \<open>invocation_id\<close> and that field.\<close>

fun observation_field :: "event_kind \<Rightarrow> string option" where
  "observation_field CompletionObservationRecorded = Some ''completion''"
| "observation_field LifecycleFailureRecorded = Some ''failure''"
| "observation_field ProofVerificationRecorded = Some ''verification''"
| "observation_field DeliveryReceiptRecorded = Some ''receipt''"
| "observation_field _ = None"

definition isValidInvocationObservationPayload :: "event_kind \<Rightarrow> string \<Rightarrow> jsval \<Rightarrow> bool" where
  "isValidInvocationObservationPayload kind field payload \<longleftrightarrow>
     has_exact_keys payload [''dispatch_tuple'', ''invocation_id'', field] \<and>
     isValidAttemptTuple (js_get payload ''dispatch_tuple'') \<and>
     is_nonempty_string (js_get payload ''invocation_id'') \<and>
     is_plain_object (js_get payload field) \<and>
     (kind \<noteq> CompletionObservationRecorded \<or>
      isValidCompletionObservation (js_get payload ''completion'') (js_get payload ''invocation_id'')) \<and>
     (kind \<noteq> DeliveryReceiptRecorded \<or>
      isValidDeliveryReceipt (js_get payload ''receipt'') (js_get payload ''dispatch_tuple'')
        (js_get payload ''invocation_id''))"

text \<open>\<open>Object.hasOwn(INVOCATION_OBSERVATION_PAYLOADS, kind) && !isValid...\<close>\<close>

definition observation_invalid :: "event_kind \<Rightarrow> jsval \<Rightarrow> bool" where
  "observation_invalid kind payload = (case observation_field kind of None \<Rightarrow> False
     | Some field \<Rightarrow> \<not> isValidInvocationObservationPayload kind field payload)"

definition runOriginalRefusal :: "jsval \<Rightarrow> jsval \<Rightarrow> jsval \<Rightarrow> jsval \<Rightarrow> refusal option" where
  "runOriginalRefusal payload recorded original binding =
     (if \<not> has_exact_keys payload [''dispatch_tuple'', ''result_digest'', ''original_result''] \<or>
         \<not> isValidAttemptTuple (js_get payload ''dispatch_tuple'') \<or>
         \<not> is_nonempty_string (js_get payload ''result_digest'') \<or>
         \<not> has_exact_keys (js_get payload ''original_result'') [''ref_id'', ''sha256''] \<or>
         \<not> is_ref_id (js_get (js_get payload ''original_result'') ''ref_id'') \<or>
         \<not> is_hex64 (js_get (js_get payload ''original_result'') ''sha256'')
      then Some (Refusal BINDING_MISMATCH ''run original payload or locator is invalid'' [])
      else if nullish recorded
      then Some (Refusal ILLEGAL_TRANSITION ''run original must follow its recorded result'' [])
      else if \<not> sameAttempt (js_get payload ''dispatch_tuple'') (js_get recorded ''dispatch_tuple'') \<or>
         \<not> isValidAttemptTuple binding \<or> \<not> sameAttempt (js_get payload ''dispatch_tuple'') binding \<or>
         \<not> strict_eq (js_get payload ''result_digest'') (js_get recorded ''result_digest'') \<or>
         (\<not> nullish original \<and> canonicalJson original \<noteq> canonicalJson payload)
      then Some (Refusal BINDING_MISMATCH
        ''run original conflicts with its recorded result, dispatch binding or original'' [])
      else None)"

text \<open>The \<open>run_result_recorded\<close> payload, without the check of its dispatch tuple.\<close>

definition run_result_payload_ok :: "hash \<Rightarrow> jsval \<Rightarrow> bool" where
  "run_result_payload_ok H payload \<longleftrightarrow>
     has_exact_keys payload [''dispatch_tuple'', ''result_digest'', ''result''] \<and>
     is_nonempty_string (js_get payload ''result_digest'') \<and>
     is_plain_object (js_get payload ''result'') \<and>
     strict_eq (JStr (digestOf H (js_get payload ''result''))) (js_get payload ''result_digest'')"

section \<open>Events\<close>

definition event_envelope_keys :: "string list" where
  "event_envelope_keys = [''schema_version'', ''repository'', ''subject'', ''attempt'', ''sequence'',
     ''prior_digest'', ''generation_digest'', ''wk_tip'', ''kind'', ''payload'', ''digest'']"

definition unsigned_event ::
  "jsval \<Rightarrow> jsval \<Rightarrow> jsval \<Rightarrow> jsval \<Rightarrow> jsval \<Rightarrow> jsval \<Rightarrow> jsval \<Rightarrow> jsval \<Rightarrow> jsval \<Rightarrow> jsobj" where
  "unsigned_event repository subject attempt sequence priorDigest generationDigest wkTip kind payload =
     [(''schema_version'', journal_schema_version), (''repository'', repository), (''subject'', subject),
      (''attempt'', tuple_object attempt), (''sequence'', sequence), (''prior_digest'', priorDigest),
      (''generation_digest'', generationDigest), (''wk_tip'', wkTip), (''kind'', kind), (''payload'', payload)]"

text \<open>\<open>mintAttemptEvent\<close>: the message of the thrown error, or the event.\<close>

definition mintAttemptEvent ::
  "hash \<Rightarrow> jsval \<Rightarrow> jsval \<Rightarrow> jsval \<Rightarrow> jsval \<Rightarrow> jsval \<Rightarrow> jsval \<Rightarrow> jsval \<Rightarrow> jsval \<Rightarrow> jsval \<Rightarrow> string + jsval" where
  "mintAttemptEvent H repository subject attempt sequence priorDigest generationDigest wkTip kind payload =
     (if \<not> is_nonempty_string repository then Inl ''repository must be a non-empty string''
      else if \<not> is_nonempty_string subject then Inl ''subject must be a non-empty string''
      else if \<not> isValidAttemptTuple attempt then Inl ''attempt must be a complete launcher-minted tuple''
      else if \<not> is_nonneg_integer sequence then Inl ''sequence must be a non-negative integer''
      else if (if sequence = JInt 0 then priorDigest \<noteq> JNull else \<not> is_nonempty_string priorDigest)
      then Inl (''sequence 0 must carry a null prior_digest; every later event must carry its predecessor'' @ [CHR 0x27] @ ''s digest'')
      else if \<not> is_nonempty_string generationDigest then Inl ''generationDigest must be a non-empty string''
      else if \<not> is_nonempty_string wkTip then Inl ''wkTip must be a non-empty string''
      else if event_kind_of kind = None
      then Inl (''unknown attempt event kind: '' @
        (case json_stringify kind of None \<Rightarrow> ''undefined'' | Some t \<Rightarrow> t))
      else if \<not> is_plain_object payload then Inl ''payload must be an object''
      else let unsigned = unsigned_event repository subject attempt sequence priorDigest generationDigest wkTip kind payload
           in Inr (JObj (unsigned @ [(''digest'', JStr (digestOf H (JObj unsigned)))])))"

text \<open>\<open>const { digest, ...unsigned } = event\<close>\<close>

fun unsigned_part :: "jsval \<Rightarrow> jsval" where
  "unsigned_part (JObj kvs) = JObj (obj_remove ''digest'' kvs)"
| "unsigned_part v = JObj []"

definition recomputeDigest :: "hash \<Rightarrow> jsval \<Rightarrow> string" where
  "recomputeDigest H event = digestOf H (unsigned_part event)"

text \<open>\<open>join\<close> writes nothing for \<open>undefined\<close>.\<close>

definition journal_line :: "jsval \<Rightarrow> string" where
  "journal_line event = (case json_stringify event of None \<Rightarrow> [] | Some t \<Rightarrow> t)"

definition serializeAttemptJournal :: "jsval list \<Rightarrow> string" where
  "serializeAttemptJournal events =
     join_with [CHR 0x0A] (map journal_line events) @ (if events = [] then [] else [CHR 0x0A])"

text \<open>Reading an event.\<close>

definition ev_kind :: "jsval \<Rightarrow> event_kind option" where
  "ev_kind e = event_kind_of (js_get e ''kind'')"

definition ev_attempt :: "jsval \<Rightarrow> jsval" where
  "ev_attempt e = js_get e ''attempt''"

definition ev_key :: "jsval \<Rightarrow> string" where
  "ev_key e = attemptKey (ev_attempt e)"

definition ev_payload :: "jsval \<Rightarrow> jsval" where
  "ev_payload e = js_get e ''payload''"

definition ev_generation :: "jsval \<Rightarrow> jsval" where
  "ev_generation e = js_get e ''generation_digest''"

definition ev_tip :: "jsval \<Rightarrow> jsval" where
  "ev_tip e = js_get e ''wk_tip''"

definition ev_digest :: "jsval \<Rightarrow> jsval" where
  "ev_digest e = js_get e ''digest''"

definition ev_dispatch_tuple :: "jsval \<Rightarrow> jsval" where
  "ev_dispatch_tuple e = js_get (ev_payload e) ''dispatch_tuple''"

section \<open>Validation\<close>

text \<open>The loop state of \<open>validateAttemptJournal\<close>: the last digest, the generation and tip that each
  attempt froze, and per attempt the dispatch binding, the result and the original published.\<close>

record publication =
  pub_binding :: jsval
  pub_result :: jsval
  pub_original :: jsval

record validation =
  prior_digest :: jsval
  frozen :: "string \<Rightarrow> (jsval \<times> jsval) option"
  publications :: "string \<Rightarrow> publication option"

definition no_publication :: publication where
  "no_publication = \<lparr>pub_binding = JNull, pub_result = JNull, pub_original = JNull\<rparr>"

definition initial_validation :: validation where
  "initial_validation = \<lparr>prior_digest = JNull, frozen = Map.empty, publications = Map.empty\<rparr>"

definition publication_of :: "validation \<Rightarrow> string \<Rightarrow> publication" where
  "publication_of st key = (case publications st key of None \<Rightarrow> no_publication | Some p \<Rightarrow> p)"

text \<open>The checks of one event that read only the event, its index and the caller's binding; \<open>None\<close>
  when they all pass.\<close>

definition envelope_refusal :: "hash \<Rightarrow> jsval \<Rightarrow> jsval \<Rightarrow> nat \<Rightarrow> jsval \<Rightarrow> refusal option" where
  "envelope_refusal H repository subject index event =
     (let seq = (''sequence'', JInt (int index)) in
      if \<not> has_exact_keys event event_envelope_keys
      then Some (Refusal UNEXPECTED_KEYS ''attempt event does not carry exactly the closed envelope keys'' [seq])
      else if \<not> strict_eq (js_get event ''schema_version'') journal_schema_version
      then Some (Refusal UNKNOWN_SCHEMA_VERSION ''attempt event carries an unknown schema version''
        [seq, (''observed'', js_get event ''schema_version'')])
      else case ev_kind event of None \<Rightarrow>
        Some (Refusal UNKNOWN_EVENT_KIND ''attempt event carries an unknown kind''
          [seq, (''observed'', js_get event ''kind'')])
      | Some kind \<Rightarrow>
      if \<not> strict_eq (js_get event ''repository'') repository \<or> \<not> strict_eq (js_get event ''subject'') subject
      then Some (Refusal BINDING_MISMATCH ''attempt event is not bound to this repository and subject''
        [seq, (''observed_repository'', js_get event ''repository''), (''observed_subject'', js_get event ''subject'')])
      else if \<not> isValidAttemptTuple (ev_attempt event)
      then Some (Refusal BINDING_MISMATCH ''attempt event does not carry a complete launcher-minted tuple'' [seq])
      else if \<not> is_nonempty_string (ev_generation event) \<or> \<not> is_nonempty_string (ev_tip event)
      then Some (Refusal BINDING_MISMATCH ''attempt event does not bind a generation digest and accumulated WK tip'' [seq])
      else if \<not> is_plain_object (ev_payload event)
      then Some (Refusal UNEXPECTED_KEYS ''attempt event payload must be an object'' [seq])
      else if kind = RunResultRecorded \<and>
        \<not> (isValidAttemptTuple (ev_dispatch_tuple event) \<and> run_result_payload_ok H (ev_payload event))
      then Some (Refusal BINDING_MISMATCH ''run_result_recorded carries an invalid dispatch tuple, result, or digest'' [seq])
      else if observation_invalid kind (ev_payload event)
      then Some (Refusal BINDING_MISMATCH
        (kind_name kind @ '' carries an invalid dispatch tuple, invocation id, or observation'') [seq])
      else if \<not> strict_eq (js_get event ''sequence'') (JInt (int index))
      then Some (Refusal SEQUENCE_GAP ''attempt event sequence is not monotonically contiguous''
        [(''expected'', JInt (int index)), (''observed'', js_get event ''sequence'')])
      else None)"

text \<open>The hash chain.\<close>

definition chain_refusal :: "hash \<Rightarrow> jsval \<Rightarrow> nat \<Rightarrow> jsval \<Rightarrow> refusal option" where
  "chain_refusal H priorDigest index event =
     (let seq = (''sequence'', JInt (int index)) in
      if \<not> strict_eq (js_get event ''prior_digest'') priorDigest
      then Some (Refusal CHAIN_BROKEN ''attempt event does not chain to its predecessor''
        [seq, (''expected'', priorDigest), (''observed'', js_get event ''prior_digest'')])
      else if \<not> strict_eq (JStr (recomputeDigest H event)) (ev_digest event)
      then Some (Refusal DIGEST_MISMATCH ''attempt event digest does not match its content'' [seq])
      else None)"

text \<open>The generation and tip that an attempt froze when it claimed its reservation.\<close>

definition freeze_event ::
  "(string \<Rightarrow> (jsval \<times> jsval) option) \<Rightarrow> nat \<Rightarrow> jsval \<Rightarrow> refusal + (string \<Rightarrow> (jsval \<times> jsval) option)" where
  "freeze_event fr index event =
     (let key = ev_key event; seq = (''sequence'', JInt (int index)) in
      if ev_kind event = Some ReservationClaimed
      then (if fr key \<noteq> None
            then Inl (Refusal ILLEGAL_TRANSITION ''an attempt may claim its reservation exactly once'' [seq])
            else Inr (fr(key \<mapsto> (ev_generation event, ev_tip event))))
      else case fr key of None \<Rightarrow>
        Inl (Refusal ILLEGAL_TRANSITION ''an attempt event precedes its reservation_claimed''
          [seq, (''kind'', js_get event ''kind'')])
      | Some (generation, tip) \<Rightarrow>
        if \<not> strict_eq (ev_generation event) generation
        then Inl (Refusal GENERATION_NOT_FROZEN
          ''attempt event does not repeat the generation digest frozen at reservation_claimed''
          [seq, (''frozen'', generation), (''observed'', ev_generation event)])
        else if \<not> strict_eq (ev_tip event) tip
        then Inl (Refusal WK_TIP_NOT_FROZEN
          ''attempt event does not repeat the accumulated WK tip frozen at reservation_claimed''
          [seq, (''frozen'', tip), (''observed'', ev_tip event)])
        else Inr fr)"

text \<open>What an attempt published: its dispatch binding, its result and the original of its result.\<close>

definition publish_event :: "publication \<Rightarrow> jsval \<Rightarrow> refusal + publication" where
  "publish_event p event =
     (case ev_kind event of
       Some PendingPublished \<Rightarrow>
         (case (if pub_original p \<noteq> JNull
                then runOriginalRefusal (pub_original p) (pub_result p) (pub_original p) (ev_dispatch_tuple event) else None) of
            Some r \<Rightarrow> Inl r
          | None \<Rightarrow> Inr (p\<lparr>pub_binding := ev_dispatch_tuple event\<rparr>))
     | Some RunResultRecorded \<Rightarrow>
         if pub_result p \<noteq> JNull \<and> canonicalJson (pub_result p) \<noteq> canonicalJson (ev_payload event)
         then Inl (Refusal BINDING_MISMATCH ''recorded run result is immutable'' [])
         else Inr (p\<lparr>pub_result := ev_payload event\<rparr>)
     | Some RunOriginalRecorded \<Rightarrow>
         (case runOriginalRefusal (ev_payload event) (pub_result p) (pub_original p) (pub_binding p) of
            Some r \<Rightarrow> Inl r
          | None \<Rightarrow> Inr (p\<lparr>pub_original := ev_payload event\<rparr>))
     | _ \<Rightarrow> Inr p)"

text \<open>One iteration of the loop.\<close>

definition validate_event :: "hash \<Rightarrow> jsval \<Rightarrow> jsval \<Rightarrow> nat \<Rightarrow> validation \<Rightarrow> jsval \<Rightarrow> refusal + validation" where
  "validate_event H repository subject index st event =
     (case envelope_refusal H repository subject index event of Some r \<Rightarrow> Inl r | None \<Rightarrow>
      case chain_refusal H (prior_digest st) index event of Some r \<Rightarrow> Inl r | None \<Rightarrow>
      case freeze_event (frozen st) index event of Inl r \<Rightarrow> Inl r | Inr fr \<Rightarrow>
      case publish_event (publication_of st (ev_key event)) event of Inl r \<Rightarrow> Inl r | Inr p \<Rightarrow>
      Inr \<lparr>prior_digest = ev_digest event, frozen = fr, publications = (publications st)(ev_key event \<mapsto> p)\<rparr>)"

fun validate_from :: "hash \<Rightarrow> jsval \<Rightarrow> jsval \<Rightarrow> nat \<Rightarrow> validation \<Rightarrow> jsval list \<Rightarrow> refusal + validation" where
  "validate_from H repository subject index st [] = Inr st"
| "validate_from H repository subject index st (event # events) =
     (case validate_event H repository subject index st event of
        Inl r \<Rightarrow> Inl r
      | Inr st' \<Rightarrow> validate_from H repository subject (Suc index) st' events)"

text \<open>\<open>validateAttemptJournal\<close>: the refusal, or the events with the digest of the last one.\<close>

definition validateAttemptJournal :: "hash \<Rightarrow> jsval \<Rightarrow> jsval \<Rightarrow> jsval \<Rightarrow> refusal + (jsval list \<times> jsval)" where
  "validateAttemptJournal H repository subject events =
     (case events of
        JArr es \<Rightarrow> (case validate_from H repository subject 0 initial_validation es of
            Inl r \<Rightarrow> Inl r
          | Inr st \<Rightarrow> Inr (es, prior_digest st))
      | _ \<Rightarrow> Inl (Refusal UNREADABLE ''events must be an array'' []))"

section \<open>Lifecycle\<close>

fun legal_successors :: "event_kind \<Rightarrow> event_kind list" where
  "legal_successors ReservationClaimed = [PendingPublished, AttemptTerminal]"
| "legal_successors PendingPublished = [SupervisorBound, AttemptTerminal]"
| "legal_successors SupervisorBound = [SpawnStarted, AttemptTerminal]"
| "legal_successors SpawnStarted = [SandboxBound, ExecutionTerminated]"
| "legal_successors SandboxBound = [ExecutionTerminated]"
| "legal_successors ExecutionTerminated = [DeliveryObserved, AttemptTerminal]"
| "legal_successors DeliveryObserved = [IntegrationIntent, AttemptTerminal]"
| "legal_successors IntegrationIntent = [IntegrationGitEffect]"
| "legal_successors IntegrationGitEffect = [IntegrationStatusEffect]"
| "legal_successors IntegrationStatusEffect = [IntegrationCompleted]"
| "legal_successors IntegrationCompleted = [IntegrationIntent, AttemptTerminal]"
| "legal_successors AttemptTerminal = [ReservationReleased]"
| "legal_successors _ = []"

definition isLegalSuccessor :: "event_kind option \<Rightarrow> event_kind \<Rightarrow> bool" where
  "isLegalSuccessor from to =
     (if informational to then from \<noteq> None
      else case from of None \<Rightarrow> to = ReservationClaimed | Some k \<Rightarrow> to \<in> set (legal_successors k))"

record attempt_state =
  st_key :: string
  st_attempt :: jsval
  st_generation :: jsval
  st_tip :: jsval
  st_last_kind :: "event_kind option"
  st_kinds :: "event_kind set"
  st_events :: "jsval list"
  st_integration_events :: "jsval list"
  st_terminal :: "jsval option"
  st_released :: "jsval option"

definition new_attempt_state :: "jsval \<Rightarrow> attempt_state" where
  "new_attempt_state event = \<lparr>st_key = ev_key event, st_attempt = ev_attempt event,
     st_generation = ev_generation event, st_tip = ev_tip event, st_last_kind = None, st_kinds = {},
     st_events = [], st_integration_events = [], st_terminal = None, st_released = None\<rparr>"

text \<open>The body of the loop of \<open>projectAttempts\<close> on the state of the event's attempt. The events are
  validated, so the event has a kind.\<close>

definition record_event :: "attempt_state \<Rightarrow> jsval \<Rightarrow> attempt_state" where
  "record_event s event =
     (let s1 = s\<lparr>st_events := st_events s @ [event]\<rparr> in
      case ev_kind event of None \<Rightarrow> s1 | Some k \<Rightarrow>
      if informational k then s1
      else s1\<lparr>st_integration_events := st_integration_events s @ (if integration_kind k then [event] else []),
              st_terminal := (if k = AttemptTerminal then Some event else st_terminal s),
              st_released := (if k = ReservationReleased then Some event else st_released s),
              st_kinds := insert k (st_kinds s),
              st_last_kind := Some k\<rparr>)"

fun project_event :: "attempt_state list \<Rightarrow> jsval \<Rightarrow> attempt_state list" where
  "project_event [] event = [record_event (new_attempt_state event) event]"
| "project_event (s # ss) event =
     (if st_key s = ev_key event then record_event s event # ss else s # project_event ss event)"

definition projectAttempts :: "jsval list \<Rightarrow> attempt_state list" where
  "projectAttempts events = foldl project_event [] events"

definition isPossiblyLive :: "attempt_state \<Rightarrow> bool" where
  "isPossiblyLive s \<longleftrightarrow> SpawnStarted \<in> st_kinds s \<and> ExecutionTerminated \<notin> st_kinds s"

definition classifyReleaseProof :: "attempt_state \<Rightarrow> jsval \<Rightarrow> release_proof option" where
  "classifyReleaseProof s liveness =
     (if strict_eq liveness liveness_dead \<and> SpawnStarted \<in> st_kinds s then Some AuthenticatedDeath
      else if IntegrationCompleted \<in> st_kinds s \<and> ExecutionTerminated \<in> st_kinds s \<and> \<not> isPossiblyLive s
      then Some CompletedDelivery
      else if st_terminal s \<noteq> None \<and> \<not> isPossiblyLive s then Some ExactTerminal
      else None)"

end
