(* ===== verification/JournalCommands.thy ===== *)
theory JournalCommands
  imports AttemptJournal
begin

text \<open>
  The commands of the attempt journal, \<open>managed-worker-attempt-journal.mjs\<close>: the reducer that proposes
  the next command, the admission of one command and the import of legacy evidence. An argument that a
  caller leaves out is \<open>undefined\<close>, and the parameter defaults are applied here.
\<close>

section \<open>The reducer\<close>

datatype command_kind =
    CLAIM_RESERVATION | PUBLISH_PENDING | BIND_SUPERVISOR | START_SPAWN | BIND_SANDBOX | AWAIT_EXECUTION
  | RECORD_EXECUTION_TERMINATION | RUN_INTEGRATION_SETTLEMENT | RECORD_TERMINAL | RELEASE_RESERVATION
  | NO_COMMAND

record next_command =
  nc_kind :: command_kind
  nc_attempt :: jsval
  nc_detail :: "jsobj option"

record history_entry =
  he_attempt :: jsval
  he_generation :: jsval
  he_tip :: jsval
  he_last_kind :: "event_kind option"
  he_terminal_reason :: jsval
  he_release_proof :: jsval
  he_released :: bool
  he_event_count :: nat

record reservation =
  rv_holder :: jsval
  rv_stale :: bool
  rv_possibly_live :: bool
  rv_release_proof :: "release_proof option"

record current_attempt =
  ca_attempt :: jsval
  ca_generation :: jsval
  ca_tip :: jsval
  ca_last_kind :: "event_kind option"
  ca_stale :: bool
  ca_possibly_live :: bool
  ca_terminal :: bool

text \<open>The reduction: \<open>rd_reservation\<close> is \<open>None\<close> when no reservation is held.\<close>

record reduction =
  rd_current :: "current_attempt option"
  rd_reservation :: "reservation option"
  rd_liveness :: jsval
  rd_integration :: jsval
  rd_history :: "history_entry list"
  rd_history_total :: nat
  rd_terminal_digest :: jsval
  rd_next :: next_command
  rd_refusal :: "refusal option"

definition no_command :: "jsval \<Rightarrow> next_command" where
  "no_command attempt = \<lparr>nc_kind = NO_COMMAND, nc_attempt = attempt, nc_detail = None\<rparr>"

definition refused_reduction :: "nat \<Rightarrow> jsval \<Rightarrow> refusal \<Rightarrow> reduction" where
  "refused_reduction n digest r =
     \<lparr>rd_current = None, rd_reservation = None, rd_liveness = JNull, rd_integration = JNull, rd_history = [],
      rd_history_total = n, rd_terminal_digest = digest, rd_next = no_command JNull, rd_refusal = Some r\<rparr>"

definition history_of :: "attempt_state \<Rightarrow> history_entry" where
  "history_of s =
     \<lparr>he_attempt = st_attempt s, he_generation = st_generation s, he_tip = st_tip s, he_last_kind = st_last_kind s,
      he_terminal_reason = (case st_terminal s of None \<Rightarrow> JNull
        | Some e \<Rightarrow> js_or_nullish (js_get (ev_payload e) ''reason'') JNull),
      he_release_proof = (case st_released s of None \<Rightarrow> JNull
        | Some e \<Rightarrow> js_or_nullish (js_get (ev_payload e) ''release_proof'') JNull),
      he_released = (st_released s \<noteq> None), he_event_count = length (st_events s)\<rparr>"

definition unreleased :: "attempt_state list \<Rightarrow> attempt_state list" where
  "unreleased states = filter (\<lambda>s. st_released s = None) states"

definition is_stale :: "attempt_state \<Rightarrow> jsval \<Rightarrow> jsval \<Rightarrow> bool" where
  "is_stale s generation tip \<longleftrightarrow>
     (generation \<noteq> JNull \<and> \<not> strict_eq (st_generation s) generation) \<or>
     (tip \<noteq> JNull \<and> \<not> strict_eq (st_tip s) tip)"

definition retained :: "string \<Rightarrow> jsobj" where
  "retained why = [(''retained'', JStr why)]"

text \<open>The switch on the last lifecycle event: the command, its detail, and whether it is the default
  branch, which refuses.\<close>

fun next_by_kind :: "event_kind option \<Rightarrow> bool \<Rightarrow> bool \<Rightarrow> command_kind \<times> jsobj option \<times> bool" where
  "next_by_kind (Some ReservationClaimed) dead live = (PUBLISH_PENDING, None, False)"
| "next_by_kind (Some PendingPublished) dead live = (BIND_SUPERVISOR, None, False)"
| "next_by_kind (Some SupervisorBound) dead live = (START_SPAWN, None, False)"
| "next_by_kind (Some SpawnStarted) dead live =
     (if dead then (RECORD_EXECUTION_TERMINATION, Some [(''evidence'', JStr ''authenticated_death'')], False)
      else (BIND_SANDBOX, Some (retained ''possibly_live''), False))"
| "next_by_kind (Some SandboxBound) dead live =
     (if dead then (RECORD_EXECUTION_TERMINATION, Some [(''evidence'', JStr ''authenticated_death'')], False)
      else (AWAIT_EXECUTION, Some (retained ''live_or_indeterminate''), False))"
| "next_by_kind (Some ExecutionTerminated) dead live =
     (RECORD_TERMINAL, Some [(''reason'', JStr ''execution_terminated'')], False)"
| "next_by_kind (Some DeliveryObserved) dead live = (RUN_INTEGRATION_SETTLEMENT, None, False)"
| "next_by_kind (Some IntegrationIntent) dead live = (RUN_INTEGRATION_SETTLEMENT, None, False)"
| "next_by_kind (Some IntegrationGitEffect) dead live = (RUN_INTEGRATION_SETTLEMENT, None, False)"
| "next_by_kind (Some IntegrationStatusEffect) dead live = (RUN_INTEGRATION_SETTLEMENT, None, False)"
| "next_by_kind (Some IntegrationCompleted) dead live = (RUN_INTEGRATION_SETTLEMENT, None, False)"
| "next_by_kind (Some AttemptTerminal) dead live =
     (NO_COMMAND, Some (retained (if live then ''possibly_live'' else ''awaiting_release_proof'')), False)"
| "next_by_kind _ dead live = (NO_COMMAND, None, True)"

definition kind_json :: "event_kind option \<Rightarrow> jsval" where
  "kind_json k = (case k of None \<Rightarrow> JNull | Some k \<Rightarrow> JStr (kind_name k))"

text \<open>The command for a held reservation, with the refusal of the default branch.\<close>

definition next_for :: "attempt_state \<Rightarrow> jsval \<Rightarrow> bool \<Rightarrow> command_kind \<times> jsobj option \<times> refusal option" where
  "next_for s liveness stale =
     (case (st_terminal s, classifyReleaseProof s liveness) of
       (Some _, Some proof) \<Rightarrow> (RELEASE_RESERVATION, Some [(''release_proof'', JStr (proof_name proof))], None)
     | (terminal, proof) \<Rightarrow>
       if stale then
         (case (terminal, proof) of
            (None, Some p) \<Rightarrow> (RECORD_TERMINAL,
              Some [(''reason'', JStr ''stale_generation_or_tip''), (''release_proof'', JStr (proof_name p))], None)
          | _ \<Rightarrow> (NO_COMMAND, Some (retained (if isPossiblyLive s then ''possibly_live'' else ''stale'')), None))
       else
         (case next_by_kind (st_last_kind s) (strict_eq liveness liveness_dead) (isPossiblyLive s) of
            (k, detail, fallback) \<Rightarrow> (k, detail,
              if fallback then Some (Refusal ILLEGAL_TRANSITION ''no legal successor for the current attempt state''
                [(''last_kind'', kind_json (st_last_kind s))]) else None)))"

definition reduce_current ::
  "attempt_state \<Rightarrow> jsval \<Rightarrow> jsval \<Rightarrow> jsval \<Rightarrow> jsval \<Rightarrow> history_entry list \<Rightarrow> nat \<Rightarrow> jsval \<Rightarrow> reduction" where
  "reduce_current s liveness integrationResult generation tip history n digest =
     (let stale = is_stale s generation tip in
      case next_for s liveness stale of (k, detail, r) \<Rightarrow>
      \<lparr>rd_current = Some \<lparr>ca_attempt = st_attempt s, ca_generation = st_generation s, ca_tip = st_tip s,
         ca_last_kind = st_last_kind s, ca_stale = stale, ca_possibly_live = isPossiblyLive s,
         ca_terminal = (st_terminal s \<noteq> None)\<rparr>,
       rd_reservation = Some \<lparr>rv_holder = st_attempt s, rv_stale = stale, rv_possibly_live = isPossiblyLive s,
         rv_release_proof = classifyReleaseProof s liveness\<rparr>,
       rd_liveness = liveness, rd_integration = integrationResult, rd_history = history, rd_history_total = n,
       rd_terminal_digest = digest,
       rd_next = \<lparr>nc_kind = k, nc_attempt = st_attempt s, nc_detail = detail\<rparr>, rd_refusal = r\<rparr>)"

definition reduceAttemptJournal ::
  "hash \<Rightarrow> jsval \<Rightarrow> jsval \<Rightarrow> jsval \<Rightarrow> jsval \<Rightarrow> jsval \<Rightarrow> jsval \<Rightarrow> jsval \<Rightarrow> reduction" where
  "reduceAttemptJournal H repository subject events liveness0 integrationResult0 generation0 tip0 =
     (let liveness = js_default liveness_indeterminate liveness0;
          integrationResult = js_default JNull integrationResult0;
          generation = js_default JNull generation0; tip = js_default JNull tip0 in
      case validateAttemptJournal H repository subject events of
        Inl r \<Rightarrow> refused_reduction 0 JNull r
      | Inr (es, digest) \<Rightarrow>
        if \<not> liveness_value liveness
        then refused_reduction (length es) digest
          (Refusal LIVENESS_UNAVAILABLE ''an authenticated liveness verdict is required'' [(''observed'', liveness)])
        else
          (let states = projectAttempts es; history = map history_of states in
           case rev (unreleased states) of
             [] \<Rightarrow> \<lparr>rd_current = None, rd_reservation = None, rd_liveness = JNull, rd_integration = integrationResult,
               rd_history = history, rd_history_total = length es, rd_terminal_digest = digest,
               rd_next = \<lparr>nc_kind = CLAIM_RESERVATION, nc_attempt = JNull, nc_detail = None\<rparr>, rd_refusal = None\<rparr>
           | s # _ \<Rightarrow> reduce_current s liveness integrationResult generation tip history (length es) digest))"

section \<open>Admission\<close>

text \<open>What an admission returns: a refusal, the recorded event and the unchanged journal, or the minted
  event and the extended journal. Minting throws an \<open>Error\<close> on a malformed argument, and reading the
  release proof of a \<open>null\<close> payload throws a \<open>TypeError\<close>.\<close>

datatype thrown = ThrownError string | ThrownTypeError

datatype admission =
    Refused refusal
  | AlreadyRecorded jsval "jsval list"
  | Appended jsval "jsval list"
  | Threw thrown

definition find_state :: "string \<Rightarrow> attempt_state list \<Rightarrow> attempt_state option" where
  "find_state key states = find (\<lambda>s. st_key s = key) states"

definition mint_next ::
  "hash \<Rightarrow> jsval \<Rightarrow> jsval \<Rightarrow> jsval list \<Rightarrow> jsval \<Rightarrow> jsval \<Rightarrow> jsval \<Rightarrow> jsval \<Rightarrow> event_kind \<Rightarrow> jsval \<Rightarrow> admission" where
  "mint_next H repository subject es digest attempt generation tip kind payload =
     (case mintAttemptEvent H repository subject attempt (JInt (int (length es))) digest generation tip
        (JStr (kind_name kind)) payload of
        Inl message \<Rightarrow> Threw (ThrownError message)
      | Inr event \<Rightarrow> Appended event (es @ [event]))"

definition event_of_kind :: "event_kind \<Rightarrow> jsval list \<Rightarrow> jsval option" where
  "event_of_kind k es = find (\<lambda>e. ev_kind e = Some k) es"

text \<open>The dispatch binding an attempt retained when it published its pending envelope.\<close>

definition retained_binding :: "attempt_state \<Rightarrow> jsval" where
  "retained_binding s = (case event_of_kind PendingPublished (st_events s) of
      None \<Rightarrow> JNull | Some e \<Rightarrow> js_or_nullish (ev_dispatch_tuple e) JNull)"

definition identity_matches :: "event_kind \<Rightarrow> jsval \<Rightarrow> jsval \<Rightarrow> jsval \<Rightarrow> bool" where
  "identity_matches kind attempt payload event \<longleftrightarrow>
     ev_kind event = Some kind \<and> sameAttempt (ev_attempt event) attempt \<and>
     (kind = RunResultRecorded \<or> kind = RunOriginalRecorded \<or>
      strict_eq (js_get (ev_payload event) ''invocation_id'') (js_get payload ''invocation_id''))"

definition payload_of :: "jsval option \<Rightarrow> jsval" where
  "payload_of e = (case e of None \<Rightarrow> JUndef | Some e \<Rightarrow> ev_payload e)"

definition admit_informational ::
  "hash \<Rightarrow> jsval \<Rightarrow> jsval \<Rightarrow> jsval list \<Rightarrow> jsval \<Rightarrow> attempt_state option \<Rightarrow> jsval \<Rightarrow> event_kind \<Rightarrow> jsval \<Rightarrow> admission" where
  "admit_informational H repository subject es digest state attempt kind payload =
     (case state of None \<Rightarrow>
        Refused (Refusal ILLEGAL_TRANSITION ''informational evidence must bind an existing attempt''
          [(''to'', JStr (kind_name kind))])
      | Some s \<Rightarrow>
      if \<not> isLegalSuccessor (st_last_kind s) kind
      then Refused (Refusal ILLEGAL_TRANSITION ''informational evidence must bind an existing attempt''
          [(''to'', JStr (kind_name kind))])
      else
      let dispatchTuple = js_get payload ''dispatch_tuple''; binding = retained_binding s;
          existing = find (identity_matches kind attempt payload) (st_events s) in
      if \<not> isValidAttemptTuple dispatchTuple \<or> \<not> isValidAttemptTuple binding \<or> \<not> sameAttempt dispatchTuple binding
      then Refused (Refusal BINDING_MISMATCH
        (''informational evidence does not match the attempt'' @ [CHR 0x27] @ ''s retained dispatch binding'') [])
      else if kind = RunResultRecorded \<and> \<not> run_result_payload_ok H payload
      then Refused (Refusal BINDING_MISMATCH ''run result payload or digest is invalid'' [])
      else if observation_invalid kind payload
      then Refused (Refusal BINDING_MISMATCH (kind_name kind @ '' payload is invalid'') [])
      else case (if kind = RunOriginalRecorded
                 then runOriginalRefusal payload (payload_of (event_of_kind RunResultRecorded (st_events s)))
                        (payload_of existing) binding else None) of
        Some r \<Rightarrow> Refused r
      | None \<Rightarrow>
        (case existing of
           Some e \<Rightarrow>
             if canonicalJson (ev_payload e) = canonicalJson payload then AlreadyRecorded e es
             else Refused (Refusal BINDING_MISMATCH
               ''informational evidence conflicts with bytes already recorded for this identity''
               [(''kind'', JStr (kind_name kind))])
         | None \<Rightarrow> mint_next H repository subject es digest attempt (st_generation s) (st_tip s) kind payload))"

text \<open>The generation and tip a lifecycle event binds; a refusal (\<open>Inl (Inr r)\<close>) or, for an attempt with no
  state, a thrown error (\<open>Inl (Inl t)\<close>).\<close>

definition bind_frozen ::
  "attempt_state list \<Rightarrow> attempt_state option \<Rightarrow> event_kind \<Rightarrow> jsval \<Rightarrow> jsval \<Rightarrow> (thrown + refusal) + (jsval \<times> jsval)" where
  "bind_frozen states state kind generationDigest wkTip =
     (if kind = ReservationClaimed
      then (if \<not> is_nonempty_string generationDigest \<or> \<not> is_nonempty_string wkTip
         then Inl (Inr (Refusal BINDING_MISMATCH
           ''reservation_claimed must freeze an exact generation digest and accumulated WK tip'' []))
         else (case unreleased states of
             blocking # _ \<Rightarrow> Inl (Inr (Refusal ILLEGAL_TRANSITION
               ''the subject already holds an unreleased attempt reservation'' [(''holder'', st_attempt blocking)]))
           | [] \<Rightarrow> Inr (generationDigest, wkTip)))
      else case state of
       None \<Rightarrow> Inl (Inl ThrownTypeError)
     | Some s \<Rightarrow>
         if generationDigest \<noteq> JNull \<and> \<not> strict_eq generationDigest (st_generation s)
         then Inl (Inr (Refusal GENERATION_NOT_FROZEN
           (''the command'' @ [CHR 0x27] @ ''s generation digest differs from the value frozen at reservation_claimed'')
           [(''frozen'', st_generation s), (''observed'', generationDigest)]))
         else if wkTip \<noteq> JNull \<and> \<not> strict_eq wkTip (st_tip s)
         then Inl (Inr (Refusal WK_TIP_NOT_FROZEN
           (''the command'' @ [CHR 0x27] @ ''s WK tip differs from the value frozen at reservation_claimed'')
           [(''frozen'', st_tip s), (''observed'', wkTip)]))
         else Inr (st_generation s, st_tip s))"

text \<open>The payload of a release: refused, a thrown error, or the payload with the derived proof. That the
  proof is one of the known families holds by its type.\<close>

definition release_payload :: "attempt_state \<Rightarrow> jsval \<Rightarrow> jsval \<Rightarrow> (thrown + refusal) + jsval" where
  "release_payload s liveness payload =
     (case classifyReleaseProof s liveness of
        None \<Rightarrow> Inl (Inr (Refusal RELEASE_WITHOUT_PROOF
          ''release requires exact terminality with no unresolved execution, authenticated death, or authenticated completed delivery with authenticated termination''
          [(''possibly_live'', JBool (isPossiblyLive s)), (''liveness'', liveness)]))
      | Some proof \<Rightarrow>
        (case js_prop payload ''release_proof'' of
           None \<Rightarrow> Inl (Inl ThrownTypeError)
         | Some claimed \<Rightarrow>
           if claimed \<noteq> JUndef \<and> \<not> strict_eq claimed (JStr (proof_name proof))
           then Inl (Inr (Refusal RELEASE_WITHOUT_PROOF ''the claimed release proof is not the proof the reducer derives''
             [(''claimed'', claimed), (''derived'', JStr (proof_name proof))]))
           else Inr (js_put ''release_proof'' (JStr (proof_name proof)) payload)))"

definition admit_lifecycle ::
  "hash \<Rightarrow> jsval \<Rightarrow> jsval \<Rightarrow> jsval list \<Rightarrow> jsval \<Rightarrow> attempt_state list \<Rightarrow> attempt_state option \<Rightarrow> jsval \<Rightarrow> event_kind
   \<Rightarrow> jsval \<Rightarrow> jsval \<Rightarrow> jsval \<Rightarrow> jsval \<Rightarrow> admission" where
  "admit_lifecycle H repository subject es digest states state attempt kind payload generationDigest wkTip liveness =
     (let lastKind = (case state of None \<Rightarrow> None | Some s \<Rightarrow> st_last_kind s) in
      if \<not> isLegalSuccessor lastKind kind
      then Refused (Refusal ILLEGAL_TRANSITION
        (''the command is not a legal successor of the attempt'' @ [CHR 0x27] @ ''s current state'')
        [(''from'', kind_json lastKind), (''to'', JStr (kind_name kind))])
      else case bind_frozen states state kind generationDigest wkTip of
        Inl (Inl t) \<Rightarrow> Threw t
      | Inl (Inr r) \<Rightarrow> Refused r
      | Inr (generation, tip) \<Rightarrow>
        (case (case (kind, state) of
                 (ReservationReleased, Some s) \<Rightarrow> release_payload s liveness payload
               | _ \<Rightarrow> Inr payload) of
           Inl (Inl t) \<Rightarrow> Threw t
         | Inl (Inr r) \<Rightarrow> Refused r
         | Inr payload' \<Rightarrow> mint_next H repository subject es digest attempt generation tip kind payload'))"

definition admitAttemptCommand ::
  "hash \<Rightarrow> jsval \<Rightarrow> jsval \<Rightarrow> jsval \<Rightarrow> jsval \<Rightarrow> jsval \<Rightarrow> jsval \<Rightarrow> jsval \<Rightarrow> jsval \<Rightarrow> jsval \<Rightarrow> admission" where
  "admitAttemptCommand H repository subject events attempt kind payload0 generationDigest0 wkTip0 liveness0 =
     (let payload = js_default (JObj []) payload0; generationDigest = js_default JNull generationDigest0;
          wkTip = js_default JNull wkTip0; liveness = js_default liveness_indeterminate liveness0 in
      case validateAttemptJournal H repository subject events of
        Inl r \<Rightarrow> Refused r
      | Inr (es, digest) \<Rightarrow>
        (case event_kind_of kind of
           None \<Rightarrow> Refused (Refusal UNKNOWN_EVENT_KIND ''unknown command kind'' [(''observed'', kind)])
         | Some k \<Rightarrow>
           if \<not> isValidAttemptTuple attempt
           then Refused (Refusal BINDING_MISMATCH ''command does not carry a complete launcher-minted tuple'' [])
           else
             (let states = projectAttempts es; state = find_state (attemptKey attempt) states in
              if informational k
              then admit_informational H repository subject es digest state attempt k payload
              else admit_lifecycle H repository subject es digest states state attempt k payload
                     generationDigest wkTip liveness)))"

section \<open>Import of legacy evidence\<close>

datatype import_class =
    RELEASABLE_EXACT_TERMINAL | RELEASABLE_PROVEN_DEAD | RELEASABLE_COMPLETED_DELIVERY
  | RETAINED_LIVE | RETAINED_POSSIBLY_LIVE | RETAINED_INDETERMINATE | OPERATOR_ONLY_RESIDUE

fun import_class_name :: "import_class \<Rightarrow> string" where
  "import_class_name RELEASABLE_EXACT_TERMINAL = ''releasable_exact_terminal''"
| "import_class_name RELEASABLE_PROVEN_DEAD = ''releasable_proven_dead_no_delivery''"
| "import_class_name RELEASABLE_COMPLETED_DELIVERY = ''releasable_completed_delivery''"
| "import_class_name RETAINED_LIVE = ''retained_live''"
| "import_class_name RETAINED_POSSIBLY_LIVE = ''retained_possibly_live''"
| "import_class_name RETAINED_INDETERMINATE = ''retained_indeterminate''"
| "import_class_name OPERATOR_ONLY_RESIDUE = ''operator_only_residue''"

definition legacy_evidence_keys :: "string list" where
  "legacy_evidence_keys = [''evidence_digest'', ''repository'', ''subject'', ''attempt'', ''generation_digest'',
     ''wk_tip'', ''reached_spawn'', ''execution_terminated'', ''delivery_completed'', ''slice_ref_equals_base'',
     ''liveness'']"

definition isValidLegacyEvidence :: "jsval \<Rightarrow> bool" where
  "isValidLegacyEvidence evidence \<longleftrightarrow>
     has_exact_keys evidence legacy_evidence_keys \<and>
     is_nonempty_string (js_get evidence ''evidence_digest'') \<and>
     is_nonempty_string (js_get evidence ''repository'') \<and>
     is_nonempty_string (js_get evidence ''subject'') \<and>
     isValidAttemptTuple (js_get evidence ''attempt'') \<and>
     is_nonempty_string (js_get evidence ''generation_digest'') \<and>
     is_nonempty_string (js_get evidence ''wk_tip'') \<and>
     list_all (\<lambda>k. is_bool (js_get evidence k))
       [''reached_spawn'', ''execution_terminated'', ''delivery_completed'', ''slice_ref_equals_base''] \<and>
     liveness_value (js_get evidence ''liveness'')"

definition legacyEvidenceAlreadyImported :: "jsval list \<Rightarrow> jsval \<Rightarrow> bool" where
  "legacyEvidenceAlreadyImported es evidenceDigest \<longleftrightarrow>
     list_ex (\<lambda>e. ev_kind e = Some ReservationClaimed \<and>
       strict_eq (js_get (ev_payload e) ''legacy_evidence_digest'') evidenceDigest) es"

definition classifyLegacyImport :: "jsval \<Rightarrow> import_class" where
  "classifyLegacyImport evidence =
     (if \<not> isValidLegacyEvidence evidence then OPERATOR_ONLY_RESIDUE
      else
      let reached = truthy (js_get evidence ''reached_spawn''); ended = truthy (js_get evidence ''execution_terminated'');
          completed = truthy (js_get evidence ''delivery_completed'');
          unchanged = truthy (js_get evidence ''slice_ref_equals_base'');
          liveness = js_get evidence ''liveness'' in
      if reached \<and> \<not> ended
      then (if strict_eq liveness liveness_live then RETAINED_LIVE
            else if strict_eq liveness liveness_dead
            then (if unchanged then RELEASABLE_PROVEN_DEAD else RETAINED_INDETERMINATE)
            else RETAINED_POSSIBLY_LIVE)
      else if strict_eq liveness liveness_live then RETAINED_LIVE
      else if completed then (if ended then RELEASABLE_COMPLETED_DELIVERY else RETAINED_INDETERMINATE)
      else if reached \<and> ended \<and> strict_eq liveness liveness_dead \<and> unchanged then RELEASABLE_PROVEN_DEAD
      else if ended then RELEASABLE_EXACT_TERMINAL
      else if \<not> reached
      then (if strict_eq liveness liveness_dead then RELEASABLE_EXACT_TERMINAL else RETAINED_INDETERMINATE)
      else RETAINED_INDETERMINATE)"

fun releasable :: "import_class \<Rightarrow> bool" where
  "releasable RELEASABLE_EXACT_TERMINAL = True"
| "releasable RELEASABLE_PROVEN_DEAD = True"
| "releasable RELEASABLE_COMPLETED_DELIVERY = True"
| "releasable _ = False"

text \<open>The outcome of an import: a refusal with the events the caller keeps, or admitted with the flag
  \<open>imported\<close>, the class and the events; or the error a step throws.\<close>

datatype import_result =
    ImportRefused import_class refusal jsval
  | ImportAdmitted bool import_class "jsval list"
  | ImportThrew thrown

fun import_steps ::
  "hash \<Rightarrow> jsval \<Rightarrow> jsval \<Rightarrow> jsval \<Rightarrow> jsval list \<Rightarrow> (event_kind \<times> jsval) list \<Rightarrow> (thrown + refusal) + jsval list" where
  "import_steps H repository subject evidence working [] = Inr working"
| "import_steps H repository subject evidence working ((kind, payload) # steps) =
     (case admitAttemptCommand H repository subject (JArr working) (js_get evidence ''attempt'')
        (JStr (kind_name kind)) payload
        (if kind = ReservationClaimed then js_get evidence ''generation_digest'' else JNull)
        (if kind = ReservationClaimed then js_get evidence ''wk_tip'' else JNull)
        (js_get evidence ''liveness'') of
        Threw t \<Rightarrow> Inl (Inl t)
      | Refused r \<Rightarrow> Inl (Inr r)
      | AlreadyRecorded e es \<Rightarrow> import_steps H repository subject evidence es steps
      | Appended e es \<Rightarrow> import_steps H repository subject evidence es steps)"

definition import_sequence :: "jsval \<Rightarrow> import_class \<Rightarrow> (event_kind \<times> jsval) list" where
  "import_sequence evidence cls =
     (let digest = (''legacy_evidence_digest'', js_get evidence ''evidence_digest'') in
      [(ReservationClaimed, JObj [digest, (''imported'', JBool True)]),
       (AttemptTerminal, JObj [(''reason'', JStr (import_class_name cls)), digest]),
       (ReservationReleased, JObj [digest])])"

definition admitLegacyImport :: "hash \<Rightarrow> jsval \<Rightarrow> jsval \<Rightarrow> jsval \<Rightarrow> jsval \<Rightarrow> import_result" where
  "admitLegacyImport H repository subject events evidence =
     (case validateAttemptJournal H repository subject events of
        Inl r \<Rightarrow> ImportRefused OPERATOR_ONLY_RESIDUE r events
      | Inr (es, digest) \<Rightarrow>
        if \<not> isValidLegacyEvidence evidence \<or> \<not> strict_eq (js_get evidence ''repository'') repository \<or>
           \<not> strict_eq (js_get evidence ''subject'') subject
        then ImportRefused OPERATOR_ONLY_RESIDUE
          (Refusal BINDING_MISMATCH ''legacy evidence is unauthenticated or names another subject'' []) events
        else if legacyEvidenceAlreadyImported es (js_get evidence ''evidence_digest'')
        then ImportAdmitted False (classifyLegacyImport evidence) es
        else if \<not> releasable (classifyLegacyImport evidence)
        then ImportAdmitted False (classifyLegacyImport evidence) es
        else case import_steps H repository subject evidence es
               (import_sequence evidence (classifyLegacyImport evidence)) of
            Inl (Inl t) \<Rightarrow> ImportThrew t
          | Inl (Inr r) \<Rightarrow> ImportRefused OPERATOR_ONLY_RESIDUE r (JArr es)
          | Inr working \<Rightarrow> ImportAdmitted True (classifyLegacyImport evidence) working)"

section \<open>Partition identity\<close>

text \<open>\<open>attemptPartitionId\<close>: the message of the thrown error, or the identifier. \<open>H\<close> gives the
  hexadecimal digest of a text.\<close>

definition attemptPartitionId :: "hash \<Rightarrow> jsval \<Rightarrow> jsval \<Rightarrow> string + string" where
  "attemptPartitionId H repository subject =
     (if \<not> is_nonempty_string repository then Inl ''repository must be a non-empty string''
      else if \<not> is_nonempty_string subject then Inl ''subject must be a non-empty string''
      else Inr (''v1-'' @ H (or_null_text (canonicalJson (JArr [journal_schema_version, JStr ''v1'', repository, subject])))))"

end
