(* ===== verification/KeyedProjection.thy ===== *)
theory KeyedProjection
  imports Main
begin

text \<open>
  The interface of a projection that folds a log of events into one state per key, in one pass over the
  interleaved events: the provider gives the state of a new key, the update of a state by an event, and a
  step that updates the state of the event's key or adds it at the end. The client lemma: the projection is
  the fold of every key over its own events, in the order of first occurrence.
\<close>

locale keyed_projection =
  fixes state_key :: "'s \<Rightarrow> 'k"
    and event_key :: "'e \<Rightarrow> 'k"
    and new_state :: "'e \<Rightarrow> 's"
    and update :: "'s \<Rightarrow> 'e \<Rightarrow> 's"
    and step :: "'s list \<Rightarrow> 'e \<Rightarrow> 's list"
  assumes update_key: "state_key (update s e) = state_key s"
    and new_key: "state_key (new_state e) = event_key e"
    and step_Nil: "step [] e = [update (new_state e) e]"
    and step_Cons: "step (s # ss) e = (if state_key s = event_key e then update s e # ss else s # step ss e)"
begin

lemma step_keys:
  "map state_key (step ss e) = map state_key ss @ (if event_key e \<in> set (map state_key ss) then [] else [event_key e])"
  by (induction ss) (auto simp: step_Nil step_Cons update_key new_key)

lemma projection_keys: "map state_key (foldl step [] es) = rev (remdups (rev (map event_key es)))"
proof (induction es rule: rev_induct)
  case (snoc e es)
  have "set (map state_key (foldl step [] es)) = event_key ` set es" unfolding snoc by simp
  with snoc show ?case by (simp add: step_keys)
qed simp

lemma projection_distinct: "distinct (map state_key (foldl step [] es))"
  unfolding projection_keys by simp

definition key_fold :: "'k \<Rightarrow> 'e list \<Rightarrow> 's option" where
  "key_fold k es = (case filter (\<lambda>e. event_key e = k) es of [] \<Rightarrow> None
     | e # r \<Rightarrow> Some (foldl update (new_state e) (e # r)))"

lemma key_fold_snoc:
  "key_fold k (es @ [e]) =
     (if event_key e = k then Some (update (case key_fold k es of None \<Rightarrow> new_state e | Some s \<Rightarrow> s) e) else key_fold k es)"
  by (simp add: key_fold_def split: list.splits)

lemma step_find:
  "find (\<lambda>s. state_key s = k) (step ss e) =
     (if event_key e = k
      then Some (update (case find (\<lambda>s. state_key s = k) ss of None \<Rightarrow> new_state e | Some s \<Rightarrow> s) e)
      else find (\<lambda>s. state_key s = k) ss)"
  by (induction ss) (auto simp: step_Nil step_Cons update_key new_key)

lemma projection_find: "find (\<lambda>s. state_key s = k) (foldl step [] es) = key_fold k es"
proof (induction es rule: rev_induct)
  case (snoc e es)
  then show ?case by (simp add: key_fold_snoc step_find)
qed (simp add: key_fold_def)

lemma find_distinct:
  assumes "distinct (map state_key ss)" and "s \<in> set ss"
  shows "find (\<lambda>t. state_key t = state_key s) ss = Some s"
  using assms
proof (induction ss)
  case (Cons t ss)
  then show ?case by (cases "t = s") (auto simp: rev_image_eqI)
qed simp

lemma projection_member: "s \<in> set (foldl step [] es) \<Longrightarrow> key_fold (state_key s) es = Some s"
  using find_distinct [OF projection_distinct] projection_find by metis

lemma projection_is_fold:
  "foldl step [] es = map (\<lambda>k. the (key_fold k es)) (rev (remdups (rev (map event_key es))))"
proof -
  have "foldl step [] es = map (\<lambda>s. the (key_fold (state_key s) es)) (foldl step [] es)"
    by (rule map_idI [symmetric]) (simp add: projection_member)
  then show ?thesis unfolding projection_keys [symmetric] by (simp add: comp_def)
qed

end

end
