(* ===== verification/JournalFacts.thy ===== *)
theory JournalFacts
  imports JournalCommands KeyedProjection
begin

text \<open>
  Facts on the attempt journal that hold for every list of events: an attempt is identified by its key,
  validation runs from left to right, the projection of a journal is the fold of each attempt over its
  own events, and a minted event passes the checks that read only the event.
\<close>

section \<open>Attempt keys\<close>

lemma valid_tuple_values:
  assumes "isValidAttemptTuple t"
  obtains u l r i where "js_get t ''assigned_unit'' = JStr u" "js_get t ''launch_ref'' = JStr l"
    "js_get t ''run_id'' = JStr r" "js_get t ''retry_id'' = JInt i" "0 \<le> i" "u \<noteq> []" "l \<noteq> []" "r \<noteq> []"
  using assms
  unfolding isValidAttemptTuple_def is_nonempty_string_iff is_nonneg_integer_iff by blast

lemma tuple_json_value: "isValidAttemptTuple t \<Longrightarrow> json_value (tuple_object t)"
  by (erule valid_tuple_values) (simp add: tuple_object_def)

lemma tuple_object_get [simp]:
  "js_get (tuple_object t) ''assigned_unit'' = js_get t ''assigned_unit''"
  "js_get (tuple_object t) ''launch_ref'' = js_get t ''launch_ref''"
  "js_get (tuple_object t) ''run_id'' = js_get t ''run_id''"
  "js_get (tuple_object t) ''retry_id'' = js_get t ''retry_id''"
  by (simp_all add: tuple_object_def)

lemma tuple_object_keys [simp]: "own_keys (tuple_object t) = attempt_tuple_keys"
  by (simp add: tuple_object_def attempt_tuple_keys_def)

lemma tuple_object_valid [simp]: "isValidAttemptTuple t \<Longrightarrow> isValidAttemptTuple (tuple_object t)"
  by (simp add: isValidAttemptTuple_def has_exact_keys_def has_own_def list_all_iff)
     (simp add: tuple_object_def)

lemma tuple_object_idem [simp]: "tuple_object (tuple_object t) = tuple_object t"
  by (simp add: tuple_object_def)

lemma attemptKey_object [simp]: "attemptKey (tuple_object t) = attemptKey t"
  by (simp add: attemptKey_def)

lemma sameAttempt_object [simp]:
  "sameAttempt (tuple_object l) r = sameAttempt l r"
  "sameAttempt l (tuple_object r) = sameAttempt l r"
  by (simp_all add: sameAttempt_def)

lemma canonical_tuple_get:
  assumes "isValidAttemptTuple t" and "k \<in> set attempt_tuple_keys"
  shows "js_get (canonicalize (tuple_object t)) k = js_get t k"
proof -
  obtain u l r i where "js_get t ''assigned_unit'' = JStr u" "js_get t ''launch_ref'' = JStr l"
    "js_get t ''run_id'' = JStr r" "js_get t ''retry_id'' = JInt i"
    using valid_tuple_values [OF assms(1)] .
  moreover have "js_get (canonicalize (tuple_object t)) k = canonicalize (js_get (tuple_object t) k)"
    using assms(2) by (intro canonicalize_get) (auto simp: attempt_tuple_keys_def)
  ultimately show ?thesis
    using assms(2) by (auto simp: attempt_tuple_keys_def)
qed

lemma attemptKey_eq_iff:
  assumes "isValidAttemptTuple l" and "isValidAttemptTuple r"
  shows "attemptKey l = attemptKey r \<longleftrightarrow> sameAttempt l r"
proof
  assume "attemptKey l = attemptKey r"
  then have "canonicalize (tuple_object l) = canonicalize (tuple_object r)"
    using assms
    by (simp add: attemptKey_def canonicalJson_text tuple_json_value or_null_text_def)
       (blast intro: json_text_inj canonicalize_json_value tuple_json_value)
  then have get: "js_get l k = js_get r k" if "k \<in> set attempt_tuple_keys" for k
    using that canonical_tuple_get [OF assms(1) that] canonical_tuple_get [OF assms(2) that] by simp
  obtain u l' r' i where "js_get r ''assigned_unit'' = JStr u" "js_get r ''launch_ref'' = JStr l'"
    "js_get r ''run_id'' = JStr r'" "js_get r ''retry_id'' = JInt i"
    using valid_tuple_values [OF assms(2)] .
  then show "sameAttempt l r"
    by (simp add: sameAttempt_def get attempt_tuple_keys_def)
next
  assume "sameAttempt l r"
  then have "tuple_object l = tuple_object r"
    unfolding sameAttempt_def tuple_object_def by (auto dest: strict_eq_imp_eq)
  then show "attemptKey l = attemptKey r"
    by (simp add: attemptKey_def)
qed

section \<open>Validation from left to right\<close>

lemma validate_from_append:
  "validate_from H repo subj i st (xs @ ys) =
     (case validate_from H repo subj i st xs of
        Inl r \<Rightarrow> Inl r | Inr st' \<Rightarrow> validate_from H repo subj (i + length xs) st' ys)"
  by (induction xs arbitrary: i st) (simp_all split: sum.splits)

lemma validateAttemptJournal_Inr:
  "validateAttemptJournal H repo subj events = Inr (es, digest) \<longleftrightarrow>
     events = JArr es \<and> (\<exists>st. validate_from H repo subj 0 initial_validation es = Inr st \<and> digest = prior_digest st)"
  by (auto simp: validateAttemptJournal_def split: jsval.splits sum.splits)

section \<open>The projection is a fold per attempt\<close>

definition key_events :: "string \<Rightarrow> jsval list \<Rightarrow> jsval list" where
  "key_events key es = filter (\<lambda>e. ev_key e = key) es"

definition attempt_fold :: "jsval \<Rightarrow> jsval list \<Rightarrow> attempt_state" where
  "attempt_fold e es = foldl record_event (new_attempt_state e) es"

definition view :: "string \<Rightarrow> jsval list \<Rightarrow> attempt_state option" where
  "view key es = (case key_events key es of [] \<Rightarrow> None | e # r \<Rightarrow> Some (attempt_fold e (e # r)))"

lemma record_event_key [simp]: "st_key (record_event s e) = st_key s"
  by (simp add: record_event_def Let_def split: option.splits)

lemma new_attempt_state_key [simp]: "st_key (new_attempt_state e) = ev_key e"
  by (simp add: new_attempt_state_def)

lemma key_events_snoc:
  "key_events key (es @ [e]) = key_events key es @ (if ev_key e = key then [e] else [])"
  by (simp add: key_events_def)

lemma view_snoc:
  "view key (es @ [e]) =
     (if ev_key e = key then Some (record_event (case view key es of None \<Rightarrow> new_attempt_state e | Some s \<Rightarrow> s) e)
      else view key es)"
  by (simp add: view_def key_events_snoc attempt_fold_def split: list.splits)

interpretation jp: keyed_projection st_key ev_key new_attempt_state record_event project_event
  by unfold_locales simp_all

lemma projectAttempts_snoc [simp]:
  "projectAttempts [] = []"
  "projectAttempts (es @ [e]) = project_event (projectAttempts es) e"
  by (simp_all add: projectAttempts_def)

lemma key_fold_view: "jp.key_fold key es = view key es"
  unfolding jp.key_fold_def view_def key_events_def attempt_fold_def ..

lemma find_state_view: "find_state key (projectAttempts es) = view key es"
  unfolding find_state_def projectAttempts_def key_fold_view [symmetric] by (rule jp.projection_find)

lemma project_distinct: "distinct (map st_key (projectAttempts es))"
  unfolding projectAttempts_def by (rule jp.projection_distinct)

lemma find_state_member: "find_state key ss = Some s \<Longrightarrow> s \<in> set ss"
  unfolding find_state_def by (metis find_Some_iff nth_mem)

lemma in_project_iff: "s \<in> set (projectAttempts es) \<longleftrightarrow> view (st_key s) es = Some s"
proof
  show "s \<in> set (projectAttempts es) \<Longrightarrow> view (st_key s) es = Some s"
    unfolding projectAttempts_def key_fold_view [symmetric] by (rule jp.projection_member)
  show "view (st_key s) es = Some s \<Longrightarrow> s \<in> set (projectAttempts es)"
    unfolding find_state_view [symmetric] by (rule find_state_member)
qed

lemma find_state_key: "find_state key ss = Some s \<Longrightarrow> st_key s = key"
  by (induction ss) (auto simp: find_state_def split: if_splits)

lemma view_key: "view key es = Some s \<Longrightarrow> st_key s = key"
  using find_state_key [of key "projectAttempts es"] by (simp add: find_state_view)


section \<open>The lifecycle of an attempt\<close>

text \<open>The kinds of the lifecycle events of a list, in order.\<close>

definition life :: "jsval list \<Rightarrow> event_kind list" where
  "life es = filter (\<lambda>k. \<not> informational k) (List.map_filter ev_kind es)"

definition last_kind :: "event_kind list \<Rightarrow> event_kind option" where
  "last_kind ks = (if ks = [] then None else Some (last ks))"

lemma life_simps [simp]:
  "life [] = []"
  "life (es @ fs) = life es @ life fs"
  "life (e # es) = (case ev_kind e of None \<Rightarrow> [] | Some k \<Rightarrow> if informational k then [] else [k]) @ life es"
  by (simp_all add: life_def List.map_filter_def split: option.splits)

lemma last_kind_simps [simp]:
  "last_kind [] = None"
  "last_kind (ks @ [k]) = Some k"
  by (simp_all add: last_kind_def)

lemma record_event_fields [simp]:
  "st_events (record_event s e) = st_events s @ [e]"
  "st_attempt (record_event s e) = st_attempt s"
  "st_generation (record_event s e) = st_generation s"
  "st_tip (record_event s e) = st_tip s"
  "st_kinds (record_event s e) = st_kinds s \<union> set (life [e])"
  "st_last_kind (record_event s e) = (if life [e] = [] then st_last_kind s else last_kind (life [e]))"
  "st_released (record_event s e) = (if ReservationReleased \<in> set (life [e]) then Some e else st_released s)"
  "st_terminal (record_event s e) = (if AttemptTerminal \<in> set (life [e]) then Some e else st_terminal s)"
  by (auto simp: record_event_def Let_def last_kind_def split: option.splits)

lemma fold_record_event:
  "st_events (foldl record_event s es) = st_events s @ es"
  "st_attempt (foldl record_event s es) = st_attempt s"
  "st_generation (foldl record_event s es) = st_generation s"
  "st_tip (foldl record_event s es) = st_tip s"
  "st_kinds (foldl record_event s es) = st_kinds s \<union> set (life es)"
  "st_last_kind (foldl record_event s es) = (if life es = [] then st_last_kind s else last_kind (life es))"
  "st_released (foldl record_event s es) = None \<longleftrightarrow> st_released s = None \<and> ReservationReleased \<notin> set (life es)"
  "st_terminal (foldl record_event s es) = None \<longleftrightarrow> st_terminal s = None \<and> AttemptTerminal \<notin> set (life es)"
  by (induction es arbitrary: s) (auto simp: last_kind_def split: option.splits)

text \<open>What the projected state of an attempt says of its events.\<close>

lemma view_fields:
  assumes "view key es = Some s"
  shows "st_events s = key_events key es"
    and "key_events key es \<noteq> []"
    and "st_attempt s = ev_attempt (hd (key_events key es))"
    and "st_generation s = ev_generation (hd (key_events key es))"
    and "st_tip s = ev_tip (hd (key_events key es))"
    and "st_kinds s = set (life (key_events key es))"
    and "st_last_kind s = last_kind (life (key_events key es))"
    and "st_released s = None \<longleftrightarrow> ReservationReleased \<notin> set (life (key_events key es))"
    and "st_terminal s = None \<longleftrightarrow> AttemptTerminal \<notin> set (life (key_events key es))"
proof -
  from assms obtain e r where ke: "key_events key es = e # r" and s: "s = attempt_fold e (e # r)"
    by (auto simp: view_def split: list.splits)
  note f = fold_record_event [of "new_attempt_state e" "e # r", folded attempt_fold_def, folded s]
  show "st_events s = key_events key es" "key_events key es \<noteq> []"
    "st_attempt s = ev_attempt (hd (key_events key es))"
    "st_generation s = ev_generation (hd (key_events key es))"
    "st_tip s = ev_tip (hd (key_events key es))"
    "st_kinds s = set (life (key_events key es))"
    "st_last_kind s = last_kind (life (key_events key es))"
    "st_released s = None \<longleftrightarrow> ReservationReleased \<notin> set (life (key_events key es))"
    "st_terminal s = None \<longleftrightarrow> AttemptTerminal \<notin> set (life (key_events key es))"
    using f unfolding ke by (simp_all add: new_attempt_state_def last_kind_def)
qed

lemma view_None: "view key es = None \<longleftrightarrow> key_events key es = []"
  by (simp add: view_def split: list.splits)

section \<open>Minted events\<close>

lemma event_kind_of_name [simp]: "event_kind_of (JStr (kind_name k)) = Some k"
  by (cases k) (simp_all add: event_kind_of_def all_event_kinds_def)

lemma event_kind_of_Some: "event_kind_of v = Some k \<longleftrightarrow> v = JStr (kind_name k)"
proof
  assume "event_kind_of v = Some k"
  then show "v = JStr (kind_name k)"
    unfolding event_kind_of_def find_Some_iff by (auto split: jsval.splits simp: find_Some_iff)
qed simp

lemma kind_name_inj: "kind_name k = kind_name l \<longleftrightarrow> k = l"
  by (metis event_kind_of_name option.inject)

text \<open>The fields of a minted event.\<close>

lemma mint_fields:
  assumes "mintAttemptEvent H repo subj att sq prior gen tip kind payload = Inr e"
  shows "js_get e ''schema_version'' = journal_schema_version"
    and "js_get e ''repository'' = repo" and "js_get e ''subject'' = subj"
    and "ev_attempt e = tuple_object att" and "js_get e ''sequence'' = sq"
    and "js_get e ''prior_digest'' = prior" and "ev_generation e = gen" and "ev_tip e = tip"
    and "js_get e ''kind'' = kind" and "ev_payload e = payload"
    and "ev_digest e = JStr (recomputeDigest H e)"
    and "own_keys e = event_envelope_keys"
    and "is_plain_object e"
  using assms
  by (auto simp: mintAttemptEvent_def Let_def unsigned_event_def ev_attempt_def ev_generation_def ev_tip_def
        ev_payload_def ev_digest_def recomputeDigest_def obj_remove_def event_envelope_keys_def split: if_splits)

lemma mint_requires:
  assumes "mintAttemptEvent H repo subj att sq prior gen tip kind payload = Inr e"
  shows "is_nonempty_string repo" and "is_nonempty_string subj" and "isValidAttemptTuple att"
    and "is_nonempty_string gen" and "is_nonempty_string tip" and "is_plain_object payload"
    and "sq = JInt 0 \<Longrightarrow> prior = JNull" and "sq \<noteq> JInt 0 \<Longrightarrow> is_nonempty_string prior"
  using assms by (auto simp: mintAttemptEvent_def Let_def split: if_splits)

lemma mint_chain:
  assumes "mintAttemptEvent H repo subj att sq prior gen tip kind payload = Inr e"
  shows "chain_refusal H prior i e = None"
  using mint_fields [OF assms] mint_requires(7,8) [OF assms]
  by (cases "sq = JInt 0") (auto simp: chain_refusal_def Let_def is_nonempty_string_iff)

lemma mint_envelope:
  assumes "mintAttemptEvent H repo subj att (JInt (int i)) prior gen tip (JStr (kind_name k)) payload = Inr e"
    and "k = RunResultRecorded \<Longrightarrow> isValidAttemptTuple (js_get payload ''dispatch_tuple'') \<and> run_result_payload_ok H payload"
    and "\<not> observation_invalid k payload"
  shows "envelope_refusal H repo subj i e = None"
proof -
  note f = mint_fields [OF assms(1)] and r = mint_requires [OF assms(1)]
  have "has_exact_keys e event_envelope_keys"
    using f(12,13) by (simp add: has_exact_keys_def has_own_def list_all_iff)
  moreover have "ev_kind e = Some k" using f(9) by (simp add: ev_kind_def)
  ultimately show ?thesis
    using r f assms(2,3)
    by (auto simp: envelope_refusal_def Let_def ev_dispatch_tuple_def is_nonempty_string_iff journal_schema_version_def)
qed

end
