(* ===== verification/JournalReachable.thy ===== *)
theory JournalReachable
  imports JournalFacts
begin

text \<open>
  The attempt journal as a state machine. A step appends one admitted event; the reachable journals are
  those that admissions build from the empty journal. The invariants of reachable journals (one legal
  lifecycle per attempt, at most one open reservation, each result and original published once) are
  proved by rule induction, and with them that an admission keeps the journal valid.
\<close>

section \<open>What validation guarantees\<close>

definition valid_journal :: "hash \<Rightarrow> jsval \<Rightarrow> jsval \<Rightarrow> jsval list \<Rightarrow> validation \<Rightarrow> bool" where
  "valid_journal H repo subj es st \<longleftrightarrow> validate_from H repo subj 0 initial_validation es = Inr st"

lemma valid_journal_Nil [simp]: "valid_journal H repo subj [] st \<longleftrightarrow> st = initial_validation"
  by (auto simp: valid_journal_def)

lemma valid_journal_snoc:
  "valid_journal H repo subj (es @ [e]) st' \<longleftrightarrow>
     (\<exists>st. valid_journal H repo subj es st \<and> validate_event H repo subj (length es) st e = Inr st')"
  by (auto simp: valid_journal_def validate_from_append split: sum.splits)

lemma valid_journal_append:
  "valid_journal H repo subj (es @ fs) st' \<Longrightarrow> \<exists>st. valid_journal H repo subj es st"
  by (auto simp: valid_journal_def validate_from_append split: sum.splits)

lemma validate_event_Inr:
  "validate_event H repo subj i st e = Inr st' \<longleftrightarrow>
     envelope_refusal H repo subj i e = None \<and> chain_refusal H (prior_digest st) i e = None \<and>
     (\<exists>fr p. freeze_event (frozen st) i e = Inr fr \<and> publish_event (publication_of st (ev_key e)) e = Inr p \<and>
       st' = \<lparr>prior_digest = ev_digest e, frozen = fr, publications = (publications st)(ev_key e \<mapsto> p)\<rparr>)"
  by (auto simp: validate_event_def split: option.splits sum.splits)

lemma envelope_accepts:
  assumes "envelope_refusal H repo subj i e = None"
  shows "has_exact_keys e event_envelope_keys" and "js_get e ''repository'' = repo" and "js_get e ''subject'' = subj"
    and "isValidAttemptTuple (ev_attempt e)" and "is_nonempty_string (ev_generation e)"
    and "is_nonempty_string (ev_tip e)" and "is_plain_object (ev_payload e)" and "ev_kind e \<noteq> None"
    and "js_get e ''sequence'' = JInt (int i)"
  using assms by (auto simp: envelope_refusal_def Let_def dest: strict_eq_imp_eq split: if_splits option.splits)

lemma chain_accepts:
  assumes "chain_refusal H prior i e = None"
  shows "js_get e ''prior_digest'' = prior" and "ev_digest e = JStr (recomputeDigest H e)"
  using assms by (auto simp: chain_refusal_def Let_def dest: strict_eq_imp_eq split: if_splits)

lemma valid_journal_event:
  assumes "valid_journal H repo subj es st" and "e \<in> set es"
  shows "isValidAttemptTuple (ev_attempt e) \<and> is_nonempty_string (ev_generation e) \<and>
    is_nonempty_string (ev_tip e) \<and> is_plain_object (ev_payload e) \<and> ev_kind e \<noteq> None"
  using assms
proof (induction es arbitrary: st rule: rev_induct)
  case (snoc x xs)
  then show ?case
    using envelope_accepts by (fastforce simp: valid_journal_snoc validate_event_Inr)
qed simp

text \<open>The events of one attempt in a valid journal: the first claims the reservation, the others do
  not and repeat its generation and tip.\<close>

definition frozen_log :: "jsval list \<Rightarrow> bool" where
  "frozen_log xs = (case xs of [] \<Rightarrow> True | e # r \<Rightarrow> ev_kind e = Some ReservationClaimed \<and>
     list_all (\<lambda>x. ev_kind x \<noteq> Some ReservationClaimed \<and> ev_generation x = ev_generation e \<and> ev_tip x = ev_tip e) r)"

definition frozen_pair :: "jsval list \<Rightarrow> (jsval \<times> jsval) option" where
  "frozen_pair xs = (case xs of [] \<Rightarrow> None | e # r \<Rightarrow> Some (ev_generation e, ev_tip e))"

lemma freeze_event_Inr:
  "freeze_event fr i e = Inr fr' \<longleftrightarrow>
     (ev_kind e = Some ReservationClaimed \<and> fr (ev_key e) = None \<and>
      fr' = fr(ev_key e \<mapsto> (ev_generation e, ev_tip e))) \<or>
     (ev_kind e \<noteq> Some ReservationClaimed \<and> fr' = fr \<and>
      (\<exists>g t. fr (ev_key e) = Some (g, t) \<and> strict_eq (ev_generation e) g \<and> strict_eq (ev_tip e) t))"
  by (auto simp: freeze_event_def Let_def split: option.splits)

lemma frozen_log_snoc:
  assumes "frozen_log xs" and "freeze_event fr i e = Inr fr'" and "fr (ev_key e) = frozen_pair xs"
  shows "frozen_log (xs @ [e])" and "fr' (ev_key e) = frozen_pair (xs @ [e])"
  using assms unfolding freeze_event_Inr
  by (auto simp: frozen_log_def frozen_pair_def dest!: strict_eq_imp_eq split: list.splits)

lemma frozen_keys:
  assumes "valid_journal H repo subj es st"
  shows "frozen_log (key_events key es) \<and> frozen st key = frozen_pair (key_events key es)"
  using assms
proof (induction es arbitrary: st rule: rev_induct)
  case Nil
  then show ?case by (simp add: initial_validation_def key_events_def frozen_log_def frozen_pair_def)
next
  case (snoc e es)
  then obtain st0 where v: "valid_journal H repo subj es st0"
    and f: "freeze_event (frozen st0) (length es) e = Inr (frozen st)"
    by (auto simp: valid_journal_snoc validate_event_Inr)
  note IH = snoc.IH [OF v]
  show ?case
  proof (cases "ev_key e = key")
    case True
    with IH frozen_log_snoc [OF _ f, of "key_events key es"] show ?thesis
      by (simp add: key_events_snoc)
  next
    case False
    with f have "frozen st key = frozen st0 key" by (auto simp: freeze_event_Inr)
    with False IH show ?thesis by (simp add: key_events_snoc)
  qed
qed

text \<open>What an attempt published is what its last event of each kind published.\<close>

definition last_payload :: "event_kind \<Rightarrow> jsval list \<Rightarrow> jsval" where
  "last_payload k es = (case event_of_kind k (rev es) of None \<Rightarrow> JNull | Some e \<Rightarrow> ev_payload e)"

definition last_binding :: "jsval list \<Rightarrow> jsval" where
  "last_binding es = (case event_of_kind PendingPublished (rev es) of None \<Rightarrow> JNull | Some e \<Rightarrow> ev_dispatch_tuple e)"

definition published :: "jsval list \<Rightarrow> publication" where
  "published es = \<lparr>pub_binding = last_binding es, pub_result = last_payload RunResultRecorded es,
     pub_original = last_payload RunOriginalRecorded es\<rparr>"

lemma event_of_kind_Cons:
  "event_of_kind k (e # es) = (if ev_kind e = Some k then Some e else event_of_kind k es)"
  by (simp add: event_of_kind_def)

lemma publish_event_last:
  "publish_event (published es) e = Inr p \<Longrightarrow> p = published (es @ [e])"
  by (cases "the (ev_kind e)"; cases "ev_kind e")
     (simp_all add: publish_event_def published_def last_payload_def last_binding_def event_of_kind_Cons
      split: option.split_asm if_split_asm)

lemma publications_last:
  assumes "valid_journal H repo subj es st"
  shows "publication_of st key = published (key_events key es)"
  using assms
proof (induction es arbitrary: st key rule: rev_induct)
  case Nil
  then show ?case
    by (simp add: publication_of_def initial_validation_def published_def last_binding_def last_payload_def
        event_of_kind_def key_events_def no_publication_def)
next
  case (snoc e es)
  then obtain st0 p where v: "valid_journal H repo subj es st0"
    and p: "publish_event (publication_of st0 (ev_key e)) e = Inr p"
    and st: "publications st = (publications st0)(ev_key e \<mapsto> p)"
    by (auto simp: valid_journal_snoc validate_event_Inr)
  have "p = published (key_events (ev_key e) (es @ [e]))"
    using publish_event_last p snoc.IH [OF v, of "ev_key e"] by (simp add: key_events_snoc)
  then show ?case
    using snoc.IH [OF v, of key] st by (simp add: publication_of_def key_events_snoc)
qed

section \<open>The step relation\<close>

text \<open>One admitted command: claiming the reservation, advancing the lifecycle, or recording evidence.\<close>

inductive journal_step :: "hash \<Rightarrow> jsval \<Rightarrow> jsval \<Rightarrow> jsval list \<Rightarrow> jsval list \<Rightarrow> bool" for H repo subj where
  Claim: "valid_journal H repo subj es st \<Longrightarrow>
    isLegalSuccessor (last_kind (life (key_events (attemptKey att) es))) ReservationClaimed \<Longrightarrow>
    unreleased (projectAttempts es) = [] \<Longrightarrow>
    mintAttemptEvent H repo subj att (JInt (int (length es))) (prior_digest st) gen tip
      (JStr (kind_name ReservationClaimed)) payload = Inr e \<Longrightarrow>
    journal_step H repo subj es (es @ [e])"
| Advance: "valid_journal H repo subj es st \<Longrightarrow> view (attemptKey att) es = Some s \<Longrightarrow>
    \<not> informational k \<Longrightarrow> k \<noteq> ReservationClaimed \<Longrightarrow> isLegalSuccessor (st_last_kind s) k \<Longrightarrow>
    (k = ReservationReleased \<longrightarrow> (\<exists>liveness proof. classifyReleaseProof s liveness = Some proof \<and>
       js_get payload ''release_proof'' = JStr (proof_name proof))) \<Longrightarrow>
    mintAttemptEvent H repo subj att (JInt (int (length es))) (prior_digest st) (st_generation s) (st_tip s)
      (JStr (kind_name k)) payload = Inr e \<Longrightarrow>
    journal_step H repo subj es (es @ [e])"
| Observe: "valid_journal H repo subj es st \<Longrightarrow> view (attemptKey att) es = Some s \<Longrightarrow>
    informational k \<Longrightarrow> st_last_kind s \<noteq> None \<Longrightarrow>
    isValidAttemptTuple (js_get payload ''dispatch_tuple'') \<Longrightarrow> isValidAttemptTuple (retained_binding s) \<Longrightarrow>
    sameAttempt (js_get payload ''dispatch_tuple'') (retained_binding s) \<Longrightarrow>
    (k = RunResultRecorded \<longrightarrow> run_result_payload_ok H payload) \<Longrightarrow>
    \<not> observation_invalid k payload \<Longrightarrow>
    find (identity_matches k att payload) (st_events s) = None \<Longrightarrow>
    (k = RunOriginalRecorded \<longrightarrow> runOriginalRefusal payload
       (payload_of (event_of_kind RunResultRecorded (st_events s))) JUndef (retained_binding s) = None) \<Longrightarrow>
    mintAttemptEvent H repo subj att (JInt (int (length es))) (prior_digest st) (st_generation s) (st_tip s)
      (JStr (kind_name k)) payload = Inr e \<Longrightarrow>
    journal_step H repo subj es (es @ [e])"

inductive_cases journal_stepE: "journal_step H repo subj es es'"

lemma mint_next_Appended:
  "mint_next H repo subj es d att gen tip k payload = Appended e es' \<longleftrightarrow>
     mintAttemptEvent H repo subj att (JInt (int (length es))) d gen tip (JStr (kind_name k)) payload = Inr e \<and>
     es' = es @ [e]"
  by (auto simp: mint_next_def split: sum.splits)

lemma admit_informational_step:
  assumes "admit_informational H repo subj es (prior_digest st) (view (attemptKey att) es) att k payload = Appended e es'"
    and "valid_journal H repo subj es st" and "informational k"
  shows "journal_step H repo subj es es'"
proof -
  from assms(1) obtain s where s: "view (attemptKey att) es = Some s"
    by (auto simp: admit_informational_def split: option.splits)
  have c: "isLegalSuccessor (st_last_kind s) k" "isValidAttemptTuple (js_get payload ''dispatch_tuple'')"
    "isValidAttemptTuple (retained_binding s)" "sameAttempt (js_get payload ''dispatch_tuple'') (retained_binding s)"
    "k = RunResultRecorded \<longrightarrow> run_result_payload_ok H payload" "\<not> observation_invalid k payload"
    "find (identity_matches k att payload) (st_events s) = None"
    "k = RunOriginalRecorded \<longrightarrow> runOriginalRefusal payload
       (payload_of (event_of_kind RunResultRecorded (st_events s))) JUndef (retained_binding s) = None"
    "mint_next H repo subj es (prior_digest st) att (st_generation s) (st_tip s) k payload = Appended e es'"
    using assms(1) unfolding s admit_informational_def
    by (simp_all add: Let_def payload_of_def split: if_split_asm option.split_asm)
  have "st_last_kind s \<noteq> None" using c(1) assms(3) by (simp add: isLegalSuccessor_def)
  then show ?thesis
    using journal_step.Observe [OF assms(2) s assms(3) _ c(2-8)] c(9) by (auto simp: mint_next_Appended)
qed

lemma release_payload_Inr:
  "release_payload s liveness payload = Inr payload' \<Longrightarrow>
     \<exists>proof. classifyReleaseProof s liveness = Some proof \<and> js_get payload' ''release_proof'' = JStr (proof_name proof)"
  by (auto simp: release_payload_def split: option.splits if_splits)

lemma admit_lifecycle_step:
  assumes "admit_lifecycle H repo subj es (prior_digest st) (projectAttempts es) (view (attemptKey att) es) att k payload
      gen tip liveness = Appended e es'"
    and "valid_journal H repo subj es st" and "\<not> informational k"
  shows "journal_step H repo subj es es'"
proof -
  let ?lk = "case view (attemptKey att) es of None \<Rightarrow> None | Some s \<Rightarrow> st_last_kind s"
  from assms(1) obtain g t where legal: "isLegalSuccessor ?lk k"
    and b: "bind_frozen (projectAttempts es) (view (attemptKey att) es) k gen tip = Inr (g, t)"
    and m: "(case (case (k, view (attemptKey att) es) of
                 (ReservationReleased, Some s) \<Rightarrow> release_payload s liveness payload
               | _ \<Rightarrow> Inr payload) of
           Inl (Inl t) \<Rightarrow> Threw t
         | Inl (Inr r) \<Rightarrow> Refused r
         | Inr payload' \<Rightarrow> mint_next H repo subj es (prior_digest st) att g t k payload') = Appended e es'"
    unfolding admit_lifecycle_def Let_def by (auto split: if_split_asm sum.split_asm prod.split_asm)
  have lk: "?lk = last_kind (life (key_events (attemptKey att) es))"
    by (auto simp: view_None view_fields(7) split: option.splits)
  show ?thesis
  proof (cases "k = ReservationClaimed")
    case True
    with b have "unreleased (projectAttempts es) = []"
      by (auto simp: bind_frozen_def split: if_split_asm list.split_asm)
    with True m legal lk assms(2) show ?thesis
      by (auto simp: mint_next_Appended intro: journal_step.Claim)
  next
    case False
    with b obtain s where s: "view (attemptKey att) es = Some s" and gt: "g = st_generation s" "t = st_tip s"
      by (auto simp: bind_frozen_def split: if_split_asm option.split_asm)
    from m s obtain payload' where p: "mint_next H repo subj es (prior_digest st) att g t k payload' = Appended e es'"
      and r: "k = ReservationReleased \<longrightarrow> release_payload s liveness payload = Inr payload'"
      by (auto split: sum.split_asm event_kind.split_asm)
    have "k = ReservationReleased \<longrightarrow> (\<exists>liveness proof. classifyReleaseProof s liveness = Some proof \<and>
       js_get payload' ''release_proof'' = JStr (proof_name proof))"
      using r release_payload_Inr by blast
    then show ?thesis
      using journal_step.Advance [OF assms(2) s assms(3) False] legal p
      unfolding s gt mint_next_Appended by auto
  qed
qed

lemma admit_step:
  assumes "admitAttemptCommand H repo subj events att kind payload gen tip liveness = Appended e es'"
  shows "\<exists>es. events = JArr es \<and> es' = es @ [e] \<and> journal_step H repo subj es es'"
proof -
  from assms obtain es d k where v: "validateAttemptJournal H repo subj events = Inr (es, d)"
    and k: "event_kind_of kind = Some k"
    by (auto simp: admitAttemptCommand_def Let_def split: sum.split_asm option.split_asm)
  then obtain st where st: "events = JArr es" "valid_journal H repo subj es st" "d = prior_digest st"
    by (auto simp: validateAttemptJournal_Inr valid_journal_def)
  have "journal_step H repo subj es es'"
    using assms v k st(2) unfolding st(3)
    by (auto simp: admitAttemptCommand_def Let_def find_state_view split: if_split_asm
        dest: admit_informational_step admit_lifecycle_step)
  moreover have "es' = es @ [e]"
    using assms v k
    by (auto simp: admitAttemptCommand_def admit_informational_def admit_lifecycle_def Let_def mint_next_Appended
       split: if_split_asm option.split_asm sum.split_asm event_kind.split_asm)
  ultimately show ?thesis using st(1) by blast
qed

section \<open>Reachable journals\<close>

inductive reachable_journal :: "hash \<Rightarrow> jsval \<Rightarrow> jsval \<Rightarrow> jsval list \<Rightarrow> bool" for H repo subj where
  empty: "reachable_journal H repo subj []"
| admit: "reachable_journal H repo subj es \<Longrightarrow>
    admitAttemptCommand H repo subj (JArr es) att kind payload gen tip liveness = Appended e es' \<Longrightarrow>
    reachable_journal H repo subj es'"

text \<open>The event of a step, with what every kind of step guarantees of it.\<close>

lemma step_event:
  assumes "journal_step H repo subj es es'"
  obtains e k st where "es' = es @ [e]" "valid_journal H repo subj es st" "ev_kind e = Some k"
    "isLegalSuccessor (last_kind (life (key_events (ev_key e) es))) k"
    "k = ReservationClaimed \<longrightarrow> unreleased (projectAttempts es) = []"
    "informational k \<longrightarrow> (\<exists>b. event_of_kind PendingPublished (key_events (ev_key e) es) = Some b)"
    "informational k \<longrightarrow> (\<forall>x\<in>set (key_events (ev_key e) es). \<not> identity_matches k (ev_attempt e) (ev_payload e) x)"
    "isValidAttemptTuple (ev_attempt e)"
    "chain_refusal H (prior_digest st) (length es) e = None"
  using assms
proof (cases rule: journal_step.cases)
  case (Claim st att gen tip payload e)
  note f = mint_fields [OF Claim(5)]
  have "ev_key e = attemptKey att" "ev_kind e = Some ReservationClaimed"
    using f(4,9) by (simp_all add: ev_key_def ev_kind_def del: kind_name.simps)
  with Claim f mint_requires(3) [OF Claim(5)] mint_chain [OF Claim(5)] show ?thesis
    by (intro that [of e st ReservationClaimed]) (simp_all)
next
  case (Advance st att s k payload e)
  note f = mint_fields [OF Advance(8)]
  have "ev_key e = attemptKey att" "ev_kind e = Some k"
    using f(4,9) by (simp_all add: ev_key_def ev_kind_def)
  with Advance f mint_requires(3) [OF Advance(8)] mint_chain [OF Advance(8)] show ?thesis
    by (intro that [of e st k]) (simp_all add: view_fields(7))
next
  case (Observe st att s k payload e)
  note f = mint_fields [OF Observe(13)]
  have key: "ev_key e = attemptKey att" "ev_kind e = Some k"
    using f(4,9) by (simp_all add: ev_key_def ev_kind_def)
  have "\<exists>b. event_of_kind PendingPublished (key_events (attemptKey att) es) = Some b"
    using Observe(7) view_fields(1) [OF Observe(3)]
    by (auto simp: retained_binding_def isValidAttemptTuple_def has_exact_keys_def split: option.splits)
  moreover have "isLegalSuccessor (last_kind (life (key_events (attemptKey att) es))) k"
    using Observe(4,5) view_fields(7) [OF Observe(3)] by (simp add: isLegalSuccessor_def)
  moreover have "\<forall>x\<in>set (key_events (attemptKey att) es). \<not> identity_matches k (ev_attempt e) (ev_payload e) x"
    using Observe(11) view_fields(1) [OF Observe(3)] f(4,10)
    by (simp add: find_None_iff identity_matches_def)
  ultimately show ?thesis
    using Observe f key mint_requires(3) [OF Observe(13)] mint_chain [OF Observe(13)]
    by (intro that [of e st k]) (simp_all, use Observe(4) in auto)
qed

text \<open>The lifecycle of each attempt follows the legal successors.\<close>

fun legal_from :: "event_kind option \<Rightarrow> event_kind list \<Rightarrow> bool" where
  "legal_from p [] = True"
| "legal_from p (k # ks) \<longleftrightarrow> isLegalSuccessor p k \<and> legal_from (Some k) ks"

lemma legal_from_snoc:
  "legal_from p (ks @ [k]) \<longleftrightarrow> legal_from p ks \<and> isLegalSuccessor (if ks = [] then p else Some (last ks)) k"
  by (induction p ks rule: legal_from.induct) auto

lemma legal_life_snoc:
  "legal_from None (ks @ [k]) \<longleftrightarrow> legal_from None ks \<and> isLegalSuccessor (last_kind ks) k"
  by (auto simp: legal_from_snoc last_kind_def)

lemma reachable_legal: "reachable_journal H repo subj es \<Longrightarrow> legal_from None (life (key_events key es))"
proof (induction rule: reachable_journal.induct)
  case empty
  then show ?case by (simp add: key_events_def)
next
  case (admit es att kind payload gen tip liveness e es')
  then have "journal_step H repo subj es es'" using admit_step by fastforce
  then obtain e k where "es' = es @ [e]" "ev_kind e = Some k"
    "isLegalSuccessor (last_kind (life (key_events (ev_key e) es))) k"
    by (rule step_event)
  with admit.IH show ?case by (auto simp: key_events_snoc legal_life_snoc)
qed


text \<open>Where a legal lifecycle can be when it takes a step: the claim is the first event, the pending
  envelope the second, the spawn the fourth, and nothing follows the release.\<close>

lemma unique_predecessor:
  "ReservationClaimed \<notin> set (legal_successors x)"
  "PendingPublished \<in> set (legal_successors x) \<longleftrightarrow> x = ReservationClaimed"
  "SupervisorBound \<in> set (legal_successors x) \<longleftrightarrow> x = PendingPublished"
  "SpawnStarted \<in> set (legal_successors x) \<longleftrightarrow> x = SupervisorBound"
  "ReservationReleased \<in> set (legal_successors x) \<longleftrightarrow> x = AttemptTerminal"
  by (cases x; simp)+

lemma legal_predecessor:
  assumes "legal_from None (ks @ [k])" and "\<not> informational k"
  shows "legal_from None ks \<and> (if ks = [] then k = ReservationClaimed else k \<in> set (legal_successors (last ks)))"
  using assms by (simp add: legal_life_snoc isLegalSuccessor_def last_kind_def split: if_splits)

lemma legal_claim_first: "legal_from None (ks @ [ReservationClaimed]) \<Longrightarrow> ks = []"
  using legal_predecessor [of ks ReservationClaimed] by (simp add: unique_predecessor split: if_splits)

lemma legal_pending_second:
  assumes "legal_from None (ks @ [PendingPublished])"
  shows "ks = [ReservationClaimed]"
  using legal_predecessor [OF assms] legal_claim_first [of "butlast ks"]
  by (cases ks rule: rev_cases) (simp_all add: unique_predecessor)

lemma legal_supervisor_third:
  assumes "legal_from None (ks @ [SupervisorBound])"
  shows "ks = [ReservationClaimed, PendingPublished]"
  using legal_predecessor [OF assms] legal_pending_second [of "butlast ks"]
  by (cases ks rule: rev_cases) (simp_all add: unique_predecessor)

lemma legal_spawn_fourth:
  assumes "legal_from None (ks @ [SpawnStarted])"
  shows "ks = [ReservationClaimed, PendingPublished, SupervisorBound]"
  using legal_predecessor [OF assms] legal_supervisor_third [of "butlast ks"]
  by (cases ks rule: rev_cases) (simp_all add: unique_predecessor)

lemma life_lifecycle: "k \<in> set (life es) \<Longrightarrow> \<not> informational k"
  by (simp add: life_def)

lemma legal_release_last:
  "legal_from p ks \<Longrightarrow> \<forall>k\<in>set ks. \<not> informational k \<Longrightarrow> ReservationReleased \<in> set ks \<Longrightarrow> last ks = ReservationReleased"
proof (induction p ks rule: legal_from.induct)
  case (2 p k ks)
  show ?case
  proof (cases ks)
    case (Cons x xs)
    with 2(2,3) have "k \<noteq> ReservationReleased" by (auto simp: isLegalSuccessor_def)
    with 2 Cons show ?thesis by auto
  qed (use 2 in simp)
qed simp

section \<open>At most one open reservation\<close>

definition open_attempt :: "string \<Rightarrow> jsval list \<Rightarrow> bool" where
  "open_attempt key es \<longleftrightarrow> (\<exists>s. view key es = Some s \<and> st_released s = None)"

lemma open_attempt_iff:
  "open_attempt key es \<longleftrightarrow> key_events key es \<noteq> [] \<and> ReservationReleased \<notin> set (life (key_events key es))"
  by (metis open_attempt_def option.exhaust view_None view_fields(2,8))

lemma open_in_unreleased: "open_attempt key es \<longleftrightarrow> key \<in> st_key ` set (unreleased (projectAttempts es))"
  by (auto simp: open_attempt_def unreleased_def in_project_iff view_key image_iff) (metis view_key)

lemma open_attempt_snoc:
  assumes "ev_kind e = Some k" and "legal_from None (life (key_events (ev_key e) es))"
    and "isLegalSuccessor (last_kind (life (key_events (ev_key e) es))) k" and "open_attempt key (es @ [e])"
  shows "open_attempt key es \<or> (key = ev_key e \<and> k = ReservationClaimed)"
proof (cases "key = ev_key e \<and> k \<noteq> ReservationClaimed")
  case True
  let ?ks = "life (key_events (ev_key e) es)"
  from assms(3) True have "?ks \<noteq> []" by (auto simp: isLegalSuccessor_def split: if_splits)
  then have "key_events (ev_key e) es \<noteq> []" by auto
  moreover have "ReservationReleased \<notin> set ?ks"
    using assms(1,4) True by (auto simp: open_attempt_iff key_events_snoc)
  ultimately show ?thesis using True by (simp add: open_attempt_iff)
next
  case False
  with assms(4) show ?thesis by (auto simp: open_attempt_iff key_events_snoc split: if_split_asm)
qed

lemma reachable_step:
  "reachable_journal H repo subj es \<Longrightarrow>
    admitAttemptCommand H repo subj (JArr es) att kind payload gen tip liveness = Appended e es' \<Longrightarrow>
    journal_step H repo subj es es'"
  using admit_step by fastforce

lemma reachable_one_open:
  "reachable_journal H repo subj es \<Longrightarrow> open_attempt k1 es \<Longrightarrow> open_attempt k2 es \<Longrightarrow> k1 = k2"
proof (induction arbitrary: k1 k2 rule: reachable_journal.induct)
  case empty
  then show ?case by (simp add: open_attempt_iff key_events_def)
next
  case (admit es att kind payload gen tip liveness e0 es')
  from reachable_step [OF admit.hyps] obtain e k where e: "es' = es @ [e]" "ev_kind e = Some k"
    "isLegalSuccessor (last_kind (life (key_events (ev_key e) es))) k"
    and claim: "k = ReservationClaimed \<longrightarrow> unreleased (projectAttempts es) = []"
    by (rule step_event)
  note snoc = open_attempt_snoc [OF e(2) reachable_legal [OF admit.hyps(1)] e(3)]
  have "open_attempt k1 es \<or> (k1 = ev_key e \<and> k = ReservationClaimed)"
    "open_attempt k2 es \<or> (k2 = ev_key e \<and> k = ReservationClaimed)"
    using admit.prems snoc unfolding e(1) by blast+
  with claim admit.IH show ?case by (auto simp: open_in_unreleased)
qed

lemma length_le_one:
  assumes "distinct xs" and "\<And>a b. a \<in> set xs \<Longrightarrow> b \<in> set xs \<Longrightarrow> a = b"
  shows "length xs \<le> 1"
proof -
  have "card (set xs) \<le> 1" using assms(2) card_le_Suc0_iff_eq [OF finite_set, of xs] by (metis One_nat_def)
  with distinct_card [OF assms(1)] show ?thesis by simp
qed

lemma reachable_one_unreleased:
  assumes "reachable_journal H repo subj es"
  shows "length (unreleased (projectAttempts es)) \<le> 1"
proof -
  let ?ks = "map st_key (unreleased (projectAttempts es))"
  have "distinct ?ks"
    using project_distinct [of es] unfolding unreleased_def by (rule distinct_map_filter)
  moreover have "a = b" if "a \<in> set ?ks" "b \<in> set ?ks" for a b
    using that reachable_one_open [OF assms] by (simp add: open_in_unreleased)
  ultimately have "length ?ks \<le> 1" by (rule length_le_one)
  then show ?thesis by simp
qed

section \<open>Each publication happens once\<close>

definition kind_count :: "event_kind \<Rightarrow> jsval list \<Rightarrow> nat" where
  "kind_count k es = length (filter (\<lambda>e. ev_kind e = Some k) es)"

lemma kind_count_life: "\<not> informational k \<Longrightarrow> k \<in> set (life es) \<longleftrightarrow> 0 < kind_count k es"
  by (induction es) (auto simp: kind_count_def split: option.splits if_splits)

lemma find_append: "find P (xs @ ys) = (case find P xs of None \<Rightarrow> find P ys | Some x \<Rightarrow> Some x)"
  by (induction xs) simp_all

lemma find_rev_unique:
  "length (filter P xs) \<le> 1 \<Longrightarrow> find P (rev xs) = find P xs"
proof (induction xs)
  case (Cons x xs)
  show ?case
  proof (cases "P x")
    case True
    with Cons.prems have "find P (rev xs) = None" by (simp add: find_None_iff filter_empty_conv)
    with True show ?thesis by (simp add: find_append)
  next
    case False
    with Cons show ?thesis by (simp add: find_append split: option.split)
  qed
qed simp

lemma event_of_kind_rev: "kind_count k es \<le> 1 \<Longrightarrow> event_of_kind k (rev es) = event_of_kind k es"
  unfolding kind_count_def event_of_kind_def by (rule find_rev_unique)

lemma key_events_valid:
  assumes "valid_journal H repo subj es st" and "x \<in> set (key_events key es)"
  shows "isValidAttemptTuple (ev_attempt x)" and "ev_key x = key"
  using assms valid_journal_event by (auto simp: key_events_def)

lemma same_key_sameAttempt:
  "valid_journal H repo subj es st \<Longrightarrow> x \<in> set (key_events (attemptKey t) es) \<Longrightarrow> isValidAttemptTuple t \<Longrightarrow>
     sameAttempt (ev_attempt x) t"
  using key_events_valid [of H repo subj es st x] attemptKey_eq_iff [of "ev_attempt x" t]
  by (simp add: ev_key_def)

text \<open>The pending envelope, the result and the original of an attempt are recorded at most once, and
  evidence is recorded only after the pending envelope.\<close>

definition published_once :: "jsval list \<Rightarrow> bool" where
  "published_once xs \<longleftrightarrow> kind_count PendingPublished xs \<le> 1 \<and> kind_count RunResultRecorded xs \<le> 1 \<and>
     kind_count RunOriginalRecorded xs \<le> 1 \<and>
     (PendingPublished \<notin> set (life xs) \<longrightarrow> kind_count RunOriginalRecorded xs = 0)"

lemma kind_count_snoc:
  "kind_count k (es @ [e]) = kind_count k es + (if ev_kind e = Some k then 1 else 0)"
  by (simp add: kind_count_def)

lemma once_kind_fresh:
  assumes "k = RunResultRecorded \<or> k = RunOriginalRecorded" and "valid_journal H repo subj es st"
    and "isValidAttemptTuple (ev_attempt e)"
    and "\<forall>x\<in>set (key_events (ev_key e) es). \<not> identity_matches k (ev_attempt e) (ev_payload e) x"
  shows "kind_count k (key_events (ev_key e) es) = 0"
proof -
  have "ev_kind x \<noteq> Some k" if x: "x \<in> set (key_events (ev_key e) es)" for x
    using assms(1,4) x same_key_sameAttempt [OF assms(2) x [unfolded ev_key_def] assms(3)]
    by (auto simp: identity_matches_def)
  then show ?thesis by (simp add: kind_count_def filter_empty_conv)
qed

lemma published_once_step:
  assumes "journal_step H repo subj es es'" and "\<And>key. legal_from None (life (key_events key es))"
    and "\<And>key. published_once (key_events key es)"
  shows "published_once (key_events key es')"
proof -
  from assms(1) obtain e k st where e: "es' = es @ [e]" "valid_journal H repo subj es st" "ev_kind e = Some k"
    "isLegalSuccessor (last_kind (life (key_events (ev_key e) es))) k"
    and obs: "informational k \<longrightarrow> (\<exists>b. event_of_kind PendingPublished (key_events (ev_key e) es) = Some b)"
    "informational k \<longrightarrow> (\<forall>x\<in>set (key_events (ev_key e) es). \<not> identity_matches k (ev_attempt e) (ev_payload e) x)"
    "isValidAttemptTuple (ev_attempt e)"
    by (rule step_event)
  let ?xs = "key_events (ev_key e) es"
  have pend: "0 < kind_count PendingPublished ?xs" if "informational k"
    using obs(1) that by (auto simp: event_of_kind_def kind_count_def filter_empty_conv find_Some_iff)
  have first: "kind_count PendingPublished ?xs = 0" if "k = PendingPublished"
    using legal_pending_second [of "life ?xs"] e(4) assms(2) that kind_count_life [of PendingPublished ?xs]
    by (simp add: legal_life_snoc)
  have fresh: "kind_count k ?xs = 0" if "k = RunResultRecorded \<or> k = RunOriginalRecorded"
    using once_kind_fresh [OF that e(2) obs(3)] obs(2) that by auto
  show ?thesis
    using assms(3) [of key] pend first fresh e(3) kind_count_life [of PendingPublished ?xs]
    by (auto simp: e(1) key_events_snoc published_once_def kind_count_snoc)
qed

lemma reachable_published_once: "reachable_journal H repo subj es \<Longrightarrow> published_once (key_events key es)"
proof (induction arbitrary: key rule: reachable_journal.induct)
  case empty
  then show ?case by (simp add: key_events_def published_once_def kind_count_def)
next
  case (admit es att kind payload gen tip liveness e es')
  then show ?case
    using published_once_step [OF reachable_step [OF admit.hyps] reachable_legal [OF admit.hyps(1)]] by blast
qed

section \<open>Admission keeps the journal valid\<close>

lemma valid_append:
  assumes "valid_journal H repo subj es st"
    and "mintAttemptEvent H repo subj att (JInt (int (length es))) (prior_digest st) gen tip
      (JStr (kind_name k)) payload = Inr e"
    and "k = RunResultRecorded \<longrightarrow> isValidAttemptTuple (js_get payload ''dispatch_tuple'') \<and> run_result_payload_ok H payload"
    and "\<not> observation_invalid k payload"
    and "freeze_event (frozen st) (length es) e = Inr fr"
    and "publish_event (published (key_events (ev_key e) es)) e = Inr p"
  shows "\<exists>st'. valid_journal H repo subj (es @ [e]) st'"
proof -
  have "validate_event H repo subj (length es) st e =
      Inr \<lparr>prior_digest = ev_digest e, frozen = fr, publications = (publications st)(ev_key e \<mapsto> p)\<rparr>"
    using assms(3,5,6) mint_chain [OF assms(2)] mint_envelope [OF assms(2) _ assms(4)]
      publications_last [OF assms(1)] by (auto simp: validate_event_Inr)
  with assms(1) show ?thesis unfolding valid_journal_snoc by blast
qed

lemma claim_fresh:
  assumes "valid_journal H repo subj es st"
    and "isLegalSuccessor (last_kind (life (key_events key es))) ReservationClaimed"
  shows "key_events key es = []"
proof (rule ccontr)
  assume "key_events key es \<noteq> []"
  then obtain x xs where x: "key_events key es = x # xs" by (cases "key_events key es") auto
  with frozen_keys [OF assms(1), of key] have "life (key_events key es) \<noteq> []" by (simp add: frozen_log_def)
  with assms(2) show False by (simp add: isLegalSuccessor_def last_kind_def unique_predecessor)
qed

lemma freeze_repeat:
  assumes "valid_journal H repo subj es st" and "view (ev_key e) es = Some s"
    and "ev_kind e \<noteq> Some ReservationClaimed" and "ev_generation e = st_generation s" and "ev_tip e = st_tip s"
    and "is_nonempty_string (ev_generation e)" and "is_nonempty_string (ev_tip e)"
  shows "freeze_event (frozen st) i e = Inr (frozen st)"
proof -
  obtain x xs where x: "key_events (ev_key e) es = x # xs"
    using view_fields(2) [OF assms(2)] by (cases "key_events (ev_key e) es") auto
  with frozen_keys [OF assms(1), of "ev_key e"] have "frozen st (ev_key e) = Some (ev_generation x, ev_tip x)"
    by (simp add: frozen_pair_def)
  with x assms view_fields(4,5) [OF assms(2)] show ?thesis
    by (auto simp: freeze_event_Inr is_nonempty_string_iff)
qed

lemma no_event_of_kind: "kind_count k es = 0 \<Longrightarrow> event_of_kind k es = None \<and> event_of_kind k (rev es) = None"
  by (auto simp: kind_count_def event_of_kind_def find_None_iff filter_empty_conv)

text \<open>In a valid journal no original comes before the pending envelope.\<close>

lemma original_after_pending:
  assumes "valid_journal H repo subj es st" and "kind_count PendingPublished (key_events key es) = 0"
  shows "kind_count RunOriginalRecorded (key_events key es) = 0"
  using assms
proof (induction es arbitrary: st rule: rev_induct)
  case Nil
  then show ?case by (simp add: key_events_def kind_count_def)
next
  case (snoc e es)
  from snoc.prems(1) obtain st0 p where v: "valid_journal H repo subj es st0"
    and p: "publish_event (publication_of st0 (ev_key e)) e = Inr p"
    by (auto simp: valid_journal_snoc validate_event_Inr)
  have none: "kind_count PendingPublished (key_events key es) = 0"
    using snoc.prems(2) by (auto simp: key_events_snoc kind_count_snoc split: if_splits)
  moreover have "ev_kind e \<noteq> Some RunOriginalRecorded" if "ev_key e = key"
  proof
    assume "ev_kind e = Some RunOriginalRecorded"
    then have "isValidAttemptTuple (last_binding (key_events key es))"
      using p publications_last [OF v, of key] that
      by (auto simp: publish_event_def published_def runOriginalRefusal_def split: if_splits)
    then show False
      using no_event_of_kind [OF none] by (simp add: last_binding_def isValidAttemptTuple_def has_exact_keys_def)
  qed
  ultimately show ?case using snoc.IH [OF v] by (simp add: key_events_snoc kind_count_snoc)
qed

lemma claim_is_first:
  assumes "frozen_log xs" and "last_kind (life xs) = Some ReservationClaimed"
  shows "life xs = [ReservationClaimed]"
proof -
  obtain x r where x: "xs = x # r" using assms(2) by (cases xs) (auto simp: last_kind_def)
  then have "life xs = ReservationClaimed # life r" "\<forall>e\<in>set r. ev_kind e \<noteq> Some ReservationClaimed"
    using assms(1) by (auto simp: frozen_log_def list_all_iff)
  moreover from this(2) have "ReservationClaimed \<notin> set (life r)"
    by (induction r) (auto split: option.splits)
  ultimately show ?thesis using assms(2) by (cases "life r" rule: rev_cases) (auto simp: last_kind_def)
qed

lemma publish_lifecycle:
  assumes "valid_journal H repo subj es st" and "ev_kind e = Some k" and "\<not> informational k" and "xs = key_events key es"
    and "isLegalSuccessor (last_kind (life xs)) k"
  shows "\<exists>p. publish_event (published xs) e = Inr p"
proof (cases "k = PendingPublished")
  case True
  with assms(5) have "last_kind (life xs) = Some ReservationClaimed"
    by (auto simp: isLegalSuccessor_def unique_predecessor last_kind_def split: if_splits)
  with claim_is_first frozen_keys [OF assms(1)] assms(4) have "life xs = [ReservationClaimed]" by blast
  then have "kind_count PendingPublished xs = 0" using kind_count_life [of PendingPublished xs] by simp
  with original_after_pending [OF assms(1)] assms(4) have "kind_count RunOriginalRecorded xs = 0" by simp
  with True assms(2) show ?thesis by (simp add: publish_event_def published_def last_payload_def no_event_of_kind)
next
  case False
  with assms(2,3) show ?thesis by (cases k) (simp_all add: publish_event_def)
qed

lemma run_original_refusal_nullish:
  "nullish a \<Longrightarrow> nullish b \<Longrightarrow> runOriginalRefusal p r a t = runOriginalRefusal p r b t"
  "nullish a \<Longrightarrow> nullish b \<Longrightarrow> runOriginalRefusal p a w t = runOriginalRefusal p b w t"
  by (simp_all add: runOriginalRefusal_def)

text \<open>The binding and the result of an attempt were each published once.\<close>

definition single_publication :: "jsval list \<Rightarrow> bool" where
  "single_publication xs \<longleftrightarrow> kind_count PendingPublished xs \<le> 1 \<and> kind_count RunResultRecorded xs \<le> 1"

lemma publish_observation:
  assumes "ev_kind e = Some k" and "informational k" and "k = RunOriginalRecorded \<longrightarrow> single_publication xs"
    and "kind_count k xs = 0 \<or> (k \<noteq> RunResultRecorded \<and> k \<noteq> RunOriginalRecorded)"
    and "isValidAttemptTuple b"
    and "k = RunOriginalRecorded \<longrightarrow>
      runOriginalRefusal (ev_payload e) (payload_of (event_of_kind RunResultRecorded xs)) JUndef b = None"
    and "b = (case event_of_kind PendingPublished xs of None \<Rightarrow> JNull | Some e \<Rightarrow> js_or_nullish (ev_dispatch_tuple e) JNull)"
  shows "\<exists>p. publish_event (published xs) e = Inr p"
proof (cases "k = RunOriginalRecorded")
  case True
  then have single: "kind_count PendingPublished xs \<le> 1" "kind_count RunResultRecorded xs \<le> 1"
    using assms(3) by (simp_all add: single_publication_def)
  have "\<not> nullish b" using assms(5) by (auto simp: nullish_def isValidAttemptTuple_def has_exact_keys_def)
  then have b: "last_binding xs = b"
    using event_of_kind_rev [OF single(1)] unfolding assms(7)
    by (auto simp: last_binding_def js_or_nullish_def nullish_def split: option.splits if_splits)
  have r: "runOriginalRefusal q (last_payload RunResultRecorded xs) w t =
      runOriginalRefusal q (payload_of (event_of_kind RunResultRecorded xs)) w t" for q w t
    using event_of_kind_rev [OF single(2)] run_original_refusal_nullish(2) [of JNull JUndef]
    by (auto simp: last_payload_def payload_of_def nullish_def split: option.splits)
  have "last_payload RunOriginalRecorded xs = JNull" using True assms(4) by (auto simp: last_payload_def no_event_of_kind)
  with True assms(1,6) b r run_original_refusal_nullish(1) [of JNull JUndef] show ?thesis
    by (auto simp: publish_event_def published_def nullish_def)
next
  case False
  moreover have "k = RunResultRecorded \<Longrightarrow> last_payload k xs = JNull" using assms(4) by (auto simp: last_payload_def no_event_of_kind)
  ultimately show ?thesis using assms(1,2) by (cases k) (simp_all add: publish_event_def published_def)
qed

text \<open>A step keeps a valid journal valid, however the journal came about, unless it records an original for an attempt that
  published its binding or its result twice: admission compares an original with the first of them, validation with the last.\<close>

lemma step_valid:
  assumes "journal_step H repo subj es es'"
    and "\<And>e. es' = es @ [e] \<Longrightarrow> ev_kind e = Some RunOriginalRecorded \<Longrightarrow> single_publication (key_events (ev_key e) es)"
  shows "\<exists>st'. valid_journal H repo subj es' st'"
  using assms(1)
proof (cases rule: journal_step.cases)
  case (Claim st att gen tip payload e)
  note f = mint_fields [OF Claim(5)]
  have key: "ev_key e = attemptKey att" "ev_kind e = Some ReservationClaimed"
    using f(4,9) by (simp_all add: ev_key_def ev_kind_def del: kind_name.simps)
  have "frozen st (ev_key e) = None"
    using claim_fresh [OF Claim(2,3)] frozen_keys [OF Claim(2), of "ev_key e"] key(1) by (simp add: frozen_pair_def)
  then have "freeze_event (frozen st) (length es) e = Inr ((frozen st)(ev_key e \<mapsto> (ev_generation e, ev_tip e)))"
    using key(2) by (simp add: freeze_event_Inr)
  moreover have "publish_event (published (key_events (ev_key e) es)) e = Inr (published (key_events (ev_key e) es))"
    using key(2) by (simp add: publish_event_def)
  ultimately show ?thesis
    unfolding Claim(1) by (intro valid_append [OF Claim(2,5)]) (simp_all add: observation_invalid_def)
next
  case (Advance st att s k payload e)
  note f = mint_fields [OF Advance(8)] and r = mint_requires [OF Advance(8)]
  have key: "ev_key e = attemptKey att" "ev_kind e = Some k"
    using f(4,9) by (simp_all add: ev_key_def ev_kind_def)
  have "freeze_event (frozen st) (length es) e = Inr (frozen st)"
    using Advance(3,5) f(7,8) r(4,5) by (intro freeze_repeat [OF Advance(2)]) (simp_all add: key)
  moreover obtain p where "publish_event (published (key_events (ev_key e) es)) e = Inr p"
    using publish_lifecycle [OF Advance(2) key(2) Advance(4) refl] Advance(6) view_fields(7) [OF Advance(3)] key(1)
    by metis
  moreover have "k \<noteq> RunResultRecorded" "\<not> observation_invalid k payload"
    using Advance(4) by (cases k; simp add: observation_invalid_def)+
  ultimately show ?thesis
    unfolding Advance(1) by (intro valid_append [OF Advance(2,8)]) simp_all
next
  case (Observe st att s k payload e)
  note f = mint_fields [OF Observe(13)] and r = mint_requires [OF Observe(13)]
  have key: "ev_key e = attemptKey att" "ev_kind e = Some k"
    using f(4,9) by (simp_all add: ev_key_def ev_kind_def)
  have ev: "st_events s = key_events (ev_key e) es" using view_fields(1) [OF Observe(3)] key(1) by simp
  have "freeze_event (frozen st) (length es) e = Inr (frozen st)"
    using Observe(3,4) f(7,8) r(4,5) by (intro freeze_repeat [OF Observe(2)]) (auto simp: key)
  moreover have "kind_count k (key_events (ev_key e) es) = 0" if "k = RunResultRecorded \<or> k = RunOriginalRecorded"
    using Observe(11) f(4,10) r(3) ev
    by (intro once_kind_fresh [OF that Observe(2)]) (simp_all add: find_None_iff identity_matches_def)
  then obtain p where "publish_event (published (key_events (ev_key e) es)) e = Inr p"
    using publish_observation [OF key(2) Observe(4) _ _ Observe(7)] assms(2) [OF Observe(1)] Observe(12) f(10) key(2)
    by (auto simp: retained_binding_def ev)
  ultimately show ?thesis
    unfolding Observe(1) using Observe(6,9,10) by (intro valid_append [OF Observe(2,13)]) simp_all
qed

lemma published_once_single: "published_once xs \<Longrightarrow> single_publication xs"
  by (simp add: published_once_def single_publication_def)

lemma reachable_valid: "reachable_journal H repo subj es \<Longrightarrow> \<exists>st. valid_journal H repo subj es st"
proof (induction rule: reachable_journal.induct)
  case (admit es att kind payload gen tip liveness e es')
  show ?case
    by (rule step_valid [OF reachable_step [OF admit.hyps]])
      (rule published_once_single [OF reachable_published_once [OF admit.hyps(1)]])
qed simp

end
