(* ===== verification/JournalProgress.thy ===== *)
theory JournalProgress
  imports JournalReachable
begin

text \<open>
  Progress of the attempt journal: where a legal lifecycle can be, and that every legal command on a
  reachable journal is admitted.
\<close>

section \<open>Lifecycle positions\<close>

lemma legal_running:
  assumes "legal_from None ks" and "\<forall>k\<in>set ks. \<not> informational k"
    and "SpawnStarted \<in> set ks" and "ExecutionTerminated \<notin> set ks"
  shows "last ks = SpawnStarted \<or> last ks = SandboxBound"
  using assms
proof (induction ks rule: rev_induct)
  case (snoc k ks)
  note p = legal_predecessor [OF snoc.prems(1)]
  show ?case
  proof (cases "SpawnStarted \<in> set ks")
    case True
    with snoc p have "last ks = SpawnStarted \<or> last ks = SandboxBound" by simp
    with p snoc.prems(2,4) True show ?thesis by (auto split: if_split_asm)
  next
    case False
    with snoc.prems(3) show ?thesis by simp
  qed
qed simp

lemma legal_terminal:
  assumes "legal_from None ks" and "\<forall>k\<in>set ks. \<not> informational k"
    and "AttemptTerminal \<in> set ks" and "ReservationReleased \<notin> set ks"
  shows "last ks = AttemptTerminal"
  using assms
proof (induction ks rule: rev_induct)
  case (snoc k ks)
  note p = legal_predecessor [OF snoc.prems(1)]
  show ?case
  proof (cases "AttemptTerminal \<in> set ks")
    case True
    with snoc p have "last ks = AttemptTerminal" by simp
    with p snoc.prems(2,4) True show ?thesis by (auto split: if_split_asm)
  next
    case False
    with snoc.prems(3) show ?thesis by simp
  qed
qed simp

lemma life_view:
  assumes "view key es = Some s" and "reachable_journal H repo subj es"
  obtains ks where "ks = life (key_events key es)" "legal_from None ks" "\<forall>k\<in>set ks. \<not> informational k"
    "ks \<noteq> []" "st_kinds s = set ks" "st_last_kind s = Some (last ks)"
    "st_released s = None \<longleftrightarrow> ReservationReleased \<notin> set ks" "st_terminal s = None \<longleftrightarrow> AttemptTerminal \<notin> set ks"
proof -
  let ?ks = "life (key_events key es)"
  note f = view_fields [OF assms(1)]
  obtain st where v: "valid_journal H repo subj es st" using reachable_valid [OF assms(2)] by blast
  have "?ks \<noteq> []"
    using frozen_keys [OF v, of key] f(2) by (cases "key_events key es") (simp_all add: frozen_log_def)
  moreover have "\<forall>k\<in>set ?ks. \<not> informational k" using life_lifecycle by blast
  ultimately show ?thesis
    using f reachable_legal [OF assms(2), of key] by (intro that [of ?ks]) (simp_all add: last_kind_def)
qed

lemma terminal_not_live:
  assumes "reachable_journal H repo subj es" and "view key es = Some s" and "st_terminal s \<noteq> None"
  shows "\<not> isPossiblyLive s"
proof
  assume live: "isPossiblyLive s"
  obtain ks where ks: "ks = life (key_events key es)" "legal_from None ks" "\<forall>k\<in>set ks. \<not> informational k"
    "ks \<noteq> []" "st_kinds s = set ks" "st_last_kind s = Some (last ks)"
    "st_released s = None \<longleftrightarrow> ReservationReleased \<notin> set ks" "st_terminal s = None \<longleftrightarrow> AttemptTerminal \<notin> set ks"
    by (rule life_view [OF assms(2,1)])
  have l: "last ks = SpawnStarted \<or> last ks = SandboxBound"
    using legal_running [OF ks(2,3)] live by (simp add: isPossiblyLive_def ks(5))
  show False
  proof (cases "ReservationReleased \<in> set ks")
    case True
    with legal_release_last [OF ks(2,3)] l show False by simp
  next
    case False
    with legal_terminal [OF ks(2,3)] assms(3) ks(8) l show False by simp
  qed
qed

section \<open>Admission succeeds\<close>

lemma prior_digest_last:
  "valid_journal H repo subj es st \<Longrightarrow> prior_digest st = (if es = [] then JNull else ev_digest (last es))"
  by (induction es rule: rev_induct) (auto simp: valid_journal_snoc validate_event_Inr initial_validation_def)

lemma valid_digest_string:
  assumes "valid_journal H repo subj es st" and "es \<noteq> []"
  shows "is_nonempty_string (prior_digest st)"
proof -
  from assms(2) obtain xs x where es: "es = xs @ [x]" by (cases es rule: rev_cases) auto
  with assms(1) have "ev_digest x = JStr (recomputeDigest H x)"
    using chain_accepts(2) by (auto simp: valid_journal_snoc validate_event_Inr)
  with prior_digest_last [OF assms(1)] es show ?thesis
    by (simp add: recomputeDigest_def digestOf_def)
qed

lemma mint_succeeds:
  assumes "valid_journal H repo subj es st" and "is_nonempty_string repo" and "is_nonempty_string subj"
    and "isValidAttemptTuple att" and "is_nonempty_string gen" and "is_nonempty_string tip"
    and "is_plain_object payload"
  shows "\<exists>e. mint_next H repo subj es (prior_digest st) att gen tip k payload = Appended e (es @ [e])"
  using assms prior_digest_last [OF assms(1)] valid_digest_string [OF assms(1)]
  by (cases "es = []") (simp_all add: mint_next_def mintAttemptEvent_def Let_def)

lemma reachable_binding:
  assumes "reachable_journal H repo subj es" and "es \<noteq> []"
  shows "is_nonempty_string repo \<and> is_nonempty_string subj"
  using assms(1)
proof (cases rule: reachable_journal.cases)
  case (admit es0 att kind payload gen tip liveness e)
  from reachable_step [OF admit(1,2)] show ?thesis
    by (cases rule: journal_step.cases) (auto dest: mint_requires(1,2))
qed (use assms(2) in simp)

lemma view_frozen_strings:
  assumes "valid_journal H repo subj es st" and "view key es = Some s"
  shows "is_nonempty_string (st_generation s)" and "is_nonempty_string (st_tip s)"
proof -
  have "hd (key_events key es) \<in> set es"
    using view_fields(2) [OF assms(2)] by (metis filter_is_subset hd_in_set key_events_def subsetD)
  with valid_journal_event [OF assms(1)] view_fields(4,5) [OF assms(2)]
  show "is_nonempty_string (st_generation s)" "is_nonempty_string (st_tip s)" by auto
qed

lemma admit_unfold:
  assumes "valid_journal H repo subj es st" and "isValidAttemptTuple att"
  shows "admitAttemptCommand H repo subj (JArr es) att (JStr (kind_name k)) payload gen tip liveness =
    (if informational k
     then admit_informational H repo subj es (prior_digest st) (view (attemptKey att) es) att k (js_default (JObj []) payload)
     else admit_lifecycle H repo subj es (prior_digest st) (projectAttempts es) (view (attemptKey att) es) att k
       (js_default (JObj []) payload) (js_default JNull gen) (js_default JNull tip)
       (js_default liveness_indeterminate liveness))"
proof -
  have "validateAttemptJournal H repo subj (JArr es) = Inr (es, prior_digest st)"
    using assms(1) by (simp add: validateAttemptJournal_Inr valid_journal_def)
  then show ?thesis using assms(2) by (simp add: admitAttemptCommand_def Let_def find_state_view)
qed

text \<open>Every legal step of an existing attempt is admitted.\<close>

lemma advance_admitted:
  assumes "reachable_journal H repo subj es" and "isValidAttemptTuple att" and "view (attemptKey att) es = Some s"
    and "\<not> informational k" and "k \<noteq> ReservationClaimed" and "k \<noteq> ReservationReleased"
    and "isLegalSuccessor (st_last_kind s) k" and "is_plain_object payload"
  shows "\<exists>e. admitAttemptCommand H repo subj (JArr es) att (JStr (kind_name k)) payload JUndef JUndef liveness =
    Appended e (es @ [e])"
proof -
  obtain st where v: "valid_journal H repo subj es st" using reachable_valid [OF assms(1)] by blast
  have "es \<noteq> []" using assms(3) by (auto simp: view_def key_events_def)
  then have b: "is_nonempty_string repo" "is_nonempty_string subj" using reachable_binding [OF assms(1)] by auto
  have m: "\<exists>e. mint_next H repo subj es (prior_digest st) att (st_generation s) (st_tip s) k payload = Appended e (es @ [e])"
    by (rule mint_succeeds [OF v b assms(2) view_frozen_strings [OF v assms(3)] assms(8)])
  have bf: "bind_frozen (projectAttempts es) (Some s) k JNull JNull = Inr (st_generation s, st_tip s)"
    using assms(5) by (simp add: bind_frozen_def)
  have "admitAttemptCommand H repo subj (JArr es) att (JStr (kind_name k)) payload JUndef JUndef liveness =
    mint_next H repo subj es (prior_digest st) att (st_generation s) (st_tip s) k payload"
    unfolding admit_unfold [OF v assms(2)] using assms(3-8) bf
    by (cases k) (auto simp: admit_lifecycle_def js_default_def is_plain_object_iff)
  with m show ?thesis by simp
qed

lemma terminal_proof:
  assumes "st_terminal s \<noteq> None" and "\<not> isPossiblyLive s"
  shows "\<exists>pr. classifyReleaseProof s liveness = Some pr"
  using assms by (simp add: classifyReleaseProof_def)

lemma release_admitted:
  assumes "reachable_journal H repo subj es" and "isValidAttemptTuple att" and "view (attemptKey att) es = Some s"
    and "st_terminal s \<noteq> None" and "st_released s = None"
    and "is_plain_object payload" and "js_get payload ''release_proof'' = JUndef"
  shows "\<exists>e. admitAttemptCommand H repo subj (JArr es) att (JStr (kind_name ReservationReleased)) payload JUndef JUndef
    liveness = Appended e (es @ [e])"
proof -
  obtain st where v: "valid_journal H repo subj es st" using reachable_valid [OF assms(1)] by blast
  have "es \<noteq> []" using assms(3) by (auto simp: view_def key_events_def)
  then have b: "is_nonempty_string repo" "is_nonempty_string subj" using reachable_binding [OF assms(1)] by auto
  obtain ks where ks: "ks = life (key_events (attemptKey att) es)" "legal_from None ks" "\<forall>k\<in>set ks. \<not> informational k"
    "ks \<noteq> []" "st_kinds s = set ks" "st_last_kind s = Some (last ks)"
    "st_released s = None \<longleftrightarrow> ReservationReleased \<notin> set ks" "st_terminal s = None \<longleftrightarrow> AttemptTerminal \<notin> set ks"
    by (rule life_view [OF assms(3,1)])
  have legal: "isLegalSuccessor (st_last_kind s) ReservationReleased"
    using legal_terminal [OF ks(2,3)] ks(6-8) assms(4,5) by (simp add: isLegalSuccessor_def)
  let ?l = "js_default liveness_indeterminate liveness"
  obtain pr where p: "classifyReleaseProof s ?l = Some pr"
    using terminal_proof [OF assms(4) terminal_not_live [OF assms(1,3,4)]] by blast
  let ?p = "js_put ''release_proof'' (JStr (proof_name pr)) payload"
  obtain e where m: "mint_next H repo subj es (prior_digest st) att (st_generation s) (st_tip s) ReservationReleased ?p
      = Appended e (es @ [e])"
    using mint_succeeds [OF v b assms(2) view_frozen_strings [OF v assms(3)], of ?p] by auto
  have "release_payload s ?l payload = Inr ?p"
    using p assms(6,7) by (auto simp: release_payload_def js_prop_def nullish_def is_plain_object_iff)
  moreover have "bind_frozen (projectAttempts es) (Some s) ReservationReleased JNull JNull = Inr (st_generation s, st_tip s)"
    by (simp add: bind_frozen_def)
  moreover have "js_default (JObj []) payload = payload" using assms(6) by (auto simp: js_default_def is_plain_object_iff)
  ultimately show ?thesis
    using assms(3) legal m unfolding admit_unfold [OF v assms(2)] by (simp add: admit_lifecycle_def js_default_def)
qed

lemma claim_admitted:
  assumes "reachable_journal H repo subj es" and "is_nonempty_string repo" and "is_nonempty_string subj"
    and "isValidAttemptTuple att" and "view (attemptKey att) es = None" and "unreleased (projectAttempts es) = []"
    and "is_nonempty_string gen" and "is_nonempty_string tip" and "is_plain_object payload"
  shows "\<exists>e. admitAttemptCommand H repo subj (JArr es) att (JStr (kind_name ReservationClaimed)) payload gen tip liveness =
    Appended e (es @ [e])"
proof -
  obtain st where v: "valid_journal H repo subj es st" using reachable_valid [OF assms(1)] by blast
  obtain e where m: "mint_next H repo subj es (prior_digest st) att gen tip ReservationClaimed payload = Appended e (es @ [e])"
    using mint_succeeds [OF v assms(2-4,7-9)] by blast
  have "js_default (JObj []) payload = payload" "js_default JNull gen = gen" "js_default JNull tip = tip"
    using assms(7-9) by (auto simp: js_default_def)
  with m assms(5-8) show ?thesis
    unfolding admit_unfold [OF v assms(4)] by (simp add: admit_lifecycle_def isLegalSuccessor_def bind_frozen_def)
qed

lemma lifecycle_payload_case:
  "k \<noteq> ReservationReleased \<Longrightarrow> (case (k, state) of (ReservationReleased, Some s) \<Rightarrow> f s | _ \<Rightarrow> Inr p) = Inr p"
  by (cases k) simp_all

lemma admit_lifecycle_mints:
  assumes "admit_lifecycle H repo subj es d states state att k payload gen tip liveness = Appended e es'"
  shows "\<exists>g t p. mint_next H repo subj es d att g t k p = Appended e es' \<and> (k \<noteq> ReservationReleased \<longrightarrow> p = payload)"
proof (cases "k = ReservationReleased")
  case True
  with assms show ?thesis
    by (auto simp: admit_lifecycle_def Let_def split: if_split_asm sum.split_asm option.split_asm prod.split_asm)
next
  case False
  with assms show ?thesis
    unfolding admit_lifecycle_def Let_def lifecycle_payload_case [OF False]
    by (auto split: if_split_asm sum.split_asm prod.split_asm)
qed

lemma lifecycle_event:
  assumes "admitAttemptCommand H repo subj events att (JStr (kind_name k)) payload gen tip liveness = Appended e es'"
    and "\<not> informational k"
  shows "ev_kind e = Some k" and "ev_key e = attemptKey att" and "isValidAttemptTuple att"
    and "k \<noteq> ReservationReleased \<Longrightarrow> ev_payload e = js_default (JObj []) payload"
proof -
  let ?p = "js_default (JObj []) payload"
  from assms obtain es d where a: "isValidAttemptTuple att"
    "admit_lifecycle H repo subj es d (projectAttempts es) (find_state (attemptKey att) (projectAttempts es)) att k ?p
       (js_default JNull gen) (js_default JNull tip) (js_default liveness_indeterminate liveness) = Appended e es'"
    by (auto simp: admitAttemptCommand_def Let_def split: sum.split_asm if_split_asm prod.split_asm)
  from admit_lifecycle_mints [OF a(2)] obtain g t p' where m: "mint_next H repo subj es d att g t k p' = Appended e es'"
    and p: "k \<noteq> ReservationReleased \<longrightarrow> p' = ?p"
    by blast
  then have mint: "mintAttemptEvent H repo subj att (JInt (int (length es))) d g t (JStr (kind_name k)) p' = Inr e"
    by (simp add: mint_next_Appended)
  show "ev_kind e = Some k" "ev_key e = attemptKey att" "isValidAttemptTuple att"
    "k \<noteq> ReservationReleased \<Longrightarrow> ev_payload e = ?p"
    using mint_fields(4,9,10) [OF mint] a(1) p by (simp_all add: ev_kind_def ev_key_def)
qed

section \<open>Every legal lifecycle can be recorded\<close>

text \<open>A journal of one attempt with a given lifecycle.\<close>

definition records_life :: "hash \<Rightarrow> jsval \<Rightarrow> jsval \<Rightarrow> jsval \<Rightarrow> event_kind list \<Rightarrow> jsval list \<Rightarrow> bool" where
  "records_life H repo subj att ks es \<longleftrightarrow>
     reachable_journal H repo subj es \<and> key_events (attemptKey att) es = es \<and> life es = ks"

lemma records_life_view:
  assumes "records_life H repo subj att ks es" and "ks \<noteq> []"
  obtains s where "view (attemptKey att) es = Some s" "st_last_kind s = Some (last ks)"
    "st_released s = None \<longleftrightarrow> ReservationReleased \<notin> set ks" "st_terminal s = None \<longleftrightarrow> AttemptTerminal \<notin> set ks"
    "s \<in> set (projectAttempts es)"
proof -
  have r: "key_events (attemptKey att) es = es" "life es = ks" using assms(1) by (auto simp: records_life_def)
  then have "view (attemptKey att) es \<noteq> None" using assms(2) by (auto simp: view_None)
  then obtain s where s: "view (attemptKey att) es = Some s" by blast
  moreover have "s \<in> set (projectAttempts es)" using s view_key [OF s] by (simp add: in_project_iff)
  ultimately show ?thesis
    using view_fields(7-9) [OF s] r assms(2) by (intro that [of s]) (simp_all add: last_kind_def)
qed

lemma records_life_empty:
  assumes "records_life H repo subj att [] es"
  shows "es = []"
proof -
  obtain st where "valid_journal H repo subj es st"
    using assms reachable_valid unfolding records_life_def by blast
  from frozen_keys [OF this, of "attemptKey att"] assms show ?thesis
    by (cases es) (auto simp: records_life_def frozen_log_def)
qed

lemma records_life_snoc:
  assumes "records_life H repo subj att ks es" and "\<not> informational k"
    and "admitAttemptCommand H repo subj (JArr es) att (JStr (kind_name k)) payload gen tip liveness = Appended e (es @ [e])"
  shows "records_life H repo subj att (ks @ [k]) (es @ [e])"
  using assms reachable_journal.admit [OF _ assms(3)] lifecycle_event(1,2) [OF assms(3,2)]
  by (auto simp: records_life_def key_events_snoc)

lemma legal_life_recorded:
  assumes "legal_from None ks" and "\<forall>k\<in>set ks. \<not> informational k"
    and "is_nonempty_string repo" and "is_nonempty_string subj" and "isValidAttemptTuple att"
    and "is_nonempty_string gen" and "is_nonempty_string tip"
  shows "\<exists>es. records_life H repo subj att ks es"
  using assms(1,2)
proof (induction ks rule: rev_induct)
  case Nil
  have "records_life H repo subj att [] []"
    by (simp add: records_life_def key_events_def reachable_journal.empty)
  then show ?case by blast
next
  case (snoc k ks)
  have k: "\<not> informational k" using snoc.prems(2) by simp
  note p = legal_predecessor [OF snoc.prems(1) k]
  obtain es where es: "records_life H repo subj att ks es" using snoc p by auto
  then have r: "reachable_journal H repo subj es" by (simp add: records_life_def)
  have "\<exists>payload gen tip e. admitAttemptCommand H repo subj (JArr es) att (JStr (kind_name k)) payload gen tip JUndef =
      Appended e (es @ [e])"
  proof (cases "ks = []")
    case True
    with es have "es = []" using records_life_empty by blast
    with r claim_admitted [OF r assms(3-5) _ _ assms(6,7), of "JObj []" JUndef] p k True show ?thesis
      by (auto simp: view_None key_events_def unreleased_def simp del: kind_name.simps)
  next
    case False
    obtain s where s: "view (attemptKey att) es = Some s" "st_last_kind s = Some (last ks)"
      "st_released s = None \<longleftrightarrow> ReservationReleased \<notin> set ks" "st_terminal s = None \<longleftrightarrow> AttemptTerminal \<notin> set ks"
      by (rule records_life_view [OF es False])
    have legal: "k \<in> set (legal_successors (last ks))" using p False by simp
    show ?thesis
    proof (cases "k = ReservationReleased")
      case True
      with legal have l: "last ks = AttemptTerminal" by (simp add: unique_predecessor)
      have "AttemptTerminal \<in> set ks" using l False last_in_set [of ks] by simp
      moreover have "ReservationReleased \<notin> set ks"
        using legal_release_last [of None ks] p snoc.prems(2) l by auto
      ultimately have "st_terminal s \<noteq> None" "st_released s = None" using s(3,4) by simp_all
      from release_admitted [OF r assms(5) s(1) this, of "JObj []" JUndef] True show ?thesis
        by (auto simp del: kind_name.simps)
    next
      case False
      moreover have "k \<noteq> ReservationClaimed" using legal unique_predecessor by auto
      moreover have "isLegalSuccessor (st_last_kind s) k" using legal k s(2) by (simp add: isLegalSuccessor_def)
      ultimately show ?thesis
        using advance_admitted [OF r assms(5) s(1) k, of "JObj []" JUndef] by auto
    qed
  qed
  then show ?case using records_life_snoc [OF es k] by blast
qed

end
