(* ===== verification/HashChain.thy ===== *)
theory HashChain
  imports Main
begin

text \<open>
  The interface of an append-only log whose entries are linked by digests. Each entry has a content;
  the log has a tip. The provider promises that a well-formed log extends a well-formed log, that the
  content of an entry names the tip before it, and that the tip after an entry is the digest of its
  content. The client lemma: when the digest is collision-free on the contents of two logs, equal tips
  mean equal contents, entry by entry.
\<close>

locale hash_chain =
  fixes ok :: "'e list \<Rightarrow> bool"
    and tip :: "'e list \<Rightarrow> 'd"
    and content :: "'e \<Rightarrow> 'c"
    and digest :: "'c \<Rightarrow> 'd"
    and link :: "'c \<Rightarrow> 'd"
    and start :: 'd
  assumes tip_Nil: "tip [] = start"
    and ok_snoc: "ok (es @ [e]) \<Longrightarrow> ok es \<and> link (content e) = tip es"
    and tip_snoc: "ok (es @ [e]) \<Longrightarrow> tip (es @ [e]) = digest (content e)"
    and digest_not_start: "digest c \<noteq> start"
begin

lemma tip_empty: "ok es \<Longrightarrow> tip es = start \<longleftrightarrow> es = []"
  using tip_Nil tip_snoc digest_not_start by (cases es rule: rev_cases) auto

lemma chain_contents:
  assumes "ok es" and "ok fs" and "inj_on digest (content ` (set es \<union> set fs))" and "tip es = tip fs"
  shows "map content es = map content fs"
  using assms
proof (induction es arbitrary: fs rule: rev_induct)
  case Nil
  then have "tip fs = start" using tip_Nil by simp
  with tip_empty [OF Nil(2)] show ?case by simp
next
  case (snoc e es)
  have "tip (es @ [e]) \<noteq> start" using tip_empty [OF snoc.prems(1)] by simp
  then have "fs \<noteq> []" using snoc.prems(4) tip_Nil by auto
  then obtain gs f where fs: "fs = gs @ [f]" by (cases fs rule: rev_cases) auto
  have d: "digest (content e) = digest (content f)"
    using tip_snoc [OF snoc.prems(1)] tip_snoc [of gs f] snoc.prems(2,4) unfolding fs by simp
  have c: "content e = content f"
    by (rule inj_onD [OF snoc.prems(3) d]) (simp_all add: fs)
  moreover have "map content es = map content gs"
  proof (rule snoc.IH)
    show "ok es" "ok gs" using ok_snoc snoc.prems(1,2) fs by blast+
    show "inj_on digest (content ` (set es \<union> set gs))"
      using snoc.prems(3) unfolding fs by (rule inj_on_subset) auto
    show "tip es = tip gs" using ok_snoc [OF snoc.prems(1)] ok_snoc [of gs f] snoc.prems(2) c fs by simp
  qed
  ultimately show ?case by (simp add: fs)
qed

lemma tamper_detected:
  assumes "ok es" and "ok fs" and "inj_on digest (content ` (set es \<union> set fs))"
    and "map content es \<noteq> map content fs"
  shows "tip es \<noteq> tip fs"
  using assms chain_contents by blast

end

end
