(* ===== verification/JournalProperties.thy ===== *)
theory JournalProperties
  imports JournalProgress HashChain
begin

text \<open>
  The properties of the attempt journal: validity is kept, reservations are exclusive, lifecycles are
  legal, the chain of digests makes a journal tamper evident, releases are safe and always possible, and
  the reducer proposes commands that are admitted. The interpretation \<open>jc\<close> shows that the journal is a
  hash chain.
\<close>

section \<open>The journal is a hash chain\<close>

definition json_journal :: "hash \<Rightarrow> jsval \<Rightarrow> jsval \<Rightarrow> jsval list \<Rightarrow> bool" where
  "json_journal H repo subj es \<longleftrightarrow> (\<exists>st. valid_journal H repo subj es st) \<and> list_all json_value es"

definition journal_tip :: "jsval list \<Rightarrow> jsval" where
  "journal_tip es = (if es = [] then JNull else ev_digest (last es))"

text \<open>What the digest of an event covers.\<close>

definition event_content :: "jsval \<Rightarrow> jsval" where
  "event_content e = canonicalize (unsigned_part e)"

definition content_digest :: "hash \<Rightarrow> jsval \<Rightarrow> jsval" where
  "content_digest H c = JStr (''sha256:'' @ H (json_text c))"

lemma unsigned_json_value: "json_value e \<Longrightarrow> json_value (unsigned_part e)"
  by (cases e) (auto simp: obj_remove_def distinct_map_filter)

lemma recompute_content: "json_value e \<Longrightarrow> JStr (recomputeDigest H e) = content_digest H (event_content e)"
  using canonicalJson_text [OF unsigned_json_value, of e]
  by (simp add: recomputeDigest_def digestOf_def content_digest_def event_content_def or_null_text_def)

lemma unsigned_get: "is_plain_object e \<Longrightarrow> k \<noteq> ''digest'' \<Longrightarrow> js_get (unsigned_part e) k = js_get e k"
  by (auto simp: is_plain_object_iff obj_get_remove)

lemma content_get:
  assumes "json_value e" and "is_plain_object e" and "k \<noteq> ''digest''" and "k \<noteq> ''__proto__''"
  shows "js_get (event_content e) k = canonicalize (js_get e k)"
proof -
  have "distinct (own_keys (unsigned_part e))"
    using unsigned_json_value [OF assms(1)] assms(2) by (auto simp: is_plain_object_iff)
  with assms show ?thesis by (simp add: event_content_def canonicalize_get unsigned_get)
qed

lemma journal_tip_string: "valid_journal H repo subj es st \<Longrightarrow> canonicalize (journal_tip es) = journal_tip es"
  using valid_digest_string [of H repo subj es st] prior_digest_last [of H repo subj es st]
  by (auto simp: journal_tip_def is_nonempty_string_iff)

interpretation jc: hash_chain "json_journal H repo subj" journal_tip event_content "content_digest H"
  "\<lambda>c. js_get c ''prior_digest''" JNull for H repo subj
proof
  show "journal_tip [] = JNull" by (simp add: journal_tip_def)
  show "content_digest H c \<noteq> JNull" for c by (simp add: content_digest_def)
next
  fix es e
  assume "json_journal H repo subj (es @ [e])"
  then obtain st0 st where v: "valid_journal H repo subj es st0" and j: "list_all json_value es" "json_value e"
    and e: "envelope_refusal H repo subj (length es) e = None" "chain_refusal H (prior_digest st0) (length es) e = None"
    by (auto simp: json_journal_def valid_journal_snoc validate_event_Inr)
  note o = has_exact_keysD [OF envelope_accepts(1) [OF e(1)]]
  have "js_get (event_content e) ''prior_digest'' = canonicalize (js_get e ''prior_digest'')"
    using content_get [OF j(2) o] by simp
  also have "\<dots> = journal_tip es"
    using chain_accepts(1) [OF e(2)] prior_digest_last [OF v] journal_tip_string [OF v] by (simp add: journal_tip_def)
  finally show "json_journal H repo subj es \<and> js_get (event_content e) ''prior_digest'' = journal_tip es"
    using v j by (auto simp: json_journal_def)
  show "journal_tip (es @ [e]) = content_digest H (event_content e)"
    using chain_accepts(2) [OF e(2)] recompute_content [OF j(2)] by (simp add: journal_tip_def)
qed

section \<open>Running commands\<close>

text \<open>A command with its arguments, and the journal that a sequence of admitted commands builds.\<close>

record journal_command =
  jc_attempt :: jsval
  jc_kind :: event_kind
  jc_payload :: jsval
  jc_generation :: jsval
  jc_tip :: jsval
  jc_liveness :: jsval

fun admit_all :: "hash \<Rightarrow> jsval \<Rightarrow> jsval \<Rightarrow> jsval list \<Rightarrow> journal_command list \<Rightarrow> jsval list option" where
  "admit_all H repo subj es [] = Some es"
| "admit_all H repo subj es (c # cs) =
     (case admitAttemptCommand H repo subj (JArr es) (jc_attempt c) (JStr (kind_name (jc_kind c))) (jc_payload c)
        (jc_generation c) (jc_tip c) (jc_liveness c) of
        Appended e es' \<Rightarrow> admit_all H repo subj es' cs
      | _ \<Rightarrow> None)"

lemma admit_all_reachable:
  "reachable_journal H repo subj es \<Longrightarrow> admit_all H repo subj es cs = Some es' \<Longrightarrow> reachable_journal H repo subj es'"
  by (induction cs arbitrary: es) (auto split: admission.splits intro: reachable_journal.admit)

lemma admit_all_from_empty: "admit_all H repo subj [] cs = Some es \<Longrightarrow> reachable_journal H repo subj es"
  using admit_all_reachable reachable_journal.empty by blast

text \<open>A concrete hash, attempt and run for the witnesses: the hash is constant.\<close>

abbreviation demo_hash :: hash where
  "demo_hash \<equiv> (\<lambda>text. ''0'')"

definition demo_tuple :: "int \<Rightarrow> jsval" where
  "demo_tuple retry = JObj [(''assigned_unit'', JStr ''unit''), (''launch_ref'', JStr ''launch''),
     (''run_id'', JStr ''run''), (''retry_id'', JInt retry)]"

definition demo_command :: "int \<Rightarrow> event_kind \<Rightarrow> jsval \<Rightarrow> journal_command" where
  "demo_command retry k payload = \<lparr>jc_attempt = demo_tuple retry, jc_kind = k, jc_payload = payload,
     jc_generation = (if k = ReservationClaimed then JStr ''gen'' else JUndef),
     jc_tip = (if k = ReservationClaimed then JStr ''tip'' else JUndef), jc_liveness = JUndef\<rparr>"

definition demo_run :: "int \<Rightarrow> event_kind list \<Rightarrow> journal_command list" where
  "demo_run retry ks = map (\<lambda>k. demo_command retry k
     (if k = PendingPublished then JObj [(''dispatch_tuple'', demo_tuple retry)] else JUndef)) ks"

definition demo_journal :: "event_kind list \<Rightarrow> jsval list" where
  "demo_journal ks = (case admit_all demo_hash (JStr ''repo'') (JStr ''subject'') [] (demo_run 0 ks) of
     None \<Rightarrow> [] | Some es \<Rightarrow> es)"

abbreviation demo_admit :: "jsval list \<Rightarrow> int \<Rightarrow> event_kind \<Rightarrow> jsval \<Rightarrow> jsval \<Rightarrow> admission" where
  "demo_admit es retry k payload liveness \<equiv>
     admitAttemptCommand demo_hash (JStr ''repo'') (JStr ''subject'') (JArr es) (demo_tuple retry)
       (JStr (kind_name k)) payload JUndef JUndef liveness"

lemma demo_reachable: "reachable_journal demo_hash (JStr ''repo'') (JStr ''subject'') (demo_journal ks)"
  by (auto simp: demo_journal_def intro: reachable_journal.empty admit_all_from_empty split: option.splits)

fun appended_event :: "admission \<Rightarrow> jsval" where
  "appended_event (Appended e es) = e"
| "appended_event _ = JUndef"

fun is_appended :: "admission \<Rightarrow> bool" where
  "is_appended (Appended e es) = True"
| "is_appended _ = False"

section \<open>Safety\<close>

lemma admitted_shape:
  assumes "admitAttemptCommand H repo subj events att kind payload gen tip liveness = AlreadyRecorded e es'"
  shows "\<exists>d. validateAttemptJournal H repo subj events = Inr (es', d) \<and> e \<in> set es'"
proof -
  from assms obtain es d k where v: "validateAttemptJournal H repo subj events = Inr (es, d)" and k: "event_kind_of kind = Some k"
    by (auto simp: admitAttemptCommand_def Let_def split: sum.split_asm option.split_asm)
  have i: "admit_informational H repo subj es d (view (attemptKey att) es) att k (js_default (JObj []) payload) = AlreadyRecorded e es'"
    using assms v k
    by (auto simp: admitAttemptCommand_def Let_def find_state_view admit_lifecycle_def mint_next_def
      split: if_split_asm option.split_asm sum.split_asm prod.split_asm event_kind.split_asm)
  then obtain s where s: "view (attemptKey att) es = Some s" by (auto simp: admit_informational_def split: option.splits)
  have "es' = es" "e \<in> set (st_events s)" using i unfolding s
    by (auto simp: admit_informational_def Let_def mint_next_def find_Some_iff split: if_split_asm option.split_asm sum.split_asm)
  with v s view_fields(1) [OF s] show ?thesis by (auto simp: key_events_def)
qed

lemma appended_is:
  assumes "admitAttemptCommand H repo subj (JArr es) att kind payload gen tip liveness = Appended e es'"
  shows "ev_key e = attemptKey att \<and> (\<exists>k. kind = JStr (kind_name k) \<and> ev_kind e = Some k)"
proof -
  obtain k where k: "event_kind_of kind = Some k"
    using assms by (auto simp: admitAttemptCommand_def Let_def split: sum.split_asm option.split_asm)
  then have "kind = JStr (kind_name k)" by (simp add: event_kind_of_Some)
  moreover from assms k obtain d g t p where
    "mintAttemptEvent H repo subj att (JInt (int (length es))) d g t (JStr (kind_name k)) p = Inr e"
    by (auto simp: admitAttemptCommand_def validateAttemptJournal_Inr Let_def admit_informational_def admit_lifecycle_def mint_next_Appended
      split: if_split_asm option.split_asm sum.split_asm prod.split_asm event_kind.split_asm)
  note f = mint_fields [OF this]
  have "ev_key e = attemptKey att" "ev_kind e = Some k" using f(4,9) by (simp_all add: ev_key_def ev_kind_def)
  ultimately show ?thesis by blast
qed

text \<open>C1: An admitted command leaves a journal that validates: it appends one event at the end, or answers evidence that is recorded
  already and appends none. The journal before need only validate. For a run original it must have been built by commands, or
  hold one binding and one result of the attempt: admission compares an original with the first binding of the attempt,
  validation with the last.\<close>

theorem admission_preserves_validity:
  assumes "admitAttemptCommand H repo subj events att kind payload gen tip liveness = r"
    and "r = Appended e es' \<or> r = AlreadyRecorded e es'"
    and "kind = JStr (kind_name RunOriginalRecorded) \<longrightarrow>
      reachable_journal H repo subj (js_items events) \<or> single_publication (key_events (attemptKey att) (js_items events))"
  shows "\<exists>es d. validateAttemptJournal H repo subj events = Inr (es, d) \<and>
    (case r of Appended e es' \<Rightarrow> es' = es @ [e] | AlreadyRecorded e es' \<Rightarrow> es' = es \<and> e \<in> set es | _ \<Rightarrow> False) \<and>
    validateAttemptJournal H repo subj (JArr es') = Inr (es', ev_digest (last es'))"
  using assms(2)
proof
  assume r: "r = Appended e es'"
  from admit_step [OF assms(1) [unfolded r]] obtain es where es: "events = JArr es" "es' = es @ [e]" "journal_step H repo subj es es'"
    by auto
  note event = appended_is [OF assms(1) [unfolded r es(1)]]
  have "single_publication (key_events (ev_key e) es)" if "ev_kind e = Some RunOriginalRecorded"
    using assms(3) that event es(1) published_once_single [OF reachable_published_once] by auto
  then obtain st where st: "valid_journal H repo subj es' st" using step_valid [OF es(3)] es(2) by auto
  moreover from st es(2) obtain st0 where "valid_journal H repo subj es st0" by (auto simp: valid_journal_snoc)
  ultimately show ?thesis
    using prior_digest_last [OF st] by (auto simp: r es validateAttemptJournal_Inr valid_journal_def)
next
  assume r: "r = AlreadyRecorded e es'"
  from admitted_shape [OF assms(1) [unfolded r]] obtain d where
    d: "validateAttemptJournal H repo subj events = Inr (es', d)" "e \<in> set es'" by blast
  then obtain st where st: "events = JArr es'" "valid_journal H repo subj es' st" "d = prior_digest st"
    by (auto simp: validateAttemptJournal_Inr valid_journal_def)
  with d prior_digest_last [OF st(2)] show ?thesis by (cases es') (auto simp: r)
qed

lemma appended_shape:
  "is_appended (admitAttemptCommand H repo subj (JArr es) att kind payload gen tip liveness) \<Longrightarrow>
   admitAttemptCommand H repo subj (JArr es) att kind payload gen tip liveness =
     Appended (appended_event (admitAttemptCommand H repo subj (JArr es) att kind payload gen tip liveness))
       (es @ [appended_event (admitAttemptCommand H repo subj (JArr es) att kind payload gen tip liveness)])"
  by (cases "admitAttemptCommand H repo subj (JArr es) att kind payload gen tip liveness")
     (auto dest: admit_step)

fun mint_all :: "jsval list \<Rightarrow> (event_kind \<times> jsval) list \<Rightarrow> jsval list" where
  "mint_all es [] = es"
| "mint_all es ((k, payload) # ks) =
     (case mintAttemptEvent demo_hash (JStr ''repo'') (JStr ''subject'') (demo_tuple 0) (JInt (int (length es)))
        (if es = [] then JNull else ev_digest (last es)) (JStr ''gen'') (JStr ''tip'') (JStr (kind_name k)) payload of
        Inr e \<Rightarrow> mint_all (es @ [e]) ks | Inl _ \<Rightarrow> [])"

definition demo_original :: jsval where
  "demo_original = JObj [(''dispatch_tuple'', demo_tuple 0), (''result_digest'', JStr ''sha256:0''),
     (''original_result'', JObj [(''ref_id'', JStr ''r''), (''sha256'', JStr (replicate 64 CHR ''0''))])]"

definition once_published :: "jsval list" where
  "once_published = mint_all [] [(ReservationClaimed, JObj []), (PendingPublished, JObj [(''dispatch_tuple'', demo_tuple 0)]),
     (RunResultRecorded, JObj [(''dispatch_tuple'', demo_tuple 0), (''result_digest'', JStr ''sha256:0''), (''result'', JObj [])])]"

lemma demo_original_admitted: "is_appended (demo_admit once_published 0 RunOriginalRecorded demo_original JUndef)"
  by code_simp

theorem admission_preserves_validity_witness:
  "\<exists>e es'. demo_admit once_published 0 RunOriginalRecorded demo_original JUndef = Appended e es' \<and>
     validateAttemptJournal demo_hash (JStr ''repo'') (JStr ''subject'') (JArr es') = Inr (es', ev_digest (last es'))"
proof -
  let ?kind = "JStr (kind_name RunOriginalRecorded)"
  note shape = appended_shape [OF demo_original_admitted]
  have "single_publication (key_events (attemptKey (demo_tuple 0)) once_published)" by code_simp
  then have "?kind = ?kind \<longrightarrow> reachable_journal demo_hash (JStr ''repo'') (JStr ''subject'') (js_items (JArr once_published)) \<or>
      single_publication (key_events (attemptKey (demo_tuple 0)) (js_items (JArr once_published)))" by simp
  from admission_preserves_validity [OF shape disjI1 [OF refl] this] shape show ?thesis by (elim exE conjE) (intro exI conjI)
qed

definition twice_published :: "jsval list" where
  "twice_published = mint_all [] [(ReservationClaimed, JObj []), (PendingPublished, JObj [(''dispatch_tuple'', demo_tuple 0)]),
     (PendingPublished, JObj [(''dispatch_tuple'', demo_tuple 1)]),
     (RunResultRecorded, JObj [(''dispatch_tuple'', demo_tuple 0), (''result_digest'', JStr ''sha256:0''), (''result'', JObj [])])]"

text \<open>Without the condition on originals it is false: this journal validates, the original is admitted, and the journal it returns
  does not validate.\<close>

lemma original_can_break_validity:
  "case (validateAttemptJournal demo_hash (JStr ''repo'') (JStr ''subject'') (JArr twice_published),
      demo_admit twice_published 0 RunOriginalRecorded demo_original JUndef) of
     (Inr (es, d), Appended e es') \<Rightarrow>
       (case validateAttemptJournal demo_hash (JStr ''repo'') (JStr ''subject'') (JArr es') of Inl r \<Rightarrow> True | Inr x \<Rightarrow> False)
   | _ \<Rightarrow> False"
  by code_simp

text \<open>C2: At most one attempt of a subject holds an unreleased reservation.\<close>

theorem one_open_reservation:
  assumes "reachable_journal H repo subj es"
  shows "length (unreleased (projectAttempts es)) \<le> 1"
  using assms by (rule reachable_one_unreleased)

theorem one_open_reservation_witness:
  "length (unreleased (projectAttempts (demo_journal [ReservationClaimed, PendingPublished]))) \<le> 1 \<and>
   length (projectAttempts (demo_journal [ReservationClaimed, PendingPublished])) = 1"
  using one_open_reservation [OF demo_reachable [of "[ReservationClaimed, PendingPublished]"]]
  by (intro conjI) (assumption, code_simp)

text \<open>C8: The lifecycle events of every attempt form a legal path of the transition table, and the last
  kind that the projection keeps is the end of that path.\<close>

theorem lifecycle_is_legal:
  assumes "reachable_journal H repo subj es" and "s \<in> set (projectAttempts es)"
  shows "legal_from None (life (st_events s)) \<and> st_last_kind s = Some (last (life (st_events s)))"
proof -
  have v: "view (st_key s) es = Some s" using assms(2) by (simp add: in_project_iff)
  obtain ks where "ks = life (key_events (st_key s) es)" "legal_from None ks" "st_last_kind s = Some (last ks)"
    by (rule life_view [OF v assms(1)])
  then show ?thesis by (simp add: view_fields(1) [OF v])
qed

theorem lifecycle_is_legal_witness:
  "legal_from None (life (st_events (hd (projectAttempts (demo_journal [ReservationClaimed, PendingPublished])))))"
proof -
  have "projectAttempts (demo_journal [ReservationClaimed, PendingPublished]) \<noteq> []" by code_simp
  then show ?thesis
    using lifecycle_is_legal [OF demo_reachable [of "[ReservationClaimed, PendingPublished]"] hd_in_set] by blast
qed

lemma kind_count_life_count: "\<not> informational k \<Longrightarrow> kind_count k es = count_list (life es) k"
  by (induction es) (auto simp: kind_count_def split: option.splits)

lemma legal_spawn_once: "legal_from None ks \<Longrightarrow> count_list ks SpawnStarted \<le> 1"
proof (induction ks rule: rev_induct)
  case (snoc k ks)
  then have "legal_from None ks" by (simp add: legal_life_snoc)
  with snoc legal_spawn_fourth [of ks] show ?case by (cases "k = SpawnStarted") auto
qed simp

lemma same_attempt_events:
  assumes "valid_journal H repo subj es st" and "isValidAttemptTuple t"
  shows "filter (\<lambda>e. P e \<and> sameAttempt (ev_attempt e) t) es = filter P (key_events (attemptKey t) es)"
proof -
  have "sameAttempt (ev_attempt e) t \<longleftrightarrow> ev_key e = attemptKey t" if "e \<in> set es" for e
    using attemptKey_eq_iff [of "ev_attempt e" t] valid_journal_event [OF assms(1) that] assms(2)
    by (simp add: ev_key_def)
  then show ?thesis unfolding key_events_def filter_filter by (auto intro: filter_cong)
qed

text \<open>A worker is spawned at most once per attempt.\<close>

theorem spawn_at_most_once:
  assumes "reachable_journal H repo subj es" and "isValidAttemptTuple t"
  shows "length (filter (\<lambda>e. ev_kind e = Some SpawnStarted \<and> sameAttempt (ev_attempt e) t) es) \<le> 1"
proof -
  obtain st where v: "valid_journal H repo subj es st" using reachable_valid [OF assms(1)] by blast
  have "kind_count SpawnStarted (key_events (attemptKey t) es) \<le> 1"
    using legal_spawn_once [OF reachable_legal [OF assms(1)]] by (simp add: kind_count_life_count)
  then show ?thesis by (simp add: same_attempt_events [OF v assms(2)] kind_count_def)
qed

theorem spawn_at_most_once_witness:
  "length (filter (\<lambda>e. ev_kind e = Some SpawnStarted \<and> sameAttempt (ev_attempt e) (demo_tuple 0))
     (demo_journal [ReservationClaimed, PendingPublished, SupervisorBound, SpawnStarted])) \<le> 1"
  by (rule spawn_at_most_once [OF demo_reachable]) code_simp

text \<open>C38: In every journal that validates, two events of one attempt bind the same generation digest and
  the same accumulated tip.\<close>

theorem frozen_binding:
  assumes "validateAttemptJournal H repo subj events = Inr (es, digest)"
    and "e \<in> set es" and "e' \<in> set es" and "sameAttempt (ev_attempt e) (ev_attempt e')"
  shows "ev_generation e = ev_generation e' \<and> ev_tip e = ev_tip e'"
proof -
  obtain st where v: "valid_journal H repo subj es st"
    using assms(1) by (auto simp: validateAttemptJournal_Inr valid_journal_def)
  have "ev_key e = ev_key e'"
    using attemptKey_eq_iff [of "ev_attempt e" "ev_attempt e'"] valid_journal_event [OF v] assms(2-4)
    by (simp add: ev_key_def)
  then have "e \<in> set (key_events (ev_key e) es)" "e' \<in> set (key_events (ev_key e) es)"
    using assms(2,3) by (simp_all add: key_events_def)
  with frozen_keys [OF v, of "ev_key e"] show ?thesis
    by (auto simp: frozen_log_def list_all_iff split: list.splits)
qed

lemma demo_valid:
  "validateAttemptJournal demo_hash (JStr ''repo'') (JStr ''subject'') (JArr (demo_journal ks)) =
     Inr (demo_journal ks, journal_tip (demo_journal ks))"
proof -
  obtain st where "valid_journal demo_hash (JStr ''repo'') (JStr ''subject'') (demo_journal ks) st"
    using reachable_valid [OF demo_reachable] by blast
  with prior_digest_last [OF this] show ?thesis
    by (simp add: validateAttemptJournal_Inr valid_journal_def journal_tip_def)
qed

theorem frozen_binding_witness:
  "ev_generation (demo_journal [ReservationClaimed, PendingPublished] ! 0) =
   ev_generation (demo_journal [ReservationClaimed, PendingPublished] ! 1) \<and>
   ev_tip (demo_journal [ReservationClaimed, PendingPublished] ! 0) =
   ev_tip (demo_journal [ReservationClaimed, PendingPublished] ! 1)"
proof -
  let ?es = "demo_journal [ReservationClaimed, PendingPublished]"
  have "length ?es = 2" and "sameAttempt (ev_attempt (?es ! 0)) (ev_attempt (?es ! 1))" by code_simp+
  then show ?thesis
    by (intro frozen_binding [OF demo_valid [of "[ReservationClaimed, PendingPublished]"]]) simp_all
qed

section \<open>Tamper evidence\<close>

text \<open>C6: When the hash has no collision on the contents of two valid journals of JSON events, journals
  with the same terminal digest agree on the canonical content of every event.\<close>

theorem journal_tamper_evident:
  assumes "validateAttemptJournal H repo subj (JArr es) = Inr (es, digest)"
    and "validateAttemptJournal H repo subj (JArr fs) = Inr (fs, digest)"
    and "list_all json_value es" and "list_all json_value fs"
    and "inj_on (content_digest H) (event_content ` (set es \<union> set fs))"
  shows "map event_content es = map event_content fs"
proof -
  obtain st1 st2 where v: "valid_journal H repo subj es st1" "valid_journal H repo subj fs st2"
    "digest = prior_digest st1" "digest = prior_digest st2"
    using assms(1,2) by (auto simp: validateAttemptJournal_Inr valid_journal_def)
  have "json_journal H repo subj es" "json_journal H repo subj fs"
    using v(1,2) assms(3,4) by (auto simp: json_journal_def)
  moreover have "journal_tip es = journal_tip fs"
    using prior_digest_last [OF v(1)] prior_digest_last [OF v(2)] v(3,4) by (simp add: journal_tip_def)
  ultimately show ?thesis using jc.chain_contents assms(5) by blast
qed

definition reordered_event :: "jsval \<Rightarrow> jsval" where
  "reordered_event e = JObj (rev (js_spread e))"

theorem journal_tamper_evident_witness:
  "map event_content (demo_journal [ReservationClaimed]) =
   map event_content (map reordered_event (demo_journal [ReservationClaimed]))"
proof -
  let ?es = "demo_journal [ReservationClaimed]"
  let ?fs = "map reordered_event ?es"
  have j: "list_all json_value ?es" "list_all json_value ?fs" by code_simp+
  have f: "(case validateAttemptJournal demo_hash (JStr ''repo'') (JStr ''subject'') (JArr ?fs) of
      Inr (gs, d) \<Rightarrow> gs = ?fs \<and> d = journal_tip ?es | _ \<Rightarrow> False)" by code_simp
  have c: "map event_content ?es = map event_content ?fs" "length ?es = 1" by code_simp+
  have "validateAttemptJournal demo_hash (JStr ''repo'') (JStr ''subject'') (JArr ?fs) = Inr (?fs, journal_tip ?es)"
    using f by (auto split: sum.splits)
  moreover have "event_content ` (set ?es \<union> set ?fs) = {event_content (?es ! 0)}"
    using c by (auto simp: length_Suc_conv)
  ultimately show ?thesis
    by (intro journal_tamper_evident [OF demo_valid _ j]) simp_all
qed

text \<open>A member named \<open>__proto__\<close> is not covered by the digest of an object: the canonical form assigns it
  to the prototype and drops it, so the digest is that of the object without it.\<close>

theorem proto_member_not_bound: "digestOf H (JObj kvs) = digestOf H (JObj (obj_remove ''__proto__'' kvs))"
proof -
  have "map (map_prod id canonicalize) (filter keep kvs) = filter keep (map (map_prod id canonicalize) kvs)"
    by (induction kvs) auto
  then show ?thesis
    by (simp add: digestOf_def canonicalJson_def obj_remove_def filter_sort [symmetric] assign_all_filter)
qed

section \<open>Release\<close>

text \<open>C12: A release is admitted only for an attempt that recorded its terminal and has no unresolved
  execution, and the event carries the release proof that the journal derives.\<close>

theorem release_is_safe:
  assumes "reachable_journal H repo subj es"
    and "admitAttemptCommand H repo subj (JArr es) att (JStr (kind_name ReservationReleased)) payload gen tip liveness
      = Appended e es'"
  shows "\<exists>s pr. find_state (attemptKey att) (projectAttempts es) = Some s \<and> st_terminal s \<noteq> None \<and>
    st_released s = None \<and> \<not> isPossiblyLive s \<and>
    classifyReleaseProof s (js_default liveness_indeterminate liveness) = Some pr \<and>
    js_get (ev_payload e) ''release_proof'' = JStr (proof_name pr)"
proof -
  obtain st where v: "valid_journal H repo subj es st" using reachable_valid [OF assms(1)] by blast
  have att: "isValidAttemptTuple att"
    using assms(2) by (auto simp: admitAttemptCommand_def Let_def split: sum.splits if_splits option.splits prod.splits)
  let ?l = "js_default liveness_indeterminate liveness"
  have a: "admit_lifecycle H repo subj es (prior_digest st) (projectAttempts es) (view (attemptKey att) es) att
      ReservationReleased (js_default (JObj []) payload) (js_default JNull gen) (js_default JNull tip) ?l = Appended e es'"
    using assms(2) unfolding admit_unfold [OF v att] by simp
  then obtain s where s: "view (attemptKey att) es = Some s"
    by (auto simp: admit_lifecycle_def isLegalSuccessor_def split: option.splits)
  from a s obtain payload' g t where legal: "isLegalSuccessor (st_last_kind s) ReservationReleased"
    and p: "release_payload s ?l (js_default (JObj []) payload) = Inr payload'"
    and m: "mint_next H repo subj es (prior_digest st) att g t ReservationReleased payload' = Appended e es'"
    by (auto simp: admit_lifecycle_def Let_def split: if_splits sum.splits)
  have last: "st_last_kind s = Some AttemptTerminal"
    using legal by (auto simp: isLegalSuccessor_def unique_predecessor split: option.splits)
  obtain ks where ks: "legal_from None ks" "\<forall>k\<in>set ks. \<not> informational k" "ks \<noteq> []" "st_last_kind s = Some (last ks)"
    "st_released s = None \<longleftrightarrow> ReservationReleased \<notin> set ks" "st_terminal s = None \<longleftrightarrow> AttemptTerminal \<notin> set ks"
    by (rule life_view [OF s assms(1)])
  have t: "st_terminal s \<noteq> None" using ks(3,4,6) last by (metis last_in_set option.inject)
  have "st_released s = None" using legal_release_last [OF ks(1,2)] ks(4,5) last by auto
  with t terminal_not_live [OF assms(1) s t] release_payload_Inr [OF p] m s show ?thesis
    by (auto simp: mint_next_Appended find_state_view dest: mint_fields(10))
qed

lemma demo_release:
  "is_appended (demo_admit (demo_journal [ReservationClaimed, AttemptTerminal]) 0 ReservationReleased JUndef JUndef)"
  by code_simp

theorem release_is_safe_witness:
  "\<exists>s. find_state (attemptKey (demo_tuple 0)) (projectAttempts (demo_journal [ReservationClaimed, AttemptTerminal])) = Some s \<and>
     \<not> isPossiblyLive s"
  using release_is_safe [OF demo_reachable appended_shape [OF demo_release]] by blast

lemma reduce_open:
  assumes "reachable_journal H repo subj es" and "s \<in> set (projectAttempts es)" and "st_released s = None"
    and "liveness_value (js_default liveness_indeterminate liveness)"
  shows "\<exists>d. reduceAttemptJournal H repo subj (JArr es) liveness integration gen tip =
    reduce_current s (js_default liveness_indeterminate liveness) (js_default JNull integration) (js_default JNull gen)
      (js_default JNull tip) (map history_of (projectAttempts es)) (length es) d"
proof -
  obtain st where "valid_journal H repo subj es st" using reachable_valid [OF assms(1)] by blast
  then have v: "validateAttemptJournal H repo subj (JArr es) = Inr (es, prior_digest st)"
    by (simp add: validateAttemptJournal_Inr valid_journal_def)
  have "s \<in> set (unreleased (projectAttempts es))" using assms(2,3) by (simp add: unreleased_def)
  with reachable_one_unreleased [OF assms(1)] have "unreleased (projectAttempts es) = [s]"
    by (cases "unreleased (projectAttempts es)") auto
  with v assms(4) show ?thesis by (auto simp: reduceAttemptJournal_def Let_def)
qed

lemma state_attempt:
  assumes "valid_journal H repo subj es st" and "s \<in> set (projectAttempts es)"
  shows "isValidAttemptTuple (st_attempt s)" and "attemptKey (st_attempt s) = st_key s"
    and "view (attemptKey (st_attempt s)) es = Some s"
proof -
  have v: "view (st_key s) es = Some s" using assms(2) by (simp add: in_project_iff)
  have "hd (key_events (st_key s) es) \<in> set (key_events (st_key s) es)" using view_fields(2) [OF v] by simp
  then show "isValidAttemptTuple (st_attempt s)" and k: "attemptKey (st_attempt s) = st_key s"
    using key_events_valid [OF assms(1)] view_fields(3) [OF v] by (simp_all add: ev_key_def)
  show "view (attemptKey (st_attempt s)) es = Some s" using v k by simp
qed

text \<open>C33: An attempt that recorded its terminal and is not released can always be released: the reducer
  proposes the release, and the admission accepts it whatever the liveness verdict.\<close>

theorem terminal_attempt_releasable:
  assumes "reachable_journal H repo subj es" and "s \<in> set (projectAttempts es)"
    and "st_terminal s \<noteq> None" and "st_released s = None" and "liveness_value liveness"
  shows "nc_kind (rd_next (reduceAttemptJournal H repo subj (JArr es) liveness integration gen tip)) = RELEASE_RESERVATION \<and>
    (\<exists>e. admitAttemptCommand H repo subj (JArr es) (st_attempt s) (JStr (kind_name ReservationReleased)) (JObj [])
       JUndef JUndef liveness = Appended e (es @ [e]))"
proof
  obtain st where v: "valid_journal H repo subj es st" using reachable_valid [OF assms(1)] by blast
  note a = state_attempt [OF v assms(2)]
  show "\<exists>e. admitAttemptCommand H repo subj (JArr es) (st_attempt s) (JStr (kind_name ReservationReleased)) (JObj [])
       JUndef JUndef liveness = Appended e (es @ [e])"
    by (rule release_admitted [OF assms(1) a(1,3) assms(3,4)]) simp_all
  have l: "js_default liveness_indeterminate liveness = liveness"
    using assms(5) by (auto simp: js_default_def liveness_value_def liveness_live_def liveness_dead_def liveness_indeterminate_def)
  obtain pr where "classifyReleaseProof s liveness = Some pr"
    using terminal_proof [OF assms(3) terminal_not_live [OF assms(1) a(3) assms(3)]] by blast
  then show "nc_kind (rd_next (reduceAttemptJournal H repo subj (JArr es) liveness integration gen tip)) = RELEASE_RESERVATION"
    using reduce_open [OF assms(1,2,4), of liveness integration gen tip] assms(3,5) unfolding l
    by (auto simp: reduce_current_def next_for_def Let_def)
qed

theorem terminal_attempt_releasable_witness:
  "nc_kind (rd_next (reduceAttemptJournal demo_hash (JStr ''repo'') (JStr ''subject'')
     (JArr (demo_journal [ReservationClaimed, AttemptTerminal])) liveness_live JUndef JUndef JUndef)) = RELEASE_RESERVATION"
proof -
  let ?es = "demo_journal [ReservationClaimed, AttemptTerminal]"
  have "projectAttempts ?es \<noteq> []" "st_terminal (hd (projectAttempts ?es)) \<noteq> None" "st_released (hd (projectAttempts ?es)) = None"
    by code_simp+
  then show ?thesis
    using terminal_attempt_releasable [OF demo_reachable hd_in_set] by (simp add: liveness_value_def)
qed

section \<open>The reducer\<close>

text \<open>The event that records a proposed command.\<close>

fun command_event :: "command_kind \<Rightarrow> event_kind option" where
  "command_event PUBLISH_PENDING = Some PendingPublished"
| "command_event BIND_SUPERVISOR = Some SupervisorBound"
| "command_event START_SPAWN = Some SpawnStarted"
| "command_event BIND_SANDBOX = Some SandboxBound"
| "command_event RECORD_EXECUTION_TERMINATION = Some ExecutionTerminated"
| "command_event RECORD_TERMINAL = Some AttemptTerminal"
| "command_event RELEASE_RESERVATION = Some ReservationReleased"
| "command_event _ = None"

lemma next_by_kind_legal:
  "next_by_kind (Some l) dead live = (c, d, f) \<Longrightarrow> command_event c = Some k \<Longrightarrow>
     k \<in> set (legal_successors l) \<and> k \<noteq> ReservationReleased \<and> k \<noteq> ReservationClaimed \<and> \<not> informational k"
  by (cases l) (auto split: if_splits)

lemma next_for_fresh:
  assumes "\<not> stale" and "next_for s liveness stale = (c, d, r)" and "command_event c = Some k"
    and "st_last_kind s = Some l" and "st_terminal s \<noteq> None \<longrightarrow> classifyReleaseProof s liveness \<noteq> None"
  shows "(k = ReservationReleased \<and> st_terminal s \<noteq> None) \<or>
    (k \<in> set (legal_successors l) \<and> k \<noteq> ReservationReleased \<and> k \<noteq> ReservationClaimed \<and> \<not> informational k)"
proof (cases "st_terminal s")
  case None
  with assms(1,2,4) obtain f where "next_by_kind (Some l) (strict_eq liveness liveness_dead) (isPossiblyLive s) = (c, d, f)"
    by (auto simp: next_for_def split: prod.splits option.splits)
  with next_by_kind_legal assms(3) show ?thesis by blast
next
  case (Some t)
  with assms show ?thesis by (auto simp: next_for_def)
qed

text \<open>C18: On a reachable journal, for a caller that does not ask about staleness, the command that the reducer
  proposes is one the admission accepts.\<close>

theorem reducer_command_admissible:
  assumes "reachable_journal H repo subj es" and "liveness_value liveness"
    and "r = reduceAttemptJournal H repo subj (JArr es) liveness integration JUndef JUndef"
    and "command_event (nc_kind (rd_next r)) = Some k"
  shows "\<exists>e. admitAttemptCommand H repo subj (JArr es) (nc_attempt (rd_next r)) (JStr (kind_name k)) (JObj [])
    JUndef JUndef liveness = Appended e (es @ [e])"
proof -
  obtain st where v: "valid_journal H repo subj es st" using reachable_valid [OF assms(1)] by blast
  have l: "js_default liveness_indeterminate liveness = liveness"
    using assms(2) by (auto simp: js_default_def liveness_value_def liveness_live_def liveness_dead_def liveness_indeterminate_def)
  have "unreleased (projectAttempts es) \<noteq> []"
    using assms(2-4) v l
    by (auto simp: reduceAttemptJournal_def Let_def validateAttemptJournal_def valid_journal_def)
  then obtain s where s: "s \<in> set (projectAttempts es)" "st_released s = None"
    by (auto simp: unreleased_def filter_empty_conv)
  note a = state_attempt [OF v s(1)]
  obtain ks where ks: "st_last_kind s = Some (last ks)" by (rule life_view [OF a(3) assms(1)])
  obtain c d rf where n: "next_for s liveness (is_stale s JNull JNull) = (c, d, rf)" by (metis prod_cases3)
  have r: "nc_kind (rd_next r) = c" "nc_attempt (rd_next r) = st_attempt s"
    using reduce_open [OF assms(1) s, of liveness integration JUndef JUndef] n assms(2,3) l
    by (auto simp: reduce_current_def Let_def js_default_def)
  have "st_terminal s \<noteq> None \<longrightarrow> classifyReleaseProof s liveness \<noteq> None"
    using terminal_proof terminal_not_live [OF assms(1) a(3)] by blast
  then have "(k = ReservationReleased \<and> st_terminal s \<noteq> None) \<or> (k \<in> set (legal_successors (last ks)) \<and>
      k \<noteq> ReservationReleased \<and> k \<noteq> ReservationClaimed \<and> \<not> informational k)"
    using next_for_fresh [OF _ n _ ks] assms(4) r(1) by (simp add: is_stale_def)
  then show ?thesis
  proof
    assume "k = ReservationReleased \<and> st_terminal s \<noteq> None"
    with release_admitted [OF assms(1) a(1,3) _ s(2), of "JObj []"] r(2) show ?thesis by simp
  next
    assume k: "k \<in> set (legal_successors (last ks)) \<and> k \<noteq> ReservationReleased \<and> k \<noteq> ReservationClaimed \<and> \<not> informational k"
    then show ?thesis
      using advance_admitted [OF assms(1) a(1,3), of k "JObj []" liveness] r(2) ks by (simp add: isLegalSuccessor_def)
  qed
qed

theorem reducer_command_admissible_witness:
  "\<exists>e. admitAttemptCommand demo_hash (JStr ''repo'') (JStr ''subject'') (JArr (demo_journal [ReservationClaimed]))
    (nc_attempt (rd_next (reduceAttemptJournal demo_hash (JStr ''repo'') (JStr ''subject'')
      (JArr (demo_journal [ReservationClaimed])) liveness_live JUndef JUndef JUndef)))
    (JStr (kind_name PendingPublished)) (JObj []) JUndef JUndef liveness_live =
      Appended e (demo_journal [ReservationClaimed] @ [e])"
  by (rule reducer_command_admissible [OF demo_reachable _ HOL.refl]) (simp add: liveness_value_def, code_simp)

lemma next_by_kind_branch:
  "\<not> informational k \<Longrightarrow> k \<noteq> ReservationReleased \<Longrightarrow> \<exists>c d. next_by_kind (Some k) dead live = (c, d, False)"
  by (cases k) simp_all

lemma next_for_no_refusal:
  assumes "st_last_kind s = Some k" and "\<not> informational k" and "k \<noteq> ReservationReleased"
  shows "\<exists>c d. next_for s liveness stale = (c, d, None)"
proof -
  obtain c d where "next_by_kind (Some k) (strict_eq liveness liveness_dead) (isPossiblyLive s) = (c, d, False)"
    using next_by_kind_branch [OF assms(2,3)] by blast
  with assms(1) show ?thesis
    by (cases "isPossiblyLive s") (simp_all add: next_for_def split: option.split)
qed

text \<open>On a reachable journal the reducer never refuses: with a known liveness verdict the switch on the last
  event always has a branch.\<close>

theorem reducer_never_refuses:
  assumes "reachable_journal H repo subj es" and "liveness_value (js_default liveness_indeterminate liveness)"
  shows "rd_refusal (reduceAttemptJournal H repo subj (JArr es) liveness integration gen tip) = None"
proof (cases "\<exists>s\<in>set (projectAttempts es). st_released s = None")
  case True
  then obtain s where s: "s \<in> set (projectAttempts es)" "st_released s = None" by blast
  then have v: "view (st_key s) es = Some s" by (simp add: in_project_iff)
  obtain ks where ks: "legal_from None ks" "\<forall>k\<in>set ks. \<not> informational k" "ks \<noteq> []" "st_last_kind s = Some (last ks)"
    "st_released s = None \<longleftrightarrow> ReservationReleased \<notin> set ks"
    by (rule life_view [OF v assms(1)])
  have k: "\<not> informational (last ks)" "last ks \<noteq> ReservationReleased"
    using ks(2,3,5) s(2) last_in_set [OF ks(3)] by metis+
  obtain d where d: "reduceAttemptJournal H repo subj (JArr es) liveness integration gen tip =
    reduce_current s (js_default liveness_indeterminate liveness) (js_default JNull integration) (js_default JNull gen)
      (js_default JNull tip) (map history_of (projectAttempts es)) (length es) d"
    using reduce_open [OF assms(1) s assms(2)] by blast
  obtain c dt where "next_for s (js_default liveness_indeterminate liveness)
      (is_stale s (js_default JNull gen) (js_default JNull tip)) = (c, dt, None)"
    using next_for_no_refusal [OF ks(4) k] by blast
  then show ?thesis unfolding d by (simp add: reduce_current_def Let_def)
next
  case False
  then have "unreleased (projectAttempts es) = []" by (auto simp: unreleased_def filter_empty_conv)
  moreover obtain st where "valid_journal H repo subj es st" using reachable_valid [OF assms(1)] by blast
  ultimately show ?thesis
    using assms(2) by (simp add: reduceAttemptJournal_def Let_def validateAttemptJournal_def valid_journal_def)
qed

theorem reducer_never_refuses_witness:
  "rd_refusal (reduceAttemptJournal demo_hash (JStr ''repo'') (JStr ''subject'') (JArr (demo_journal [ReservationClaimed]))
     JUndef JUndef JUndef JUndef) = None"
  by (rule reducer_never_refuses [OF demo_reachable]) (simp add: js_default_def liveness_value_def)

text \<open>For a stale attempt that is still running by the journal and whose execution is authenticated as dead,
  the reducer proposes to record the terminal, and the admission refuses that command as an illegal transition.\<close>

theorem stale_dead_proposal_refused:
  assumes "reachable_journal H repo subj es" and "s \<in> set (projectAttempts es)" and "st_released s = None"
    and "st_last_kind s = Some SpawnStarted \<or> st_last_kind s = Some SandboxBound"
    and "gen \<noteq> JUndef" and "gen \<noteq> JNull" and "\<not> strict_eq (st_generation s) gen"
  shows "nc_kind (rd_next (reduceAttemptJournal H repo subj (JArr es) liveness_dead integration gen JUndef)) = RECORD_TERMINAL \<and>
    (\<exists>r. admitAttemptCommand H repo subj (JArr es) (st_attempt s) (JStr (kind_name AttemptTerminal)) payload
      JUndef JUndef liveness_dead = Refused r \<and> refusal_code r = ILLEGAL_TRANSITION)"
proof
  obtain st where v: "valid_journal H repo subj es st" using reachable_valid [OF assms(1)] by blast
  note a = state_attempt [OF v assms(2)]
  show "\<exists>r. admitAttemptCommand H repo subj (JArr es) (st_attempt s) (JStr (kind_name AttemptTerminal)) payload
      JUndef JUndef liveness_dead = Refused r \<and> refusal_code r = ILLEGAL_TRANSITION"
    using assms(4) a(3) unfolding admit_unfold [OF v a(1)]
    by (auto simp: admit_lifecycle_def isLegalSuccessor_def)
  obtain ks where ks: "legal_from None ks" "\<forall>k\<in>set ks. \<not> informational k" "ks \<noteq> []" "st_kinds s = set ks"
    "st_last_kind s = Some (last ks)"
    "st_released s = None \<longleftrightarrow> ReservationReleased \<notin> set ks" "st_terminal s = None \<longleftrightarrow> AttemptTerminal \<notin> set ks"
    by (rule life_view [OF a(3) assms(1)])
  have t: "st_terminal s = None"
    using legal_terminal [OF ks(1,2)] ks(5-7) assms(3,4) by auto
  have "SpawnStarted \<in> st_kinds s"
  proof (cases "last ks = SpawnStarted")
    case True
    then show ?thesis using ks(3,4) last_in_set by metis
  next
    case False
    then have l: "last ks = SandboxBound" using assms(4) ks(5) by auto
    obtain xs where x: "ks = xs @ [SandboxBound]" using l ks(3) by (metis append_butlast_last_id)
    have "xs \<noteq> [] \<and> SandboxBound \<in> set (legal_successors (last xs))"
      using legal_predecessor [of xs SandboxBound] ks(1) x by (simp split: if_splits)
    then have "last xs = SpawnStarted" by (cases "last xs") auto
    then show ?thesis using x ks(4) \<open>xs \<noteq> [] \<and> _\<close> last_in_set [of xs] by simp
  qed
  then have p: "classifyReleaseProof s liveness_dead = Some AuthenticatedDeath"
    by (simp add: classifyReleaseProof_def liveness_dead_def)
  have l: "js_default liveness_indeterminate liveness_dead = liveness_dead" by (simp add: js_default_def liveness_dead_def)
  have "liveness_value liveness_dead" by (simp add: liveness_value_def)
  then show "nc_kind (rd_next (reduceAttemptJournal H repo subj (JArr es) liveness_dead integration gen JUndef)) = RECORD_TERMINAL"
    using reduce_open [OF assms(1-3), of liveness_dead integration gen JUndef] t p assms(5-7)
    unfolding l by (auto simp: reduce_current_def next_for_def Let_def is_stale_def js_default_def)
qed

lemma demo_life:
  assumes "legal_from None ks" and "\<forall>k\<in>set ks. \<not> informational k"
  shows "\<exists>es. records_life demo_hash (JStr ''repo'') (JStr ''subject'') (demo_tuple 0) ks es"
proof -
  have "isValidAttemptTuple (demo_tuple 0)" by code_simp
  then show ?thesis using legal_life_recorded [OF assms, of "JStr ''repo''" "JStr ''subject''" _ "JStr ''g''" "JStr ''t''"] by simp
qed

theorem stale_dead_proposal_refused_witness:
  "\<exists>es gen. nc_kind (rd_next (reduceAttemptJournal demo_hash (JStr ''repo'') (JStr ''subject'') (JArr es)
     liveness_dead JUndef gen JUndef)) = RECORD_TERMINAL"
proof -
  let ?ks = "[ReservationClaimed, PendingPublished, SupervisorBound, SpawnStarted]"
  obtain es where es: "records_life demo_hash (JStr ''repo'') (JStr ''subject'') (demo_tuple 0) ?ks es"
    using demo_life [of ?ks] by (auto simp: isLegalSuccessor_def)
  obtain s where s: "s \<in> set (projectAttempts es)" "st_last_kind s = Some (last ?ks)"
    "st_released s = None \<longleftrightarrow> ReservationReleased \<notin> set ?ks"
    by (rule records_life_view [OF es list.distinct(2)])
  define gen where "gen = (if st_generation s = JStr ''a'' then JStr ''b'' else JStr ''a'')"
  have "gen \<noteq> JUndef" "gen \<noteq> JNull" "\<not> strict_eq (st_generation s) gen" by (simp_all add: gen_def)
  moreover have "reachable_journal demo_hash (JStr ''repo'') (JStr ''subject'') es" using es by (simp add: records_life_def)
  moreover have "st_released s = None" "st_last_kind s = Some SpawnStarted \<or> st_last_kind s = Some SandboxBound"
    using s(2,3) by simp_all
  ultimately show ?thesis using stale_dead_proposal_refused [OF _ s(1)] by blast
qed

text \<open>C32: The transition table is complete for the journal: every legal lifecycle is the lifecycle of an attempt in
  some journal that admissions build.\<close>

theorem legal_lifecycles_recordable:
  assumes "legal_from None ks" and "\<forall>k\<in>set ks. \<not> informational k"
    and "is_nonempty_string repo" and "is_nonempty_string subj" and "isValidAttemptTuple att"
  shows "\<exists>es. reachable_journal H repo subj es \<and> life (key_events (attemptKey att) es) = ks"
  using legal_life_recorded [OF assms, of "JStr ''g''" "JStr ''t''" H] by (auto simp: records_life_def)

theorem legal_lifecycles_recordable_witness:
  "\<exists>es. reachable_journal demo_hash (JStr ''repo'') (JStr ''subject'') es \<and>
     life (key_events (attemptKey (demo_tuple 0)) es) = [ReservationClaimed, AttemptTerminal, ReservationReleased]"
proof -
  have "isValidAttemptTuple (demo_tuple 0)" by code_simp
  then show ?thesis by (intro legal_lifecycles_recordable) (simp_all add: isLegalSuccessor_def)
qed

section \<open>The projection\<close>

text \<open>The keys of a list of events, in the order of their first occurrence.\<close>

definition first_keys :: "jsval list \<Rightarrow> string list" where
  "first_keys es = rev (remdups (rev (map ev_key es)))"

text \<open>The single pass over the journal, which interleaves the attempts, computes for every attempt the fold of
  its own events alone, and lists the attempts in the order of their first event.\<close>

theorem projection_per_attempt: "projectAttempts es = map (\<lambda>key. the (view key es)) (first_keys es)"
  unfolding projectAttempts_def first_keys_def key_fold_view [symmetric] by (rule jp.projection_is_fold)

text \<open>Two well-formed attempt tuples have the same key exactly when they are the same attempt.\<close>

theorem attempt_key_identity:
  assumes "isValidAttemptTuple l" and "isValidAttemptTuple r"
  shows "attemptKey l = attemptKey r \<longleftrightarrow> sameAttempt l r"
  using assms by (rule attemptKey_eq_iff)

theorem attempt_key_identity_witness: "attemptKey (demo_tuple 1) \<noteq> attemptKey (demo_tuple 2)"
proof -
  have "isValidAttemptTuple (demo_tuple 1)" "isValidAttemptTuple (demo_tuple 2)" "\<not> sameAttempt (demo_tuple 1) (demo_tuple 2)"
    by code_simp+
  then show ?thesis using attempt_key_identity by blast
qed

end
