(* ===== verification/JournalEvidence.thy ===== *)
theory JournalEvidence
  imports JournalProperties
begin

text \<open>
  Evidence in the attempt journal: recorded evidence is answered idempotently and is immutable; legacy
  evidence is classified safely, imported atomically, at most once, and whenever it can be.
\<close>

section \<open>Evidence is recorded once\<close>

lemma strict_eq_refl_string: "is_nonempty_string v \<Longrightarrow> strict_eq v v"
  by (auto simp: is_nonempty_string_iff)

lemma sameAttempt_refl: "isValidAttemptTuple t \<Longrightarrow> sameAttempt t t"
  using attemptKey_eq_iff [of t t] by simp

lemma identity_matches_self:
  assumes "ev_kind e = Some k" and "informational k" and "ev_attempt e = tuple_object att" and "ev_payload e = payload"
    and "isValidAttemptTuple att" and "\<not> observation_invalid k payload"
  shows "identity_matches k att payload e"
proof (cases "k = RunResultRecorded \<or> k = RunOriginalRecorded")
  case True
  with assms show ?thesis by (auto simp: identity_matches_def sameAttempt_refl)
next
  case False
  with assms(2,6) have "is_nonempty_string (js_get payload ''invocation_id'')"
    by (cases k) (simp_all add: observation_invalid_def isValidInvocationObservationPayload_def)
  with assms show ?thesis by (simp add: identity_matches_def sameAttempt_refl strict_eq_refl_string)
qed

lemma run_original_again:
  "runOriginalRefusal payload r JUndef b = None \<Longrightarrow> runOriginalRefusal payload r payload b = None"
  by (auto simp: runOriginalRefusal_def nullish_def split: if_splits)

text \<open>The facts of an admitted piece of evidence.\<close>

lemma observation_admitted:
  assumes "valid_journal H repo subj es st" and "isValidAttemptTuple att" and "informational k"
    and "admitAttemptCommand H repo subj (JArr es) att (JStr (kind_name k)) payload gen tip liveness = Appended e es'"
  obtains s where "view (attemptKey att) es = Some s" "isLegalSuccessor (st_last_kind s) k"
    "isValidAttemptTuple (js_get (js_default (JObj []) payload) ''dispatch_tuple'')"
    "isValidAttemptTuple (retained_binding s)"
    "sameAttempt (js_get (js_default (JObj []) payload) ''dispatch_tuple'') (retained_binding s)"
    "k = RunResultRecorded \<longrightarrow> run_result_payload_ok H (js_default (JObj []) payload)"
    "\<not> observation_invalid k (js_default (JObj []) payload)"
    "find (identity_matches k att (js_default (JObj []) payload)) (st_events s) = None"
    "k = RunOriginalRecorded \<longrightarrow> runOriginalRefusal (js_default (JObj []) payload)
       (payload_of (event_of_kind RunResultRecorded (st_events s))) JUndef (retained_binding s) = None"
    "mint_next H repo subj es (prior_digest st) att (st_generation s) (st_tip s) k (js_default (JObj []) payload) = Appended e es'"
proof -
  let ?p = "js_default (JObj []) payload"
  have a: "admit_informational H repo subj es (prior_digest st) (view (attemptKey att) es) att k ?p = Appended e es'"
    using assms(3,4) unfolding admit_unfold [OF assms(1,2)] by simp
  then obtain s where s: "view (attemptKey att) es = Some s"
    by (auto simp: admit_informational_def split: option.splits)
  show ?thesis
    by (rule that [OF s]; use a s in \<open>simp add: admit_informational_def Let_def payload_of_def
        split: if_split_asm option.split_asm\<close>)
qed

lemma valid_after:
  assumes "reachable_journal H repo subj es"
    and "admitAttemptCommand H repo subj (JArr es) att kind payload gen tip liveness = Appended e es'"
  obtains st where "valid_journal H repo subj es' st" "es' = es @ [e]" "isValidAttemptTuple att"
  using reachable_valid [OF reachable_journal.admit [OF assms]] admit_step [OF assms(2)] assms(2)
  by (auto simp: admitAttemptCommand_def Let_def split: sum.splits if_splits option.splits prod.splits)

text \<open>The attempt after its evidence was recorded: the retained binding and result are the same, and the
  new event is the one that matches the identity of the evidence.\<close>

lemma view_after_observation:
  assumes "view key es = Some s" and "ev_key e = key" and "ev_kind e = Some k" and "informational k"
  shows "\<exists>s'. view key (es @ [e]) = Some s' \<and> st_events s' = st_events s @ [e] \<and> st_last_kind s' = st_last_kind s \<and>
    retained_binding s' = retained_binding s \<and>
    (k \<noteq> RunResultRecorded \<longrightarrow>
      event_of_kind RunResultRecorded (st_events s') = event_of_kind RunResultRecorded (st_events s))"
proof -
  have v: "view key (es @ [e]) = Some (record_event s e)" using assms(1,2) by (simp add: view_snoc)
  moreover have "k \<noteq> PendingPublished" using assms(4) by auto
  ultimately show ?thesis
    using assms(3,4)
    by (simp add: retained_binding_def event_of_kind_def find_append split: option.splits)
qed

text \<open>C34: Recording the same evidence again is idempotent: when a journal built by commands has just admitted evidence, of any of
  the informational kinds, and the next command for the attempt is the same evidence once more, whatever generation, tip and
  liveness come with it, it is answered with the recorded event and the journal stays as it is.\<close>

theorem evidence_idempotent:
  assumes "reachable_journal H repo subj es" and "informational k"
    and "admitAttemptCommand H repo subj (JArr es) att (JStr (kind_name k)) payload gen tip liveness = Appended e es'"
  shows "admitAttemptCommand H repo subj (JArr es') att (JStr (kind_name k)) payload gen' tip' liveness' = AlreadyRecorded e es'"
proof -
  obtain st0 where v0: "valid_journal H repo subj es st0" using reachable_valid [OF assms(1)] by blast
  obtain st where v: "valid_journal H repo subj es' st" and es': "es' = es @ [e]" and att: "isValidAttemptTuple att"
    by (rule valid_after [OF assms(1,3)])
  let ?p = "js_default (JObj []) payload"
  obtain s where s: "view (attemptKey att) es = Some s" and c: "isLegalSuccessor (st_last_kind s) k"
    "isValidAttemptTuple (js_get ?p ''dispatch_tuple'')" "isValidAttemptTuple (retained_binding s)"
    "sameAttempt (js_get ?p ''dispatch_tuple'') (retained_binding s)"
    "k = RunResultRecorded \<longrightarrow> run_result_payload_ok H ?p" "\<not> observation_invalid k ?p"
    "find (identity_matches k att ?p) (st_events s) = None"
    "k = RunOriginalRecorded \<longrightarrow> runOriginalRefusal ?p (payload_of (event_of_kind RunResultRecorded (st_events s)))
      JUndef (retained_binding s) = None"
    and m: "mint_next H repo subj es (prior_digest st0) att (st_generation s) (st_tip s) k ?p = Appended e es'"
    by (rule observation_admitted [OF v0 att assms(2,3)])
  from m have mint: "mintAttemptEvent H repo subj att (JInt (int (length es))) (prior_digest st0) (st_generation s)
      (st_tip s) (JStr (kind_name k)) ?p = Inr e" by (simp add: mint_next_Appended)
  note f = mint_fields [OF mint]
  have e: "ev_kind e = Some k" "ev_key e = attemptKey att" using f(4,9) by (simp_all add: ev_kind_def ev_key_def)
  obtain s' where s': "view (attemptKey att) es' = Some s'" "st_events s' = st_events s @ [e]"
    "st_last_kind s' = st_last_kind s" "retained_binding s' = retained_binding s"
    "k \<noteq> RunResultRecorded \<longrightarrow> event_of_kind RunResultRecorded (st_events s') = event_of_kind RunResultRecorded (st_events s)"
    using view_after_observation [OF s e(2,1) assms(2)] unfolding es' by blast
  have "find (identity_matches k att ?p) (st_events s') = Some e"
    using c(7) identity_matches_self [OF e(1) assms(2) f(4,10) att c(6)] by (simp add: s'(2) find_append)
  moreover have "k = RunOriginalRecorded \<longrightarrow> runOriginalRefusal ?p
      (payload_of (event_of_kind RunResultRecorded (st_events s'))) (payload_of (Some e)) (retained_binding s') = None"
    using c(8) s'(4,5) run_original_again f(10) by (auto simp: payload_of_def)
  ultimately show ?thesis
    using c(1-6) s' assms(2) f(10) unfolding admit_unfold [OF v att]
    by (simp add: admit_informational_def Let_def)
qed


definition demo_result_payload :: jsval where
  "demo_result_payload = JObj [(''dispatch_tuple'', demo_tuple 0), (''result_digest'', JStr ''sha256:0''), (''result'', JObj [])]"

lemma demo_result_admitted:
  "is_appended (demo_admit (demo_journal [ReservationClaimed, PendingPublished]) 0 RunResultRecorded demo_result_payload JUndef)"
  by code_simp

definition demo_recorded :: "jsval list" where
  "demo_recorded = demo_journal [ReservationClaimed, PendingPublished] @
     [appended_event (demo_admit (demo_journal [ReservationClaimed, PendingPublished]) 0 RunResultRecorded
        demo_result_payload JUndef)]"

theorem evidence_idempotent_witness:
  "\<exists>e. demo_admit demo_recorded 0 RunResultRecorded demo_result_payload JUndef = AlreadyRecorded e demo_recorded"
  unfolding demo_recorded_def
  by (rule exI, rule evidence_idempotent [OF demo_reachable _ appended_shape [OF demo_result_admitted]]) simp

text \<open>Recorded evidence is immutable: a command with the identity of a recorded event and another payload is
  refused.\<close>

theorem evidence_conflict_refused:
  assumes "validateAttemptJournal H repo subj events = Inr (es, digest)" and "informational k"
    and "find_state (attemptKey att) (projectAttempts es) = Some s"
    and "find (identity_matches k att payload) (st_events s) = Some e"
    and "canonicalJson (ev_payload e) \<noteq> canonicalJson payload" and "payload \<noteq> JUndef"
  shows "\<exists>r. admitAttemptCommand H repo subj events att (JStr (kind_name k)) payload gen tip liveness = Refused r"
  using assms
  by (auto simp: admitAttemptCommand_def Let_def js_default_def admit_informational_def split: option.split)

definition demo_other_payload :: jsval where
  "demo_other_payload = JObj [(''dispatch_tuple'', demo_tuple 0), (''result_digest'', JStr ''sha256:0''),
     (''result'', JObj [(''x'', JNull)])]"

lemma demo_recorded_reachable: "reachable_journal demo_hash (JStr ''repo'') (JStr ''subject'') demo_recorded"
  unfolding demo_recorded_def
  by (rule reachable_journal.admit [OF demo_reachable appended_shape [OF demo_result_admitted]])

lemma demo_recorded_facts:
  "\<exists>s e. find_state (attemptKey (demo_tuple 0)) (projectAttempts demo_recorded) = Some s \<and>
     find (identity_matches RunResultRecorded (demo_tuple 0) demo_other_payload) (st_events s) = Some e \<and>
     canonicalJson (ev_payload e) \<noteq> canonicalJson demo_other_payload"
proof -
  have "(case find_state (attemptKey (demo_tuple 0)) (projectAttempts demo_recorded) of None \<Rightarrow> False | Some s \<Rightarrow>
    (case find (identity_matches RunResultRecorded (demo_tuple 0) demo_other_payload) (st_events s) of None \<Rightarrow> False
     | Some e \<Rightarrow> canonicalJson (ev_payload e) \<noteq> canonicalJson demo_other_payload))"
    by code_simp
  then show ?thesis by (auto split: option.splits)
qed

theorem evidence_conflict_refused_witness:
  "\<exists>r. demo_admit demo_recorded 0 RunResultRecorded demo_other_payload JUndef = Refused r"
proof -
  obtain st where "valid_journal demo_hash (JStr ''repo'') (JStr ''subject'') demo_recorded st"
    using reachable_valid [OF demo_recorded_reachable] by blast
  then have v: "validateAttemptJournal demo_hash (JStr ''repo'') (JStr ''subject'') (JArr demo_recorded) =
      Inr (demo_recorded, prior_digest st)"
    by (simp add: validateAttemptJournal_Inr valid_journal_def)
  obtain s e where s: "find_state (attemptKey (demo_tuple 0)) (projectAttempts demo_recorded) = Some s"
    and e: "find (identity_matches RunResultRecorded (demo_tuple 0) demo_other_payload) (st_events s) = Some e"
    and c: "canonicalJson (ev_payload e) \<noteq> canonicalJson demo_other_payload"
    using demo_recorded_facts by blast
  show ?thesis
    by (rule evidence_conflict_refused [OF v _ s e c]) (simp_all add: demo_other_payload_def)
qed

section \<open>Import of legacy evidence\<close>

text \<open>Evidence is classified as releasable only when it is well-formed, its worker is not live, and, when a
  spawned worker did not end, only on authenticated death with an unchanged slice.\<close>

theorem releasable_class_safe:
  assumes "releasable (classifyLegacyImport evidence)"
  shows "isValidLegacyEvidence evidence \<and> js_get evidence ''liveness'' \<noteq> liveness_live \<and>
    (truthy (js_get evidence ''reached_spawn'') \<and> \<not> truthy (js_get evidence ''execution_terminated'') \<longrightarrow>
      js_get evidence ''liveness'' = liveness_dead \<and> truthy (js_get evidence ''slice_ref_equals_base''))"
  using assms
  by (auto simp: classifyLegacyImport_def Let_def liveness_live_def liveness_dead_def split: if_splits)

definition demo_evidence :: jsval where
  "demo_evidence = JObj [(''evidence_digest'', JStr ''d''), (''repository'', JStr ''repo''), (''subject'', JStr ''subject''),
     (''attempt'', demo_tuple 7), (''generation_digest'', JStr ''g''), (''wk_tip'', JStr ''t''),
     (''reached_spawn'', JBool True), (''execution_terminated'', JBool False), (''delivery_completed'', JBool False),
     (''slice_ref_equals_base'', JBool True), (''liveness'', JStr ''dead'')]"

lemma demo_evidence_class: "classifyLegacyImport demo_evidence = RELEASABLE_PROVEN_DEAD"
  by code_simp

theorem releasable_class_safe_witness:
  "isValidLegacyEvidence demo_evidence \<and> js_get demo_evidence ''liveness'' = liveness_dead"
  using releasable_class_safe [of demo_evidence] by (simp add: demo_evidence_class) (simp add: demo_evidence_def)

lemma mint_not_recorded: "mint_next H repo subj es d att g t k p \<noteq> AlreadyRecorded e es'"
  by (simp add: mint_next_def split: sum.split)

lemma admit_lifecycle_not_recorded:
  "admit_lifecycle H repo subj es d states state att k payload gen tip liveness \<noteq> AlreadyRecorded e es'"
  unfolding admit_lifecycle_def Let_def
  by (simp add: mint_not_recorded split: sum.split prod.split del: split_paired_All)

lemma not_recorded_lifecycle:
  "\<not> informational k \<Longrightarrow>
   admitAttemptCommand H repo subj events att (JStr (kind_name k)) payload gen tip liveness \<noteq> AlreadyRecorded e es'"
  by (simp add: admitAttemptCommand_def Let_def admit_lifecycle_not_recorded split: sum.split prod.split)

lemma import_steps_Cons:
  assumes "import_steps H repo subj ev es ((k, payload) # steps) = Inr es'" and "\<not> informational k"
  obtains e where "admitAttemptCommand H repo subj (JArr es) (js_get ev ''attempt'') (JStr (kind_name k)) payload
      (if k = ReservationClaimed then js_get ev ''generation_digest'' else JNull)
      (if k = ReservationClaimed then js_get ev ''wk_tip'' else JNull) (js_get ev ''liveness'') = Appended e (es @ [e])"
    "import_steps H repo subj ev (es @ [e]) steps = Inr es'"
  using assms not_recorded_lifecycle [OF assms(2)] by (auto split: admission.split_asm dest: admit_step)

lemma import_steps_shape:
  assumes "reachable_journal H repo subj es"
    and "import_steps H repo subj ev es (import_sequence ev cls) = Inr es'"
  obtains e1 e2 e3 where "es' = es @ [e1, e2, e3]" "reachable_journal H repo subj es'"
    "ev_kind e1 = Some ReservationClaimed" "ev_kind e3 = Some ReservationReleased"
    "ev_payload e1 = JObj [(''legacy_evidence_digest'', js_get ev ''evidence_digest''), (''imported'', JBool True)]"
    "ev_key e3 = attemptKey (js_get ev ''attempt'')"
proof -
  let ?d = "(''legacy_evidence_digest'', js_get ev ''evidence_digest'')"
  define p1 where "p1 = JObj [?d, (''imported'', JBool True)]"
  obtain p2 p3 where seq: "import_sequence ev cls = [(ReservationClaimed, p1), (AttemptTerminal, p2), (ReservationReleased, p3)]"
    by (simp add: import_sequence_def Let_def p1_def)
  obtain e1 where a1: "admitAttemptCommand H repo subj (JArr es) (js_get ev ''attempt'') (JStr (kind_name ReservationClaimed))
      p1 (js_get ev ''generation_digest'') (js_get ev ''wk_tip'') (js_get ev ''liveness'') = Appended e1 (es @ [e1])"
    and r1: "import_steps H repo subj ev (es @ [e1]) [(AttemptTerminal, p2), (ReservationReleased, p3)] = Inr es'"
    by (rule import_steps_Cons [OF assms(2) [unfolded seq]]) (simp_all del: import_steps.simps kind_name.simps)
  note k1 = reachable_journal.admit [OF assms(1) a1]
  obtain e2 where a2: "admitAttemptCommand H repo subj (JArr (es @ [e1])) (js_get ev ''attempt'')
      (JStr (kind_name AttemptTerminal)) p2 JNull JNull (js_get ev ''liveness'') = Appended e2 ((es @ [e1]) @ [e2])"
    and r2: "import_steps H repo subj ev ((es @ [e1]) @ [e2]) [(ReservationReleased, p3)] = Inr es'"
    by (rule import_steps_Cons [OF r1]) (simp_all del: import_steps.simps kind_name.simps append_assoc)
  note k2 = reachable_journal.admit [OF k1 a2]
  obtain e3 where a3: "admitAttemptCommand H repo subj (JArr ((es @ [e1]) @ [e2])) (js_get ev ''attempt'')
      (JStr (kind_name ReservationReleased)) p3 JNull JNull (js_get ev ''liveness'') = Appended e3 (((es @ [e1]) @ [e2]) @ [e3])"
    and r3: "es' = ((es @ [e1]) @ [e2]) @ [e3]"
    by (rule import_steps_Cons [OF r2]) (simp_all del: kind_name.simps append_assoc)
  note k3 = reachable_journal.admit [OF k2 a3]
  show ?thesis
    using k3 r3 lifecycle_event(1,4) [OF a1] lifecycle_event(1,2) [OF a3]
    by (intro that [of e1 e2 e3]) (simp_all add: js_default_def p1_def)
qed

text \<open>An import is atomic: it returns the journal it was given, or extends it by one claimed, terminal and
  released attempt; a refused import hands the caller's events back.\<close>

theorem legacy_import_atomic:
  assumes "reachable_journal H repo subj es"
  shows "case admitLegacyImport H repo subj (JArr es) evidence of
      ImportThrew t \<Rightarrow> True
    | ImportRefused cls r events \<Rightarrow> events = JArr es \<and> cls = OPERATOR_ONLY_RESIDUE
    | ImportAdmitted imported cls es' \<Rightarrow> reachable_journal H repo subj es' \<and>
        (if imported then releasable cls \<and> length es' = length es + 3 \<and> take (length es) es' = es \<and>
           (\<exists>s. find_state (attemptKey (js_get evidence ''attempt'')) (projectAttempts es') = Some s \<and> st_released s \<noteq> None)
         else es' = es)"
proof (cases "admitLegacyImport H repo subj (JArr es) evidence")
  case (ImportRefused cls r events)
  then show ?thesis
    by (auto simp: admitLegacyImport_def validateAttemptJournal_Inr split: sum.split_asm if_split_asm prod.split_asm)
next
  case (ImportThrew t)
  then show ?thesis by simp
next
  case (ImportAdmitted imported cls es')
  show ?thesis
  proof (cases imported)
    case False
    with ImportAdmitted assms show ?thesis
      by (auto simp: admitLegacyImport_def validateAttemptJournal_Inr split: sum.split_asm if_split_asm prod.split_asm)
  next
    case True
    with ImportAdmitted have s: "import_steps H repo subj evidence es (import_sequence evidence cls) = Inr es'" "releasable cls"
      by (auto simp: admitLegacyImport_def validateAttemptJournal_Inr split: sum.split_asm if_split_asm prod.split_asm)
    obtain e1 e2 e3 where e: "es' = es @ [e1, e2, e3]" "reachable_journal H repo subj es'"
      "ev_kind e3 = Some ReservationReleased" "ev_key e3 = attemptKey (js_get evidence ''attempt'')"
      by (rule import_steps_shape [OF assms s(1)])
    have "view (ev_key e3) ((es @ [e1, e2]) @ [e3]) \<noteq> None" by (simp add: view_snoc del: append_assoc)
    then obtain st where v: "view (attemptKey (js_get evidence ''attempt'')) es' = Some st" using e(1,4) by auto
    have "st_released st \<noteq> None"
      using view_fields(8) [OF v] e(1,3,4) by (simp add: key_events_def)
    with v e s(2) True ImportAdmitted show ?thesis by (simp add: find_state_view)
  qed
qed


lemma admit_null_arguments:
  "admitAttemptCommand H repo subj events att kind payload JNull JNull liveness =
   admitAttemptCommand H repo subj events att kind payload JUndef JUndef liveness"
  by (simp add: admitAttemptCommand_def js_default_def)

lemma import_progress:
  assumes "reachable_journal H repo subj es"
    and "isValidLegacyEvidence evidence" and "js_get evidence ''repository'' = repo" and "js_get evidence ''subject'' = subj"
    and "releasable (classifyLegacyImport evidence)"
    and "find_state (attemptKey (js_get evidence ''attempt'')) (projectAttempts es) = None"
    and "unreleased (projectAttempts es) = []"
    and "\<not> legacyEvidenceAlreadyImported es (js_get evidence ''evidence_digest'')"
  shows "\<exists>es'. admitLegacyImport H repo subj (JArr es) evidence = ImportAdmitted True (classifyLegacyImport evidence) es'"
proof -
  let ?att = "js_get evidence ''attempt''"
  let ?l = "js_get evidence ''liveness''"
  let ?d = "(''legacy_evidence_digest'', js_get evidence ''evidence_digest'')"
  have ev: "is_nonempty_string repo" "is_nonempty_string subj" "isValidAttemptTuple ?att"
    "is_nonempty_string (js_get evidence ''generation_digest'')" "is_nonempty_string (js_get evidence ''wk_tip'')"
    using assms(2-4) by (auto simp: isValidLegacyEvidence_def)
  have fresh: "view (attemptKey ?att) es = None" using assms(6) by (simp add: find_state_view)
  obtain e1 where a1: "admitAttemptCommand H repo subj (JArr es) ?att (JStr (kind_name ReservationClaimed))
      (JObj [?d, (''imported'', JBool True)]) (js_get evidence ''generation_digest'') (js_get evidence ''wk_tip'') ?l =
      Appended e1 (es @ [e1])"
    using claim_admitted [OF assms(1) ev(1-3) fresh assms(7) ev(4,5), of "JObj [?d, (''imported'', JBool True)]"] by auto
  note r1 = reachable_journal.admit [OF assms(1) a1]
  let ?s1 = "record_event (new_attempt_state e1) e1"
  have s1: "view (attemptKey ?att) (es @ [e1]) = Some ?s1" "st_last_kind ?s1 = Some ReservationClaimed"
    "st_released ?s1 = None"
    using fresh lifecycle_event(1,2) [OF a1] by (simp_all add: view_snoc last_kind_def new_attempt_state_def)
  have legal: "isLegalSuccessor (st_last_kind ?s1) AttemptTerminal"
    unfolding s1(2) by (simp add: isLegalSuccessor_def)
  have "\<exists>e2. admitAttemptCommand H repo subj (JArr (es @ [e1])) ?att (JStr (kind_name AttemptTerminal))
      (JObj [(''reason'', JStr (import_class_name (classifyLegacyImport evidence))), ?d]) JUndef JUndef ?l =
      Appended e2 ((es @ [e1]) @ [e2])"
    by (rule advance_admitted [OF r1 ev(3) s1(1) _ _ _ legal]) simp_all
  then obtain e2 where a2: "admitAttemptCommand H repo subj (JArr (es @ [e1])) ?att (JStr (kind_name AttemptTerminal))
      (JObj [(''reason'', JStr (import_class_name (classifyLegacyImport evidence))), ?d]) JUndef JUndef ?l =
      Appended e2 ((es @ [e1]) @ [e2])" by blast
  note r2 = reachable_journal.admit [OF r1 a2]
  have s2: "view (attemptKey ?att) ((es @ [e1]) @ [e2]) = Some (record_event ?s1 e2)"
    "st_terminal (record_event ?s1 e2) \<noteq> None" "st_released (record_event ?s1 e2) = None"
    using s1(1,3) lifecycle_event(1,2) [OF a2] view_snoc [of "attemptKey ?att" "es @ [e1]" e2] by simp_all
  obtain e3 where a3: "admitAttemptCommand H repo subj (JArr ((es @ [e1]) @ [e2])) ?att (JStr (kind_name ReservationReleased))
      (JObj [?d]) JUndef JUndef ?l = Appended e3 (((es @ [e1]) @ [e2]) @ [e3])"
    using release_admitted [OF r2 ev(3) s2, of "JObj [?d]"] by auto
  have "import_steps H repo subj evidence es (import_sequence evidence (classifyLegacyImport evidence)) =
      Inr (((es @ [e1]) @ [e2]) @ [e3])"
    using a1 a2 a3 by (simp add: import_sequence_def Let_def admit_null_arguments)
  moreover obtain st where "valid_journal H repo subj es st" using reachable_valid [OF assms(1)] by blast
  ultimately show ?thesis
    using assms(2-5,8) ev(1,2)
    by (auto simp: admitLegacyImport_def validateAttemptJournal_def valid_journal_def is_nonempty_string_iff)
qed

text \<open>Releasable evidence for a fresh attempt of a subject with no open reservation is imported.\<close>

theorem legacy_import_succeeds:
  assumes "reachable_journal H repo subj es"
    and "isValidLegacyEvidence evidence" and "js_get evidence ''repository'' = repo" and "js_get evidence ''subject'' = subj"
    and "releasable (classifyLegacyImport evidence)"
    and "find_state (attemptKey (js_get evidence ''attempt'')) (projectAttempts es) = None"
    and "unreleased (projectAttempts es) = []"
    and "\<not> legacyEvidenceAlreadyImported es (js_get evidence ''evidence_digest'')"
  shows "\<exists>es'. admitLegacyImport H repo subj (JArr es) evidence = ImportAdmitted True (classifyLegacyImport evidence) es'"
  using assms by (rule import_progress)

lemma demo_evidence_facts:
  "isValidLegacyEvidence demo_evidence" "releasable (classifyLegacyImport demo_evidence)"
  "js_get demo_evidence ''repository'' = JStr ''repo''" "js_get demo_evidence ''subject'' = JStr ''subject''"
  by code_simp+

theorem legacy_import_succeeds_witness:
  "\<exists>es'. admitLegacyImport demo_hash (JStr ''repo'') (JStr ''subject'') (JArr []) demo_evidence =
     ImportAdmitted True (classifyLegacyImport demo_evidence) es'"
  by (rule legacy_import_succeeds [OF reachable_journal.empty demo_evidence_facts(1,3,4,2)])
     (simp_all add: find_state_def unreleased_def legacyEvidenceAlreadyImported_def)

text \<open>Importing the same evidence twice changes nothing the second time.\<close>

theorem legacy_import_idempotent:
  assumes "reachable_journal H repo subj es"
    and "admitLegacyImport H repo subj (JArr es) evidence = ImportAdmitted imported cls es'"
  shows "admitLegacyImport H repo subj (JArr es') evidence = ImportAdmitted False cls es'"
proof (cases imported)
  case False
  with assms(2) have "es' = es"
    by (auto simp: admitLegacyImport_def validateAttemptJournal_Inr split: sum.split_asm if_split_asm prod.split_asm)
  with False assms(2) show ?thesis by simp
next
  case True
  with assms(2) have s: "import_steps H repo subj evidence es (import_sequence evidence cls) = Inr es'"
    and c: "cls = classifyLegacyImport evidence" "isValidLegacyEvidence evidence"
    "strict_eq (js_get evidence ''repository'') repo" "strict_eq (js_get evidence ''subject'') subj"
    by (auto simp: admitLegacyImport_def validateAttemptJournal_Inr split: sum.split_asm if_split_asm prod.split_asm)
  obtain e1 e2 e3 where e: "es' = es @ [e1, e2, e3]" "reachable_journal H repo subj es'"
    "ev_kind e1 = Some ReservationClaimed"
    "ev_payload e1 = JObj [(''legacy_evidence_digest'', js_get evidence ''evidence_digest''), (''imported'', JBool True)]"
    by (rule import_steps_shape [OF assms(1) s])
  obtain st where "valid_journal H repo subj es' st" using reachable_valid [OF e(2)] by blast
  then have v: "validateAttemptJournal H repo subj (JArr es') = Inr (es', prior_digest st)"
    by (simp add: validateAttemptJournal_Inr valid_journal_def)
  have "legacyEvidenceAlreadyImported es' (js_get evidence ''evidence_digest'')"
    using c(2) e by (auto simp: legacyEvidenceAlreadyImported_def isValidLegacyEvidence_def strict_eq_refl_string)
  with v c show ?thesis by (simp add: admitLegacyImport_def)
qed

definition demo_imported :: import_result where
  "demo_imported = admitLegacyImport demo_hash (JStr ''repo'') (JStr ''subject'') (JArr []) demo_evidence"

theorem legacy_import_atomic_witness:
  "case demo_imported of ImportAdmitted imported cls es' \<Rightarrow> reachable_journal demo_hash (JStr ''repo'') (JStr ''subject'') es'
   | ImportRefused cls r events \<Rightarrow> events = JArr [] | ImportThrew t \<Rightarrow> True"
  using legacy_import_atomic [OF reachable_journal.empty, of demo_hash "JStr ''repo''" "JStr ''subject''" demo_evidence]
  by (auto simp: demo_imported_def split: import_result.splits)

lemma demo_import_admitted:
  "\<exists>es'. admitLegacyImport demo_hash (JStr ''repo'') (JStr ''subject'') (JArr []) demo_evidence =
     ImportAdmitted True (classifyLegacyImport demo_evidence) es'"
  by (rule import_progress [OF reachable_journal.empty demo_evidence_facts(1,3,4,2)])
     (simp_all add: find_state_def unreleased_def legacyEvidenceAlreadyImported_def)

theorem legacy_import_idempotent_witness:
  "\<exists>es'. admitLegacyImport demo_hash (JStr ''repo'') (JStr ''subject'') (JArr es') demo_evidence =
     ImportAdmitted False (classifyLegacyImport demo_evidence) es'"
  using demo_import_admitted legacy_import_idempotent [OF reachable_journal.empty] by blast

end
