(* ===== verification/JsonParse.thy ===== *)
theory JsonParse
  imports CanonicalJson
begin

text \<open>
  \<open>JSON.parse\<close>, as a function that reads a value from the front of a text and hands on the rest. It is defined by
  well-founded recursion on the length of the text.

  A numeral other than that of an integer of magnitude below \<open>2 ^ 53\<close> is read by the parameter \<open>NUM\<close>, which stands for the
  rounding of a decimal to a number of the language. A text whose escapes name a code unit above 255, which the strings of
  the model do not have, has the result \<open>Outside\<close>.

  Main results: reading terminates; what is read is a JSON value whose properties are in the order of own keys; and the text
  of such a value is read back as that value.
\<close>

section \<open>Reading from the front of a text\<close>

datatype 'a reading = Read 'a string | SyntaxError | Outside

fun read_bind :: "'a reading \<Rightarrow> ('a \<Rightarrow> string \<Rightarrow> 'b reading) \<Rightarrow> 'b reading" where
  "read_bind (Read x r) f = f x r"
| "read_bind SyntaxError f = SyntaxError"
| "read_bind Outside f = Outside"

lemma read_bind_cong [fundef_cong]:
  "m = m' \<Longrightarrow> (\<And>x r. m' = Read x r \<Longrightarrow> f x r = g x r) \<Longrightarrow> read_bind m f = read_bind m' g"
  by (cases m') auto

lemma read_bind_Read [simp]:
  "read_bind m f = Read y s \<longleftrightarrow> (\<exists>x r. m = Read x r \<and> f x r = Read y s)"
  by (cases m) auto

definition json_space :: "char \<Rightarrow> bool" where
  "json_space c \<longleftrightarrow> c \<in> {CHR 0x09, CHR 0x0A, CHR 0x0D, CHR 0x20}"

definition skip_space :: "string \<Rightarrow> string" where
  "skip_space s = dropWhile json_space s"

lemma skip_space_length: "length (skip_space s) \<le> length s"
  by (simp add: skip_space_def length_dropWhile_le)

lemma skip_space_Cons: "skip_space s = c # r \<Longrightarrow> length r < length s"
  using skip_space_length [of s] by simp

text \<open>The next character is \<open>c\<close>; and what follows an item of a list, a comma or the closing character.\<close>

definition expect :: "char \<Rightarrow> string \<Rightarrow> (string \<Rightarrow> 'a reading) \<Rightarrow> 'a reading" where
  "expect c s f = (case skip_space s of [] \<Rightarrow> SyntaxError | d # r \<Rightarrow> if d = c then f r else SyntaxError)"

definition after_item :: "char \<Rightarrow> string \<Rightarrow> (string \<Rightarrow> 'a reading) \<Rightarrow> 'a \<Rightarrow> 'a reading" where
  "after_item close s f x = (case skip_space s of [] \<Rightarrow> SyntaxError | d # r \<Rightarrow>
     if d = CHR '','' then f r else if d = close then Read x r else SyntaxError)"

lemma expect_cong [fundef_cong]:
  "c = c' \<Longrightarrow> s = s' \<Longrightarrow> (\<And>r. skip_space s' = c' # r \<Longrightarrow> f r = g r) \<Longrightarrow> expect c s f = expect c' s' g"
  by (auto simp: expect_def split: list.split)

lemma after_item_cong [fundef_cong]:
  "close = close' \<Longrightarrow> s = s' \<Longrightarrow> (\<And>r. skip_space s' = CHR '','' # r \<Longrightarrow> f r = g r) \<Longrightarrow> x = y \<Longrightarrow>
   after_item close s f x = after_item close' s' g y"
  by (auto simp: after_item_def split: list.split)

lemma expect_Read: "expect c s f = Read y t \<longleftrightarrow> (\<exists>r. skip_space s = c # r \<and> f r = Read y t)"
  by (auto simp: expect_def split: list.split)

lemma after_item_Read:
  "after_item close s f x = Read y t \<Longrightarrow>
   (\<exists>r. skip_space s = CHR '','' # r \<and> f r = Read y t) \<or> skip_space s = close # t \<and> y = x"
  by (auto simp: after_item_def split: list.splits if_splits)

lemma after_item_shrinks:
  assumes "after_item close s f x = Read y t"
    and "\<And>r. skip_space s = CHR '','' # r \<Longrightarrow> f r = Read y t \<Longrightarrow> length t < length r"
  shows "length t < length s"
  using after_item_Read [OF assms(1)] assms(2) skip_space_Cons less_trans by metis

subsection \<open>Strings\<close>

definition hex_val :: "char \<Rightarrow> nat" where
  "hex_val c = (let n = of_char c in if n < 58 then n - 48 else if n < 71 then n - 55 else n - 87)"

definition simple_escape :: "char \<Rightarrow> char option" where
  "simple_escape c = map_of [(CHR 0x22, CHR 0x22), (CHR 0x5C, CHR 0x5C), (CHR ''/'', CHR ''/''), (CHR ''b'', CHR 0x08),
     (CHR ''f'', CHR 0x0C), (CHR ''n'', CHR 0x0A), (CHR ''r'', CHR 0x0D), (CHR ''t'', CHR 0x09)] c"

text \<open>The characters of a string literal after its opening quote.\<close>

function read_chars :: "string \<Rightarrow> string \<Rightarrow> string reading" where
  "read_chars acc s = (case s of
     [] \<Rightarrow> SyntaxError
   | c # r \<Rightarrow>
       if c = CHR 0x22 then Read acc r
       else if c = CHR 0x5C then
         (case r of
            [] \<Rightarrow> SyntaxError
          | e # r' \<Rightarrow>
              if e = CHR ''u'' then
                (if 4 \<le> length r' \<and> list_all is_hex (take 4 r') then
                   (let n = foldl (\<lambda>n h. 16 * n + hex_val h) 0 (take 4 r') in
                    if n < 256 then read_chars (acc @ [char_of n]) (drop 4 r')
                    else Outside)
                 else SyntaxError)
              else (case simple_escape e of None \<Rightarrow> SyntaxError | Some d \<Rightarrow> read_chars (acc @ [d]) r'))
       else if (of_char c :: nat) < 32 then SyntaxError
       else read_chars (acc @ [c]) r)"
  by pat_completeness auto
termination by (relation "measure (\<lambda>(acc, s). length s)") auto

declare read_chars.simps [simp del]

lemma read_chars_shrinks: "read_chars acc s = Read t r \<Longrightarrow> length r < length s"
proof (induction s arbitrary: acc rule: length_induct)
  case (1 s)
  have less: "length s' < length s \<longrightarrow> length r < length s'" if "read_chars acc' s' = Read t r" for acc' s'
    using 1(1) that by blast
  from 1(2) show ?case
    by (subst (asm) read_chars.simps) (auto simp: Let_def split: list.splits if_splits option.splits dest!: less)
qed

subsection \<open>Numbers\<close>

definition is_numeral_char :: "char \<Rightarrow> bool" where
  "is_numeral_char c \<longleftrightarrow> is_digit c \<or> c \<in> set ''+-.eE''"

text \<open>\<open>-? (0 | [1-9][0-9]*) (. [0-9]+)? ([eE] [+-]? [0-9]+)?\<close>\<close>

definition digits1 :: "string \<Rightarrow> bool" where
  "digits1 s \<longleftrightarrow> s \<noteq> [] \<and> list_all is_digit s"

definition int_part :: "string \<Rightarrow> bool" where
  "int_part s \<longleftrightarrow> digits1 s \<and> (s = ''0'' \<or> hd s \<noteq> CHR ''0'')"

definition exponent_part :: "string \<Rightarrow> bool" where
  "exponent_part s \<longleftrightarrow> (case s of [] \<Rightarrow> True | c # r \<Rightarrow> c \<in> set ''eE'' \<and>
     (case r of [] \<Rightarrow> False | d # t \<Rightarrow> if d \<in> set ''+-'' then digits1 t else digits1 r))"

definition fraction_part :: "string \<Rightarrow> bool" where
  "fraction_part s \<longleftrightarrow> (case s of [] \<Rightarrow> True | c # r \<Rightarrow>
     if c = CHR ''.'' then takeWhile is_digit r \<noteq> [] \<and> exponent_part (dropWhile is_digit r) else exponent_part s)"

definition unsigned_text :: "string \<Rightarrow> string" where
  "unsigned_text s = (case s of CHR ''-'' # r \<Rightarrow> r | _ \<Rightarrow> s)"

definition json_numeral :: "string \<Rightarrow> bool" where
  "json_numeral s \<longleftrightarrow> (let u = unsigned_text s in
     int_part (takeWhile is_digit u) \<and> fraction_part (dropWhile is_digit u))"

type_synonym number_reader = "string \<Rightarrow> jsnum"

definition safe_numeral :: "string \<Rightarrow> bool" where
  "safe_numeral s \<longleftrightarrow> int_part (unsigned_text s) \<and> int (nat_of_digits (unsigned_text s)) < 9007199254740992"

definition number_of :: "number_reader \<Rightarrow> string \<Rightarrow> jsnum" where
  "number_of NUM s =
     (if safe_numeral s then
        (let n = int (nat_of_digits (unsigned_text s)) in NInt (if s = unsigned_text s then n else - n))
      else NUM s)"

text \<open>A numeral is followed by none of its own characters in a JSON text, so it is the longest run of them.\<close>

definition read_number :: "number_reader \<Rightarrow> string \<Rightarrow> jsval reading" where
  "read_number NUM s = (let t = takeWhile is_numeral_char s in
     if json_numeral t then Read (JNum (number_of NUM t)) (dropWhile is_numeral_char s) else SyntaxError)"

lemma read_number_shrinks: "read_number NUM s = Read v r \<Longrightarrow> length r < length s"
proof -
  assume a: "read_number NUM s = Read v r"
  then have "takeWhile is_numeral_char s \<noteq> []"
    by (auto simp: read_number_def Let_def json_numeral_def int_part_def digits1_def unsigned_text_def split: if_splits)
  moreover have "r = dropWhile is_numeral_char s" using a by (simp add: read_number_def Let_def split: if_splits)
  ultimately show ?thesis
    by (metis length_append length_greater_0_conv less_add_same_cancel2 takeWhile_dropWhile_id)
qed

subsection \<open>Values\<close>

definition read_word :: "string \<Rightarrow> jsval \<Rightarrow> string \<Rightarrow> jsval reading" where
  "read_word w v s = (if starts_with s w then Read v (drop (length w) s) else SyntaxError)"

function (sequential)
  read_value :: "number_reader \<Rightarrow> string \<Rightarrow> jsval reading" and
  read_elements :: "number_reader \<Rightarrow> jsval list \<Rightarrow> string \<Rightarrow> jsval reading" and
  read_members :: "number_reader \<Rightarrow> jsobj \<Rightarrow> string \<Rightarrow> jsval reading" where
  "read_value NUM s = (case skip_space s of
     [] \<Rightarrow> SyntaxError
   | c # r \<Rightarrow>
       if c = CHR ''{'' then
         (if starts_with (skip_space r) ''}'' then Read (JObj []) (tl (skip_space r)) else read_members NUM [] r)
       else if c = CHR ''['' then
         (if starts_with (skip_space r) '']'' then Read (JArr []) (tl (skip_space r)) else read_elements NUM [] r)
       else if c = CHR 0x22 then read_bind (read_chars [] r) (\<lambda>t r. Read (JStr t) r)
       else if c = CHR ''t'' then read_word ''true'' (JBool True) (c # r)
       else if c = CHR ''f'' then read_word ''false'' (JBool False) (c # r)
       else if c = CHR ''n'' then read_word ''null'' JNull (c # r)
       else read_number NUM (c # r))"
| "read_elements NUM acc s = read_bind (read_value NUM s) (\<lambda>v r.
     after_item (CHR '']'') r (read_elements NUM (acc @ [v])) (JArr (acc @ [v])))"
| "read_members NUM acc s = expect (CHR 0x22) s (\<lambda>r.
     read_bind (read_chars [] r) (\<lambda>k r1. expect (CHR '':'') r1 (\<lambda>r2.
     read_bind (read_value NUM r2) (\<lambda>v r3.
     after_item (CHR ''}'') r3 (read_members NUM (obj_put k v acc)) (JObj (obj_put k v acc))))))"
  by pat_completeness auto

lemma read_word_shrinks: "w \<noteq> [] \<Longrightarrow> read_word w v s = Read x r \<Longrightarrow> length r < length s"
  by (auto simp: read_word_def starts_with_append split: if_splits)

lemmas read_shrinks = skip_space_Cons read_chars_shrinks read_number_shrinks read_word_shrinks [rotated]

text \<open>Reading makes the text shorter, wherever the functions are defined.\<close>

lemma read_dom_shrinks:
  "read_value_read_elements_read_members_dom (Inl (NUM, s)) \<Longrightarrow> read_value NUM s = Read v r \<Longrightarrow> length r < length s"
  "read_value_read_elements_read_members_dom (Inr (Inl (NUM, acc, s))) \<Longrightarrow> read_elements NUM acc s = Read v r \<Longrightarrow> length r < length s"
  "read_value_read_elements_read_members_dom (Inr (Inr (NUM, kvs, s))) \<Longrightarrow> read_members NUM kvs s = Read v r \<Longrightarrow> length r < length s"
proof (induction arbitrary: v r and v r and v r rule: read_value_read_elements_read_members.pinduct)
  case (1 NUM s)
  from 1(4) obtain c t where ct: "skip_space s = c # t"
    by (subst (asm) read_value.psimps [OF 1(1)]) (auto split: list.splits)
  then have "length t < length s" by (rule skip_space_Cons)
  moreover have "c = CHR ''['' \<Longrightarrow> \<not> starts_with (skip_space t) '']'' \<Longrightarrow> read_elements NUM [] t = Read v r \<Longrightarrow> length r < length t"
    using 1(3) [OF ct] by simp
  moreover have "length r \<le> length t" using 1(4) ct calculation(2) skip_space_length [of t]
    by (subst (asm) read_value.psimps [OF 1(1)])
      (auto simp: less_Suc_eq_le [symmetric] split: if_splits dest: 1(2) [OF ct] dest!: read_shrinks)
  ultimately show ?case by simp
next
  case (2 NUM acc s)
  from 2(4) [unfolded read_elements.psimps [OF 2(1)] read_bind_Read] obtain x t
    where x: "read_value NUM s = Read x t"
      and rest: "after_item (CHR '']'') t (read_elements NUM (acc @ [x])) (JArr (acc @ [x])) = Read v r"
    by blast
  have "length r < length t" by (rule after_item_shrinks [OF rest]) (rule 2(3) [OF x])
  with 2(2) [OF x] show ?case by simp
next
  case (3 NUM acc s)
  from 3(4) [unfolded read_members.psimps [OF 3(1)] expect_Read read_bind_Read] obtain t k t1 t2 x t3
    where q: "skip_space s = CHR 0x22 # t" and k: "read_chars [] t = Read k t1" and c: "skip_space t1 = CHR '':'' # t2"
      and x: "read_value NUM t2 = Read x t3"
      and rest: "after_item (CHR ''}'') t3 (read_members NUM (obj_put k x acc)) (JObj (obj_put k x acc)) = Read v r"
    by blast
  have "length r < length t3" by (rule after_item_shrinks [OF rest]) (rule 3(3) [OF q k c x])
  with 3(2) [OF q k c x] read_chars_shrinks [OF k] skip_space_Cons [OF q] skip_space_Cons [OF c] show ?case by simp
qed

termination read_value
proof (relation "measure (\<lambda>x. case x of Inl (NUM, s) \<Rightarrow> 2 * length s
    | Inr (Inl (NUM, acc, s)) \<Rightarrow> Suc (2 * length s) | Inr (Inr (NUM, acc, s)) \<Rightarrow> Suc (2 * length s))")
qed (auto dest!: read_shrinks read_dom_shrinks(1))


declare read_value.simps [simp del] read_elements.simps [simp del] read_members.simps [simp del]

text \<open>\<open>JSON.parse(s)\<close>: the value is all the text has, but for white space.\<close>

definition json_parse :: "number_reader \<Rightarrow> string \<Rightarrow> jsval reading" where
  "json_parse NUM s = read_bind (read_value NUM s) (\<lambda>v r. if skip_space r = [] then Read v [] else SyntaxError)"

section \<open>Reading back the text of a value\<close>

subsection \<open>Strings\<close>

lemma hex_val_digit: "n < 16 \<Longrightarrow> hex_val (hex_digit n) = n \<and> is_hex (hex_digit n)"
proof -
  have "list_all (\<lambda>n. hex_val (hex_digit n) = n \<and> is_hex (hex_digit n)) [0..<16]" by code_simp
  then show "n < 16 \<Longrightarrow> ?thesis" by (simp add: list_all_iff)
qed

lemma read_escaped_char: "read_chars acc (escape_char c @ r) = read_chars (acc @ [c]) r"
proof (cases "plain_char c")
  case True
  then show ?thesis
    by (subst read_chars.simps) (simp add: escape_char_plain plain_char_iff)
next
  case False
  have hex: "of_char c < (32 :: nat) \<Longrightarrow> is_hex (hex_digit (of_char c div 16)) \<and> is_hex (hex_digit (of_char c mod 16)) \<and>
     hex_val (hex_digit (of_char c div 16)) = of_char c div 16 \<and> hex_val (hex_digit (of_char c mod 16)) = of_char c mod 16"
    using hex_val_digit by auto
  have z: "is_hex CHR ''0''" "hex_val CHR ''0'' = 0" by (simp_all add: is_hex_def hex_val_def)
  show ?thesis
    by (subst read_chars.simps) (use False hex z in \<open>auto simp: escape_char_def simple_escape_def plain_char_iff Let_def\<close>)
qed

lemma read_escaped: "read_chars acc (concat (map escape_char t) @ CHR 0x22 # r) = Read (acc @ t) r"
proof (induction t arbitrary: acc)
  case Nil
  show ?case by (subst read_chars.simps) simp
next
  case (Cons c t)
  then show ?case by (simp add: read_escaped_char)
qed

lemma read_quoted: "read_chars [] (tl (quote_json t) @ r) = Read t r"
  by (simp add: quote_json_def read_escaped)

subsection \<open>Numbers\<close>

text \<open>A number whose text is a numeral of JSON that is read as the number: so is every safe integer.\<close>

definition reads_number :: "number_reader \<Rightarrow> jsnum \<Rightarrow> bool" where
  "reads_number NUM n \<longleftrightarrow> json_num n \<and> json_numeral (num_json n) \<and> number_of NUM (num_json n) = n"

lemma num_char_numeral: "num_char c \<Longrightarrow> is_numeral_char c"
  unfolding num_char_def is_numeral_char_def is_digit_def by auto

lemma delimiter_not_numeral: "c \<in> {CHR '','', CHR '']'', CHR ''}''} \<Longrightarrow> \<not> is_numeral_char c"
  by (elim insertE) (simp_all add: is_numeral_char_def is_digit_def)

lemma take_numeral:
  assumes "list_all num_char t" and "delimited r"
  shows "takeWhile is_numeral_char (t @ r) = t \<and> dropWhile is_numeral_char (t @ r) = r"
proof -
  have "c \<in> set t \<Longrightarrow> is_numeral_char c" for c using assms(1) num_char_numeral by (simp add: list_all_iff)
  moreover have "r = [] \<or> \<not> is_numeral_char (hd r)"
    using assms(2) delimiter_not_numeral by (auto simp only: delimited_def)
  ultimately show ?thesis by (cases r) (simp_all add: takeWhile_append dropWhile_append)
qed

lemma read_number_text:
  "reads_number NUM n \<Longrightarrow> delimited r \<Longrightarrow> read_number NUM (num_json n @ r) = Read (JNum n) r"
  using take_numeral [OF num_json_chars] by (simp add: read_number_def reads_number_def Let_def)

lemma dec_nat_hd: "0 < n \<Longrightarrow> hd (dec_nat n) \<noteq> CHR ''0''"
proof (induction n rule: dec_nat.induct)
  case (1 n)
  show ?case
  proof (cases "n < 10")
    case True
    then have "digit_val (dec_digit n) = n" by (rule dec_digit_val)
    with 1(2) have "dec_digit n \<noteq> CHR ''0''" by (auto simp: digit_val_def)
    with True show ?thesis by (subst dec_nat.simps) simp
  next
    case False
    with 1 have "hd (dec_nat (n div 10)) \<noteq> CHR ''0''" by simp
    with False show ?thesis by (subst dec_nat.simps) simp
  qed
qed

lemma int_part_dec_nat: "int_part (dec_nat n)"
proof (cases "n = 0")
  case True
  then show ?thesis by (subst dec_nat.simps) (simp add: int_part_def digits1_def dec_digit_def is_digit_def)
next
  case False
  then show ?thesis using dec_nat_hd [of n] dec_nat_digits [of n] by (simp add: int_part_def digits1_def)
qed

lemma unsigned_dec_nat: "unsigned_text (dec_nat n) = dec_nat n"
  using dec_nat_no_minus [of n] by (auto simp: unsigned_text_def split: list.splits char.splits bool.splits)

lemma unsigned_dec_int: "unsigned_text (dec_int i) = dec_nat (nat \<bar>i\<bar>)"
  by (simp add: dec_int_def unsigned_dec_nat) (simp add: unsigned_text_def)

lemma safe_integer_reads:
  assumes "\<bar>i\<bar> < 2 ^ 53"
  shows "reads_number NUM (NInt i)"
proof -
  have all: "takeWhile is_digit (dec_nat n) = dec_nat n" "dropWhile is_digit (dec_nat n) = []" for n
    using dec_nat_digits [of n] by (auto simp: list_all_iff takeWhile_eq_all_conv dropWhile_eq_Nil_conv)
  have "json_numeral (dec_int i)"
    by (simp add: json_numeral_def unsigned_dec_int all int_part_dec_nat fraction_part_def)
  moreover have "safe_numeral (dec_int i)"
    using assms by (simp add: safe_numeral_def unsigned_dec_int int_part_dec_nat)
  moreover have "dec_int i = dec_nat (nat \<bar>i\<bar>) \<longleftrightarrow> 0 \<le> i"
    using dec_nat_no_minus [of "nat \<bar>i\<bar>"] by (auto simp: dec_int_def)
  ultimately show ?thesis
    by (auto simp: reads_number_def number_of_def unsigned_dec_int)
qed

subsection \<open>The order of own keys\<close>

definition key_before :: "string \<Rightarrow> string \<Rightarrow> bool" where
  "key_before k l \<longleftrightarrow> k \<noteq> l \<and> (is_index_key l \<longrightarrow> is_index_key k \<and> nat_of_digits k < nat_of_digits l)"

lemma is_index_key_code [code]:
  "is_index_key s \<longleftrightarrow> (if s \<noteq> [] \<and> list_all is_digit s
     then (s = ''0'' \<or> hd s \<noteq> CHR ''0'') \<and> int (nat_of_digits s) < 4294967295 else False)"
  by (auto simp: is_index_key_def)

lemma key_before_code [code]:
  "key_before k l \<longleftrightarrow> k \<noteq> l \<and> (if is_index_key l then if is_index_key k then nat_of_digits k < nat_of_digits l else False else True)"
  by (simp add: key_before_def)

text \<open>Array indices come first, in ascending order; no key comes twice.\<close>

definition own_key_order :: "string list \<Rightarrow> bool" where
  "own_key_order ks \<longleftrightarrow> sorted_wrt key_before ks"

lemma insert_prop_last:
  "\<forall>l\<in>set (map fst kvs). key_before l k \<Longrightarrow> insert_prop k v kvs = kvs @ [(k, v)]"
  by (induction k v kvs rule: insert_prop.induct) (auto simp: key_before_def)

lemma put_last: "\<forall>l\<in>set (map fst kvs). key_before l k \<Longrightarrow> obj_put k v kvs = kvs @ [(k, v)]"
  using insert_prop_last [of kvs k v] by (auto simp: obj_put_def key_before_def)

lemma put_all:
  "own_key_order (map fst (acc @ kvs)) \<Longrightarrow> foldl (\<lambda>out (k, v). obj_put k v out) acc kvs = acc @ kvs"
proof (induction kvs arbitrary: acc)
  case (Cons kv kvs)
  obtain k v where kv: "kv = (k, v)" by (cases kv)
  have "obj_put k v acc = acc @ [kv]"
    using Cons.prems by (subst put_last) (auto simp: own_key_order_def sorted_wrt_append kv)
  with Cons.IH [of "acc @ [kv]"] Cons.prems show ?case by (simp add: kv)
qed simp

lemma own_key_order_distinct: "own_key_order ks \<Longrightarrow> distinct ks"
  unfolding own_key_order_def
  by (induction ks) (auto simp: key_before_def)

subsection \<open>Values\<close>

text \<open>The values that their text determines: JSON values with readable numbers and properties in the order of own keys.\<close>

primrec readable :: "number_reader \<Rightarrow> jsval \<Rightarrow> bool" where
  "readable NUM JUndef = False"
| "readable NUM JNull = True"
| "readable NUM (JBool b) = True"
| "readable NUM (JNum n) = reads_number NUM n"
| "readable NUM (JStr s) = True"
| "readable NUM (JArr xs) = list_all id (map (readable NUM) xs)"
| "readable NUM (JObj kvs) = (own_key_order (map fst kvs) \<and> list_all snd (map (map_prod id (readable NUM)) kvs))"

lemma readable_arr [simp]: "readable NUM (JArr xs) \<longleftrightarrow> (\<forall>x\<in>set xs. readable NUM x)"
  by (simp add: list_all_iff)

lemma readable_obj [simp]:
  "readable NUM (JObj kvs) \<longleftrightarrow> own_key_order (map fst kvs) \<and> (\<forall>(k, v)\<in>set kvs. readable NUM v)"
  by (auto simp: list_all_iff)

declare readable.simps(6,7) [simp del]

lemma readable_json_value: "readable NUM v \<Longrightarrow> json_value v"
proof (induction v)
  case (JObj kvs)
  then show ?case using own_key_order_distinct by fastforce
qed (auto simp: reads_number_def)

lemma json_text_no_space:
  assumes "json_value v"
  shows "skip_space (json_text v @ r) = json_text v @ r"
proof -
  have "\<exists>c t. json_text v = c # t \<and> \<not> json_space c"
  proof (cases v)
    case (JNum n)
    have "is_digit c \<or> c = CHR ''-'' \<Longrightarrow> \<not> json_space c" for c by (auto simp: is_digit_def json_space_def)
    with JNum assms num_json_first [of n] show ?thesis by (metis json_text_simps(3) json_value.simps(4) list.collapse)
  next
    case (JObj kvs)
    with assms show ?thesis by (simp add: json_text_obj_value json_space_def del: json_value_obj)
  qed (use assms in \<open>simp_all add: json_text_simps quote_json_def json_space_def\<close>)
  then show ?thesis by (auto simp: skip_space_def)
qed

lemma skip_space_delimiter [simp]:
  "skip_space (CHR '','' # r) = CHR '','' # r" "skip_space (CHR '']'' # r) = CHR '']'' # r"
  "skip_space (CHR ''}'' # r) = CHR ''}'' # r" "skip_space (CHR '':'' # r) = CHR '':'' # r"
  "skip_space (CHR 0x22 # r) = CHR 0x22 # r" "skip_space (CHR ''['' # r) = CHR ''['' # r"
  "skip_space (CHR ''{'' # r) = CHR ''{'' # r" "skip_space [] = []"
  by (simp_all add: skip_space_def json_space_def)

definition reads_back :: "number_reader \<Rightarrow> jsval \<Rightarrow> bool" where
  "reads_back NUM v \<longleftrightarrow> (\<forall>r. delimited r \<longrightarrow> read_value NUM (json_text v @ r) = Read v r)"

lemma tail_text_simps:
  "tail_text E close [] r = close # r"
  "tail_text E close (x # xs) r = CHR '','' # E x @ tail_text E close xs r"
  by (simp_all add: tail_text_def)

lemma read_elements_text:
  "\<forall>x\<in>set (x # xs). reads_back NUM x \<Longrightarrow>
   read_elements NUM acc (json_text x @ tail_text json_text (CHR '']'') xs r) = Read (JArr (acc @ x # xs)) r"
proof (induction xs arbitrary: x acc)
  case Nil
  then show ?case
    by (subst read_elements.simps) (simp add: reads_back_def tail_text_simps after_item_def delimited_def)
next
  case (Cons y ys)
  have "read_value NUM (json_text x @ tail_text json_text (CHR '']'') (y # ys) r) = Read x (tail_text json_text (CHR '']'') (y # ys) r)"
    using Cons.prems tail_text_delimited [of "CHR '']''" json_text "y # ys" r] by (simp add: reads_back_def)
  with Cons.IH [of y "acc @ [x]"] Cons.prems show ?case
    by (subst read_elements.simps) (simp add: tail_text_simps after_item_def)
qed

lemma read_member_text:
  assumes "reads_back NUM v" and "delimited r"
  shows "read_members NUM acc (member_text (k, v) @ r) =
    after_item (CHR ''}'') r (read_members NUM (obj_put k v acc)) (JObj (obj_put k v acc))"
  using assms read_quoted [of k "CHR '':'' # json_text v @ r"]
  by (subst read_members.simps) (simp add: member_text_def expect_def reads_back_def quote_json_def)

lemma read_members_text:
  "\<forall>(k, v)\<in>set (kv # kvs). reads_back NUM v \<Longrightarrow>
   read_members NUM acc (member_text kv @ tail_text member_text (CHR ''}'') kvs r) =
   Read (JObj (foldl (\<lambda>out (k, v). obj_put k v out) acc (kv # kvs))) r"
proof (induction kvs arbitrary: kv acc)
  case Nil
  obtain k v where "kv = (k, v)" by (cases kv)
  with Nil read_member_text [of NUM v "CHR ''}'' # r" acc k] show ?case
    by (simp add: tail_text_simps after_item_def delimited_def)
next
  case (Cons lw kvs)
  obtain k v where kv: "kv = (k, v)" by (cases kv)
  with Cons.prems read_member_text [of NUM v "tail_text member_text (CHR ''}'') (lw # kvs) r" acc k]
  have "read_members NUM acc (member_text kv @ tail_text member_text (CHR ''}'') (lw # kvs) r) =
    read_members NUM (obj_put k v acc) (member_text lw @ tail_text member_text (CHR ''}'') kvs r)"
    using tail_text_delimited [of "CHR ''}''" member_text "lw # kvs" r] by (simp add: tail_text_simps after_item_def)
  with Cons.IH [of lw "obj_put k v acc"] Cons.prems show ?case by (simp add: kv)
qed

lemma reads_back_arr:
  assumes "\<forall>x\<in>set xs. reads_back NUM x" and "\<forall>x\<in>set xs. json_value x"
  shows "reads_back NUM (JArr xs)"
  unfolding reads_back_def
proof (intro allI impI)
  fix r :: string
  show "read_value NUM (json_text (JArr xs) @ r) = Read (JArr xs) r"
  proof (cases xs)
    case Nil
    then show ?thesis by (subst read_value.simps) (simp add: json_text_simps)
  next
    case (Cons y ys)
    let ?t = "tail_text json_text (CHR '']'') ys r"
    have y: "json_value y" using assms(2) Cons by simp
    have "\<not> starts_with (skip_space (json_text y @ ?t)) '']''"
      using json_text_not_close [OF y, of "CHR '']''" ?t] json_text_no_space [OF y] by (auto simp: starts_with_append)
    moreover have "json_text (JArr xs) @ r = CHR ''['' # json_text y @ ?t"
      using join_tail_text [of json_text y ys "CHR '']''" r] by (simp add: Cons json_text_simps)
    ultimately show ?thesis
      using read_elements_text [of y ys NUM "[]" r] assms(1) by (subst read_value.simps) (simp add: Cons)
  qed
qed

lemma reads_back_obj:
  assumes "\<forall>(k, v)\<in>set kvs. reads_back NUM v" and "json_value (JObj kvs)" and "own_key_order (map fst kvs)"
  shows "reads_back NUM (JObj kvs)"
  unfolding reads_back_def
proof (intro allI impI)
  fix r :: string
  show "read_value NUM (json_text (JObj kvs) @ r) = Read (JObj kvs) r"
  proof (cases kvs)
    case Nil
    then show ?thesis by (subst read_value.simps) (simp add: json_text_obj)
  next
    case (Cons kv lvs)
    let ?t = "tail_text member_text (CHR ''}'') lvs r"
    have "\<not> starts_with (skip_space (member_text kv @ ?t)) ''}''"
      by (cases kv) (simp add: member_text_def quote_json_def starts_with_append)
    moreover have "json_text (JObj kvs) @ r = CHR ''{'' # member_text kv @ ?t"
      using join_tail_text [of member_text kv lvs "CHR ''}''" r]
      by (simp add: json_text_obj_value [OF assms(2)]) (simp add: Cons)
    moreover have "read_members NUM [] (member_text kv @ ?t) = Read (JObj kvs) r"
      using read_members_text [of kv lvs NUM "[]" r] put_all [of "[]" kvs] assms(1,3) by (simp add: Cons)
    ultimately show ?thesis by (subst read_value.simps) simp
  qed
qed

lemma reads_back_num: "reads_number NUM n \<Longrightarrow> reads_back NUM (JNum n)"
  unfolding reads_back_def
proof (intro allI impI)
  fix r assume n: "reads_number NUM n" and r: "delimited r"
  then have v: "json_value (JNum n)" by (simp add: reads_number_def)
  obtain c t where c: "num_json n = c # t" "char_kind c = 6"
    using number_first [of n] n by (auto simp: reads_number_def)
  have "read_value NUM (json_text (JNum n) @ r) = read_number NUM (num_json n @ r)"
    using json_text_no_space [OF v, of r] c
    by (subst read_value.simps) (simp add: json_text_simps char_kind_def split: if_splits)
  with read_number_text [OF n r] show "read_value NUM (json_text (JNum n) @ r) = Read (JNum n) r" by simp
qed

lemma reads_back_atom:
  "reads_back NUM JNull" "reads_back NUM (JBool b)" "reads_back NUM (JStr s)"
proof -
  show "reads_back NUM (JStr s)"
    using read_quoted [of s] unfolding reads_back_def
    by (subst read_value.simps) (simp add: json_text_simps quote_json_def)
  have skip: "c \<in> {CHR ''n'', CHR ''t'', CHR ''f''} \<Longrightarrow> skip_space (c # t) = c # t" for c t
    by (auto simp: skip_space_def json_space_def)
  show "reads_back NUM JNull"
    unfolding reads_back_def by (subst read_value.simps) (simp add: json_text_simps skip read_word_def)
  show "reads_back NUM (JBool b)"
    unfolding reads_back_def by (subst read_value.simps) (cases b; simp add: json_text_simps skip read_word_def)
qed

lemma readable_reads_back: "readable NUM v \<Longrightarrow> reads_back NUM v"
proof (induction v)
  case (JArr xs)
  then show ?case using readable_json_value by (intro reads_back_arr) auto
next
  case (JObj kvs)
  show ?case
  proof (rule reads_back_obj)
    show "\<forall>(k, v)\<in>set kvs. reads_back NUM v" using JObj by fastforce
    show "json_value (JObj kvs)" using JObj.prems by (rule readable_json_value)
    show "own_key_order (map fst kvs)" using JObj.prems by simp
  qed
qed (auto simp: reads_back_num reads_back_atom)

lemma json_parse_text: "readable NUM v \<Longrightarrow> json_parse NUM (json_text v) = Read v []"
  using readable_reads_back [of NUM v] by (simp add: reads_back_def json_parse_def delimited_def)

section \<open>Texts cut short\<close>

text \<open>What was read from a text is read from every longer text, unless the text ended with a numeral.\<close>

fun extend :: "string \<Rightarrow> 'a reading \<Rightarrow> 'a reading" where
  "extend t (Read x r) = Read x (r @ t)"
| "extend t SyntaxError = SyntaxError"
| "extend t Outside = Outside"

lemma extend_bind:
  assumes "read_bind m f \<noteq> SyntaxError" and "m \<noteq> SyntaxError \<Longrightarrow> m' = extend t m"
    and "\<And>x r. m = Read x r \<Longrightarrow> f x r \<noteq> SyntaxError \<Longrightarrow> f' x (r @ t) = extend t (f x r)"
  shows "read_bind m' f' = extend t (read_bind m f)"
  using assms by (cases m) auto

lemma skip_space_append: "skip_space s \<noteq> [] \<Longrightarrow> skip_space (s @ t) = skip_space s @ t"
  by (auto simp: skip_space_def dropWhile_append)

lemma extend_expect:
  assumes "expect c s f \<noteq> SyntaxError" and "\<And>r. skip_space s = c # r \<Longrightarrow> f r \<noteq> SyntaxError \<Longrightarrow> f' (r @ t) = extend t (f r)"
  shows "expect c (s @ t) f' = extend t (expect c s f)"
  using assms skip_space_append [of s t] by (auto simp: expect_def split: list.splits if_splits)

lemma extend_after_item:
  assumes "after_item c s f x \<noteq> SyntaxError" and "\<And>r. skip_space s = CHR '','' # r \<Longrightarrow> f r \<noteq> SyntaxError \<Longrightarrow> f (r @ t) = extend t (f r)"
  shows "after_item c (s @ t) f x = extend t (after_item c s f x)"
  using assms skip_space_append [of s t] by (auto simp: after_item_def split: list.splits if_splits)

lemma read_chars_extend: "read_chars acc s \<noteq> SyntaxError \<Longrightarrow> read_chars acc (s @ t) = extend t (read_chars acc s)"
proof (induction s arbitrary: acc rule: length_induct)
  case (1 s)
  have IH: "length s' < length s \<Longrightarrow> read_chars acc' s' \<noteq> SyntaxError \<Longrightarrow> read_chars acc' (s' @ t) = extend t (read_chars acc' s')"
    for acc' s' using 1(1) by blast
  show ?case
  proof (cases s)
    case (Cons c r)
    consider "c = CHR 0x22" | "c = CHR 0x5C" | "c \<noteq> CHR 0x22" "c \<noteq> CHR 0x5C" by blast
    then show ?thesis
    proof cases
      case 1
      then show ?thesis by (simp add: Cons read_chars.simps [of acc])
    next
      case 2
      show ?thesis
      proof (cases r)
        case Nil
        with 2 1(2) Cons show ?thesis by (simp add: read_chars.simps [of acc])
      next
        case r: (Cons e r')
        show ?thesis
        proof (cases "e = CHR ''u''")
          case True
          then show ?thesis using 1(2) 2 
            by (auto simp: Cons r Let_def read_chars.simps [of acc] intro!: IH split: if_splits)
        next
          case False
          then show ?thesis using 1(2) 2
            by (auto simp: Cons r read_chars.simps [of acc] intro!: IH split: option.splits)
        qed
      qed
    next
      case 3
      then show ?thesis using 1(2)
        by (auto simp: Cons read_chars.simps [of acc] intro!: IH split: if_splits)
    qed
  qed (use 1(2) in \<open>simp add: read_chars.simps [of acc]\<close>)
qed

lemma read_number_extend:
  assumes "read_number NUM s \<noteq> SyntaxError" and "\<forall>v. read_number NUM s \<noteq> Read v []"
  shows "read_number NUM (s @ t) = extend t (read_number NUM s)"
proof -
  have "dropWhile is_numeral_char s \<noteq> []"
    using assms by (auto simp: read_number_def Let_def split: if_splits)
  then obtain c where c: "c \<in> set s" "\<not> is_numeral_char c" by (auto simp: dropWhile_eq_Nil_conv)
  show ?thesis
    using takeWhile_append1 [of c s is_numeral_char t] dropWhile_append1 [of c s is_numeral_char t] c by (simp add: read_number_def Let_def)
qed

lemma read_word_extend: "read_word w v s \<noteq> SyntaxError \<Longrightarrow> read_word w v (s @ t) = extend t (read_word w v s)"
  by (auto simp: read_word_def starts_with_append split: if_splits)

lemma starts_with_extend:
  "skip_space s \<noteq> [] \<Longrightarrow> starts_with (skip_space (s @ t)) [c] = starts_with (skip_space s) [c]"
  using skip_space_append [of s t] by (cases "skip_space s") auto

lemma tl_extend: "starts_with (skip_space s) [c] \<Longrightarrow> tl (skip_space (s @ t)) = tl (skip_space s) @ t"
  using skip_space_append [of s t] by (cases "skip_space s") auto

lemma no_item:
  "skip_space s = [] \<Longrightarrow> read_elements NUM acc s = SyntaxError"
  "skip_space s = [] \<Longrightarrow> read_members NUM kvs s = SyntaxError"
  by (simp_all add: read_elements.simps [of NUM acc s] read_members.simps [of NUM kvs s] read_value.simps [of NUM s] expect_def)

text \<open>A list is closed by its last character, so nothing that follows is read as part of it.\<close>

lemma read_extend:
  "read_value NUM s \<noteq> SyntaxError \<Longrightarrow> (\<forall>v. read_value NUM s \<noteq> Read v []) \<or> starts_with (skip_space s) ''{'' \<Longrightarrow>
     read_value NUM (s @ t) = extend t (read_value NUM s)"
  "read_elements NUM acc s \<noteq> SyntaxError \<Longrightarrow> read_elements NUM acc (s @ t) = extend t (read_elements NUM acc s)"
  "read_members NUM kvs s \<noteq> SyntaxError \<Longrightarrow> read_members NUM kvs (s @ t) = extend t (read_members NUM kvs s)"
proof (induction NUM s and NUM acc s and NUM kvs s rule: read_value_read_elements_read_members.induct)
  case (1 NUM s)
  show ?case
  proof (cases "skip_space s")
    case Nil
    with 1(3) show ?thesis by (simp add: read_value.simps [of NUM s])
  next
    case (Cons c r)
    have st: "skip_space (s @ t) = c # r @ t" using skip_space_append [of s t] Cons by simp
    note step = read_value.simps [of NUM s] read_value.simps [of NUM "s @ t"] Cons st
    note IH = 1(1,2) [OF Cons] and ok = 1(3,4)
    consider "c = CHR ''{''" | "c = CHR ''[''" | "c = CHR 0x22" | "c \<notin> {CHR ''{'', CHR ''['', CHR 0x22}" by blast
    then show ?thesis
    proof cases
      case 1
      with IH ok no_item(2) [of r NUM "[]"] starts_with_extend [of r t "CHR ''}''"] tl_extend [of r "CHR ''}''" t]
      show ?thesis by (cases "skip_space r = []") (simp_all add: step split: if_splits)
    next
      case 2
      with IH ok no_item(1) [of r NUM "[]"] starts_with_extend [of r t "CHR '']''"] tl_extend [of r "CHR '']''" t]
      show ?thesis by (cases "skip_space r = []") (simp_all add: step split: if_splits)
    next
      case 3
      with ok show ?thesis by (simp add: step) (rule extend_bind, auto simp: read_chars_extend)
    next
      case 4
      with ok read_word_extend [of _ _ "c # r" t] read_number_extend [of NUM "c # r" t]
      show ?thesis by (simp add: step split: if_splits)
    qed
  qed
next
  case (2 NUM acc s)
  show ?case
    unfolding read_elements.simps [of NUM acc s] read_elements.simps [of NUM acc "s @ t"]
  proof (rule extend_bind [OF 2(3) [unfolded read_elements.simps [of NUM acc s]]])
    have "\<forall>v. read_value NUM s \<noteq> Read v []"
      using 2(3) by (auto simp: read_elements.simps [of NUM acc s] after_item_def)
    then show "read_value NUM s \<noteq> SyntaxError \<Longrightarrow> read_value NUM (s @ t) = extend t (read_value NUM s)" using 2(1) by blast
  qed (rule extend_after_item, assumption, rule 2(2))
next
  case (3 NUM kvs s)
  show ?case
    unfolding read_members.simps [of NUM kvs s] read_members.simps [of NUM kvs "s @ t"]
  proof (rule extend_expect [OF 3(3) [unfolded read_members.simps [of NUM kvs s]]],
      rule extend_bind, assumption, rule read_chars_extend, assumption,
      rule extend_expect, assumption, rule extend_bind, assumption)
    fix r k r1 r2
    let ?f = "\<lambda>v r3. after_item (CHR ''}'') r3 (read_members NUM (obj_put k v kvs)) (JObj (obj_put k v kvs))"
    assume r: "skip_space s = CHR 0x22 # r" and k: "read_chars [] r = Read k r1" and r2: "skip_space r1 = CHR '':'' # r2"
      and ok: "read_bind (read_value NUM r2) ?f \<noteq> SyntaxError" 
    have "\<forall>v. read_value NUM r2 \<noteq> Read v []" using ok by (auto simp: after_item_def)
    then show "read_value NUM r2 \<noteq> SyntaxError \<Longrightarrow> read_value NUM (r2 @ t) = extend t (read_value NUM r2)"
      using 3(1) [OF r k r2] by blast
    fix v r3 assume v: "read_value NUM r2 = Read v r3" and "?f v r3 \<noteq> SyntaxError"
    then show "?f v (r3 @ t) = extend t (?f v r3)"
      by (intro extend_after_item 3(2) [OF r k r2 v])
  qed
qed

lemma json_parse_torn:
  assumes "readable NUM (JObj kvs)" and "json_text (JObj kvs) = p @ q" and "p \<noteq> []" and "q \<noteq> []"
  shows "json_parse NUM p = SyntaxError"
proof (rule ccontr)
  assume ok: "json_parse NUM p \<noteq> SyntaxError"
  have v: "json_value (JObj kvs)" by (rule readable_json_value [OF assms(1)])
  obtain p' where "p = CHR ''{'' # p'"
    using assms(2,3) json_text_obj_value [OF v] by (cases p) auto
  then have "starts_with (skip_space p) ''{''" by simp
  moreover have p: "read_value NUM p \<noteq> SyntaxError" using ok by (auto simp: json_parse_def)
  ultimately have "read_value NUM (p @ q) = extend q (read_value NUM p)" by (intro read_extend(1)) auto
  moreover have "read_value NUM (p @ q) = Read (JObj kvs) []"
    using readable_reads_back [OF assms(1)] assms(2) by (auto simp: reads_back_def delimited_def dest: spec [of _ "[]"])
  ultimately show False using assms(4) by (cases "read_value NUM p") auto
qed

subsection \<open>A JSON text is one line\<close>

lemma escape_no_newline: "CHR 0x0A \<notin> set (escape_char c)"
proof -
  have nl: "of_char (CHR 0x0A) = (10 :: nat)" by simp
  have "n < 16 \<Longrightarrow> CHR 0x0A \<noteq> hex_digit n" for n using hex_val_digit [of n] by (auto simp: is_hex_def)
  then have "of_char c < (32 :: nat) \<Longrightarrow> CHR 0x0A \<noteq> hex_digit (of_char c div 16) \<and> CHR 0x0A \<noteq> hex_digit (of_char c mod 16)" by simp
  moreover have "\<not> of_char c < (32 :: nat) \<Longrightarrow> CHR 0x0A \<noteq> c" using nl by (cases "CHR 0x0A = c") simp_all
  ultimately show ?thesis unfolding escape_char_def by (cases "of_char c < (32 :: nat)") (simp_all split: if_split)
qed

lemma num_no_newline: "json_num n \<Longrightarrow> CHR 0x0A \<notin> set (num_json n)"
proof -
  have "\<not> num_char CHR 0x0A" by (simp add: num_char_def)
  with num_json_chars [of n] show "json_num n \<Longrightarrow> ?thesis" unfolding list_all_iff by blast
qed

lemma join_no_newline: "\<forall>t\<in>set ts. c \<notin> set t \<Longrightarrow> c \<notin> set sep \<Longrightarrow> c \<notin> set (join_with sep ts)"
  by (induction sep ts rule: join_with.induct) auto

lemma json_text_no_newline: "json_value v \<Longrightarrow> CHR 0x0A \<notin> set (json_text v)"
proof (induction v)
  case (JArr xs)
  then have "CHR 0x0A \<notin> set (join_with '','' (map json_text xs))" by (intro join_no_newline) auto
  then show ?case by (simp add: json_text_simps)
next
  case (JObj kvs)
  have "CHR 0x0A \<notin> set (member_text kv)" if kv: "kv \<in> set kvs" for kv
  proof -
    obtain k v where "kv = (k, v)" by (cases kv)
    with JObj kv have "CHR 0x0A \<notin> set (json_text v)" by fastforce
    with \<open>kv = (k, v)\<close> show ?thesis using escape_no_newline by (auto simp: member_text_def quote_json_def)
  qed
  then have "CHR 0x0A \<notin> set (join_with '','' (map member_text kvs))" by (intro join_no_newline) auto
  then show ?case by (simp add: json_text_obj_value [OF JObj.prems])
qed (auto simp: json_text_simps num_no_newline quote_json_def escape_no_newline)

end
