(* ===== verification/PosixPaths.thy ===== *)
theory PosixPaths
  imports JsPrelude
begin

text \<open>
  The part of \<open>path.posix\<close> of node that the modelled modules use: \<open>normalize\<close>, \<open>join\<close>, and (for an absolute directory)
  \<open>resolve\<close>, \<open>relative\<close> and \<open>basename\<close>, with the facts about the segments of a normal path.
\<close>

section \<open>Segments\<close>

lemma split_on_nonempty [simp]: "split_on c s \<noteq> []"
  by (induction s) (auto split: list.split)

lemma split_on_none: "c \<notin> set s \<Longrightarrow> split_on c s = [s]"
  by (induction s) auto

lemma split_on_append: "split_on c (s @ c # t) = split_on c s @ split_on c t"
  by (induction s) (auto split: list.split)

lemma split_on_prefix: "c \<notin> set l \<Longrightarrow> split_on c (l @ c # t) = l # split_on c t"
  by (simp add: split_on_append split_on_none)

section \<open>Normal paths\<close>

text \<open>\<open>path.normalize\<close> and \<open>path.join\<close> of \<open>node:path\<close>; \<open>acc\<close> has the segments so far, the last one first.\<close>

fun normal_segments :: "bool \<Rightarrow> string list \<Rightarrow> string list \<Rightarrow> string list" where
  "normal_segments aboveRoot acc [] = rev acc"
| "normal_segments aboveRoot acc (x # xs) =
     (if x = [] \<or> x = ''.'' then normal_segments aboveRoot acc xs
      else if x = ''..'' then
        (if acc \<noteq> [] \<and> hd acc \<noteq> ''..'' then normal_segments aboveRoot (tl acc) xs
         else if aboveRoot then normal_segments aboveRoot (x # acc) xs else normal_segments aboveRoot acc xs)
      else normal_segments aboveRoot (x # acc) xs)"

definition path_normalize :: "string \<Rightarrow> string" where
  "path_normalize p =
     (if p = [] then ''.'' else
      let absolute = (hd p = CHR ''/''); trailing = (last p = CHR ''/'');
          path = join_with ''/'' (normal_segments (\<not> absolute) [] (split_on (CHR ''/'') p)) in
      if path = [] then (if absolute then ''/'' else if trailing then ''./'' else ''.'')
      else (if absolute then ''/'' else []) @ path @ (if trailing then ''/'' else []))"

definition path_join :: "string list \<Rightarrow> string" where
  "path_join ps = path_normalize (join_with ''/'' (filter (\<lambda>p. p \<noteq> []) ps))"

definition plain_segment :: "string \<Rightarrow> bool" where
  "plain_segment x \<longleftrightarrow> x \<noteq> [] \<and> x \<noteq> ''.'' \<and> x \<noteq> ''..'' \<and> CHR ''/'' \<notin> set x"

lemma plain_no_slash: "list_all plain_segment xs \<Longrightarrow> list_all (\<lambda>x. CHR ''/'' \<notin> set x) xs"
  by (induction xs) (simp_all add: plain_segment_def)

lemma normal_segments_plain: "list_all plain_segment xs \<Longrightarrow> normal_segments a acc xs = rev acc @ xs"
  by (induction xs arbitrary: acc) (auto simp: plain_segment_def)

lemma normal_segments_append:
  "list_all plain_segment ys \<Longrightarrow> normal_segments a acc (xs @ ys) = normal_segments a acc xs @ ys"
  by (cases a; induction xs arbitrary: acc) (simp_all add: normal_segments_plain)

lemma normal_segments_root:
  "list_all plain_segment acc \<Longrightarrow> list_all (\<lambda>x. CHR ''/'' \<notin> set x) xs \<Longrightarrow> list_all plain_segment (normal_segments False acc xs)"
proof (induction xs arbitrary: acc)
  case (Cons x xs)
  have "list_all plain_segment (tl acc)" using Cons.prems(1) by (cases acc) simp_all
  moreover have "x \<noteq> [] \<Longrightarrow> x \<noteq> ''.'' \<Longrightarrow> x \<noteq> ''..'' \<Longrightarrow> plain_segment x" using Cons.prems(2) by (simp add: plain_segment_def)
  ultimately show ?case using Cons by simp
qed (simp add: list_all_iff)

lemma split_on_clean: "list_all (\<lambda>x. c \<notin> set x) (split_on c s)"
  by (induction s) (auto split: list.split)

lemma split_on_join: "list_all (\<lambda>x. c \<notin> set x) xs \<Longrightarrow> xs \<noteq> [] \<Longrightarrow> split_on c (join_with [c] xs) = xs"
  by (induction "[c]" xs rule: join_with.induct) (auto simp: split_on_none split_on_prefix)

lemma join_inj:
  assumes "list_all plain_segment xs" and "list_all plain_segment ys" and "xs \<noteq> []" and "ys \<noteq> []"
    and "join_with ''/'' xs = join_with ''/'' ys"
  shows "xs = ys"
proof -
  have "split_on (CHR ''/'') (join_with ''/'' xs) = xs" by (rule split_on_join [OF plain_no_slash [OF assms(1)] assms(3)])
  moreover have "split_on (CHR ''/'') (join_with ''/'' ys) = ys" by (rule split_on_join [OF plain_no_slash [OF assms(2)] assms(4)])
  ultimately show ?thesis unfolding assms(5) by (rule trans [OF sym])
qed

lemma join_nonempty: "xs \<noteq> [] \<Longrightarrow> list_all plain_segment xs \<Longrightarrow> join_with ''/'' xs \<noteq> []"
  by (induction "''/''" xs rule: join_with.induct) (simp_all add: plain_segment_def)

lemma plain_last: "plain_segment x \<Longrightarrow> last x \<noteq> CHR ''/''"
  unfolding plain_segment_def using last_in_set by metis

lemma normalize_absolute:
  assumes "p = CHR ''/'' # q @ CHR ''/'' # x" and "plain_segment x"
  shows "path_normalize p = CHR ''/'' # join_with ''/'' (normal_segments False [] (split_on (CHR ''/'') q) @ [x])"
    and "list_all plain_segment (normal_segments False [] (split_on (CHR ''/'') q))"
proof -
  let ?xs = "normal_segments False [] (split_on (CHR ''/'') q)"
  show xs: "list_all plain_segment ?xs" by (rule normal_segments_root) (simp_all add: split_on_clean)
  have "split_on (CHR ''/'') x = [x]" using assms(2) by (simp add: plain_segment_def split_on_none)
  then have "normal_segments False [] (split_on (CHR ''/'') p) = ?xs @ [x]"
    using assms normal_segments_append [of "[x]" False "[]" "[] # split_on (CHR ''/'') q"] by (simp add: split_on_append)
  moreover have "last p \<noteq> CHR ''/''" using assms plain_last [OF assms(2)] by (simp add: plain_segment_def)
  moreover have "join_with ''/'' (?xs @ [x]) \<noteq> []" using xs assms(2) by (intro join_nonempty) simp_all
  ultimately show "path_normalize p = CHR ''/'' # join_with ''/'' (?xs @ [x])"
    using assms(1) by (simp add: path_normalize_def Let_def)
qed

text \<open>An absolute path that is already in normal form, and the path of an entry in it.\<close>

definition abs_path :: "string list \<Rightarrow> string" where
  "abs_path xs = CHR ''/'' # join_with ''/'' xs"

lemma join_entry:
  assumes "list_all plain_segment xs" and "xs \<noteq> []" and "plain_segment x"
  shows "path_join [abs_path xs, x] = abs_path (xs @ [x])"
proof -
  have "join_with ''/'' [abs_path xs, x] = CHR ''/'' # join_with ''/'' xs @ CHR ''/'' # x" by (simp add: abs_path_def)
  moreover have "split_on (CHR ''/'') (join_with ''/'' xs) = xs"
    using split_on_join [OF plain_no_slash [OF assms(1)] assms(2)] .
  ultimately show ?thesis
    using normalize_absolute(1) [OF _ assms(3)] normal_segments_plain [OF assms(1), of False "[]"] assms(3)
    by (simp add: path_join_def abs_path_def plain_segment_def)
qed

section \<open>Relative to a directory\<close>

text \<open>\<open>path.resolve(dir, p)\<close>, for an absolute \<open>dir\<close> and a relative \<open>p\<close>.\<close>

definition path_resolve :: "string \<Rightarrow> string \<Rightarrow> string" where
  "path_resolve dir p = CHR ''/'' # join_with ''/'' (normal_segments False [] (split_on (CHR ''/'') (dir @ CHR ''/'' # p)))"

definition path_segments :: "string \<Rightarrow> string list" where
  "path_segments p = filter (\<lambda>x. x \<noteq> []) (split_on (CHR ''/'') p)"

fun relative_segments :: "string list \<Rightarrow> string list \<Rightarrow> string list" where
  "relative_segments (x # xs) (y # ys) =
     (if x = y then relative_segments xs ys else replicate (Suc (length xs)) ''..'' @ y # ys)"
| "relative_segments xs ys = replicate (length xs) ''..'' @ ys"

text \<open>\<open>path.relative(start, p)\<close>, for two absolute paths that are normal.\<close>

definition path_relative :: "string \<Rightarrow> string \<Rightarrow> string" where
  "path_relative start p = join_with ''/'' (relative_segments (path_segments start) (path_segments p))"

definition path_basename :: "string \<Rightarrow> string" where
  "path_basename p = (let xs = path_segments p in if xs = [] then [] else last xs)"

end
