(* ===== verification/JournalFile.thy ===== *)
theory JournalFile
  imports JsonParse JournalProperties PosixPaths
begin

text \<open>
  The file of an attempt journal, of \<open>managed-worker-attempt-journal.mjs\<close>: where it is (\<open>attemptJournalRootDir\<close>,
  \<open>attemptPartitionDir\<close>, \<open>attemptJournalFilePath\<close>, \<open>attemptPartitionLockPath\<close>) and how it is read
  (\<open>parseAttemptJournal\<close>; writing is \<open>serializeAttemptJournal\<close> in AttemptJournal). The file system is POSIX.

  Main results: what is written is read back; an append that is cut short is detected and leaves the events before it; and
  two subjects never share a file.
\<close>

section \<open>Paths\<close>

text \<open>The message of the thrown error, or the path.\<close>

definition attemptJournalRootDir :: "jsval \<Rightarrow> string + string" where
  "attemptJournalRootDir mainRepo =
     (case mainRepo of
        JStr s \<Rightarrow> if is_absolute_path mainRepo then Inr (path_join [s, ''.agent-launch'', ''managed-worker-attempts''])
                  else Inl (''mainRepo must be an absolute path, got: '' @ json_text mainRepo)
      | _ \<Rightarrow> Inl (''mainRepo must be an absolute path, got: '' @
               (case json_stringify mainRepo of None \<Rightarrow> ''undefined'' | Some t \<Rightarrow> t)))"

definition attemptPartitionDir :: "hash \<Rightarrow> jsval \<Rightarrow> jsval \<Rightarrow> jsval \<Rightarrow> string + string" where
  "attemptPartitionDir H mainRepo repository subject =
     (case attemptJournalRootDir mainRepo of Inl e \<Rightarrow> Inl e | Inr root \<Rightarrow>
      case attemptPartitionId H repository subject of Inl e \<Rightarrow> Inl e | Inr part \<Rightarrow> Inr (path_join [root, part]))"

definition attemptJournalFilePath :: "hash \<Rightarrow> jsval \<Rightarrow> jsval \<Rightarrow> jsval \<Rightarrow> string + string" where
  "attemptJournalFilePath H mainRepo repository subject =
     (case attemptPartitionDir H mainRepo repository subject of Inl e \<Rightarrow> Inl e | Inr dir \<Rightarrow> Inr (path_join [dir, ''journal.jsonl'']))"

definition attemptPartitionLockPath :: "hash \<Rightarrow> jsval \<Rightarrow> jsval \<Rightarrow> jsval \<Rightarrow> string + string" where
  "attemptPartitionLockPath H mainRepo repository subject =
     (case attemptPartitionDir H mainRepo repository subject of Inl e \<Rightarrow> Inl e | Inr dir \<Rightarrow> Inr (path_join [dir, ''lock'']))"

section \<open>Reading\<close>

text \<open>The events; or the refusal, with the events of the lines before the one that is not JSON.\<close>

datatype journal_reading =
    ReadEvents "jsval list"
  | Unreadable refusal "jsval list option"
  | OutsideModel

fun parse_lines :: "number_reader \<Rightarrow> nat \<Rightarrow> jsval list \<Rightarrow> string list \<Rightarrow> journal_reading" where
  "parse_lines NUM index events [] = ReadEvents events"
| "parse_lines NUM index events (line # lines) =
     (if line = [] then parse_lines NUM (Suc index) events lines
      else case json_parse NUM line of
        Read parsed _ \<Rightarrow> parse_lines NUM (Suc index) (events @ [parsed]) lines
      | SyntaxError \<Rightarrow> Unreadable (Refusal UNREADABLE ''journal line is not valid JSON'' [(''line_index'', JInt (int index))]) (Some events)
      | Outside \<Rightarrow> OutsideModel)"

definition parseAttemptJournal :: "number_reader \<Rightarrow> jsval \<Rightarrow> journal_reading" where
  "parseAttemptJournal NUM text =
     (case text of
        JStr s \<Rightarrow> parse_lines NUM 0 [] (split_on (CHR 0x0A) s)
      | _ \<Rightarrow> Unreadable (Refusal UNREADABLE ''journal bytes are not a string'' []) None)"

section \<open>What is written is read back\<close>

lemma serialize_lines:
  "serializeAttemptJournal es = concat (map (\<lambda>e. journal_line e @ [CHR 0x0A]) es)"
proof -
  have "join_with [CHR 0x0A] ls @ (if ls = [] then [] else [CHR 0x0A]) = concat (map (\<lambda>l. l @ [CHR 0x0A]) ls)" for ls
    by (induction "[CHR 0x0A]" ls rule: join_with.induct) auto
  from this [of "map journal_line es"] show ?thesis by (simp add: serializeAttemptJournal_def comp_def)
qed

lemma serialize_append: "serializeAttemptJournal (es @ fs) = serializeAttemptJournal es @ serializeAttemptJournal fs"
  by (simp add: serialize_lines)

lemma readable_line:
  assumes "readable NUM e"
  shows "journal_line e = json_text e" and "CHR 0x0A \<notin> set (journal_line e)" and "journal_line e \<noteq> []"
proof -
  have v: "json_value e" by (rule readable_json_value [OF assms])
  show l: "journal_line e = json_text e"
    using json_stringify_Some [OF json_value_not_undef [OF v]] by (simp add: journal_line_def)
  show "CHR 0x0A \<notin> set (journal_line e)" unfolding l by (rule json_text_no_newline [OF v])
  show "journal_line e \<noteq> []" unfolding l using json_text_first [OF v] by auto
qed

lemma parse_written:
  "list_all (readable NUM) es \<Longrightarrow>
   parse_lines NUM i acc (split_on (CHR 0x0A) (serializeAttemptJournal es @ t)) =
   parse_lines NUM (i + length es) (acc @ es) (split_on (CHR 0x0A) t)"
proof (induction es arbitrary: i acc)
  case Nil
  show ?case by (simp add: serialize_lines)
next
  case (Cons e es)
  then have e: "readable NUM e" by simp
  show ?case
    using Cons readable_line [OF e] json_parse_text [OF e] by (simp add: serialize_lines split_on_prefix)
qed

text \<open>A journal file that was written is read back as the same events, in the same order.\<close>

theorem journal_file_roundtrip:
  assumes "list_all (readable NUM) es"
  shows "parseAttemptJournal NUM (JStr (serializeAttemptJournal es)) = ReadEvents es"
  using parse_written [OF assms, of 0 "[]" "[]"] by (simp add: parseAttemptJournal_def)

definition demo_line :: jsobj where
  "demo_line = [(''7'', JStr [CHR 0x0A]), (''sequence'', JInt 3), (''tags'', JArr [JNull, JBool True])]"

lemma demo_line_readable: "readable (\<lambda>t. NNaN) (JObj demo_line)"
  by code_simp

theorem journal_file_roundtrip_witness:
  "parseAttemptJournal (\<lambda>t. NNaN) (JStr (serializeAttemptJournal [JObj demo_line, JObj []])) = ReadEvents [JObj demo_line, JObj []]"
  by (rule journal_file_roundtrip) code_simp

text \<open>C13: An append that stops anywhere inside the new line is detected: the file is then read as the events before
  the append (nothing was written), as these events and the new one (only the line end is missing), or it is refused as
  unreadable at the line of the append, with exactly the events before it as the durable prefix.\<close>

theorem torn_append_detected:
  assumes "list_all (readable NUM) es" and "readable NUM (JObj kvs)"
    and "journal_line (JObj kvs) = p @ q"
  shows "parseAttemptJournal NUM (JStr (serializeAttemptJournal es @ p)) =
    (if p = [] then ReadEvents es
     else if q = [] then ReadEvents (es @ [JObj kvs])
     else Unreadable (Refusal UNREADABLE ''journal line is not valid JSON'' [(''line_index'', JInt (int (length es)))]) (Some es))"
proof -
  note line = readable_line [OF assms(2)]
  have "CHR 0x0A \<notin> set p" using line(2) assms(3) by simp
  then have "split_on (CHR 0x0A) p = [p]" by (rule split_on_none)
  then have "parseAttemptJournal NUM (JStr (serializeAttemptJournal es @ p)) = parse_lines NUM (length es) es [p]"
    using parse_written [OF assms(1), of 0 "[]" p] by (simp add: parseAttemptJournal_def)
  then show ?thesis
    using json_parse_torn [OF assms(2), of p q] json_parse_text [OF assms(2)] assms(3) line(1) by auto
qed

theorem torn_append_detected_witness:
  "parseAttemptJournal (\<lambda>t. NNaN) (JStr (serializeAttemptJournal [JObj []] @ take 9 (journal_line (JObj demo_line)))) =
   Unreadable (Refusal UNREADABLE ''journal line is not valid JSON'' [(''line_index'', JInt 1)]) (Some [JObj []])"
proof -
  let ?l = "journal_line (JObj demo_line)"
  have "take 9 ?l \<noteq> []" "drop 9 ?l \<noteq> []" by code_simp+
  moreover have "list_all (readable (\<lambda>t. NNaN)) [JObj []]" by code_simp
  ultimately show ?thesis
    using torn_append_detected [of "\<lambda>t. NNaN" "[JObj []]" demo_line "take 9 ?l" "drop 9 ?l"] demo_line_readable by simp
qed

lemma parse_lines_prefix:
  "parse_lines NUM i acc ls = Unreadable r (Some pre) \<Longrightarrow>
   \<exists>n < length ls. refusal_detail r = [(''line_index'', JInt (int (i + n)))] \<and> json_parse NUM (ls ! n) = SyntaxError \<and>
     parse_lines NUM i acc (take n ls) = ReadEvents pre"
proof (induction NUM i acc ls rule: parse_lines.induct)
  case (2 NUM index events line lines)
  show ?case
  proof (cases "line = []")
    case True
    with 2(1,3) obtain n where "n < length lines" "refusal_detail r = [(''line_index'', JInt (int (Suc index + n)))]"
      "json_parse NUM (lines ! n) = SyntaxError" "parse_lines NUM (Suc index) events (take n lines) = ReadEvents pre" by auto
    with True show ?thesis by (intro exI [of _ "Suc n"]) simp
  next
    case False
    show ?thesis
    proof (cases "json_parse NUM line")
      case (Read v s)
      with False 2(2,3) obtain n where "n < length lines" "refusal_detail r = [(''line_index'', JInt (int (Suc index + n)))]"
        "json_parse NUM (lines ! n) = SyntaxError" "parse_lines NUM (Suc index) (events @ [v]) (take n lines) = ReadEvents pre" by auto
      with False Read show ?thesis by (intro exI [of _ "Suc n"]) simp
    qed (use False 2(3) in \<open>auto intro!: exI [of _ 0]\<close>)
  qed
qed simp

text \<open>When a line is not JSON, the refusal names that line, and the durable prefix is what reading the lines before
  it gives.\<close>

theorem refusal_names_first_bad_line:
  assumes "parseAttemptJournal NUM (JStr s) = Unreadable r (Some pre)"
  shows "\<exists>n < length (split_on (CHR 0x0A) s). refusal_detail r = [(''line_index'', JInt (int n))] \<and>
    json_parse NUM (split_on (CHR 0x0A) s ! n) = SyntaxError \<and>
    parse_lines NUM 0 [] (take n (split_on (CHR 0x0A) s)) = ReadEvents pre"
  using parse_lines_prefix [of NUM 0 "[]"] assms by (fastforce simp: parseAttemptJournal_def)

theorem refusal_names_first_bad_line_witness:
  "\<exists>n. n < length (split_on (CHR 0x0A) (''{}'' @ [CHR 0x0A] @ ''{]'')) \<and>
     json_parse (\<lambda>t. NNaN) (split_on (CHR 0x0A) (''{}'' @ [CHR 0x0A] @ ''{]'') ! n) = SyntaxError"
proof -
  have "parseAttemptJournal (\<lambda>t. NNaN) (JStr (''{}'' @ [CHR 0x0A] @ ''{]'')) =
    Unreadable (Refusal UNREADABLE ''journal line is not valid JSON'' [(''line_index'', JInt 1)]) (Some [JObj []])" by code_simp
  from refusal_names_first_bad_line [OF this] show ?thesis by blast
qed

section \<open>Events that survive a restart\<close>

lemma minted_readable:
  assumes mint: "mintAttemptEvent H repo subj att sq prior gen tip kind payload = Inr e"
    and "readable NUM payload" and "readable NUM sq" and "readable NUM (js_get att ''retry_id'')"
    and "readable NUM kind"
  shows "readable NUM e"
proof -
  have "readable NUM (tuple_object att)"
    using mint_requires(3) [OF mint] assms(4)
    by (auto simp: tuple_object_def isValidAttemptTuple_def is_nonempty_string_iff own_key_order_def key_before_def is_index_key_def is_digit_def)
  moreover have "readable NUM prior"
    using mint_requires(7,8) [OF mint] by (cases "sq = JInt 0") (auto simp: is_nonempty_string_iff)
  moreover have "own_key_order event_envelope_keys" by code_simp
  ultimately show ?thesis
    using mint mint_requires(1,2,4,5) [OF mint] assms
    by (auto simp: mintAttemptEvent_def Let_def unsigned_event_def event_envelope_keys_def is_nonempty_string_iff journal_schema_version_def split: if_splits)
qed

lemma step_minted:
  assumes "journal_step H repo subj es es'" and "es' = es @ [e]"
  shows "\<exists>att prior gen tip k payload.
    mintAttemptEvent H repo subj att (JInt (int (length es))) prior gen tip (JStr (kind_name k)) payload = Inr e"
  using assms(1)
proof cases
  case (Claim st att gen tip payload e')
  with assms(2) have "e' = e" by simp
  with Claim(5) show ?thesis by blast
next
  case (Advance st att s k payload e')
  with assms(2) have "e' = e" by simp
  with Advance(8) show ?thesis by blast
next
  case (Observe st att s k payload e')
  with assms(2) have "e' = e" by simp
  with Observe(13) show ?thesis by blast
qed

lemma step_readable:
  assumes "journal_step H repo subj es (es @ [e])" and "readable NUM (ev_payload e)"
    and "readable NUM (js_get (ev_attempt e) ''retry_id'')" and "length es < 2 ^ 53"
  shows "readable NUM e"
proof -
  from step_minted [OF assms(1) refl] obtain att prior gen tip k payload where
    mint: "mintAttemptEvent H repo subj att (JInt (int (length es))) prior gen tip (JStr (kind_name k)) payload = Inr e"
    by blast
  note f = mint_fields(4,10) [OF mint]
  have "readable NUM (JInt (int (length es)))"
    using assms(4) safe_integer_reads [of "int (length es)"] by simp
  moreover have "readable NUM (js_get att ''retry_id'')" using assms(3) f(1) by (simp add: tuple_object_def)
  ultimately show ?thesis using assms(2) f(2) by (intro minted_readable [OF mint]) simp_all
qed

text \<open>C29: An admitted command appends one line to the file, and a process that starts again from that file reads the
  journal that was admitted and validates it. The journal before was built by commands and is short of 2 to the 53 events; its events and the
  payload and the retry id of the new one are values that JSON gives back: without \<open>undefined\<close>, with properties in the order in
  which JavaScript lists them, and with numbers that are read from their text.\<close>

theorem admitted_event_survives_restart:
  assumes "reachable_journal H repo subj es" and "list_all (readable NUM) es" and "length es < 2 ^ 53"
    and "admitAttemptCommand H repo subj (JArr es) att kind payload gen tip liveness = Appended e es'"
    and "readable NUM (ev_payload e)" and "readable NUM (js_get (ev_attempt e) ''retry_id'')"
  shows "\<exists>line. serializeAttemptJournal es' = serializeAttemptJournal es @ line \<and>
    parseAttemptJournal NUM (JStr (serializeAttemptJournal es @ line)) = ReadEvents es' \<and>
    validateAttemptJournal H repo subj (JArr es') = Inr (es', ev_digest e)"
proof -
  from admit_step [OF assms(4)] have es': "es' = es @ [e]" and step: "journal_step H repo subj es (es @ [e])" by auto
  have "list_all (readable NUM) es'"
    using step_readable [OF step assms(5,6,3)] assms(2) es' by simp
  from parse_written [OF this, of 0 "[]" "[]"]
  have "parseAttemptJournal NUM (JStr (serializeAttemptJournal es')) = ReadEvents es'" by (simp add: parseAttemptJournal_def)
  moreover have "validateAttemptJournal H repo subj (JArr es') = Inr (es', ev_digest e)"
    using reachable_valid [OF reachable_journal.admit [OF assms(1,4)]] prior_digest_last es'
    by (force simp: validateAttemptJournal_Inr valid_journal_def)
  ultimately show ?thesis using serialize_append [of es "[e]"] es' by metis
qed

lemma demo_second: "is_appended (demo_admit (demo_journal [ReservationClaimed]) 0 PendingPublished JUndef JUndef)"
  by code_simp

theorem admitted_event_survives_restart_witness:
  "\<exists>e es'. demo_admit (demo_journal [ReservationClaimed]) 0 PendingPublished JUndef JUndef = Appended e es' \<and>
     parseAttemptJournal (\<lambda>t. NNaN) (JStr (serializeAttemptJournal es')) = ReadEvents es'"
proof -
  let ?a = "demo_admit (demo_journal [ReservationClaimed]) 0 PendingPublished JUndef JUndef"
  have "list_all (readable (\<lambda>t. NNaN)) (demo_journal [ReservationClaimed])" by code_simp
  moreover have "length (demo_journal [ReservationClaimed]) = 1" by code_simp
  then have "length (demo_journal [ReservationClaimed]) < 2 ^ 53" by simp
  moreover have "readable (\<lambda>t. NNaN) (ev_payload (appended_event ?a))" by code_simp
  moreover have "readable (\<lambda>t. NNaN) (js_get (ev_attempt (appended_event ?a)) ''retry_id'')" by code_simp
  ultimately show ?thesis
    using admitted_event_survives_restart [OF demo_reachable _ _ appended_shape [OF demo_second], of "\<lambda>t. NNaN"]
      appended_shape [OF demo_second] by metis
qed

section \<open>Partitions have their own files\<close>

lemma root_dir:
  assumes "attemptJournalRootDir mainRepo = Inr root"
  shows "\<exists>xs. list_all plain_segment xs \<and> root = abs_path (xs @ [''.agent-launch'', ''managed-worker-attempts''])"
proof -
  have plain: "plain_segment ''.agent-launch''" "plain_segment ''managed-worker-attempts''" by (simp_all add: plain_segment_def)
  obtain q where "mainRepo = JStr (CHR ''/'' # q)" and
    root: "root = path_join [CHR ''/'' # q, ''.agent-launch'', ''managed-worker-attempts'']"
    using assms by (cases mainRepo) (auto simp: attemptJournalRootDir_def split: if_splits, metis list.collapse)
  let ?xs = "normal_segments False [] (split_on (CHR ''/'') q)"
  have "root = abs_path (normal_segments False [] (split_on (CHR ''/'') (q @ CHR ''/'' # ''.agent-launch'')) @ [''managed-worker-attempts''])"
    unfolding root path_join_def abs_path_def by (simp add: normalize_absolute(1) [OF _ plain(2), where q = "q @ CHR ''/'' # ''.agent-launch''"])
  moreover have "normal_segments False [] (split_on (CHR ''/'') (q @ CHR ''/'' # ''.agent-launch'')) = ?xs @ [''.agent-launch'']"
    using normal_segments_append [of "[''.agent-launch'']" False "[]"] plain(1) by (simp add: split_on_append split_on_none)
  moreover have "list_all plain_segment ?xs" by (rule normalize_absolute(2) [OF refl plain(1)])
  ultimately show ?thesis by auto
qed

abbreviation partition_text :: "jsval \<Rightarrow> jsval \<Rightarrow> string" where
  "partition_text repository subject \<equiv> or_null_text (canonicalJson (JArr [journal_schema_version, JStr ''v1'', repository, subject]))"

lemma partition_text_inj:
  assumes "is_nonempty_string r" "is_nonempty_string s" "is_nonempty_string r'" "is_nonempty_string s'"
    and "partition_text r s = partition_text r' s'"
  shows "r = r' \<and> s = s'"
proof -
  let ?v = "\<lambda>r s. JArr [journal_schema_version, JStr ''v1'', r, s]"
  have v: "json_value (?v r s)" "json_value (?v r' s')" and c: "canonicalize (?v r s) = ?v r s" "canonicalize (?v r' s') = ?v r' s'"
    using assms(1-4) by (auto simp: is_nonempty_string_iff journal_schema_version_def)
  from assms(5) have "json_text (?v r s) = json_text (?v r' s')"
    unfolding canonicalJson_text [OF v(1)] canonicalJson_text [OF v(2)] c by (simp add: or_null_text_def)
  from json_text_inj [OF v this] show ?thesis by simp
qed

lemma hex_segment: "list_all is_lower_hex x \<Longrightarrow> plain_segment (''v1-'' @ x)"
proof -
  have "\<not> is_lower_hex CHR ''/''" by (simp add: is_lower_hex_def)
  then show "list_all is_lower_hex x \<Longrightarrow> plain_segment (''v1-'' @ x)"
    by (induction x) (auto simp: plain_segment_def)
qed

lemma partition_file:
  assumes "attemptJournalFilePath H m r s = Inr p" and "list_all is_lower_hex (H (partition_text r s))"
  shows "is_nonempty_string r" and "is_nonempty_string s"
    and "\<exists>root xs. attemptJournalRootDir m = Inr root \<and> root = abs_path xs \<and> xs \<noteq> [] \<and> list_all plain_segment xs \<and>
      p = abs_path (xs @ [''v1-'' @ H (partition_text r s), ''journal.jsonl''])"
proof -
  let ?id = "''v1-'' @ H (partition_text r s)"
  obtain root where root: "attemptJournalRootDir m = Inr root" and rs: "is_nonempty_string r" "is_nonempty_string s"
    and p: "p = path_join [path_join [root, ?id], ''journal.jsonl'']"
    using assms(1) by (auto simp: attemptJournalFilePath_def attemptPartitionDir_def attemptPartitionId_def split: sum.splits if_splits)
  show "is_nonempty_string r" "is_nonempty_string s" by (rule rs)+
  obtain xs where xs: "list_all plain_segment xs" "root = abs_path (xs @ [''.agent-launch'', ''managed-worker-attempts''])"
    using root_dir [OF root] by blast
  define ys where "ys = xs @ [''.agent-launch'', ''managed-worker-attempts'']"
  have ys: "list_all plain_segment ys" "ys \<noteq> []" "root = abs_path ys"
    using xs by (simp_all add: ys_def plain_segment_def)
  have id: "plain_segment ?id" and j: "plain_segment ''journal.jsonl''"
    using hex_segment [OF assms(2)] by (simp_all add: plain_segment_def)
  have "p = abs_path ((ys @ [?id]) @ [''journal.jsonl''])"
    unfolding p ys(3) join_entry [OF ys(1,2) id] using ys id j by (intro join_entry) simp_all
  with root ys show "\<exists>root xs. attemptJournalRootDir m = Inr root \<and> root = abs_path xs \<and> xs \<noteq> [] \<and> list_all plain_segment xs \<and>
      p = abs_path (xs @ [?id, ''journal.jsonl''])" by (intro exI [of _ root] exI [of _ ys]) simp
qed

text \<open>C39: Two subjects never share a journal file: under a hash that gives hexadecimal digests and does not collide on
  the two identities, equal paths mean the same repository and the same subject.\<close>

theorem partitions_have_own_files:
  assumes "attemptJournalFilePath H m r s = Inr p" and "attemptJournalFilePath H m r' s' = Inr p"
    and hex: "\<And>t. list_all is_lower_hex (H t)"
    and inj: "H (partition_text r s) = H (partition_text r' s') \<Longrightarrow> partition_text r s = partition_text r' s'"
  shows "r = r' \<and> s = s'"
proof -
  note f = partition_file [OF assms(1) hex] and f' = partition_file [OF assms(2) hex]
  let ?id = "''v1-'' @ H (partition_text r s)" and ?id' = "''v1-'' @ H (partition_text r' s')"
  have plain: "plain_segment ''journal.jsonl''" by (simp add: plain_segment_def)
  obtain xs ys where xs: "abs_path xs = abs_path ys" "xs \<noteq> []" "list_all plain_segment xs" "ys \<noteq> []" "list_all plain_segment ys"
    and p: "abs_path (xs @ [?id, ''journal.jsonl'']) = abs_path (ys @ [?id', ''journal.jsonl''])"
    using f(3) f'(3) by (metis sum.inject(2))
  have "xs = ys" using xs by (intro join_inj) (simp_all add: abs_path_def)
  have "xs @ [?id, ''journal.jsonl''] = ys @ [?id', ''journal.jsonl'']"
    by (rule join_inj) (use xs p plain hex_segment [OF hex] in \<open>simp_all add: abs_path_def\<close>)
  with \<open>xs = ys\<close> have "H (partition_text r s) = H (partition_text r' s')" by simp
  from partition_text_inj [OF f(1,2) f'(1,2) inj [OF this]] show ?thesis .
qed

definition demo_hex :: hash where
  "demo_hex t = concat (map (\<lambda>c. [hex_digit (of_char c div 16), hex_digit (of_char c mod 16)]) t)"

lemma demo_hex_digits: "list_all is_lower_hex (demo_hex t)"
proof -
  have "list_all (\<lambda>n. is_lower_hex (hex_digit n)) [0..<16]" by code_simp
  then have "n < 16 \<Longrightarrow> is_lower_hex (hex_digit n)" for n by (simp add: list_all_iff)
  moreover have "of_char c div 16 < (16 :: nat)" for c using nat_of_char_less_256 [of c] by (simp add: div_less_iff_less_mult)
  ultimately show ?thesis by (induction t) (simp_all add: demo_hex_def)
qed

theorem partitions_have_own_files_witness:
  "attemptJournalFilePath demo_hex (JStr ''/a/../r'') (JStr ''x'') (JStr ''a'') \<noteq>
   attemptJournalFilePath demo_hex (JStr ''/a/../r'') (JStr ''x'') (JStr ''b'')"
proof
  let ?path = "attemptJournalFilePath demo_hex (JStr ''/a/../r'') (JStr ''x'')"
  assume eq: "?path (JStr ''a'') = ?path (JStr ''b'')"
  have "\<exists>p. ?path (JStr ''a'') = Inr p"
    by (simp add: attemptJournalFilePath_def attemptPartitionDir_def attemptJournalRootDir_def attemptPartitionId_def)
  then obtain p where p: "?path (JStr ''a'') = Inr p" by blast
  have "demo_hex (partition_text (JStr ''x'') (JStr ''a'')) \<noteq> demo_hex (partition_text (JStr ''x'') (JStr ''b''))" by code_simp
  with partitions_have_own_files [OF p p [unfolded eq]] demo_hex_digits show False by auto
qed

end
