(* ===== verification/IntegrationSettlement.thy ===== *)
theory IntegrationSettlement
  imports JournalProgress
begin

text \<open>
  The settlement of integrations, \<open>managed-worker-integration-settlement.mjs\<close>: the integration events of
  one attempt are split into hops, the last hop is classified by its durable prefix, and the reducer
  proposes the next effect or reports why the hop is incomplete. The events are those the journal
  projection collected, so they are objects. A result of \<open>None\<close> is a thrown \<open>TypeError\<close>, from reading a
  property of \<open>null\<close> or \<open>undefined\<close>.
\<close>

section \<open>Vocabulary\<close>

datatype integration_prefix =
    NO_INTENT | INTENT_ONLY | GIT_EFFECT_RECORDED | STATUS_EFFECT_RECORDED | COMPLETED

datatype integration_action =
    NO_ACTION | APPLY_GIT_CAS | RECORD_GIT_EQUIVALENT_WINNER | APPLY_STATUS_CAS | RECORD_STATUS_EQUIVALENT
  | APPEND_COMPLETION

datatype integration_incomplete =
    GIT_CONFLICTING_WINNER | GIT_EFFECT_UNREADABLE | GIT_EFFECT_INDETERMINATE
  | STATUS_CONFLICTING_TRANSITION | STATUS_EFFECT_UNREADABLE | STATUS_EFFECT_INDETERMINATE
  | AUTHORITY_MOVED | STALE_GENERATION | STALE_WK_TIP | INTENT_EFFECT_IDENTITY_MISMATCH
  | CORRECTIVE_ANCESTRY_UNPROVEN | INTENT_UNAUTHENTICATED

text \<open>The result of the reducer: an incomplete hop with its code, reason and detail; the next action with the
  prefix and its detail; or the settled hop with the completion digest and the digests it binds.\<close>

datatype settlement =
    Incomplete (incomplete_code: integration_incomplete) string "jsobj option"
  | Action integration_prefix integration_action "jsobj option"
  | Settled jsval jsval jsval jsval

fun settled :: "settlement \<Rightarrow> bool" where
  "settled (Settled _ _ _ _) = True"
| "settled _ = False"

section \<open>Intent bindings\<close>

definition intent_binding_keys :: "string list" where
  "intent_binding_keys = [''coordinator_action_id'', ''resolved_binding_digest'', ''delivery_commit'', ''delivery_tree'',
     ''slice_ref'', ''wk_ref'', ''expected_wk_tip'', ''expected_slice_tip'', ''canonical_record_digest'', ''status_target'',
     ''contract_generation'', ''predecessor_completion_digest'']"

definition intent_string_keys :: "string list" where
  "intent_string_keys = [''coordinator_action_id'', ''resolved_binding_digest'', ''delivery_commit'', ''delivery_tree'',
     ''slice_ref'', ''wk_ref'', ''expected_wk_tip'', ''canonical_record_digest'', ''status_target'', ''contract_generation'']"

definition isValidIntentBinding :: "jsval \<Rightarrow> bool" where
  "isValidIntentBinding b \<longleftrightarrow>
     has_exact_keys b intent_binding_keys \<and>
     list_all (\<lambda>k. is_nonempty_string (js_get b k)) intent_string_keys \<and>
     (js_get b ''predecessor_completion_digest'' = JNull \<or> is_nonempty_string (js_get b ''predecessor_completion_digest'')) \<and>
     (js_get b ''expected_slice_tip'' = JNull \<or> is_nonempty_string (js_get b ''expected_slice_tip''))"

definition integrationBindingDigest :: "hash \<Rightarrow> jsval \<Rightarrow> string" where
  "integrationBindingDigest H b = ''sha256:'' @ H (or_null_text (canonicalJson b))"

section \<open>Hops\<close>

definition is_completion :: "jsval \<Rightarrow> bool" where
  "is_completion e \<longleftrightarrow> ev_kind e = Some IntegrationCompleted"

text \<open>The loop, with the hop under construction as its accumulator.\<close>

fun partition_hops :: "jsval list \<Rightarrow> jsval list \<Rightarrow> jsval list list" where
  "partition_hops current [] = (if current = [] then [] else [current])"
| "partition_hops current (e # es) =
     (if is_completion e then (current @ [e]) # partition_hops [] es else partition_hops (current @ [e]) es)"

definition partitionIntegrationHops :: "jsval list \<Rightarrow> jsval list list" where
  "partitionIntegrationHops es = partition_hops [] es"

definition hop_has :: "jsval list \<Rightarrow> event_kind \<Rightarrow> bool" where
  "hop_has hop k \<longleftrightarrow> list_ex (\<lambda>e. ev_kind e = Some k) hop"

definition classifyHop :: "jsval list \<Rightarrow> integration_prefix" where
  "classifyHop hop =
     (if hop_has hop IntegrationCompleted then COMPLETED
      else if hop_has hop IntegrationStatusEffect then STATUS_EFFECT_RECORDED
      else if hop_has hop IntegrationGitEffect then GIT_EFFECT_RECORDED
      else if hop_has hop IntegrationIntent then INTENT_ONLY
      else NO_INTENT)"

text \<open>\<open>eventOfKind\<close> searches the hop from its end.\<close>

definition eventOfKind :: "jsval list \<Rightarrow> event_kind \<Rightarrow> jsval option" where
  "eventOfKind hop k = event_of_kind k (rev hop)"

section \<open>The reducer\<close>

definition unreadable :: "jsval \<Rightarrow> bool" where
  "unreadable v \<longleftrightarrow> v = JNull \<or> strict_eq (js_get v ''readable'') (JBool False)"

text \<open>The guards on the intent of the last hop: its binding is complete, authenticated and current. \<open>None\<close>
  when they pass.\<close>

definition intent_authenticated :: "hash \<Rightarrow> jsval \<Rightarrow> jsval \<Rightarrow> bool" where
  "intent_authenticated H payload binding \<longleftrightarrow>
     is_nonempty_string (js_get payload ''coordinator_action_id'') \<and>
     strict_eq (js_get payload ''coordinator_action_id'') (js_get binding ''coordinator_action_id'') \<and>
     strict_eq (js_get binding ''resolved_binding_digest'')
       (JStr (integrationBindingDigest H (js_put ''resolved_binding_digest'' JNull binding)))"

definition intent_guard :: "hash \<Rightarrow> jsval \<Rightarrow> jsval \<Rightarrow> jsval \<Rightarrow> jsval \<Rightarrow> settlement option" where
  "intent_guard H intent binding generation tip =
     (if \<not> isValidIntentBinding binding
      then Some (Incomplete INTENT_UNAUTHENTICATED
        ''the integration intent does not carry a complete server-resolved binding'' None)
      else if \<not> intent_authenticated H (ev_payload intent) binding
      then Some (Incomplete INTENT_UNAUTHENTICATED
        ''the integration intent is not bound to an authenticated coordinator action and server-resolved binding digest'' None)
      else if generation \<noteq> JNull \<and> \<not> strict_eq (ev_generation intent) generation
      then Some (Incomplete STALE_GENERATION
        (''the integration intent'' @ [CHR 0x27] @ ''s frozen generation is no longer current'')
        (Some [(''frozen'', ev_generation intent), (''current'', generation)]))
      else if tip \<noteq> JNull \<and> \<not> strict_eq (ev_tip intent) tip
      then Some (Incomplete STALE_WK_TIP
        (''the integration intent'' @ [CHR 0x27] @ ''s frozen WK tip is no longer current'')
        (Some [(''frozen'', ev_tip intent), (''current'', tip)]))
      else None)"

text \<open>A corrective hop binds the completion of its predecessor and descends from the integrated tip.\<close>

definition corrective_guard :: "jsval list list \<Rightarrow> jsval \<Rightarrow> jsval \<Rightarrow> settlement option option" where
  "corrective_guard earlier binding observations =
     (case rev earlier of
        [] \<Rightarrow> Some None
      | predecessor # _ \<Rightarrow>
        (let completion = eventOfKind predecessor IntegrationCompleted;
             expected = (case completion of None \<Rightarrow> JNull | Some e \<Rightarrow> ev_digest e);
             bound = js_get binding ''predecessor_completion_digest'' in
         if completion = None \<or> \<not> strict_eq bound expected
         then Some (Some (Incomplete CORRECTIVE_ANCESTRY_UNPROVEN
           ''the corrective hop does not bind the exact prior completion digest''
           (Some [(''bound'', bound), (''expected'', expected)])))
         else case js_prop observations ''git'' of
           None \<Rightarrow> None
         | Some git \<Rightarrow>
           if strict_eq (js_get git ''delivery_ancestor_of_tip'') (JBool False)
           then Some (Some (Incomplete CORRECTIVE_ANCESTRY_UNPROVEN
             ''Git ancestry does not prove the corrective delivery descends from the integrated tip'' None))
           else Some None))"

definition settle_intent :: "jsval \<Rightarrow> jsval \<Rightarrow> settlement" where
  "settle_intent binding git =
     (if unreadable git
      then Incomplete GIT_EFFECT_UNREADABLE ''the Git tip for the slice ref could not be authenticated'' None
      else
      let tip = js_get git ''tip'' in
      if strict_eq tip (js_get binding ''expected_slice_tip'') \<or> strict_eq tip (js_get binding ''expected_wk_tip'')
      then Action INTENT_ONLY APPLY_GIT_CAS
        (Some [(''slice_ref'', js_get binding ''slice_ref''), (''expected'', tip),
               (''delivery_commit'', js_get binding ''delivery_commit'')])
      else if strict_eq tip (js_get binding ''delivery_commit'')
      then Action INTENT_ONLY RECORD_GIT_EQUIVALENT_WINNER
        (Some [(''slice_ref'', js_get binding ''slice_ref''), (''observed_tip'', tip)])
      else Incomplete GIT_CONFLICTING_WINNER
        ''the slice ref moved to a tip that is neither the expected pre-integration tip nor this delivery''
        (Some [(''observed_tip'', tip), (''delivery_commit'', js_get binding ''delivery_commit'')]))"

definition settle_git_effect :: "jsval list \<Rightarrow> jsval \<Rightarrow> jsval \<Rightarrow> settlement" where
  "settle_git_effect hop binding rec =
     (let gitEffect = payload_of (eventOfKind hop IntegrationGitEffect) in
      if \<not> strict_eq (js_get gitEffect ''resulting_tip'') (js_get binding ''delivery_commit'')
      then Incomplete INTENT_EFFECT_IDENTITY_MISMATCH
        (''the recorded Git effect does not name this intent'' @ [CHR 0x27] @ ''s delivery commit'') None
      else if unreadable rec
      then Incomplete STATUS_EFFECT_UNREADABLE ''the canonical record could not be authenticated'' None
      else if strict_eq (js_get rec ''digest'') (js_get binding ''canonical_record_digest'')
      then Action GIT_EFFECT_RECORDED APPLY_STATUS_CAS
        (Some [(''expected_digest'', js_get rec ''digest''), (''status_target'', js_get binding ''status_target'')])
      else if strict_eq (js_get rec ''status'') (js_get binding ''status_target'')
      then Action GIT_EFFECT_RECORDED RECORD_STATUS_EQUIVALENT
        (Some [(''observed_digest'', js_get rec ''digest''), (''status_target'', js_get binding ''status_target'')])
      else Incomplete STATUS_CONFLICTING_TRANSITION
        ''the canonical record moved to a state that is neither the expected digest nor the intended status''
        (Some [(''observed_digest'', js_get rec ''digest''), (''observed_status'', js_get rec ''status''),
               (''status_target'', js_get binding ''status_target'')]))"

definition settle_status_effect :: "jsval list \<Rightarrow> jsval \<Rightarrow> jsval \<Rightarrow> jsval \<Rightarrow> settlement option" where
  "settle_status_effect hop intent git rec =
     (case eventOfKind hop IntegrationGitEffect of
        None \<Rightarrow> Some (Incomplete INTENT_EFFECT_IDENTITY_MISMATCH
          ''a status effect exists with no recorded Git effect for this hop'' None)
      | Some gitEffect \<Rightarrow>
        if unreadable git
        then Some (Incomplete GIT_EFFECT_INDETERMINATE
          ''the Git effect could not be re-authenticated before completion'' None)
        else case js_prop (ev_payload gitEffect) ''resulting_tip'' of None \<Rightarrow> None | Some recorded_tip \<Rightarrow>
        if \<not> strict_eq (js_get git ''tip'') recorded_tip
        then Some (Incomplete AUTHORITY_MOVED
          ''the slice ref moved away from the recorded Git effect before completion''
          (Some [(''recorded'', recorded_tip), (''observed'', js_get git ''tip'')]))
        else if unreadable rec
        then Some (Incomplete STATUS_EFFECT_INDETERMINATE
          ''the canonical status effect could not be re-authenticated before completion'' None)
        else case eventOfKind hop IntegrationStatusEffect of None \<Rightarrow> None | Some statusEffect \<Rightarrow>
        case js_prop (ev_payload statusEffect) ''resulting_digest'' of None \<Rightarrow> None | Some recorded_digest \<Rightarrow>
        if \<not> strict_eq (js_get rec ''digest'') recorded_digest
        then Some (Incomplete AUTHORITY_MOVED
          ''the canonical record moved away from the recorded status effect before completion''
          (Some [(''recorded'', recorded_digest), (''observed'', js_get rec ''digest'')]))
        else Some (Action STATUS_EFFECT_RECORDED APPEND_COMPLETION
          (Some [(''git_effect_digest'', ev_digest gitEffect), (''status_effect_digest'', ev_digest statusEffect),
                 (''intent_digest'', ev_digest intent)])))"

definition settle_completed :: "jsval list \<Rightarrow> settlement option" where
  "settle_completed hop =
     (case eventOfKind hop IntegrationCompleted of
        None \<Rightarrow> None
      | Some completion \<Rightarrow>
        (let bound = (\<lambda>k. js_or_nullish (js_get (ev_payload completion) k) JNull) in
         Some (Settled (ev_digest completion) (bound ''intent_digest'') (bound ''git_effect_digest'')
           (bound ''status_effect_digest''))))"

definition settle_by_prefix ::
  "jsval list \<Rightarrow> jsval \<Rightarrow> jsval \<Rightarrow> jsval \<Rightarrow> jsval \<Rightarrow> settlement option" where
  "settle_by_prefix hop intent binding git rec =
     (case classifyHop hop of
        INTENT_ONLY \<Rightarrow> Some (settle_intent binding git)
      | GIT_EFFECT_RECORDED \<Rightarrow> Some (settle_git_effect hop binding rec)
      | STATUS_EFFECT_RECORDED \<Rightarrow> settle_status_effect hop intent git rec
      | COMPLETED \<Rightarrow> settle_completed hop
      | NO_INTENT \<Rightarrow> Some (Incomplete INTENT_EFFECT_IDENTITY_MISMATCH
          ''the integration hop does not classify to a known durable prefix'' None))"

definition reduceIntegrationSettlement ::
  "hash \<Rightarrow> jsval list \<Rightarrow> jsval \<Rightarrow> jsval \<Rightarrow> jsval \<Rightarrow> settlement option" where
  "reduceIntegrationSettlement H integrationEvents observations0 generation0 tip0 =
     (let observations = js_default (JObj []) observations0; generation = js_default JNull generation0;
          tip = js_default JNull tip0 in
      case rev (partitionIntegrationHops integrationEvents) of
        [] \<Rightarrow> Some (Action NO_INTENT NO_ACTION None)
      | hop # earlier \<Rightarrow>
        if classifyHop hop = NO_INTENT then Some (Action NO_INTENT NO_ACTION None)
        else case eventOfKind hop IntegrationIntent of
          None \<Rightarrow> Some (Incomplete INTENT_EFFECT_IDENTITY_MISMATCH
            ''an integration effect exists with no durable intent for this hop'' None)
        | Some intent \<Rightarrow>
          (let binding = js_or_nullish (js_get (ev_payload intent) ''binding'') JNull in
           case intent_guard H intent binding generation tip of Some r \<Rightarrow> Some r | None \<Rightarrow>
           case corrective_guard (rev earlier) binding observations of None \<Rightarrow> None | Some (Some r) \<Rightarrow> Some r | Some None \<Rightarrow>
           case (js_prop observations ''git'', js_prop observations ''record'') of
             (Some git, Some rec) \<Rightarrow>
               settle_by_prefix hop intent binding (js_or_nullish git JNull) (js_or_nullish rec JNull)
           | _ \<Rightarrow> None))"

section \<open>Admission of an intent\<close>

text \<open>The refusal (its code and reason), or the payload of the intent event.\<close>

definition admitIntegrationIntent ::
  "hash \<Rightarrow> jsval \<Rightarrow> jsval \<Rightarrow> jsval \<Rightarrow> jsval \<Rightarrow> (integration_incomplete \<times> string) + jsval" where
  "admitIntegrationIntent H coordinatorAuthenticated coordinatorActionId resolvedBinding callerSuppliedBinding0 =
     (if \<not> strict_eq coordinatorAuthenticated (JBool True)
      then Inl (INTENT_UNAUTHENTICATED,
        ''only a launcher-authenticated coordinator committed-slice integration invocation may create integration intent'')
      else if js_default JNull callerSuppliedBinding0 \<noteq> JNull
      then Inl (INTENT_UNAUTHENTICATED,
        ''caller input selects only the public subject; it can never supply or override a resolved binding'')
      else if \<not> is_nonempty_string coordinatorActionId
      then Inl (INTENT_UNAUTHENTICATED, ''the coordinator action identity is missing'')
      else
      let withoutDigest = js_put ''coordinator_action_id'' coordinatorActionId
            (js_put ''resolved_binding_digest'' JNull resolvedBinding);
          binding = js_put ''resolved_binding_digest'' (JStr (integrationBindingDigest H withoutDigest)) withoutDigest in
      if \<not> isValidIntentBinding binding
      then Inl (INTENT_UNAUTHENTICATED, ''the server-resolved binding is incomplete'')
      else Inr (JObj [(''coordinator_action_id'', coordinatorActionId), (''binding'', binding)]))"

end
