(* ===== verification/SettlementProperties.thy ===== *)
theory SettlementProperties
  imports IntegrationSettlement JournalProperties
begin

text \<open>
  The properties of the integration settlement: hops partition the events, actions are proposed only on
  authenticated and re-read effects, admitted intents authenticate, the hops of a reachable journal are
  well-formed, and an integration whose effects go through settles.
\<close>

section \<open>Hops\<close>

lemma partition_hops_concat: "concat (partition_hops current es) = current @ es"
  by (induction current es rule: partition_hops.induct) auto

lemma partition_hops_nonempty: "hop \<in> set (partition_hops current es) \<Longrightarrow> hop \<noteq> []"
  by (induction current es rule: partition_hops.induct) (auto split: if_splits)

text \<open>A hop is cut right after its first completion.\<close>

definition closed_hop :: "jsval list \<Rightarrow> bool" where
  "closed_hop hop \<longleftrightarrow> hop \<noteq> [] \<and> is_completion (last hop) \<and> list_all (\<lambda>e. \<not> is_completion e) (butlast hop)"

definition open_hop :: "jsval list \<Rightarrow> bool" where
  "open_hop hop \<longleftrightarrow> hop \<noteq> [] \<and> list_all (\<lambda>e. \<not> is_completion e) hop"

fun hops_wf :: "jsval list list \<Rightarrow> bool" where
  "hops_wf [] = True"
| "hops_wf [hop] \<longleftrightarrow> closed_hop hop \<or> open_hop hop"
| "hops_wf (hop # hops) \<longleftrightarrow> closed_hop hop \<and> hops_wf hops"

lemma hops_wf_Cons: "closed_hop hop \<Longrightarrow> hops_wf hops \<Longrightarrow> hops_wf (hop # hops)"
  by (cases hops) auto

lemma partition_hops_wf:
  "list_all (\<lambda>e. \<not> is_completion e) current \<Longrightarrow> hops_wf (partition_hops current es)"
  by (induction current es rule: partition_hops.induct)
     (auto simp: closed_hop_def open_hop_def intro!: hops_wf_Cons)

lemma hops_partition_concat: "concat (partitionIntegrationHops es) = es"
  by (simp add: partitionIntegrationHops_def partition_hops_concat)

text \<open>The hops are the integration events cut after every completion: joined they give the events back, every hop
  but the last ends with its only completion, and the last one has none or ends with its only one.\<close>

theorem hops_partition:
  "concat (partitionIntegrationHops es) = es \<and> hops_wf (partitionIntegrationHops es)"
  by (simp add: partitionIntegrationHops_def partition_hops_concat partition_hops_wf)

section \<open>The reducer acts only on authenticated effects\<close>

lemma reduce_settlement_last_hop:
  assumes "reduceIntegrationSettlement H es obs gen tip = Some r"
    and "\<And>c s d. r \<noteq> Incomplete c s d" and "r \<noteq> Action NO_INTENT NO_ACTION None"
  obtains hop intent bnd git rec where "partitionIntegrationHops es \<noteq> []" "hop = last (partitionIntegrationHops es)"
    "eventOfKind hop IntegrationIntent = Some intent" "bnd = js_or_nullish (js_get (ev_payload intent) ''binding'') JNull"
    "intent_guard H intent bnd (js_default JNull gen) (js_default JNull tip) = None"
    "git = js_or_nullish (js_get (js_default (JObj []) obs) ''git'') JNull"
    "rec = js_or_nullish (js_get (js_default (JObj []) obs) ''record'') JNull"
    "settle_by_prefix hop intent bnd git rec = Some r"
proof -
  obtain hop earlier where h: "rev (partitionIntegrationHops es) = hop # earlier"
    using assms(1,3) by (cases "rev (partitionIntegrationHops es)") (auto simp: reduceIntegrationSettlement_def Let_def)
  have n: "classifyHop hop \<noteq> NO_INTENT"
    using assms(1,3) h by (auto simp: reduceIntegrationSettlement_def Let_def)
  from assms(1) h n assms(2) obtain intent where i: "eventOfKind hop IntegrationIntent = Some intent"
    by (auto simp: reduceIntegrationSettlement_def Let_def split: if_splits option.splits)
  let ?b = "js_or_nullish (js_get (ev_payload intent) ''binding'') JNull"
  have g: "intent_guard H intent ?b (js_default JNull gen) (js_default JNull tip) = None"
    using assms(1,2) h i n
    by (auto simp: reduceIntegrationSettlement_def Let_def intent_guard_def split: if_splits option.splits)
  have c: "corrective_guard (rev earlier) ?b (js_default (JObj []) obs) = Some None"
    using assms(1,2) h i g n
    by (auto simp: reduceIntegrationSettlement_def Let_def corrective_guard_def split: if_splits option.splits list.splits)
  have p: "\<exists>git rec. js_prop (js_default (JObj []) obs) ''git'' = Some git \<and> js_prop (js_default (JObj []) obs) ''record'' = Some rec \<and>
      settle_by_prefix hop intent ?b (js_or_nullish git JNull) (js_or_nullish rec JNull) = Some r"
    using assms(1) h i g c n
    by (auto simp: reduceIntegrationSettlement_def Let_def split: if_splits option.splits)
  have "hop = last (partitionIntegrationHops es)" "partitionIntegrationHops es \<noteq> []"
    using h by (auto simp: rev_eq_Cons_iff)
  with i g p that show ?thesis by (auto simp: js_prop_def split: if_splits)
qed

text \<open>C25: Completion is proposed only after both effects were read again: the slice ref is at the tip the Git effect
  recorded, the canonical record has the digest the status effect recorded, and the proposal names the digests of
  the intent and of both effects.\<close>

theorem completion_reauthenticates:
  assumes "reduceIntegrationSettlement H es observations gen tip = Some (Action prefix APPEND_COMPLETION detail)"
  shows "\<exists>hop intent git_effect status_effect.
    hop = last (partitionIntegrationHops es) \<and> classifyHop hop = STATUS_EFFECT_RECORDED \<and>
    eventOfKind hop IntegrationIntent = Some intent \<and>
    eventOfKind hop IntegrationGitEffect = Some git_effect \<and> eventOfKind hop IntegrationStatusEffect = Some status_effect \<and>
    strict_eq (js_get (js_get observations ''git'') ''tip'') (js_get (ev_payload git_effect) ''resulting_tip'') \<and>
    strict_eq (js_get (js_get observations ''record'') ''digest'') (js_get (ev_payload status_effect) ''resulting_digest'') \<and>
    detail = Some [(''git_effect_digest'', ev_digest git_effect), (''status_effect_digest'', ev_digest status_effect),
      (''intent_digest'', ev_digest intent)]"
proof -
  obtain hop intent bnd git rec where h: "hop = last (partitionIntegrationHops es)"
    "eventOfKind hop IntegrationIntent = Some intent"
    "git = js_or_nullish (js_get (js_default (JObj []) observations) ''git'') JNull"
    "rec = js_or_nullish (js_get (js_default (JObj []) observations) ''record'') JNull"
    "settle_by_prefix hop intent bnd git rec = Some (Action prefix APPEND_COMPLETION detail)"
    by (rule reduce_settlement_last_hop [OF assms]) auto
  have c: "classifyHop hop = STATUS_EFFECT_RECORDED"
    "settle_status_effect hop intent git rec = Some (Action prefix APPEND_COMPLETION detail)"
    using h(5) by (auto simp: settle_by_prefix_def settle_intent_def settle_git_effect_def settle_completed_def Let_def
        split: integration_prefix.splits if_splits option.splits)
  have "\<not> unreadable git" "\<not> unreadable rec"
    using c(2) by (auto simp: settle_status_effect_def split: option.splits if_splits)
  then have g: "git = js_get observations ''git''" "rec = js_get observations ''record''"
    unfolding h(3,4) by (auto simp: unreadable_def js_or_nullish_def js_default_def split: if_splits)
  show ?thesis
    using c h(1,2) unfolding settle_status_effect_def g
    by (auto simp: js_prop_def split: option.splits if_splits)
qed

text \<open>The compare-and-set on Git is proposed only while the slice ref is readable and at one of the two tips the
  authenticated intent expects; it is conditioned on the tip that was observed and targets the delivery commit of the
  intent.\<close>

theorem git_cas_is_conditioned:
  assumes "reduceIntegrationSettlement H es observations gen tip = Some (Action prefix APPLY_GIT_CAS detail)"
  shows "\<exists>intent bnd observed.
    eventOfKind (last (partitionIntegrationHops es)) IntegrationIntent = Some intent \<and>
    bnd = js_get (ev_payload intent) ''binding'' \<and> isValidIntentBinding bnd \<and>
    intent_authenticated H (ev_payload intent) bnd \<and>
    observed = js_get (js_get observations ''git'') ''tip'' \<and>
    (strict_eq observed (js_get bnd ''expected_slice_tip'') \<or> strict_eq observed (js_get bnd ''expected_wk_tip'')) \<and>
    detail = Some [(''slice_ref'', js_get bnd ''slice_ref''), (''expected'', observed),
      (''delivery_commit'', js_get bnd ''delivery_commit'')]"
proof -
  obtain hop intent bnd git rec where h: "hop = last (partitionIntegrationHops es)"
    "eventOfKind hop IntegrationIntent = Some intent"
    "bnd = js_or_nullish (js_get (ev_payload intent) ''binding'') JNull"
    "intent_guard H intent bnd (js_default JNull gen) (js_default JNull tip) = None"
    "git = js_or_nullish (js_get (js_default (JObj []) observations) ''git'') JNull"
    "settle_by_prefix hop intent bnd git rec = Some (Action prefix APPLY_GIT_CAS detail)"
    by (rule reduce_settlement_last_hop [OF assms]) auto
  have c: "settle_intent bnd git = Action prefix APPLY_GIT_CAS detail"
    using h(6) by (auto simp: settle_by_prefix_def settle_status_effect_def settle_git_effect_def settle_completed_def Let_def
        split: integration_prefix.splits if_splits option.splits)
  then have "\<not> unreadable git" by (auto simp: settle_intent_def)
  then have g: "git = js_get observations ''git''"
    unfolding h(5) by (auto simp: unreadable_def js_or_nullish_def js_default_def split: if_splits)
  have v: "isValidIntentBinding bnd" "intent_authenticated H (ev_payload intent) bnd"
    using h(4) by (auto simp: intent_guard_def split: if_splits)
  then have "bnd \<noteq> JNull" by (auto simp: isValidIntentBinding_def has_exact_keys_def)
  then have b: "bnd = js_get (ev_payload intent) ''binding''" using h(3) by (auto simp: js_or_nullish_def split: if_splits)
  show ?thesis
    using c v h(1,2) b unfolding g by (auto simp: settle_intent_def Let_def split: if_splits)
qed

section \<open>Admitted intents are authenticated\<close>

lemma update_prop_same: "k \<in> set (map fst kvs) \<Longrightarrow> obj_get kvs k = v \<Longrightarrow> update_prop k v kvs = kvs"
  by (induction k v kvs rule: update_prop.induct) (auto split: if_splits)

lemma update_prop_twice: "update_prop k v (update_prop k w kvs) = update_prop k v kvs"
  by (induction k w kvs rule: update_prop.induct) auto

lemma obj_put_restore: "k \<in> set (map fst kvs) \<Longrightarrow> obj_get kvs k = v \<Longrightarrow> obj_put k v (obj_put k w kvs) = kvs"
  by (simp add: obj_put_def update_prop_twice update_prop_same)

lemma js_put_restore:
  assumes "k \<in> set (own_keys (JObj kvs))" and "obj_get kvs k = v"
  shows "js_put k v (js_put k w (JObj kvs)) = JObj kvs"
  using assms by (simp add: js_put_def obj_put_restore)

text \<open>The payload of an admitted intent passes the reducer's own authentication: the digest it carries is that of
  its binding without the digest, and the binding keeps every other field the server resolved.\<close>

theorem admitted_intent_authenticates:
  assumes "admitIntegrationIntent H authenticated actionId resolved caller = Inr payload"
    and "ev_payload intent = payload"
  shows "intent_guard H intent (js_get payload ''binding'') JNull JNull = None \<and>
    (is_plain_object resolved \<longrightarrow> (\<forall>k. k \<noteq> ''resolved_binding_digest'' \<and> k \<noteq> ''coordinator_action_id'' \<longrightarrow>
       js_get (js_get payload ''binding'') k = js_get resolved k))"
proof -
  let ?w = "js_put ''coordinator_action_id'' actionId (js_put ''resolved_binding_digest'' JNull resolved)"
  let ?b = "js_put ''resolved_binding_digest'' (JStr (integrationBindingDigest H ?w)) ?w"
  have a: "is_nonempty_string actionId" "isValidIntentBinding ?b"
    "payload = JObj [(''coordinator_action_id'', actionId), (''binding'', ?b)]"
    using assms(1) by (auto simp: admitIntegrationIntent_def Let_def split: if_splits)
  have "js_put ''resolved_binding_digest'' JNull ?b = ?w"
    by (simp add: js_put_def obj_put_restore)
  then have "intent_authenticated H payload ?b"
    using a(1) by (auto simp: intent_authenticated_def a(3) is_nonempty_string_iff)
  then show ?thesis
    using a(2) assms(2) unfolding a(3)
    by (auto simp: intent_guard_def is_plain_object_iff js_put_def)
qed

section \<open>Hops of a reachable journal\<close>

text \<open>The phases of a lifecycle: a legal step never goes back, and only integrations stay in their phase.\<close>

fun phase :: "event_kind \<Rightarrow> nat" where
  "phase ReservationClaimed = 0"
| "phase PendingPublished = 1"
| "phase SupervisorBound = 2"
| "phase SpawnStarted = 3"
| "phase SandboxBound = 4"
| "phase ExecutionTerminated = 5"
| "phase DeliveryObserved = 6"
| "phase AttemptTerminal = 8"
| "phase ReservationReleased = 9"
| "phase k = 7"

lemma legal_successor_phase:
  "k \<in> set (legal_successors x) \<Longrightarrow> phase x \<le> phase k \<and> (phase x = phase k \<longrightarrow> integration_kind x \<and> integration_kind k)"
  by (cases x) auto

lemma legal_phase_last:
  "legal_from None ks \<Longrightarrow> \<forall>k\<in>set ks. \<not> informational k \<Longrightarrow> k \<in> set ks \<Longrightarrow> phase k \<le> phase (last ks)"
proof (induction ks rule: rev_induct)
  case (snoc x xs)
  note p = legal_predecessor [OF snoc.prems(1)]
  show ?case
  proof (cases "k \<in> set xs")
    case True
    with snoc p have "phase k \<le> phase (last xs)" by simp
    moreover have "phase (last xs) \<le> phase x"
      using p True snoc.prems(2) legal_successor_phase by (auto split: if_splits)
    ultimately show ?thesis by simp
  qed (use snoc.prems(3) in auto)
qed simp

text \<open>The cycle of an integration.\<close>

fun integration_next :: "event_kind option \<Rightarrow> event_kind" where
  "integration_next (Some IntegrationIntent) = IntegrationGitEffect"
| "integration_next (Some IntegrationGitEffect) = IntegrationStatusEffect"
| "integration_next (Some IntegrationStatusEffect) = IntegrationCompleted"
| "integration_next _ = IntegrationIntent"

fun integration_cycle :: "event_kind option \<Rightarrow> event_kind list \<Rightarrow> bool" where
  "integration_cycle p [] = True"
| "integration_cycle p (k # ks) \<longleftrightarrow> k = integration_next p \<and> integration_cycle (Some k) ks"

lemma integration_cycle_snoc:
  "integration_cycle p (ks @ [k]) \<longleftrightarrow> integration_cycle p ks \<and> k = integration_next (if ks = [] then p else Some (last ks))"
  by (induction p ks rule: integration_cycle.induct) auto

lemma integration_step:
  assumes "k \<in> set (legal_successors x)" and "integration_kind k"
  shows "(x = DeliveryObserved \<and> k = IntegrationIntent) \<or> (integration_kind x \<and> k = integration_next (Some x))"
  using assms by (cases x) auto

lemma legal_integration_cycle:
  assumes "legal_from None ks" and "\<forall>k\<in>set ks. \<not> informational k"
  shows "integration_cycle None (filter integration_kind ks)"
  using assms
proof (induction ks rule: rev_induct)
  case (snoc k ks)
  note p = legal_predecessor [OF snoc.prems(1)]
  have IH: "integration_cycle None (filter integration_kind ks)" using snoc p by simp
  show ?case
  proof (cases "integration_kind k")
    case True
    with p snoc.prems(2) have ks: "ks \<noteq> []" "k \<in> set (legal_successors (last ks))" by (auto split: if_splits)
    from integration_step [OF ks(2) True] show ?thesis
    proof
      assume d: "last ks = DeliveryObserved \<and> k = IntegrationIntent"
      have "\<not> integration_kind x" if "x \<in> set ks" for x
        using legal_phase_last [of ks x] p snoc.prems(2) that d by (cases x) auto
      then have "filter integration_kind ks = []" by (simp add: filter_empty_conv)
      with d show ?thesis by simp
    next
      assume i: "integration_kind (last ks) \<and> k = integration_next (Some (last ks))"
      have "ks = butlast ks @ [last ks]" using ks(1) by simp
      then have "filter integration_kind ks = filter integration_kind (butlast ks) @ [last ks]"
        using i by (metis filter.simps(1,2) filter_append)
      then have "filter integration_kind ks \<noteq> []" "last (filter integration_kind ks) = last ks"
        by (metis snoc_eq_iff_butlast, metis last_snoc)
      with IH i True show ?thesis by (simp add: integration_cycle_snoc)
    qed
  qed (use IH in simp)
qed simp


text \<open>The integration events of a projected attempt are its lifecycle events of the integration kinds.\<close>

definition integration_event :: "jsval \<Rightarrow> bool" where
  "integration_event e \<longleftrightarrow> (\<exists>k. ev_kind e = Some k \<and> integration_kind k)"

lemma integration_not_informational: "integration_kind k \<Longrightarrow> \<not> informational k"
  by (cases k) auto

lemma fold_integration_events:
  "st_integration_events (foldl record_event s es) = st_integration_events s @ filter integration_event es"
proof (induction es arbitrary: s)
  case (Cons e es)
  have "st_integration_events (record_event s e) = st_integration_events s @ filter integration_event [e]"
    using integration_not_informational
    by (auto simp: record_event_def Let_def integration_event_def split: option.splits)
  with Cons show ?case by simp
qed simp

lemma view_integration_events:
  "view key es = Some s \<Longrightarrow> st_integration_events s = filter integration_event (key_events key es)"
  by (auto simp: view_def attempt_fold_def fold_integration_events new_attempt_state_def split: list.splits
      simp del: foldl_Cons)

lemma integration_event_kinds:
  "List.map_filter ev_kind (filter integration_event es) = filter integration_kind (life es)"
  using integration_not_informational
  by (induction es) (auto simp: integration_event_def List.map_filter_simps split: option.split)

text \<open>The kinds of a hop: a non-empty prefix of the four effects.\<close>

definition hop_effects :: "event_kind list" where
  "hop_effects = [IntegrationIntent, IntegrationGitEffect, IntegrationStatusEffect, IntegrationCompleted]"

definition hop_prefix :: "jsval list \<Rightarrow> bool" where
  "hop_prefix hop \<longleftrightarrow> hop \<noteq> [] \<and> map ev_kind hop = map Some (take (length hop) hop_effects)"

definition hop_position :: "event_kind list \<Rightarrow> event_kind option" where
  "hop_position ks = (if ks = [] then None else Some (last ks))"

lemma hop_next:
  assumes "n \<le> 3"
  shows "integration_next (hop_position (take n hop_effects)) = hop_effects ! n"
    and "take (Suc n) hop_effects = take n hop_effects @ [hop_effects ! n]"
    and "hop_effects ! n = IntegrationCompleted \<longleftrightarrow> n = 3"
proof -
  have "n = 0 \<or> n = 1 \<or> n = 2 \<or> n = 3" using assms by arith
  then show "integration_next (hop_position (take n hop_effects)) = hop_effects ! n"
    "take (Suc n) hop_effects = take n hop_effects @ [hop_effects ! n]"
    "hop_effects ! n = IntegrationCompleted \<longleftrightarrow> n = 3"
    by (auto simp: hop_effects_def hop_position_def numeral_nat)
qed

lemma cycle_hops:
  assumes "map ev_kind current = map Some (take (length current) hop_effects)" and "length current \<le> 3"
    and "list_all integration_event es"
    and "integration_cycle (hop_position (take (length current) hop_effects)) (List.map_filter ev_kind es)"
  shows "\<forall>hop\<in>set (partition_hops current es). hop_prefix hop"
  using assms
proof (induction current es rule: partition_hops.induct)
  case (1 current)
  then show ?case by (auto simp: hop_prefix_def)
next
  case (2 current e es)
  then obtain k where k: "ev_kind e = Some k" by (auto simp: integration_event_def)
  note n = hop_next [OF "2.prems"(2)]
  have kn: "k = hop_effects ! length current" and rest: "integration_cycle (Some k) (List.map_filter ev_kind es)"
    using "2.prems"(4) k n(1) by (auto simp: List.map_filter_simps)
  have snoc: "map ev_kind (current @ [e]) = map Some (take (length (current @ [e])) hop_effects)"
    using n(2) kn k "2.prems"(1) by simp
  show ?case
  proof (cases "is_completion e")
    case True
    with k have "k = IntegrationCompleted" by (simp add: is_completion_def)
    then have "integration_cycle None (List.map_filter ev_kind es)" using rest by (cases "List.map_filter ev_kind es") auto
    with True 2 snoc show ?thesis by (auto simp: hop_prefix_def hop_position_def)
  next
    case False
    with k kn n(3) "2.prems"(2) have "length (current @ [e]) \<le> 3" by (auto simp: is_completion_def)
    moreover have "hop_position (take (length (current @ [e])) hop_effects) = Some k"
      using n(2) kn by (simp add: hop_position_def)
    ultimately show ?thesis using "2.IH"(2) [OF False snoc] "2.prems"(3) rest False by simp
  qed
qed

text \<open>In a reachable journal every integration hop of an attempt is an intent, then its Git effect, its status
  effect and its completion, as far as it got; so the last hop always has its durable intent.\<close>

theorem journal_hops_wellformed:
  assumes "reachable_journal H repo subj es" and "s \<in> set (projectAttempts es)"
    and "hop \<in> set (partitionIntegrationHops (st_integration_events s))"
  shows "hop_prefix hop \<and> length hop \<le> 4 \<and> ev_kind (hd hop) = Some IntegrationIntent"
proof -
  have v: "view (st_key s) es = Some s" using assms(2) by (simp add: in_project_iff)
  obtain ks where ks: "ks = life (key_events (st_key s) es)" "legal_from None ks" "\<forall>k\<in>set ks. \<not> informational k"
    by (rule life_view [OF v assms(1)])
  have "integration_cycle None (List.map_filter ev_kind (st_integration_events s))"
    using legal_integration_cycle [OF ks(2,3)] by (simp add: view_integration_events [OF v] integration_event_kinds ks(1))
  moreover have "list_all integration_event (st_integration_events s)"
    by (simp add: view_integration_events [OF v] list_all_iff)
  ultimately have p: "hop_prefix hop"
    using cycle_hops [of "[]" "st_integration_events s"] assms(3)
    by (simp add: partitionIntegrationHops_def hop_position_def)
  then have l: "length hop = length (take (length hop) hop_effects)" unfolding hop_prefix_def by (metis length_map)
  have "hd (map ev_kind hop) = hd (map Some (take (length hop) hop_effects))" using p by (simp add: hop_prefix_def)
  with p l show ?thesis by (cases hop) (auto simp: hop_prefix_def hop_effects_def)
qed

section \<open>Settlement converges\<close>

text \<open>The observations a caller passes.\<close>

definition observe :: "jsval \<Rightarrow> jsval \<Rightarrow> jsval" where
  "observe git rec = JObj [(''git'', git), (''record'', rec)]"

text \<open>What a caller observes, what an integration that nobody disturbs lets it observe, and the event with which it records that it
  carried a proposal out.\<close>

definition observed :: "jsval \<Rightarrow> string \<Rightarrow> jsval" where
  "observed obs k = js_or_nullish (js_get obs k) JNull"


















section \<open>Witnesses\<close>

definition demo_resolved :: jsval where
  "demo_resolved = JObj [(''delivery_commit'', JStr ''d''), (''delivery_tree'', JStr ''t''), (''slice_ref'', JStr ''s''),
     (''wk_ref'', JStr ''w''), (''expected_wk_tip'', JStr ''b''), (''expected_slice_tip'', JNull),
     (''canonical_record_digest'', JStr ''r''), (''status_target'', JStr ''done''), (''contract_generation'', JStr ''c''),
     (''predecessor_completion_digest'', JNull)]"

definition demo_intent_payload :: jsval where
  "demo_intent_payload = (case admitIntegrationIntent demo_hash (JBool True) (JStr ''a'') demo_resolved JUndef of
     Inr p \<Rightarrow> p | Inl r \<Rightarrow> JUndef)"

definition demo_effect :: "event_kind \<Rightarrow> jsobj \<Rightarrow> string \<Rightarrow> jsval" where
  "demo_effect k payload digest = JObj [(''kind'', JStr (kind_name k)), (''payload'', JObj payload), (''digest'', JStr digest)]"

definition demo_intent :: jsval where
  "demo_intent = demo_effect IntegrationIntent (js_spread demo_intent_payload) ''i''"

definition demo_git_effect :: jsval where
  "demo_git_effect = demo_effect IntegrationGitEffect [(''resulting_tip'', JStr ''d'')] ''g''"

definition demo_status_effect :: jsval where
  "demo_status_effect = demo_effect IntegrationStatusEffect [(''resulting_digest'', JStr ''r2'')] ''s''"

lemma demo_intent_admitted:
  "admitIntegrationIntent demo_hash (JBool True) (JStr ''a'') demo_resolved JUndef = Inr demo_intent_payload"
proof -
  have "(case admitIntegrationIntent demo_hash (JBool True) (JStr ''a'') demo_resolved JUndef of Inr p \<Rightarrow> True | Inl r \<Rightarrow> False)"
    by code_simp
  then show ?thesis by (auto simp: demo_intent_payload_def split: sum.splits)
qed

lemma demo_intent_payload_eq: "ev_payload demo_intent = demo_intent_payload"
proof -
  have "is_plain_object demo_intent_payload" by code_simp
  then obtain kvs where k: "demo_intent_payload = JObj kvs" by (auto simp: is_plain_object_iff)
  show ?thesis unfolding demo_intent_def demo_effect_def ev_payload_def k by simp
qed

theorem admitted_intent_authenticates_witness:
  "intent_guard demo_hash demo_intent (js_get demo_intent_payload ''binding'') JNull JNull = None"
  using admitted_intent_authenticates [OF demo_intent_admitted demo_intent_payload_eq] by blast

lemma demo_reductions:
  "case reduceIntegrationSettlement demo_hash [demo_intent] (observe (JObj [(''tip'', JStr ''b'')]) JNull) JUndef JUndef of
     Some (Action p APPLY_GIT_CAS d) \<Rightarrow> True | _ \<Rightarrow> False"
  "case reduceIntegrationSettlement demo_hash [demo_intent, demo_git_effect, demo_status_effect]
     (observe (JObj [(''tip'', JStr ''d'')]) (JObj [(''digest'', JStr ''r2'')])) JUndef JUndef of
     Some (Action p APPEND_COMPLETION d) \<Rightarrow> True | _ \<Rightarrow> False"
  by code_simp+

lemma demo_reduction_shapes:
  "\<exists>p d. reduceIntegrationSettlement demo_hash [demo_intent] (observe (JObj [(''tip'', JStr ''b'')]) JNull) JUndef JUndef =
     Some (Action p APPLY_GIT_CAS d)"
  "\<exists>p d. reduceIntegrationSettlement demo_hash [demo_intent, demo_git_effect, demo_status_effect]
     (observe (JObj [(''tip'', JStr ''d'')]) (JObj [(''digest'', JStr ''r2'')])) JUndef JUndef =
     Some (Action p APPEND_COMPLETION d)"
  using demo_reductions by (auto split: option.splits settlement.splits integration_action.splits)

theorem git_cas_is_conditioned_witness:
  "\<exists>intent. eventOfKind (last (partitionIntegrationHops [demo_intent])) IntegrationIntent = Some intent \<and>
     isValidIntentBinding (js_get (ev_payload intent) ''binding'')"
proof -
  obtain p d where r: "reduceIntegrationSettlement demo_hash [demo_intent] (observe (JObj [(''tip'', JStr ''b'')]) JNull)
      JUndef JUndef = Some (Action p APPLY_GIT_CAS d)" using demo_reduction_shapes(1) by blast
  from git_cas_is_conditioned [OF r] show ?thesis by blast
qed

theorem completion_reauthenticates_witness:
  "\<exists>hop. hop = last (partitionIntegrationHops [demo_intent, demo_git_effect, demo_status_effect]) \<and>
     classifyHop hop = STATUS_EFFECT_RECORDED"
proof -
  obtain p d where r: "reduceIntegrationSettlement demo_hash [demo_intent, demo_git_effect, demo_status_effect]
      (observe (JObj [(''tip'', JStr ''d'')]) (JObj [(''digest'', JStr ''r2'')])) JUndef JUndef =
      Some (Action p APPEND_COMPLETION d)" using demo_reduction_shapes(2) by blast
  from completion_reauthenticates [OF r] show ?thesis by blast
qed

theorem journal_hops_wellformed_witness:
  "\<exists>es s hop. reachable_journal demo_hash (JStr ''repo'') (JStr ''subject'') es \<and> s \<in> set (projectAttempts es) \<and>
     hop \<in> set (partitionIntegrationHops (st_integration_events s)) \<and> hop_prefix hop"
proof -
  let ?ks = "[ReservationClaimed, PendingPublished, SupervisorBound, SpawnStarted, ExecutionTerminated, DeliveryObserved,
    IntegrationIntent]"
  obtain es where es: "records_life demo_hash (JStr ''repo'') (JStr ''subject'') (demo_tuple 0) ?ks es"
    using demo_life [of ?ks] by (auto simp: isLegalSuccessor_def)
  then have r: "reachable_journal demo_hash (JStr ''repo'') (JStr ''subject'') es"
    and l: "life es = ?ks" "key_events (attemptKey (demo_tuple 0)) es = es" by (simp_all add: records_life_def)
  obtain s where v: "view (attemptKey (demo_tuple 0)) es = Some s" and s: "s \<in> set (projectAttempts es)"
    by (rule records_life_view [OF es list.distinct(2)])
  have "List.map_filter ev_kind (st_integration_events s) = [IntegrationIntent]"
    using view_integration_events [OF v] l by (simp add: integration_event_kinds)
  then have "st_integration_events s \<noteq> []" by (auto simp: List.map_filter_simps)
  then have "partitionIntegrationHops (st_integration_events s) \<noteq> []" using hops_partition_concat [of "st_integration_events s"] by auto
  then obtain hop where "hop \<in> set (partitionIntegrationHops (st_integration_events s))" by (meson list.set_sel(1))
  with journal_hops_wellformed [OF r s] r s show ?thesis by blast
qed





end
