(* ===== verification/ManagedObservation.thy ===== *)
theory ManagedObservation
  imports JournalProgress
begin

text \<open>
  The observations of managed attempts, \<open>managed-run-observation.mjs\<close>: the projection of a journal into one
  observation per attempt, the selection of an attempt, the outcome summary of a proof verification, and the
  log of review-original bindings, a second hash chain.
\<close>

section \<open>Projection\<close>

record recorded_item =
  ri_invocation_id :: jsval
  ri_value :: jsval
  ri_sequence :: jsval
  ri_digest :: jsval

record observation =
  ob_key :: string
  ob_attempt :: jsval
  ob_dispatch_tuple :: jsval
  ob_released :: bool
  ob_last_lifecycle_kind :: "event_kind option"
  ob_result :: jsval
  ob_result_digest :: jsval
  ob_original_result :: jsval
  ob_failures :: "recorded_item list"
  ob_proof_verifications :: "recorded_item list"
  ob_delivery_receipts :: "recorded_item list"

text \<open>\<open>ob_key\<close> is the key under which the map \<open>byAttempt\<close> holds the observation. A delivery receipt carries no
  invocation id.\<close>

definition new_observation :: "jsval \<Rightarrow> observation" where
  "new_observation event = \<lparr>ob_key = ev_key event, ob_attempt = ev_attempt event, ob_dispatch_tuple = JNull,
     ob_released = False, ob_last_lifecycle_kind = None, ob_result = JNull, ob_result_digest = JNull,
     ob_original_result = JNull, ob_failures = [], ob_proof_verifications = [], ob_delivery_receipts = []\<rparr>"

definition recorded :: "jsval \<Rightarrow> string \<Rightarrow> jsval \<Rightarrow> recorded_item" where
  "recorded invocation field event = \<lparr>ri_invocation_id = invocation, ri_value = js_get (ev_payload event) field,
     ri_sequence = js_get event ''sequence'', ri_digest = ev_digest event\<rparr>"

definition invocation_of :: "jsval \<Rightarrow> jsval" where
  "invocation_of event = js_get (ev_payload event) ''invocation_id''"

definition observe_event :: "observation \<Rightarrow> jsval \<Rightarrow> observation" where
  "observe_event item event =
     (case ev_kind event of
        None \<Rightarrow> item
      | Some PendingPublished \<Rightarrow> item\<lparr>ob_dispatch_tuple := js_or_nullish (ev_dispatch_tuple event) JNull\<rparr>
      | Some RunResultRecorded \<Rightarrow>
          item\<lparr>ob_result := js_get (ev_payload event) ''result'',
               ob_result_digest := js_get (ev_payload event) ''result_digest''\<rparr>
      | Some RunOriginalRecorded \<Rightarrow> item\<lparr>ob_original_result := js_get (ev_payload event) ''original_result''\<rparr>
      | Some ProofVerificationRecorded \<Rightarrow>
          item\<lparr>ob_proof_verifications := ob_proof_verifications item @ [recorded (invocation_of event) ''verification'' event]\<rparr>
      | Some DeliveryReceiptRecorded \<Rightarrow>
          item\<lparr>ob_delivery_receipts := ob_delivery_receipts item @ [recorded JUndef ''receipt'' event]\<rparr>
      | Some LifecycleFailureRecorded \<Rightarrow>
          item\<lparr>ob_failures := ob_failures item @ [recorded (invocation_of event) ''failure'' event]\<rparr>
      | Some k \<Rightarrow> item\<lparr>ob_last_lifecycle_kind := Some k,
               ob_released := (if k = ReservationReleased then True else ob_released item)\<rparr>)"

fun observe_in :: "observation list \<Rightarrow> jsval \<Rightarrow> observation list" where
  "observe_in [] event = [observe_event (new_observation event) event]"
| "observe_in (item # items) event =
     (if ob_key item = ev_key event then observe_event item event # items else item # observe_in items event)"

record journal_prefix =
  px_sequence :: int
  px_digest :: jsval
  px_event_count :: int

definition prefix_of :: "jsval list \<Rightarrow> jsval \<Rightarrow> journal_prefix" where
  "prefix_of es digest = \<lparr>px_sequence = int (length es) - 1, px_digest = digest, px_event_count = int (length es)\<rparr>"

definition observations_of :: "jsval list \<Rightarrow> observation list" where
  "observations_of es = foldl observe_in [] es"

definition projectManagedAttemptObservations ::
  "hash \<Rightarrow> jsval \<Rightarrow> jsval \<Rightarrow> jsval \<Rightarrow> refusal + (observation list \<times> journal_prefix)" where
  "projectManagedAttemptObservations H repository subject events =
     (case validateAttemptJournal H repository subject events of
        Inl r \<Rightarrow> Inl r
      | Inr (es, digest) \<Rightarrow> Inr (observations_of es, prefix_of es digest))"

section \<open>Selection\<close>

datatype selection_code =
    AttemptSelectorMismatch | AttemptSelectionAmbiguous | AttemptObservationUnavailable

text \<open>The outcome of a selection: a refusal of the journal, a code, or the selected attempt with the flag
  \<open>indeterminate\<close>; the last two carry the attempts and the prefix.\<close>

datatype selection =
    SelectionRefused refusal
  | NotSelected selection_code "observation list" journal_prefix
  | Selected "observation option" bool "observation list" journal_prefix

text \<open>\<open>run_id\<close> of a dispatch tuple that is not \<open>null\<close>; the tuple may be any other value.\<close>

definition run_id_matches :: "jsval \<Rightarrow> observation \<Rightarrow> bool" where
  "run_id_matches attemptId item \<longleftrightarrow> strict_eq (js_get (ob_dispatch_tuple item) ''run_id'') attemptId"

definition select_from :: "jsval \<Rightarrow> observation list \<Rightarrow> journal_prefix \<Rightarrow> selection" where
  "select_from attemptId attempts pre =
     (let candidates = filter (\<lambda>i. ob_dispatch_tuple i \<noteq> JNull) attempts;
          open_ones = filter (\<lambda>i. \<not> ob_released i) candidates;
          pending = filter (\<lambda>i. \<not> ob_released i \<and> ob_dispatch_tuple i = JNull) attempts in
      if attemptId \<noteq> JNull
      then (case find (run_id_matches attemptId) candidates of
              None \<Rightarrow> NotSelected AttemptSelectorMismatch attempts pre
            | Some item \<Rightarrow> Selected (Some item) False attempts pre)
      else if length open_ones = 1 then Selected (Some (hd open_ones)) False attempts pre
      else if 1 < length open_ones \<or> (open_ones = [] \<and> 1 < length candidates)
      then NotSelected AttemptSelectionAmbiguous attempts pre
      else if length candidates = 1 then Selected (Some (hd candidates)) False attempts pre
      else if length pending = 1 then Selected (Some (hd pending)) True attempts pre
      else NotSelected AttemptObservationUnavailable attempts pre)"

definition selectManagedAttempt :: "hash \<Rightarrow> jsval \<Rightarrow> jsval \<Rightarrow> jsval \<Rightarrow> jsval \<Rightarrow> selection" where
  "selectManagedAttempt H repository subject events attemptId0 =
     (case projectManagedAttemptObservations H repository subject events of
        Inl r \<Rightarrow> SelectionRefused r
      | Inr (attempts, pre) \<Rightarrow> select_from (js_default JNull attemptId0) attempts pre)"

text \<open>\<open>indeterminate\<close> is whether the only open attempt has a \<open>null\<close> dispatch tuple.\<close>

definition selectManagedAdmissionAttempt :: "hash \<Rightarrow> jsval \<Rightarrow> jsval \<Rightarrow> jsval \<Rightarrow> selection" where
  "selectManagedAdmissionAttempt H repository subject events =
     (case projectManagedAttemptObservations H repository subject events of
        Inl r \<Rightarrow> SelectionRefused r
      | Inr (attempts, pre) \<Rightarrow>
        (case filter (\<lambda>i. \<not> ob_released i) attempts of
           [] \<Rightarrow> Selected None False attempts pre
         | [item] \<Rightarrow> Selected (Some item) (ob_dispatch_tuple item = JNull) attempts pre
         | _ \<Rightarrow> NotSelected AttemptSelectionAmbiguous attempts pre))"

section \<open>Proof verifications\<close>

text \<open>\<open>recordedProofVerificationOutcomeSummary\<close>: refused with a reason, or accepted with the summary if there is one.\<close>

definition recordedProofVerificationOutcomeSummary :: "jsval \<Rightarrow> string + jsval option" where
  "recordedProofVerificationOutcomeSummary verification =
     (if \<not> strict_eq (js_get (js_get verification ''evidence'') ''kind'') (JStr ''aggregate'') then Inr None
      else
      let value = (if has_own verification ''outcome_summary'' then js_get verification ''outcome_summary'' else JUndef) in
      if is_plain_object value then Inr (Some value)
      else Inl (if value = JUndef then ''missing'' else ''invalid_type''))"

section \<open>Review-original bindings\<close>

definition review_original_schema_version :: jsval where
  "review_original_schema_version = JStr ''managed-review-original-binding.v1''"

definition review_original_envelope_keys :: "string list" where
  "review_original_envelope_keys = [''schema_version'', ''repository'', ''subject'', ''sequence'', ''prior_digest'',
     ''binding'', ''digest'']"

definition reviewOriginalPartitionSubject :: "string \<Rightarrow> string" where
  "reviewOriginalPartitionSubject subject = ''review-original:'' @ subject"

definition isValidReviewOriginalBinding :: "jsval \<Rightarrow> bool" where
  "isValidReviewOriginalBinding b \<longleftrightarrow>
     has_exact_keys b [''run_id'', ''role'', ''original_result''] \<and>
     is_nonempty_string (js_get b ''run_id'') \<and>
     js_get b ''role'' \<in> {JStr ''reviewer'', JStr ''redteam''} \<and>
     has_exact_keys (js_get b ''original_result'') [''ref_id'', ''sha256''] \<and>
     is_ref_id (js_get (js_get b ''original_result'') ''ref_id'') \<and>
     is_hex64 (js_get (js_get b ''original_result'') ''sha256'')"

definition same_run :: "jsval \<Rightarrow> jsval \<Rightarrow> bool" where
  "same_run runId b \<longleftrightarrow> strict_eq (js_get b ''run_id'') runId"

definition review_refusal :: "hash \<Rightarrow> jsval \<Rightarrow> jsval \<Rightarrow> nat \<Rightarrow> jsval list \<Rightarrow> jsval \<Rightarrow> jsval \<Rightarrow> refusal option" where
  "review_refusal H repository subject index bindings prior event =
     (let seq = [(''sequence'', JInt (int index))]; b = js_get event ''binding'' in
      if \<not> has_exact_keys event review_original_envelope_keys \<or>
         \<not> strict_eq (js_get event ''schema_version'') review_original_schema_version
      then Some (Refusal UNEXPECTED_KEYS ''review original binding does not carry the closed envelope'' seq)
      else if \<not> strict_eq (js_get event ''repository'') repository \<or> \<not> strict_eq (js_get event ''subject'') subject \<or>
         \<not> isValidReviewOriginalBinding b \<or> list_ex (same_run (js_get b ''run_id'')) bindings
      then Some (Refusal BINDING_MISMATCH
        ''review original binding is invalid for this repository, subject or attempt'' seq)
      else if \<not> strict_eq (js_get event ''sequence'') (JInt (int index)) \<or>
         \<not> strict_eq (js_get event ''prior_digest'') prior
      then Some (Refusal CHAIN_BROKEN ''review original binding does not chain to its predecessor'' seq)
      else if \<not> strict_eq (JStr (recomputeDigest H event)) (ev_digest event)
      then Some (Refusal DIGEST_MISMATCH ''review original binding digest does not match its content'' seq)
      else None)"

fun validate_review :: "hash \<Rightarrow> jsval \<Rightarrow> jsval \<Rightarrow> nat \<Rightarrow> jsval list \<Rightarrow> jsval \<Rightarrow> jsval list \<Rightarrow> refusal + (jsval list \<times> jsval)" where
  "validate_review H repository subject index bindings prior [] = Inr (bindings, prior)"
| "validate_review H repository subject index bindings prior (event # events) =
     (case review_refusal H repository subject index bindings prior event of
        Some r \<Rightarrow> Inl r
      | None \<Rightarrow> validate_review H repository subject (Suc index) (bindings @ [js_get event ''binding'']) (ev_digest event) events)"

definition validateReviewOriginalBindings :: "hash \<Rightarrow> jsval \<Rightarrow> jsval \<Rightarrow> jsval list \<Rightarrow> refusal + (jsval list \<times> jsval)" where
  "validateReviewOriginalBindings H repository subject events = validate_review H repository subject 0 [] JNull events"

definition review_unsigned :: "jsval \<Rightarrow> jsval \<Rightarrow> nat \<Rightarrow> jsval \<Rightarrow> jsval \<Rightarrow> jsobj" where
  "review_unsigned repository subject index prior b =
     [(''schema_version'', review_original_schema_version), (''repository'', repository), (''subject'', subject),
      (''sequence'', JInt (int index)), (''prior_digest'', prior),
      (''binding'', JObj [(''run_id'', js_get b ''run_id''), (''role'', js_get b ''role''),
         (''original_result'', JObj [(''ref_id'', js_get (js_get b ''original_result'') ''ref_id''),
            (''sha256'', js_get (js_get b ''original_result'') ''sha256'')])])]"

text \<open>The outcome of an admission: refused, already recorded, or appended with the extended log.\<close>

datatype review_admission =
    ReviewRefused refusal
  | ReviewRecorded "jsval list"
  | ReviewAppended "jsval list"

definition admitReviewOriginalBinding :: "hash \<Rightarrow> jsval \<Rightarrow> jsval \<Rightarrow> jsval list \<Rightarrow> jsval \<Rightarrow> review_admission" where
  "admitReviewOriginalBinding H repository subject events b =
     (case validateReviewOriginalBindings H repository subject events of
        Inl r \<Rightarrow> ReviewRefused r
      | Inr (bindings, prior) \<Rightarrow>
        if \<not> isValidReviewOriginalBinding b
        then ReviewRefused (Refusal BINDING_MISMATCH ''review original binding attempt, role or locator is invalid'' [])
        else case find (same_run (js_get b ''run_id'')) bindings of
          Some existing \<Rightarrow>
            if canonicalJson existing = canonicalJson b then ReviewRecorded events
            else ReviewRefused (Refusal BINDING_MISMATCH
              ''review original binding conflicts with the binding already recorded for this attempt'' [])
        | None \<Rightarrow>
            (let unsigned = review_unsigned repository subject (length events) prior b in
             ReviewAppended (events @ [JObj (unsigned @ [(''digest'', JStr (digestOf H (JObj unsigned)))])])))"

datatype review_selection =
    ReviewSelectionRefused refusal
  | ReviewNotSelected selection_code "jsval list"
  | ReviewSelected jsval

definition review_candidate :: "jsval \<Rightarrow> jsval" where
  "review_candidate b = JObj [(''attempt_id'', js_get b ''run_id''), (''role'', js_get b ''role''),
     (''original_result'', js_get b ''original_result'')]"

definition selectReviewOriginalBinding :: "hash \<Rightarrow> jsval \<Rightarrow> jsval \<Rightarrow> jsval list \<Rightarrow> jsval \<Rightarrow> review_selection" where
  "selectReviewOriginalBinding H repository subject events attemptId0 =
     (let attemptId = js_default JNull attemptId0 in
      case validateReviewOriginalBindings H repository subject events of
        Inl r \<Rightarrow> ReviewSelectionRefused r
      | Inr (bindings, prior) \<Rightarrow>
        (let candidates = map review_candidate bindings in
         if attemptId \<noteq> JNull
         then (case find (same_run attemptId) bindings of
                 None \<Rightarrow> ReviewNotSelected AttemptSelectorMismatch candidates
               | Some b \<Rightarrow> ReviewSelected b)
         else case bindings of
           [b] \<Rightarrow> ReviewSelected b
         | [] \<Rightarrow> ReviewNotSelected AttemptObservationUnavailable []
         | _ \<Rightarrow> ReviewNotSelected AttemptSelectionAmbiguous candidates))"

end
