(* ===== verification/ObservationProperties.thy ===== *)
theory ObservationProperties imports ManagedObservation JournalProperties begin

text \<open>Correctness of the observations of managed runs (ManagedObservation): one observation per attempt, the selection of
  the attempt that an admission is about, and the log of review originals as a second instance of the hash chain.\<close>

section \<open>One observation per attempt\<close>

lemma observe_event_key [simp]: "ob_key (observe_event i e) = ob_key i"
  by (cases "the (ev_kind e)"; cases "ev_kind e") (simp_all add: observe_event_def)

lemma new_observation_key [simp]: "ob_key (new_observation e) = ev_key e"
  by (simp add: new_observation_def)

interpretation op: keyed_projection ob_key ev_key new_observation observe_event observe_in
  by unfold_locales simp_all

lemma observe_event_released:
  "ob_released (observe_event i e) \<longleftrightarrow> ob_released i \<or> ev_kind e = Some ReservationReleased"
  by (cases "the (ev_kind e)"; cases "ev_kind e") (simp_all add: observe_event_def)

lemma fold_observe_released:
  "ob_released (foldl observe_event i es) \<longleftrightarrow> ob_released i \<or> ReservationReleased \<in> set (life es)"
proof (induction es arbitrary: i)
  case (Cons e es)
  have "ReservationReleased \<in> set (life [e]) \<longleftrightarrow> ev_kind e = Some ReservationReleased"
    by (cases "ev_kind e") auto
  with Cons show ?case by (simp add: observe_event_released)
qed simp

lemma op_fold: "op.key_fold key es = (case key_events key es of [] \<Rightarrow> None
    | e # r \<Rightarrow> Some (foldl observe_event (new_observation e) (e # r)))"
  unfolding op.key_fold_def key_events_def ..

lemma observation_released:
  assumes "i \<in> set (observations_of es)"
  shows "\<exists>s\<in>set (projectAttempts es). st_key s = ob_key i \<and> (ob_released i \<longleftrightarrow> st_released s \<noteq> None)"
proof -
  from assms have f: "op.key_fold (ob_key i) es = Some i"
    unfolding observations_of_def by (rule op.projection_member)
  then obtain e r where k: "key_events (ob_key i) es = e # r" and i: "i = foldl observe_event (new_observation e) (e # r)"
    by (auto simp: op_fold split: list.splits simp del: foldl_Cons)
  then obtain s where v: "view (ob_key i) es = Some s" using view_None by fastforce
  have "ob_released i \<longleftrightarrow> ReservationReleased \<in> set (life (key_events (ob_key i) es))"
    unfolding k using fold_observe_released [of "new_observation e" "e # r"] unfolding i [symmetric]
    by (simp only: new_observation_def observation.simps simp_thms)
  then show ?thesis using v view_key [OF v] view_fields(8) [OF v] by (auto simp: in_project_iff)
qed

text \<open>Observations list the attempts in the order of their first event, one per attempt, each the fold of the events
  of its attempt.\<close>

theorem observations_per_attempt:
  "observations_of es =
     map (\<lambda>key. foldl observe_event (new_observation (hd (key_events key es))) (key_events key es)) (first_keys es)"
proof -
  have "the (op.key_fold key es) = foldl observe_event (new_observation (hd (key_events key es))) (key_events key es)"
    if "key \<in> set (first_keys es)" for key
  proof -
    have "key_events key es \<noteq> []" using that by (auto simp: first_keys_def key_events_def filter_empty_conv)
    then show ?thesis by (cases "key_events key es") (simp_all add: op_fold)
  qed
  then show ?thesis
    unfolding observations_of_def op.projection_is_fold by (simp add: first_keys_def)
qed

lemma one_open_observation:
  assumes "reachable_journal H repo subj es" and "i \<in> set (observations_of es)" and "j \<in> set (observations_of es)"
    and "\<not> ob_released i" and "\<not> ob_released j"
  shows "i = j"
proof -
  have "open_attempt (ob_key i) es" if i: "i \<in> set (observations_of es)" "\<not> ob_released i" for i
  proof -
    obtain s where "s \<in> set (projectAttempts es)" "st_key s = ob_key i" "st_released s = None"
      using observation_released [OF i(1)] i(2) by auto
    then show ?thesis by (auto simp: open_attempt_def in_project_iff)
  qed
  then have "ob_key i = ob_key j" using assms reachable_one_open by blast
  with assms(2,3) show ?thesis
    unfolding observations_of_def by (metis op.projection_member option.inject)
qed

text \<open>On a reachable journal at most one observed attempt is open, so the attempt that the next admission is about is
  never ambiguous.\<close>

theorem admission_selection_unambiguous:
  assumes "reachable_journal H repo subj es"
  shows "\<exists>selected flag attempts pre.
    selectManagedAdmissionAttempt H repo subj (JArr es) = Selected selected flag attempts pre \<and>
    (\<forall>i\<in>set attempts. \<not> ob_released i \<longrightarrow> selected = Some i)"
proof -
  obtain st where "valid_journal H repo subj es st" using reachable_valid [OF assms] by blast
  then have p: "projectManagedAttemptObservations H repo subj (JArr es) = Inr (observations_of es, prefix_of es (prior_digest st))"
    by (simp add: projectManagedAttemptObservations_def validateAttemptJournal_def valid_journal_def)
  let ?o = "filter (\<lambda>i. \<not> ob_released i) (observations_of es)"
  have "distinct (observations_of es)"
    unfolding observations_of_def using op.projection_distinct distinct_map by blast
  then have "length ?o \<le> 1"
    using one_open_observation [OF assms] by (intro length_le_one) auto
  then consider "?o = []" | i where "?o = [i]" by (cases ?o) auto
  then show ?thesis
  proof cases
    case 1
    then show ?thesis by (auto simp: selectManagedAdmissionAttempt_def p filter_empty_conv)
  next
    case 2
    then have "\<forall>j\<in>set (observations_of es). \<not> ob_released j \<longrightarrow> j = i"
      using filter_set [of "\<lambda>i. \<not> ob_released i" "observations_of es"] by auto
    with 2 show ?thesis by (auto simp: selectManagedAdmissionAttempt_def p)
  qed
qed

theorem admission_selection_unambiguous_witness:
  "\<exists>selected flag attempts pre. selectManagedAdmissionAttempt demo_hash (JStr ''repo'') (JStr ''subject'')
     (JArr (demo_journal [ReservationClaimed])) = Selected selected flag attempts pre"
  using admission_selection_unambiguous [OF demo_reachable [of "[ReservationClaimed]"]] by blast

text \<open>Evidence of a completion, which is informational and leaves the lifecycle of the attempt where it was,
  overwrites the last lifecycle kind of the observation.\<close>

theorem completion_evidence_shown_as_lifecycle:
  assumes "ev_kind e = Some CompletionObservationRecorded"
  shows "ob_last_lifecycle_kind (observe_event i e) = Some CompletionObservationRecorded \<and>
    informational CompletionObservationRecorded \<and> st_last_kind (record_event s e) = st_last_kind s"
  using assms by (simp add: observe_event_def)

theorem completion_evidence_shown_as_lifecycle_witness:
  "ob_last_lifecycle_kind (observe_event (new_observation JNull)
     (JObj [(''kind'', JStr ''completion_observation_recorded'')])) = Some CompletionObservationRecorded"
proof -
  have "ev_kind (JObj [(''kind'', JStr ''completion_observation_recorded'')]) = Some CompletionObservationRecorded" by code_simp
  from completion_evidence_shown_as_lifecycle [OF this] show ?thesis by blast
qed

section \<open>The log of review originals\<close>

lemma validate_review_snoc:
  "validate_review H repo subj i bs prior (es @ [e]) = Inr (bs', prior') \<longleftrightarrow>
     (\<exists>bs1 prior1. validate_review H repo subj i bs prior es = Inr (bs1, prior1) \<and>
       review_refusal H repo subj (i + length es) bs1 prior1 e = None \<and>
       bs' = bs1 @ [js_get e ''binding''] \<and> prior' = ev_digest e)"
  by (induction H repo subj i bs prior es rule: validate_review.induct) (auto split: option.splits)

lemma review_refusal_None:
  assumes "review_refusal H repo subj i bs prior e = None"
  shows "is_plain_object e" and "isValidReviewOriginalBinding (js_get e ''binding'')"
    and "\<not> list_ex (same_run (js_get (js_get e ''binding'') ''run_id'')) bs"
    and "js_get e ''prior_digest'' = prior" and "ev_digest e = JStr (recomputeDigest H e)"
  using assms
  by (auto simp: review_refusal_def Let_def dest: strict_eq_imp_eq has_exact_keysD split: if_splits)

definition review_log :: "hash \<Rightarrow> jsval \<Rightarrow> jsval \<Rightarrow> jsval list \<Rightarrow> bool" where
  "review_log H repo subj es \<longleftrightarrow> (\<exists>r. validateReviewOriginalBindings H repo subj es = Inr r) \<and> list_all json_value es"

lemma review_prior:
  "validate_review H repo subj 0 [] JNull es = Inr (bs, prior) \<Longrightarrow>
     prior = journal_tip es \<and> canonicalize (journal_tip es) = journal_tip es"
  by (cases es rule: rev_cases)
     (auto simp: journal_tip_def validate_review_snoc dest: review_refusal_None(5))

interpretation rc: hash_chain "review_log H repo subj" journal_tip event_content "content_digest H"
  "\<lambda>c. js_get c ''prior_digest''" JNull for H repo subj
proof
  show "journal_tip [] = JNull" by (simp add: journal_tip_def)
  show "content_digest H c \<noteq> JNull" for c by (simp add: content_digest_def)
next
  fix es e
  assume "review_log H repo subj (es @ [e])"
  then obtain bs prior where v: "validate_review H repo subj 0 [] JNull es = Inr (bs, prior)"
    and j: "list_all json_value es" "json_value e" and e: "review_refusal H repo subj (length es) bs prior e = None"
    by (auto simp: review_log_def validateReviewOriginalBindings_def validate_review_snoc)
  note r = review_refusal_None [OF e]
  have "js_get (event_content e) ''prior_digest'' = canonicalize (js_get e ''prior_digest'')"
    using content_get [OF j(2) r(1)] by simp
  also have "\<dots> = journal_tip es" using r(4) review_prior [OF v] by simp
  finally show "review_log H repo subj es \<and> js_get (event_content e) ''prior_digest'' = journal_tip es"
    using v j by (auto simp: review_log_def validateReviewOriginalBindings_def)
  show "journal_tip (es @ [e]) = content_digest H (event_content e)"
    using r(5) recompute_content [OF j(2)] by (simp add: journal_tip_def)
qed

text \<open>Two valid logs of review originals with the same last digest agree on the canonical content of every entry,
  when the hash has no collision on them.\<close>

theorem review_log_tamper_evident:
  assumes "validateReviewOriginalBindings H repo subj es = Inr (bs, digest)"
    and "validateReviewOriginalBindings H repo subj fs = Inr (cs, digest)"
    and "list_all json_value es" and "list_all json_value fs"
    and "inj_on (content_digest H) (event_content ` (set es \<union> set fs))"
  shows "map event_content es = map event_content fs"
proof (rule rc.chain_contents [OF _ _ assms(5)])
  show "review_log H repo subj es" "review_log H repo subj fs" using assms(1-4) by (auto simp: review_log_def)
  show "journal_tip es = journal_tip fs"
    using review_prior assms(1,2) by (auto simp: validateReviewOriginalBindings_def)
qed


definition demo_review :: jsval where
  "demo_review = JObj [(''run_id'', JStr ''r1''), (''role'', JStr ''reviewer''),
     (''original_result'', JObj [(''ref_id'', JStr ''r-1''), (''sha256'', JStr (replicate 64 CHR ''a''))])]"

definition demo_reviews :: "jsval list" where
  "demo_reviews = (let u = review_unsigned (JStr ''repo'') (JStr ''subject'') 0 JNull demo_review in
     [JObj (u @ [(''digest'', JStr (digestOf demo_hash (JObj u)))])])"

theorem review_log_tamper_evident_witness:
  "demo_reviews \<noteq> [] \<and> map event_content demo_reviews = map event_content demo_reviews"
proof -
  have v: "validateReviewOriginalBindings demo_hash (JStr ''repo'') (JStr ''subject'') demo_reviews = Inr ([demo_review], JStr ''sha256:0'')"
    by code_simp
  have j: "list_all json_value demo_reviews" by code_simp
  have "inj_on (content_digest demo_hash) (event_content ` (set demo_reviews \<union> set demo_reviews))"
    by (simp add: demo_reviews_def Let_def)
  from review_log_tamper_evident [OF v v j j this] show ?thesis by (simp add: demo_reviews_def Let_def)
qed

definition stored_review :: "jsval \<Rightarrow> jsval" where
  "stored_review b = JObj [(''run_id'', js_get b ''run_id''), (''role'', js_get b ''role''),
     (''original_result'', JObj [(''ref_id'', js_get (js_get b ''original_result'') ''ref_id''),
        (''sha256'', js_get (js_get b ''original_result'') ''sha256'')])]"

lemma stored_review_get [simp]:
  "js_get (stored_review b) ''run_id'' = js_get b ''run_id''" "js_get (stored_review b) ''role'' = js_get b ''role''"
  "js_get (js_get (stored_review b) ''original_result'') ''ref_id'' = js_get (js_get b ''original_result'') ''ref_id''"
  "js_get (js_get (stored_review b) ''original_result'') ''sha256'' = js_get (js_get b ''original_result'') ''sha256''"
  by (simp_all add: stored_review_def)

lemma stored_review_valid: "isValidReviewOriginalBinding b \<Longrightarrow> isValidReviewOriginalBinding (stored_review b)"
  unfolding isValidReviewOriginalBinding_def stored_review_get
  by (simp add: has_exact_keys_def has_own_def list_all_iff stored_review_def)

lemma same_run_stored: "isValidReviewOriginalBinding b \<Longrightarrow> same_run (js_get b ''run_id'') (stored_review b)"
  by (auto simp: same_run_def isValidReviewOriginalBinding_def is_nonempty_string_iff)

lemma review_event_accepted:
  assumes "isValidReviewOriginalBinding b" and "\<not> list_ex (same_run (js_get b ''run_id'')) bs"
    and "prior = JNull \<or> (\<exists>d. prior = JStr d)"
    and u_def: "u = review_unsigned (JStr repo) (JStr subj) i prior b"
  shows "review_refusal H (JStr repo) (JStr subj) i bs prior (JObj (u @ [(''digest'', JStr (digestOf H (JObj u)))])) = None"
proof -
  let ?e = "JObj (u @ [(''digest'', JStr (digestOf H (JObj u)))])"
  have b: "js_get ?e ''binding'' = stored_review b"
    by (simp add: u_def review_unsigned_def stored_review_def)
  have k: "has_exact_keys ?e review_original_envelope_keys"
    by (simp add: has_exact_keys_def has_own_def list_all_iff u_def review_unsigned_def review_original_envelope_keys_def)
  have g: "js_get ?e ''schema_version'' = review_original_schema_version" "js_get ?e ''repository'' = JStr repo"
    "js_get ?e ''subject'' = JStr subj" "js_get ?e ''sequence'' = JInt (int i)" "js_get ?e ''prior_digest'' = prior"
    "ev_digest ?e = JStr (digestOf H (JObj u))"
    by (simp_all add: u_def review_unsigned_def ev_digest_def)
  have "recomputeDigest H ?e = digestOf H (JObj u)"
    by (simp add: recomputeDigest_def u_def review_unsigned_def obj_remove_def)
  moreover have "strict_eq prior prior" using assms(3) by auto
  ultimately show ?thesis
    unfolding review_refusal_def Let_def b g using k stored_review_valid [OF assms(1)] assms(2)
    by (simp add: review_original_schema_version_def)
qed

lemma review_prior_kind:
  "validate_review H repo subj 0 [] JNull es = Inr (bs, prior) \<Longrightarrow> prior = JNull \<or> (\<exists>d. prior = JStr d)"
  by (cases es rule: rev_cases) (auto simp: validate_review_snoc dest: review_refusal_None(5))

lemma review_appended:
  assumes "admitReviewOriginalBinding H (JStr repo) (JStr subj) es b = ReviewAppended es'"
  obtains bs prior d where "validateReviewOriginalBindings H (JStr repo) (JStr subj) es = Inr (bs, prior)"
    and "isValidReviewOriginalBinding b" and "\<not> list_ex (same_run (js_get b ''run_id'')) bs"
    and "validateReviewOriginalBindings H (JStr repo) (JStr subj) es' = Inr (bs @ [stored_review b], d)"
proof -
  from assms obtain bs prior where v: "validateReviewOriginalBindings H (JStr repo) (JStr subj) es = Inr (bs, prior)"
    and b: "isValidReviewOriginalBinding b" and n: "find (same_run (js_get b ''run_id'')) bs = None"
    and e: "es' = es @ [JObj (review_unsigned (JStr repo) (JStr subj) (length es) prior b @
        [(''digest'', JStr (digestOf H (JObj (review_unsigned (JStr repo) (JStr subj) (length es) prior b))))])]"
    by (auto simp: admitReviewOriginalBinding_def Let_def split: sum.splits if_splits option.splits)
  have l: "\<not> list_ex (same_run (js_get b ''run_id'')) bs"
    using n by (auto simp: find_None_iff list_ex_iff)
  have "js_get (JObj (review_unsigned (JStr repo) (JStr subj) (length es) prior b @ r)) ''binding'' = stored_review b" for r
    by (simp add: review_unsigned_def stored_review_def)
  then have "validateReviewOriginalBindings H (JStr repo) (JStr subj) es' = Inr (bs @ [stored_review b], ev_digest (last es'))"
    using v review_event_accepted [OF b l review_prior_kind HOL.refl]
    by (simp add: validateReviewOriginalBindings_def validate_review_snoc e)
  with that v b l show thesis by blast
qed

text \<open>A review original that was admitted is what a selection by its run id returns, with the same run, role and
  locator, and admitting it again leaves the log as it is.\<close>

theorem review_admission_roundtrip:
  assumes "admitReviewOriginalBinding H (JStr repo) (JStr subj) es b = ReviewAppended es'"
  shows "\<exists>c. selectReviewOriginalBinding H (JStr repo) (JStr subj) es' (js_get b ''run_id'') = ReviewSelected c \<and>
    admitReviewOriginalBinding H (JStr repo) (JStr subj) es' c = ReviewRecorded es' \<and>
    js_get c ''run_id'' = js_get b ''run_id'' \<and> js_get c ''role'' = js_get b ''role'' \<and>
    js_get (js_get c ''original_result'') ''ref_id'' = js_get (js_get b ''original_result'') ''ref_id'' \<and>
    js_get (js_get c ''original_result'') ''sha256'' = js_get (js_get b ''original_result'') ''sha256''"
proof -
  obtain bs prior d where b: "isValidReviewOriginalBinding b" and n: "\<not> list_ex (same_run (js_get b ''run_id'')) bs"
    and v: "validateReviewOriginalBindings H (JStr repo) (JStr subj) es' = Inr (bs @ [stored_review b], d)"
    by (rule review_appended [OF assms])
  have "find (same_run (js_get b ''run_id'')) bs = None" using n by (auto simp: find_None_iff list_ex_iff)
  then have "find (same_run (js_get b ''run_id'')) (bs @ [stored_review b]) = Some (stored_review b)"
    using same_run_stored [OF b] by (simp add: find_append)
  moreover have "js_get b ''run_id'' \<noteq> JNull" "js_get b ''run_id'' \<noteq> JUndef"
    using b by (auto simp: isValidReviewOriginalBinding_def)
  ultimately show ?thesis
    using v stored_review_valid [OF b]
    by (intro exI [of _ "stored_review b"])
       (simp add: selectReviewOriginalBinding_def admitReviewOriginalBinding_def js_default_def Let_def)
qed

theorem review_admission_roundtrip_witness:
  "\<exists>c. selectReviewOriginalBinding demo_hash (JStr ''repo'') (JStr ''subject'') demo_reviews (JStr ''r1'') = ReviewSelected c"
proof -
  have "admitReviewOriginalBinding demo_hash (JStr ''repo'') (JStr ''subject'') [] demo_review = ReviewAppended demo_reviews"
    by code_simp
  from review_admission_roundtrip [OF this] show ?thesis by (auto simp: demo_review_def)
qed

end
