(* ===== verification/TemporalContracts.thy ===== *)
theory TemporalContracts imports JsPrelude begin

text \<open>
  The validators of \<open>temporal-contracts.mjs\<close>: the handoff envelope, the launch record and the final status of a
  dispatched worker attempt. The code pushes onto an array of errors; here each \<open>require\<close> function returns the errors it
  pushes, in order, and the validators append them. A validation is valid when no error was pushed.

  Two objects are strictly equal in the code when they are the same reference. The validators compare values that were read
  from separate documents, so \<^const>\<open>strict_eq\<close> holds of no two objects.
\<close>

section \<open>Errors\<close>

record contract_error =
  ce_path :: string
  ce_code :: string
  ce_message :: string

definition error :: "string \<Rightarrow> string \<Rightarrow> string \<Rightarrow> contract_error" where
  "error path code message = \<lparr>ce_path = path, ce_code = code, ce_message = message\<rparr>"

definition fail :: "string \<Rightarrow> string \<Rightarrow> string \<Rightarrow> contract_error list" where
  "fail path code message = [error path code message]"

text \<open>\<open>if (c) errors.push(error(path, code, message))\<close>\<close>

definition fail_if :: "bool \<Rightarrow> string \<Rightarrow> string \<Rightarrow> string \<Rightarrow> contract_error list" where
  "fail_if c path code message = (if c then fail path code message else [])"

definition prefixError :: "string \<Rightarrow> contract_error \<Rightarrow> contract_error" where
  "prefixError pre item =
     item\<lparr>ce_path := (if ce_path item \<noteq> [] then pre @ ''.'' @ ce_path item else pre)\<rparr>"

record contract_result =
  cr_valid :: bool
  cr_errors :: "contract_error list"

definition result :: "contract_error list \<Rightarrow> contract_result" where
  "result errors = \<lparr>cr_valid = (errors = []), cr_errors = errors\<rparr>"

definition invalid :: "contract_error list \<Rightarrow> contract_result" where
  "invalid errors = \<lparr>cr_valid = False, cr_errors = errors\<rparr>"

section \<open>Patterns\<close>

definition hex_text :: "nat \<Rightarrow> nat \<Rightarrow> string \<Rightarrow> bool" where
  "hex_text lo hi s \<longleftrightarrow> lo \<le> length s \<and> length s \<le> hi \<and> list_all is_hex s"

definition SHA_PATTERN :: "string \<Rightarrow> bool" where
  "SHA_PATTERN s \<longleftrightarrow> hex_text 7 64 s"

definition FULL_SHA_PATTERN :: "string \<Rightarrow> bool" where
  "FULL_SHA_PATTERN s \<longleftrightarrow> hex_text 40 40 s"

text \<open>The letters of a pattern with the flag \<open>i\<close> match in either case.\<close>

definition ascii_lower :: "char \<Rightarrow> char" where
  "ascii_lower c = (if CHR ''A'' \<le> c \<and> c \<le> CHR ''Z'' then char_of (of_char c + 32 :: nat) else c)"

definition starts_with_ci :: "string \<Rightarrow> string \<Rightarrow> bool" where
  "starts_with_ci s p \<longleftrightarrow> starts_with (map ascii_lower s) p"

definition SHA256_PATTERN :: "string \<Rightarrow> bool" where
  "SHA256_PATTERN s \<longleftrightarrow> starts_with_ci s ''sha256:'' \<and> hex_text 64 64 (drop 7 s)"

definition digits_text :: "nat \<Rightarrow> string \<Rightarrow> bool" where
  "digits_text lo s \<longleftrightarrow> lo \<le> length s \<and> list_all is_digit s"

definition WK_PATTERN :: "string \<Rightarrow> bool" where
  "WK_PATTERN s \<longleftrightarrow> starts_with s ''WK-'' \<and> length s = 7 \<and> digits_text 4 (drop 3 s)"

definition IN_PATTERN :: "string \<Rightarrow> bool" where
  "IN_PATTERN s \<longleftrightarrow> starts_with s ''IN-'' \<and> length s = 7 \<and> digits_text 4 (drop 3 s)"

definition ATTEMPT_PATTERN :: "string \<Rightarrow> bool" where
  "ATTEMPT_PATTERN s \<longleftrightarrow> starts_with s ''A'' \<and> digits_text 3 (drop 1 s)"

text \<open>None of the three parts of a dispatch key has a slash.\<close>

definition DISPATCH_KEY_PATTERN :: "string \<Rightarrow> bool" where
  "DISPATCH_KEY_PATTERN s \<longleftrightarrow>
     (case split_on (CHR ''/'') s of
        [i, w, a] \<Rightarrow> IN_PATTERN i \<and> WK_PATTERN w \<and> ATTEMPT_PATTERN a
      | _ \<Rightarrow> False)"

definition OUTPUT_BRANCH_PATTERN :: "string \<Rightarrow> bool" where
  "OUTPUT_BRANCH_PATTERN s \<longleftrightarrow> starts_with s ''agent/'' \<and> DISPATCH_KEY_PATTERN (drop 6 s)"

definition GITHUB_RUN_ID_PATTERN :: "string \<Rightarrow> bool" where
  "GITHUB_RUN_ID_PATTERN s \<longleftrightarrow> digits_text 1 s"

definition LAUNCH_REF_PREFIX :: string where "LAUNCH_REF_PREFIX = ''refs/heads/agent-launch/''"
definition REMOTE_REF_PREFIX :: string where "REMOTE_REF_PREFIX = ''refs/heads/''"

definition FORBIDDEN_TOUCHED_PATHS :: "string list" where
  "FORBIDDEN_TOUCHED_PATHS = [''.agent-runs'', ''.git'', ''agent-output'']"

definition FORBIDDEN_TOUCHED_PATH_PREFIXES :: "string list" where
  "FORBIDDEN_TOUCHED_PATH_PREFIXES = [''.agent-runs/'', ''.git/'', ''.cache/repo-code-index/'', ''agent-output/'']"

definition STATUS_RESULTS :: "string list" where
  "STATUS_RESULTS = [''succeeded'', ''failed'', ''no_changes'', ''cancelled'', ''inconclusive'', ''dispatch_uncertain'']"

definition BRANCH_PUSH_RESULTS :: "string list" where
  "BRANCH_PUSH_RESULTS = [''succeeded'', ''failed'', ''not_attempted'']"

definition CHECK_RESULTS :: "string list" where
  "CHECK_RESULTS = [''passed'', ''failed'', ''skipped'']"

definition SECRET_SCAN_RESULTS :: "string list" where
  "SECRET_SCAN_RESULTS = [''passed'', ''failed'']"

definition TRUSTED_FINALIZATION_STAGING :: string where
  "TRUSTED_FINALIZATION_STAGING = ''clean_trusted_staging''"

definition TRUSTED_FINALIZATION_GIT_INVOCATION :: string where
  "TRUSTED_FINALIZATION_GIT_INVOCATION = ''sanitized_git''"

definition DRY_RUN_VALIDATION_MODE :: string where "DRY_RUN_VALIDATION_MODE = ''dry_run''"
definition VALIDATION_MODES :: "string list" where "VALIDATION_MODES = [''live'', DRY_RUN_VALIDATION_MODE]"

definition PRIVILEGED_ISOLATION_MODE :: string where "PRIVILEGED_ISOLATION_MODE = ''privileged_shared_runner''"

definition UNPRIVILEGED_ISOLATION_MODES :: "string list" where
  "UNPRIVILEGED_ISOLATION_MODES = [''isolated_model_container'', ''separate_unprivileged_runner'']"

definition EXECUTION_ISOLATION_MODES :: "string list" where
  "EXECUTION_ISOLATION_MODES = PRIVILEGED_ISOLATION_MODE # UNPRIVILEGED_ISOLATION_MODES"

definition RUNNER_DIGEST_UNAVAILABLE :: string where "RUNNER_DIGEST_UNAVAILABLE = ''unavailable''"
definition EXECUTION_BACKENDS :: "string list" where "EXECUTION_BACKENDS = [''github_actions'', ''kubernetes_job'']"

definition KUBERNETES_RESULT_RESOURCE_VERSION_PLACEHOLDER :: string where
  "KUBERNETES_RESULT_RESOURCE_VERSION_PLACEHOLDER = ''kubernetes-metadata''"

text \<open>\<open>set.has(v)\<close> for a set of strings.\<close>

fun set_has :: "string list \<Rightarrow> jsval \<Rightarrow> bool" where
  "set_has names (JStr s) \<longleftrightarrow> s \<in> set names"
| "set_has names _ \<longleftrightarrow> False"

definition asObject :: "jsval \<Rightarrow> jsval" where
  "asObject v = (if is_plain_object v then v else JNull)"

section \<open>Shapes\<close>

text \<open>\<open>const obj = requireObject(value, path, errors); if (obj) { body }\<close>\<close>

definition requireObject :: "jsval \<Rightarrow> string \<Rightarrow> (jsval \<Rightarrow> contract_error list) \<Rightarrow> contract_error list" where
  "requireObject v path body =
     (if is_plain_object v then body v else fail path ''expected_object'' ''Expected object'')"

text \<open>\<open>typeof value === "string" && value.trim() !== ""\<close>\<close>

fun nonblank :: "jsval \<Rightarrow> bool" where
  "nonblank (JStr s) \<longleftrightarrow> js_trim s \<noteq> []"
| "nonblank _ \<longleftrightarrow> False"

definition requireString :: "jsval \<Rightarrow> string \<Rightarrow> contract_error list" where
  "requireString v path = fail_if (\<not> nonblank v) path ''expected_string'' ''Expected non-empty string''"

text \<open>\<open>typeof value === "string" && !test(value)\<close>, and \<open>typeof value === "string" && test(value)\<close>\<close>

fun string_fails :: "(string \<Rightarrow> bool) \<Rightarrow> jsval \<Rightarrow> bool" where
  "string_fails test (JStr s) \<longleftrightarrow> \<not> test s"
| "string_fails test _ \<longleftrightarrow> False"

fun string_passes :: "(string \<Rightarrow> bool) \<Rightarrow> jsval \<Rightarrow> bool" where
  "string_passes test (JStr s) \<longleftrightarrow> test s"
| "string_passes test _ \<longleftrightarrow> False"

fun string_of :: "jsval \<Rightarrow> string" where
  "string_of (JStr s) = s"
| "string_of _ = []"

definition lower_alnum :: "char \<Rightarrow> bool" where
  "lower_alnum c \<longleftrightarrow> (CHR ''a'' \<le> c \<and> c \<le> CHR ''z'') \<or> is_digit c"

definition kubernetes_name :: "string \<Rightarrow> bool" where
  "kubernetes_name s \<longleftrightarrow> s \<noteq> [] \<and> lower_alnum (hd s) \<and> lower_alnum (last s) \<and>
     list_all (\<lambda>c. lower_alnum c \<or> c = CHR ''-'') s"

definition requireKubernetesName :: "jsval \<Rightarrow> string \<Rightarrow> contract_error list" where
  "requireKubernetesName v path =
     requireString v path @
     fail_if (string_fails (\<lambda>s. kubernetes_name s \<and> length s \<le> 63) v) path ''invalid_kubernetes_name''
       ''Expected a DNS-label Kubernetes name''"

definition index_path :: "string \<Rightarrow> nat \<Rightarrow> string" where
  "index_path path index = path @ ''['' @ dec_nat index @ '']''"

text \<open>\<open>for (const [index, item] of value.entries()) ...\<close>\<close>

definition for_entries :: "jsval list \<Rightarrow> (nat \<Rightarrow> jsval \<Rightarrow> contract_error list) \<Rightarrow> contract_error list" where
  "for_entries xs body = concat (map (\<lambda>(index, item). body index item) (enumerate 0 xs))"

definition requireArray :: "jsval \<Rightarrow> string \<Rightarrow> (jsval list \<Rightarrow> contract_error list) \<Rightarrow> contract_error list" where
  "requireArray v path body =
     (case v of JArr xs \<Rightarrow> body xs | _ \<Rightarrow> fail path ''expected_array'' ''Expected array'')"

definition requireStringArray :: "jsval \<Rightarrow> string \<Rightarrow> contract_error list" where
  "requireStringArray v path = requireArray v path (\<lambda>xs. for_entries xs (\<lambda>index item.
     fail_if (\<not> nonblank item) (index_path path index) ''expected_string'' ''Expected non-empty string''))"

definition forbidden_path :: "string \<Rightarrow> bool" where
  "forbidden_path item \<longleftrightarrow> starts_with item ''/'' \<or> item = ''.'' \<or> item = ''..'' \<or> js_includes item ''..'' \<or>
     item \<in> set FORBIDDEN_TOUCHED_PATHS \<or> list_ex (starts_with item) FORBIDDEN_TOUCHED_PATH_PREFIXES"

definition requireTouchedPaths :: "jsval \<Rightarrow> string \<Rightarrow> contract_error list" where
  "requireTouchedPaths v path =
     requireStringArray v path @
     (case v of
        JArr xs \<Rightarrow> for_entries xs (\<lambda>index item. fail_if (string_passes forbidden_path item) (index_path path index)
          ''forbidden_runtime_path'' ''Touched paths must not include runtime, git, cache, or unsafe paths'')
      | _ \<Rightarrow> [])"

definition requirePattern :: "jsval \<Rightarrow> string \<Rightarrow> (string \<Rightarrow> bool) \<Rightarrow> contract_error list" where
  "requirePattern v path pat =
     requireString v path @ fail_if (string_fails pat v) path ''invalid_format'' ''Invalid format''"

definition requireSha :: "jsval \<Rightarrow> string \<Rightarrow> contract_error list" where
  "requireSha v path = requirePattern v path SHA_PATTERN"

definition requireDispatchKey :: "jsval \<Rightarrow> string \<Rightarrow> contract_error list" where
  "requireDispatchKey v path = requirePattern v path DISPATCH_KEY_PATTERN"

definition requireGithubRunId :: "jsval \<Rightarrow> string \<Rightarrow> contract_error list" where
  "requireGithubRunId v path = (if v = JNull then [] else requirePattern v path GITHUB_RUN_ID_PATTERN)"

definition compareField :: "jsval \<Rightarrow> jsval \<Rightarrow> string \<Rightarrow> string \<Rightarrow> contract_error list" where
  "compareField actual expected path code =
     fail_if (expected \<noteq> JUndef \<and> actual \<noteq> JUndef \<and> \<not> strict_eq actual expected) path code
       ''Value does not match expected context''"

definition requireIdentityMatchesDispatch :: "jsval \<Rightarrow> string \<Rightarrow> contract_error list" where
  "requireIdentityMatchesDispatch obj pre =
     (if \<not> string_passes DISPATCH_KEY_PATTERN (js_get obj ''dispatch_idempotency_key'') then []
      else case split_on (CHR ''/'') (string_of (js_get obj ''dispatch_idempotency_key'')) of
        [initiativeId, wkId, attemptId] \<Rightarrow>
          compareField (js_get obj ''initiative_id'') (JStr initiativeId) (pre @ ''initiative_id'') ''dispatch_identity_mismatch'' @
          compareField (js_get obj ''wk_id'') (JStr wkId) (pre @ ''wk_id'') ''dispatch_identity_mismatch'' @
          compareField (js_get obj ''attempt_id'') (JStr attemptId) (pre @ ''attempt_id'') ''dispatch_identity_mismatch''
      | _ \<Rightarrow> [])"

text \<open>\<open>requireInt(value, path, errors, { expected })\<close>: the option \<open>optional\<close> is never set.\<close>

definition requireInt :: "jsval \<Rightarrow> string \<Rightarrow> int \<Rightarrow> contract_error list" where
  "requireInt v path expected =
     (if \<not> is_integer v then fail path ''expected_integer'' ''Expected integer''
      else fail_if (\<not> strict_eq v (JInt expected)) path ''unsupported_version'' (''Expected '' @ dec_int expected))"

definition requireLaunchRef :: "jsval \<Rightarrow> string \<Rightarrow> jsval \<Rightarrow> contract_error list" where
  "requireLaunchRef v path dispatchId =
     requireString v path @
     (case v of
        JStr s \<Rightarrow>
          fail_if (\<not> starts_with s LAUNCH_REF_PREFIX) path ''invalid_launch_ref''
            (''Expected '' @ LAUNCH_REF_PREFIX @ ''...'') @
          fail_if (string_passes (\<lambda>key. DISPATCH_KEY_PATTERN key \<and> s \<noteq> LAUNCH_REF_PREFIX @ key) dispatchId) path
            ''idempotency_key_mismatch'' ''Launch ref must end with dispatch_idempotency_key''
      | _ \<Rightarrow> [])"

definition requireOutputBranch :: "jsval \<Rightarrow> string \<Rightarrow> jsval \<Rightarrow> contract_error list" where
  "requireOutputBranch v path dispatchId =
     requireString v path @
     (case v of
        JStr s \<Rightarrow>
          if \<not> OUTPUT_BRANCH_PATTERN s
          then fail path ''unsafe_branch'' ''Output branch must be agent/<initiative>/<wk>/<attempt>''
          else fail_if (string_passes (\<lambda>key. DISPATCH_KEY_PATTERN key \<and> s \<noteq> ''agent/'' @ key) dispatchId) path
            ''idempotency_key_mismatch'' ''Output branch must match dispatch_idempotency_key''
      | _ \<Rightarrow> [])"

definition requireRemoteRef :: "jsval \<Rightarrow> string \<Rightarrow> jsval \<Rightarrow> contract_error list" where
  "requireRemoteRef v path outputBranch =
     requireString v path @
     (case v of
        JStr s \<Rightarrow>
          fail_if (\<not> starts_with s REMOTE_REF_PREFIX \<or> string_passes (\<lambda>b. s \<noteq> REMOTE_REF_PREFIX @ b) outputBranch) path
            ''remote_ref_mismatch'' ''Remote ref must point at output_branch''
      | _ \<Rightarrow> [])"

definition requireRefValue :: "jsval \<Rightarrow> string \<Rightarrow> contract_error list" where
  "requireRefValue v path =
     requireString v path @
     fail_if (string_fails (\<lambda>s. s = ''absent'' \<or> SHA_PATTERN s) v) path ''invalid_ref_value'' ''Expected absent or commit SHA''"

definition last_index_of :: "char \<Rightarrow> string \<Rightarrow> int" where
  "last_index_of c s =
     (if c \<in> set s then int (length s) - 1 - int (length (takeWhile (\<lambda>x. x \<noteq> c) (rev s))) else - 1)"

definition isImmutableWrapperSource :: "string \<Rightarrow> bool" where
  "isImmutableWrapperSource s =
     (if js_trim s \<noteq> s \<or> list_ex (\<lambda>c. is_space c \<or> c \<le> CHR 0x1F \<or> c = CHR 0x7F) s then False
      else if list_ex (\<lambda>p. starts_with_ci s p \<and> (length s = length p \<or> s ! length p \<in> set '':/@'')) [''local'', ''repo''] then False
      else if starts_with s ''./'' \<or> starts_with s ''../'' \<or> starts_with s ''/'' then False
      else if js_includes s ''..'' then False
      else if 72 \<le> length s \<and> starts_with_ci (drop (length s - 72) s) ''@sha256:'' \<and> hex_text 64 64 (drop (length s - 64) s) then True
      else let atIndex = last_index_of (CHR ''@'') s in
           if atIndex \<le> 0 then False
           else FULL_SHA_PATTERN (drop (nat atIndex + 1) s))"

section \<open>Sections of the documents\<close>

definition requireCanonicalRunName :: "jsval \<Rightarrow> string \<Rightarrow> jsval \<Rightarrow> contract_error list" where
  "requireCanonicalRunName v path dispatchId =
     requireString v path @
     (case v of
        JStr s \<Rightarrow> fail_if (string_passes (\<lambda>key. DISPATCH_KEY_PATTERN key \<and> s \<noteq> ''agent-worker/'' @ key) dispatchId) path
          ''run_name_mismatch'' ''GitHub run name must be agent-worker/<dispatch_idempotency_key>''
      | _ \<Rightarrow> [])"

definition requireGithubLaunchFields :: "jsval \<Rightarrow> string \<Rightarrow> jsval \<Rightarrow> jsval \<Rightarrow> contract_error list" where
  "requireGithubLaunchFields github path dispatchId launchRef =
     fail_if (\<not> strict_eq (js_get github ''trigger'') (JStr ''push'')) (path @ ''.trigger'') ''unsupported_trigger''
       ''GitHub trigger must be push'' @
     requireString (js_get github ''workflow_file'') (path @ ''.workflow_file'') @
     requireLaunchRef (js_get github ''workflow_ref'') (path @ ''.workflow_ref'') dispatchId @
     requireCanonicalRunName (js_get github ''run_name'') (path @ ''.run_name'') dispatchId @
     fail_if (is_string launchRef \<and> is_string (js_get github ''workflow_ref'') \<and>
         \<not> strict_eq (js_get github ''workflow_ref'') launchRef)
       (path @ ''.workflow_ref'') ''launch_ref_mismatch'' ''Workflow ref must match launch_ref''"

text \<open>\<open>requireExecution(value, path, errors, { required: false })\<close>: the execution context, null when it is absent or
  no object, and the errors.\<close>

definition requireExecution :: "jsval \<Rightarrow> string \<Rightarrow> jsval \<times> contract_error list" where
  "requireExecution v path =
     (if v = JUndef then (JNull, [])
      else (asObject v, requireObject v path (\<lambda>execution.
        fail_if (\<not> set_has EXECUTION_BACKENDS (js_get execution ''backend'')) (path @ ''.backend'')
          ''unsupported_execution_backend'' ''Unsupported execution backend'')))"

definition requireKubernetesExecutionFields :: "jsval \<Rightarrow> string \<Rightarrow> contract_error list" where
  "requireKubernetesExecutionFields execution path =
     (if \<not> truthy execution
      then fail path ''required_for_kubernetes_job'' ''Kubernetes Job execution requires execution context''
      else requireKubernetesName (js_get execution ''job_name'') (path @ ''.job_name'') @
           requireKubernetesName (js_get execution ''namespace'') (path @ ''.namespace''))"

definition requireKubernetesJobStatus :: "jsval \<Rightarrow> string \<Rightarrow> contract_error list" where
  "requireKubernetesJobStatus v path = requireObject v path (\<lambda>job.
     requireKubernetesName (js_get job ''job_name'') (path @ ''.job_name'') @
     requireKubernetesName (js_get job ''namespace'') (path @ ''.namespace'') @
     requireString (js_get job ''uid'') (path @ ''.uid'') @
     requireKubernetesName (js_get job ''result_config_map_name'') (path @ ''.result_config_map_name'') @
     requireString (js_get job ''result_resource_version'') (path @ ''.result_resource_version'') @
     fail_if (strict_eq (js_get job ''result_resource_version'') (JStr KUBERNETES_RESULT_RESOURCE_VERSION_PLACEHOLDER))
       (path @ ''.result_resource_version'') ''unresolved_kubernetes_metadata''
       ''Kubernetes result resource version must be observed metadata, not the wrapper placeholder'')"

definition requireRunnerImage :: "jsval \<Rightarrow> string \<Rightarrow> contract_error list" where
  "requireRunnerImage v path = requireObject v path (\<lambda>runnerImage.
     requireString (js_get runnerImage ''image'') (path @ ''.image'') @
     requireString (js_get runnerImage ''digest'') (path @ ''.digest'') @
     (case js_get runnerImage ''digest'' of
        JStr digest \<Rightarrow>
          if digest = RUNNER_DIGEST_UNAVAILABLE
          then requireString (js_get runnerImage ''digest_unavailable_reason'') (path @ ''.digest_unavailable_reason'')
          else if \<not> SHA256_PATTERN digest
          then fail (path @ ''.digest'') ''invalid_runner_image_digest'' ''Expected sha256 digest or explicit unavailable marker''
          else fail_if (js_get runnerImage ''digest_unavailable_reason'' \<noteq> JNull) (path @ ''.digest_unavailable_reason'')
            ''expected_null'' ''Runner image digest reason must be null when digest is present''
      | _ \<Rightarrow> []))"

definition requireToolVersions :: "jsval \<Rightarrow> string \<Rightarrow> contract_error list" where
  "requireToolVersions v path = requireArray v path (\<lambda>xs.
     fail_if (xs = []) path ''expected_non_empty_array'' ''Expected at least one tool version'' @
     for_entries xs (\<lambda>index toolVersion. requireObject toolVersion (index_path path index) (\<lambda>item.
       requireString (js_get item ''name'') (index_path path index @ ''.name'') @
       requireString (js_get item ''version'') (index_path path index @ ''.version'') @
       requireString (js_get item ''evidence_ref'') (index_path path index @ ''.evidence_ref''))))"

definition requireIsolation :: "jsval \<Rightarrow> string \<Rightarrow> contract_error list" where
  "requireIsolation environment path =
     (if js_get environment ''model_execution_privileged'' = JBool True
      then fail_if (\<not> strict_eq (js_get environment ''isolation_mode'') (JStr PRIVILEGED_ISOLATION_MODE))
        (path @ ''.isolation_mode'') ''privileged_claims_credential_separation''
        ''Privileged model execution must not claim credential separation''
      else if js_get environment ''model_execution_privileged'' = JBool False
      then fail_if (\<not> set_has UNPRIVILEGED_ISOLATION_MODES (js_get environment ''isolation_mode''))
        (path @ ''.isolation_mode'') ''required_for_unprivileged_model''
        ''Unprivileged model execution requires a supported isolation mode''
      else [])"

definition requireExecutionEnvironment :: "jsval \<Rightarrow> string \<Rightarrow> contract_error list" where
  "requireExecutionEnvironment v path = requireObject v path (\<lambda>environment.
     fail_if (\<not> is_bool (js_get environment ''model_execution_privileged'')) (path @ ''.model_execution_privileged'')
       ''expected_boolean'' ''Expected boolean'' @
     requireString (js_get environment ''isolation_mode'') (path @ ''.isolation_mode'') @
     fail_if (is_string (js_get environment ''isolation_mode'') \<and>
         \<not> set_has EXECUTION_ISOLATION_MODES (js_get environment ''isolation_mode''))
       (path @ ''.isolation_mode'') ''unsupported_isolation_mode'' ''Unsupported model execution isolation mode'' @
     requireString (js_get environment ''isolation_evidence_ref'') (path @ ''.isolation_evidence_ref'') @
     requireIsolation environment path @
     requireRunnerImage (js_get environment ''runner_image'') (path @ ''.runner_image'') @
     requireToolVersions (js_get environment ''tool_versions'') (path @ ''.tool_versions''))"

definition requireWrapper :: "jsval \<Rightarrow> string \<Rightarrow> contract_error list" where
  "requireWrapper v path = requireObject v path (\<lambda>wrapper.
     requireString (js_get wrapper ''name'') (path @ ''.name'') @
     requireString (js_get wrapper ''version'') (path @ ''.version'') @
     requireString (js_get wrapper ''source'') (path @ ''.source'') @
     requirePattern (js_get wrapper ''digest'') (path @ ''.digest'') SHA256_PATTERN @
     fail_if (string_fails isImmutableWrapperSource (js_get wrapper ''source'')) (path @ ''.source'') ''mutable_wrapper_source''
       ''Wrapper source must be pinned and external to the model-writable checkout'')"

definition requireFinalization :: "jsval \<Rightarrow> string \<Rightarrow> contract_error list" where
  "requireFinalization v path = requireObject v path (\<lambda>finalization.
     requireString (js_get finalization ''staging'') (path @ ''.staging'') @
     requireString (js_get finalization ''git_invocation'') (path @ ''.git_invocation'') @
     concat (map (\<lambda>key. fail_if (\<not> is_bool (js_get finalization key)) (path @ ''.'' @ key) ''expected_boolean'' ''Expected boolean'')
       [''hooks_disabled'', ''repo_config_ignored'', ''credentialed_model_code_executed'']))"

definition requireChecks :: "jsval \<Rightarrow> string \<Rightarrow> contract_error list" where
  "requireChecks v path = requireArray v path (\<lambda>xs.
     for_entries xs (\<lambda>index check. requireObject check (index_path path index) (\<lambda>item.
       requireString (js_get item ''name'') (index_path path index @ ''.name'') @
       fail_if (\<not> set_has CHECK_RESULTS (js_get item ''result'')) (index_path path index @ ''.result'')
         ''unsupported_result'' ''Unsupported check result'' @
       requireString (js_get item ''evidence_ref'') (index_path path index @ ''.evidence_ref'') @
       fail_if (strict_eq (js_get item ''result'') (JStr ''skipped'') \<and> \<not> truthy (js_get item ''skip_reason''))
         (index_path path index @ ''.skip_reason'') ''required_for_skip'' ''Skipped checks require skip_reason'')))"

section \<open>The expected context\<close>

definition expected_launch_record :: "jsval \<Rightarrow> jsval" where
  "expected_launch_record context =
     asObject (js_or_nullish (js_get context ''launchRecord'') (js_get context ''launch_record''))"

definition expectedExecutionBackend :: "jsval \<Rightarrow> string" where
  "expectedExecutionBackend expected =
     (let context = asObject expected; launchRecord = expected_launch_record context;
          backend = js_or_nullish (js_get context ''execution_backend'')
            (js_or_nullish (js_get (js_get launchRecord ''execution'') ''backend'') (JStr ''github_actions'')) in
      if strict_eq backend (JStr ''kubernetes_job'') then ''kubernetes_job'' else ''github_actions'')"

definition isDryRunExpectedContext :: "jsval \<Rightarrow> bool" where
  "isDryRunExpectedContext expected \<longleftrightarrow>
     strict_eq (js_get (asObject expected) ''validation_mode'') (JStr DRY_RUN_VALIDATION_MODE)"

definition requireExpectedString :: "jsval \<Rightarrow> string \<Rightarrow> string \<Rightarrow> contract_error list" where
  "requireExpectedString v path message = fail_if (\<not> nonblank v) path ''required_for_dry_run'' message"

definition requireExpectedLaunchRecordRunName :: "jsval \<Rightarrow> jsval \<Rightarrow> contract_error list" where
  "requireExpectedLaunchRecordRunName launchRecord fallbackDispatchId =
     (let github = asObject (js_get launchRecord ''github'') in
      if \<not> truthy github \<or> js_get github ''run_name'' = JUndef then []
      else requireCanonicalRunName (js_get github ''run_name'') ''launchRecord.github.run_name''
        (js_or_nullish (js_get launchRecord ''dispatch_idempotency_key'') fallbackDispatchId))"

definition hasExpectedWrapperSourceAndDigest :: "jsval \<Rightarrow> bool" where
  "hasExpectedWrapperSourceAndDigest v \<longleftrightarrow>
     (let wrapper = asObject v in nonblank (js_get wrapper ''source'') \<and> string_passes SHA256_PATTERN (js_get wrapper ''digest''))"

definition requireCompleteDryRunLaunchRecord :: "jsval \<Rightarrow> contract_error list" where
  "requireCompleteDryRunLaunchRecord launchRecord =
     concat (map (\<lambda>key. requireExpectedString (js_get launchRecord key) (''launchRecord.'' @ key)
         (''Dry-run no-change validation requires expected '' @ key))
       [''initiative_id'', ''wk_id'', ''attempt_id'', ''dispatch_idempotency_key'', ''launch_ref'', ''launch_sha'',
        ''base_sha'', ''output_branch'']) @
     (let github = asObject (js_get launchRecord ''github'') in
      if \<not> truthy github
      then fail ''launchRecord.github'' ''required_for_dry_run'' ''Dry-run no-change validation requires expected GitHub context''
      else requireExpectedString (js_get github ''run_name'') ''launchRecord.github.run_name''
             ''Dry-run no-change validation requires expected GitHub run name'' @
           requireExpectedLaunchRecordRunName launchRecord (js_get launchRecord ''dispatch_idempotency_key''))"

definition requireDryRunNoChangesExpectedContext :: "jsval \<Rightarrow> contract_error list" where
  "requireDryRunNoChangesExpectedContext expected =
     (let context = asObject expected; launchRecord = expected_launch_record context in
      (if \<not> truthy launchRecord
       then fail ''launchRecord'' ''required_for_dry_run''
         ''Dry-run no-change validation requires expected launch record context''
       else requireCompleteDryRunLaunchRecord launchRecord) @
      fail_if (\<not> hasExpectedWrapperSourceAndDigest (js_get context ''wrapper'') \<and>
          \<not> hasExpectedWrapperSourceAndDigest (js_get launchRecord ''wrapper''))
        ''wrapper'' ''required_for_dry_run'' ''Dry-run no-change validation requires expected wrapper context'')"

definition compareWrapper :: "jsval \<Rightarrow> jsval \<Rightarrow> string \<Rightarrow> contract_error list" where
  "compareWrapper actual expected path =
     (if \<not> is_plain_object actual \<or> \<not> is_plain_object expected then []
      else concat (map (\<lambda>key. compareField (js_get actual key) (js_get expected key) (path @ ''.'' @ key)
             ''expected_context_mismatch'') [''name'', ''version'', ''source'', ''digest'']))"

definition compareContext :: "jsval \<Rightarrow> jsval \<Rightarrow> string \<Rightarrow> contract_error list" where
  "compareContext actual expected path = compareField actual expected path ''expected_context_mismatch''"

definition compareLaunchRecord :: "jsval \<Rightarrow> jsval \<Rightarrow> string \<Rightarrow> contract_error list" where
  "compareLaunchRecord obj launchRecord backend =
     (if backend = ''github_actions''
      then requireExpectedLaunchRecordRunName launchRecord (js_get obj ''dispatch_idempotency_key'') else []) @
     concat (map (\<lambda>key. compareContext (js_get obj key) (js_get launchRecord key) key)
       [''dispatch_idempotency_key'', ''initiative_id'', ''wk_id'', ''attempt_id'', ''base_sha'', ''output_branch'']) @
     compareContext (js_get (js_get obj ''launch'') ''launch_ref'') (js_get launchRecord ''launch_ref'') ''launch.launch_ref'' @
     compareContext (js_get (js_get obj ''launch'') ''launch_sha'') (js_get launchRecord ''launch_sha'') ''launch.launch_sha'' @
     compareWrapper (js_get obj ''wrapper'') (js_get launchRecord ''wrapper'') ''wrapper'' @
     (if backend = ''kubernetes_job''
      then concat (map (\<lambda>key. compareContext (js_get (js_get obj ''kubernetes_job'') key)
             (js_get (js_get launchRecord ''execution'') key) (''kubernetes_job.'' @ key)) [''job_name'', ''namespace''])
      else [])"

definition requireExpectedContext :: "jsval \<Rightarrow> jsval \<Rightarrow> contract_error list" where
  "requireExpectedContext obj expected =
     (let context = asObject expected in
      if \<not> truthy context then []
      else
      let backend = expectedExecutionBackend context; launchRecord = expected_launch_record context in
      fail_if (js_get context ''validation_mode'' \<noteq> JUndef \<and> \<not> set_has VALIDATION_MODES (js_get context ''validation_mode''))
        ''validation_mode'' ''unsupported_validation_mode'' ''Expected validation_mode live or dry_run when provided'' @
      (if truthy launchRecord then compareLaunchRecord obj launchRecord backend else []) @
      (if backend = ''github_actions'' \<and> js_get context ''github_run_id'' \<noteq> JUndef
       then compareContext (js_get obj ''github_run_id'') (js_get context ''github_run_id'') ''github_run_id'' else []) @
      (if backend = ''kubernetes_job'' \<and> js_get context ''kubernetes_job'' \<noteq> JUndef
       then concat (map (\<lambda>key. compareContext (js_get (js_get obj ''kubernetes_job'') key)
              (js_get (asObject (js_get context ''kubernetes_job'')) key) (''kubernetes_job.'' @ key))
            [''job_name'', ''namespace'', ''uid'', ''result_config_map_name'', ''result_resource_version''])
       else []) @
      (if js_get context ''wrapper'' \<noteq> JUndef
       then compareWrapper (js_get obj ''wrapper'') (js_get context ''wrapper'') ''wrapper'' else []))"

definition requireLaunchRecordMatchesHandoff :: "jsval \<Rightarrow> jsval \<Rightarrow> contract_error list" where
  "requireLaunchRecordMatchesHandoff launchRecord handoff =
     (if \<not> is_plain_object handoff then []
      else concat (map (\<lambda>key. compareField (js_get handoff key) (js_get launchRecord key) (''handoff.'' @ key) ''launch_record_mismatch'')
             [''dispatch_idempotency_key'', ''base_sha'', ''launch_ref'', ''output_branch'']) @
           concat (map (\<lambda>key. compareField (js_get (js_get handoff ''execution'') key) (js_get (js_get launchRecord ''execution'') key)
             (''handoff.execution.'' @ key) ''launch_record_mismatch'') [''backend'', ''job_name'', ''namespace'']))"

section \<open>The handoff envelope\<close>

text \<open>The context of the execution, which the envelope and the launch record check alike: with the backend
  \<open>github_actions\<close> the GitHub launch is required, with another one it is checked when it is there.\<close>

definition require_launch_context :: "jsval \<Rightarrow> contract_error list" where
  "require_launch_context obj =
     (let (execution, executionErrors) = requireExecution (js_get obj ''execution'') ''execution'';
          backend = js_or_nullish (js_get execution ''backend'') (JStr ''github_actions'');
          fields = (\<lambda>github. requireGithubLaunchFields github ''github'' (js_get obj ''dispatch_idempotency_key'')
            (js_get obj ''launch_ref'')) in
      executionErrors @
      (if strict_eq backend (JStr ''github_actions'') then requireObject (js_get obj ''github'') ''github'' fields
       else if truthy (asObject (js_get obj ''github'')) then fields (js_get obj ''github'') else []) @
      (if strict_eq backend (JStr ''kubernetes_job'') then requireKubernetesExecutionFields execution ''execution'' else []))"

definition require_identity :: "jsval \<Rightarrow> contract_error list" where
  "require_identity obj =
     requireInt (js_get obj ''schema_version'') ''schema_version'' 1 @
     requirePattern (js_get obj ''initiative_id'') ''initiative_id'' IN_PATTERN @
     requirePattern (js_get obj ''wk_id'') ''wk_id'' WK_PATTERN @
     requirePattern (js_get obj ''attempt_id'') ''attempt_id'' ATTEMPT_PATTERN @
     requireDispatchKey (js_get obj ''dispatch_idempotency_key'') ''dispatch_idempotency_key'' @
     requireIdentityMatchesDispatch obj []"

definition handoff_errors :: "jsval \<Rightarrow> contract_error list" where
  "handoff_errors obj =
     require_identity obj @
     requireSha (js_get obj ''base_sha'') ''base_sha'' @
     requireString (js_get obj ''target_branch'') ''target_branch'' @
     requireLaunchRef (js_get obj ''launch_ref'') ''launch_ref'' (js_get obj ''dispatch_idempotency_key'') @
     requireOutputBranch (js_get obj ''output_branch'') ''output_branch'' (js_get obj ''dispatch_idempotency_key'') @
     requireString (js_get obj ''agent'') ''agent'' @
     require_launch_context obj @
     requireObject (js_get obj ''handoff'') ''handoff'' (\<lambda>handoff.
       requireString (js_get handoff ''goal'') ''handoff.goal'' @
       requireStringArray (js_get handoff ''read_first'') ''handoff.read_first'' @
       requireStringArray (js_get handoff ''constraints'') ''handoff.constraints'' @
       requireStringArray (js_get handoff ''allowed_paths'') ''handoff.allowed_paths'') @
     requireObject (js_get obj ''output_contract'') ''output_contract'' (\<lambda>output.
       requireString (js_get output ''response_path'') ''output_contract.response_path'' @
       requireString (js_get output ''agent_report_path'') ''output_contract.agent_report_path'' @
       requireString (js_get output ''status_path'') ''output_contract.status_path'' @
       fail_if (\<not> is_bool (js_get output ''require_commit'')) ''output_contract.require_commit'' ''expected_boolean'' ''Expected boolean'')"

definition validateTemporalHandoffEnvelope :: "jsval \<Rightarrow> contract_result" where
  "validateTemporalHandoffEnvelope v =
     (if \<not> is_plain_object v then invalid (fail [] ''expected_object'' ''Expected handoff envelope object'')
      else result (handoff_errors v))"

section \<open>The launch record\<close>

definition launch_record_errors :: "jsval \<Rightarrow> contract_error list" where
  "launch_record_errors obj =
     requireInt (js_get obj ''schema_version'') ''schema_version'' 1 @
     requireDispatchKey (js_get obj ''dispatch_idempotency_key'') ''dispatch_idempotency_key'' @
     requireLaunchRef (js_get obj ''launch_ref'') ''launch_ref'' (js_get obj ''dispatch_idempotency_key'') @
     requireSha (js_get obj ''launch_sha'') ''launch_sha'' @
     requireSha (js_get obj ''base_sha'') ''base_sha'' @
     requireOutputBranch (js_get obj ''output_branch'') ''output_branch'' (js_get obj ''dispatch_idempotency_key'') @
     requireWrapper (js_get obj ''wrapper'') ''wrapper'' @
     require_launch_context obj @
     (if js_get obj ''handoff'' \<noteq> JUndef
      then map (prefixError ''handoff'') (cr_errors (validateTemporalHandoffEnvelope (js_get obj ''handoff''))) @
           requireLaunchRecordMatchesHandoff obj (js_get obj ''handoff'')
      else [])"

definition validateTemporalLaunchRecord :: "jsval \<Rightarrow> contract_result" where
  "validateTemporalLaunchRecord v =
     (if \<not> is_plain_object v then invalid (fail [] ''expected_object'' ''Expected launch record object'')
      else result (launch_record_errors v))"

section \<open>The final status\<close>

definition status_execution_errors :: "jsval \<Rightarrow> string \<Rightarrow> contract_error list" where
  "status_execution_errors obj expectedBackend =
     requireString (js_get obj ''execution_id'') ''execution_id'' @
     (if expectedBackend = ''kubernetes_job''
      then fail_if (js_get obj ''github_run_id'' \<noteq> JNull) ''github_run_id'' ''expected_null_for_kubernetes_job''
             ''Kubernetes Job status requires github_run_id null'' @
           requireKubernetesJobStatus (js_get obj ''kubernetes_job'') ''kubernetes_job''
      else requireGithubRunId (js_get obj ''github_run_id'') ''github_run_id'') @
     requireSha (js_get obj ''base_sha'') ''base_sha'' @
     requireOutputBranch (js_get obj ''output_branch'') ''output_branch'' (js_get obj ''dispatch_idempotency_key'') @
     fail_if (\<not> set_has STATUS_RESULTS (js_get obj ''result'')) ''result'' ''unsupported_result'' ''Unsupported status result'' @
     (if js_get obj ''commit_sha'' \<noteq> JNull then requireSha (js_get obj ''commit_sha'') ''commit_sha'' else [])"

definition status_evidence_errors :: "jsval \<Rightarrow> contract_error list" where
  "status_evidence_errors obj =
     requireObject (js_get obj ''branch_push'') ''branch_push'' (\<lambda>branchPush.
       fail_if (\<not> set_has BRANCH_PUSH_RESULTS (js_get branchPush ''result'')) ''branch_push.result'' ''unsupported_result''
         ''Unsupported branch push result'' @
       requireRemoteRef (js_get branchPush ''remote_ref'') ''branch_push.remote_ref'' (js_get obj ''output_branch'') @
       requireRefValue (js_get branchPush ''expected_old_ref'') ''branch_push.expected_old_ref'' @
       (if js_get branchPush ''observed_old_ref'' \<noteq> JNull
        then requireRefValue (js_get branchPush ''observed_old_ref'') ''branch_push.observed_old_ref'' else [])) @
     requireObject (js_get obj ''launch'') ''launch'' (\<lambda>launch.
       requireLaunchRef (js_get launch ''launch_ref'') ''launch.launch_ref'' (js_get obj ''dispatch_idempotency_key'') @
       requireSha (js_get launch ''launch_sha'') ''launch.launch_sha'' @
       fail_if (\<not> strict_eq (js_get launch ''trigger'') (JStr ''push'')) ''launch.trigger'' ''unsupported_trigger''
         ''Launch trigger must be push'') @
     requireTouchedPaths (js_get obj ''touched_paths'') ''touched_paths'' @
     requireObject (js_get obj ''path_policy'') ''path_policy'' (\<lambda>pathPolicy.
       fail_if (\<not> is_bool (js_get pathPolicy ''allowed'')) ''path_policy.allowed'' ''expected_boolean'' ''Expected boolean'' @
       requireStringArray (js_get pathPolicy ''violations'') ''path_policy.violations'') @
     requireChecks (js_get obj ''checks'') ''checks'' @
     requireObject (js_get obj ''secret_scan'') ''secret_scan'' (\<lambda>secretScan.
       fail_if (\<not> set_has SECRET_SCAN_RESULTS (js_get secretScan ''result'')) ''secret_scan.result'' ''unsupported_result''
         ''Unsupported secret scan result'' @
       requireString (js_get secretScan ''evidence_ref'') ''secret_scan.evidence_ref'') @
     requireWrapper (js_get obj ''wrapper'') ''wrapper'' @
     requireExecutionEnvironment (js_get obj ''execution_environment'') ''execution_environment'' @
     requireFinalization (js_get obj ''finalization'') ''finalization''"

text \<open>The gate of a status that is accepted as the result of an attempt: it \<open>succeeded\<close>, or it changed nothing in a run
  that is not validated as a dry run. A section that is no object reads as absent, as \<open>section?.field\<close> does.\<close>

definition gate_errors :: "jsval \<Rightarrow> string \<Rightarrow> contract_error list" where
  "gate_errors obj expectedBackend =
     (let succeeded = strict_eq (js_get obj ''result'') (JStr ''succeeded'');
          gateCode = (if succeeded then ''required_for_success'' else ''required_for_no_changes'');
          gateLabel = (if succeeded then ''Successful status'' else ''Live no-change status'');
          branchPush = asObject (js_get obj ''branch_push''); pathPolicy = asObject (js_get obj ''path_policy'');
          secretScan = asObject (js_get obj ''secret_scan''); finalization = js_get obj ''finalization'' in
      fail_if (expectedBackend = ''github_actions'' \<and> \<not> truthy (js_get obj ''github_run_id'')) ''github_run_id'' gateCode
        (gateLabel @ '' requires github_run_id'') @
      fail_if (expectedBackend = ''kubernetes_job'' \<and> \<not> truthy (asObject (js_get obj ''kubernetes_job''))) ''kubernetes_job'' gateCode
        (gateLabel @ '' requires Kubernetes Job evidence'') @
      fail_if (succeeded \<and> \<not> truthy (js_get obj ''commit_sha'')) ''commit_sha'' ''required_for_success''
        ''Successful status requires commit_sha'' @
      fail_if (\<not> strict_eq (js_get branchPush ''result'') (JStr ''succeeded'')) ''branch_push.result'' gateCode
        (gateLabel @ '' requires pushed branch'') @
      fail_if (js_get pathPolicy ''allowed'' \<noteq> JBool True) ''path_policy.allowed'' gateCode
        (gateLabel @ '' requires allowed path policy'') @
      fail_if (js_get pathPolicy ''violations'' \<noteq> JArr []) ''path_policy.violations'' gateCode
        (gateLabel @ '' requires no path policy violations'') @
      fail_if (\<not> strict_eq (js_get secretScan ''result'') (JStr ''passed'')) ''secret_scan.result'' gateCode
        (gateLabel @ '' requires passed secret scan'') @
      fail_if (\<not> is_array (js_get obj ''checks'') \<or>
          list_ex (\<lambda>check. strict_eq (js_get check ''result'') (JStr ''failed'')) (js_items (js_get obj ''checks''))) ''checks'' gateCode
        (gateLabel @ '' requires no failed checks'') @
      fail_if (js_get finalization ''credentialed_model_code_executed'' \<noteq> JBool False)
        ''finalization.credentialed_model_code_executed'' gateCode
        (gateLabel @ '' requires no model-controlled code in credentialed finalization'') @
      fail_if (js_get finalization ''hooks_disabled'' \<noteq> JBool True) ''finalization.hooks_disabled'' gateCode
        (gateLabel @ '' requires disabled git hooks'') @
      fail_if (js_get finalization ''repo_config_ignored'' \<noteq> JBool True) ''finalization.repo_config_ignored'' gateCode
        (gateLabel @ '' requires ignored repository-local git config'') @
      fail_if (\<not> strict_eq (js_get finalization ''staging'') (JStr TRUSTED_FINALIZATION_STAGING)) ''finalization.staging'' gateCode
        (gateLabel @ '' requires clean trusted staging'') @
      fail_if (\<not> strict_eq (js_get finalization ''git_invocation'') (JStr TRUSTED_FINALIZATION_GIT_INVOCATION))
        ''finalization.git_invocation'' gateCode (gateLabel @ '' requires sanitized git invocation''))"

definition dry_run_errors :: "jsval \<Rightarrow> jsval \<Rightarrow> contract_error list" where
  "dry_run_errors obj expected =
     requireDryRunNoChangesExpectedContext expected @
     fail_if (js_get obj ''github_run_id'' \<noteq> JNull) ''github_run_id'' ''required_for_dry_run''
       ''Dry-run no-change status requires github_run_id null'' @
     fail_if (js_get obj ''commit_sha'' \<noteq> JNull) ''commit_sha'' ''required_for_dry_run''
       ''Dry-run no-change status requires commit_sha null'' @
     fail_if (\<not> strict_eq (js_get (asObject (js_get obj ''branch_push'')) ''result'') (JStr ''not_attempted'')) ''branch_push.result''
       ''required_for_dry_run'' ''Dry-run no-change status must not push an output branch''"

definition final_status_errors :: "jsval \<Rightarrow> jsval \<Rightarrow> contract_error list" where
  "final_status_errors obj expected =
     (let expectedBackend = expectedExecutionBackend expected;
          noChanges = strict_eq (js_get obj ''result'') (JStr ''no_changes'');
          dryRunNoChangesValidation = (noChanges \<and> isDryRunExpectedContext expected);
          acceptedAttemptResult = (strict_eq (js_get obj ''result'') (JStr ''succeeded'') \<or>
            noChanges \<and> \<not> dryRunNoChangesValidation) in
      require_identity obj @
      status_execution_errors obj expectedBackend @
      status_evidence_errors obj @
      (if acceptedAttemptResult then gate_errors obj expectedBackend else []) @
      (if dryRunNoChangesValidation then dry_run_errors obj expected else []) @
      requireExpectedContext obj expected)"

definition validateTemporalFinalStatus :: "jsval \<Rightarrow> jsval \<Rightarrow> contract_result" where
  "validateTemporalFinalStatus v expected0 =
     (let expected = js_default (JObj []) expected0 in
      if \<not> is_plain_object v then invalid (fail [] ''expected_object'' ''Expected final status object'')
      else result (final_status_errors v expected))"

end
