(* ===== verification/TemporalWorkflow.thy ===== *)
theory TemporalWorkflow imports TemporalContracts begin

text \<open>
  The reducer of \<open>temporal-workflow-state.mjs\<close>: the state of a worker attempt is an object with a state name, what the
  events persisted, and three logs; an event is accepted with the next state, rejected with errors, or the reducer throws.
\<close>

section \<open>States and reasons\<close>

definition TEMPORAL_WORKFLOW_STATES :: "string list" where
  "TEMPORAL_WORKFLOW_STATES = [''input_validating'', ''ready_to_dispatch'', ''launch_ref_creating'', ''launch_ref_created'',
     ''dispatch_uncertain'', ''github_run_observing'', ''github_run_active'', ''artifact_collecting'', ''status_validating'',
     ''succeeded'', ''no_changes'', ''failed'', ''cancel_requested'', ''cancel_observing'', ''cancelled'', ''superseded'',
     ''inconclusive'', ''operator_reconciliation_required'']"

definition TEMPORAL_TERMINAL_WORKFLOW_STATES :: "string list" where
  "TEMPORAL_TERMINAL_WORKFLOW_STATES =
     [''succeeded'', ''no_changes'', ''failed'', ''cancelled'', ''superseded'', ''inconclusive'']"

definition TEMPORAL_RECONCILIATION_REASONS :: "string list" where
  "TEMPORAL_RECONCILIATION_REASONS = [''launch_ref_unexpected_sha'', ''dispatch_uncertain'', ''github_run_missing'',
     ''github_run_ambiguous'', ''artifact_missing'', ''status_untrusted'', ''status_schema_invalid'', ''wrapper_digest_mismatch'',
     ''output_branch_unexpected_ref'', ''commit_unverifiable'', ''temporal_github_disagreement'',
     ''cancelled_but_output_completed'', ''superseded_but_output_completed'', ''operator_requested_review'']"

definition SUCCESS_TERMINAL_STATES :: "string list" where
  "SUCCESS_TERMINAL_STATES = [''succeeded'', ''no_changes'']"

definition NON_SUCCESS_TERMINAL_STATES :: "string list" where
  "NON_SUCCESS_TERMINAL_STATES = [''failed'', ''cancelled'', ''superseded'', ''inconclusive'']"

definition WORKFLOW_VALIDATION_MODES :: "string list" where
  "WORKFLOW_VALIDATION_MODES = [''live'', ''dry_run'']"

definition GITHUB_RUN_ID_EVENTS :: "string list" where
  "GITHUB_RUN_ID_EVENTS = [''github_run_one_active'', ''github_run_one_terminal'', ''github_run_terminal'']"

definition WRITE_ONCE_WRAPPER_BINDING_FIELDS :: "string list" where
  "WRITE_ONCE_WRAPPER_BINDING_FIELDS = [''expected_wrapper_source'', ''expected_wrapper_digest'']"

definition BINDING_LAUNCH_RECORD_FIELDS :: "string list" where
  "BINDING_LAUNCH_RECORD_FIELDS = [''initiative_id'', ''wk_id'', ''attempt_id'', ''dispatch_idempotency_key'', ''base_sha'',
     ''output_branch'', ''launch_ref'', ''launch_sha'']"

section \<open>The transition table\<close>

record transition_spec =
  ts_source :: string
  ts_event :: string
  ts_required :: "string list"
  ts_next :: string
  ts_persist :: "string list"
  ts_observed_sha :: bool
  ts_reason :: "string option"
  ts_emit_only :: bool
  ts_final_status :: "string option"

definition transition :: "string \<Rightarrow> string \<Rightarrow> string list \<Rightarrow> string \<Rightarrow> transition_spec" where
  "transition source event required next =
     \<lparr>ts_source = source, ts_event = event, ts_required = required, ts_next = next, ts_persist = [],
      ts_observed_sha = False, ts_reason = None, ts_emit_only = False, ts_final_status = None\<rparr>"

definition TRANSITIONS :: "transition_spec list" where
  "TRANSITIONS =
    [(transition ''input_validating'' ''input_valid''
        [''attempt_id'', ''dispatch_idempotency_key'', ''base_sha'', ''expected_launch_sha''] ''ready_to_dispatch'')
        \<lparr>ts_persist := [''attempt_id'', ''dispatch_idempotency_key'', ''base_sha'', ''expected_launch_sha'']\<rparr>,
     transition ''input_validating'' ''input_invalid'' [''reason'', ''validation_errors''] ''failed'',
     (transition ''ready_to_dispatch'' ''dispatch_requested'' [''expected_launch_ref'', ''expected_launch_sha''] ''launch_ref_creating'')
        \<lparr>ts_persist := [''expected_launch_ref'']\<rparr>,
     (transition ''launch_ref_creating'' ''launch_ref_created'' [''observed_launch_sha''] ''launch_ref_created'')
        \<lparr>ts_observed_sha := True\<rparr>,
     (transition ''launch_ref_creating'' ''launch_ref_exists_expected_sha'' [''observed_launch_sha''] ''launch_ref_created'')
        \<lparr>ts_observed_sha := True\<rparr>,
     (transition ''launch_ref_creating'' ''launch_ref_exists_unexpected_sha'' [''observed_launch_sha'', ''expected_launch_sha'']
        ''operator_reconciliation_required'')\<lparr>ts_reason := Some ''launch_ref_unexpected_sha''\<rparr>,
     (transition ''launch_ref_creating'' ''launch_ref_outcome_unknown_unproven'' [''last_error'', ''evidence_packet_id'']
        ''operator_reconciliation_required'')\<lparr>ts_reason := Some ''dispatch_uncertain''\<rparr>,
     (transition ''launch_ref_created'' ''observe_runs'' [''launch_ref'', ''expected_run_name''] ''github_run_observing'')
        \<lparr>ts_persist := [''launch_ref'', ''expected_run_name'']\<rparr>,
     (transition ''github_run_observing'' ''github_run_zero_matches_timeout'' [''launch_ref'', ''observation_window'']
        ''operator_reconciliation_required'')\<lparr>ts_reason := Some ''github_run_missing''\<rparr>,
     (transition ''github_run_observing'' ''github_run_one_active'' [''github_run_id'', ''run_url''] ''github_run_active'')
        \<lparr>ts_persist := [''github_run_id'', ''run_url'']\<rparr>,
     (transition ''github_run_observing'' ''github_run_one_terminal'' [''github_run_id'', ''conclusion'', ''run_url'']
        ''artifact_collecting'')\<lparr>ts_persist := [''github_run_id'', ''run_url'', ''conclusion'']\<rparr>,
     (transition ''github_run_observing'' ''github_run_multiple_matches'' [''matching_run_ids'']
        ''operator_reconciliation_required'')\<lparr>ts_reason := Some ''github_run_ambiguous''\<rparr>,
     (transition ''github_run_active'' ''github_run_terminal'' [''github_run_id'', ''conclusion''] ''artifact_collecting'')
        \<lparr>ts_persist := [''github_run_id'', ''conclusion'']\<rparr>,
     (transition ''artifact_collecting'' ''artifacts_collected'' [''status_artifact_id'', ''response_artifact_id'']
        ''status_validating'')\<lparr>ts_persist := [''status_artifact_id'', ''response_artifact_id'']\<rparr>,
     (transition ''artifact_collecting'' ''artifacts_missing'' [''missing_artifacts''] ''inconclusive'')
        \<lparr>ts_reason := Some ''artifact_missing'', ts_emit_only := True\<rparr>,
     (transition ''status_validating'' ''trusted_status_succeeded'' [''final_status''] ''succeeded'')
        \<lparr>ts_final_status := Some ''succeeded''\<rparr>,
     (transition ''status_validating'' ''trusted_status_no_changes'' [''final_status''] ''no_changes'')
        \<lparr>ts_final_status := Some ''no_changes''\<rparr>,
     (transition ''status_validating'' ''trusted_status_failed'' [''final_status''] ''failed'')
        \<lparr>ts_final_status := Some ''failed''\<rparr>,
     transition ''status_validating'' ''status_invalid_or_untrusted'' [''reason'', ''validation_errors''] ''inconclusive'',
     transition ''cancel_requested'' ''cancel_observed_no_trusted_output'' [''cancellation_evidence''] ''cancelled'',
     (transition ''cancel_requested'' ''late_trusted_output_observed'' [''trusted_status_evidence''] ''cancelled'')
        \<lparr>ts_reason := Some ''cancelled_but_output_completed''\<rparr>,
     transition ''cancel_observing'' ''cancel_observed_no_trusted_output'' [''cancellation_evidence''] ''cancelled'',
     (transition ''cancel_observing'' ''late_trusted_output_observed'' [''trusted_status_evidence''] ''cancelled'')
        \<lparr>ts_reason := Some ''cancelled_but_output_completed''\<rparr>]"

definition transition_key :: "string \<Rightarrow> string \<Rightarrow> string" where
  "transition_key source event = source @ '':'' @ event"

text \<open>\<open>TRANSITIONS_BY_KEY.get(`${state}:${event}`)\<close>: the entries have different keys.\<close>

definition TRANSITIONS_BY_KEY :: "string \<Rightarrow> transition_spec option" where
  "TRANSITIONS_BY_KEY key = find (\<lambda>item. transition_key (ts_source item) (ts_event item) = key) TRANSITIONS"

definition OPERATOR_DECISIONS :: "(string \<times> string list) list" where
  "OPERATOR_DECISIONS =
    [(''retry_same_attempt_observe_only'', [''operator_id'', ''reason'', ''evidence_packet_id'', ''observed_launch_sha'']),
     (''retry_new_attempt'', [''new_attempt_id'', ''new_dispatch_idempotency_key'', ''new_launch_ref'', ''new_output_branch'',
        ''operator_id'', ''reason'']),
     (''mark_failed'', [''operator_id'', ''reason'', ''evidence_packet_id'', ''failure_code'']),
     (''mark_inconclusive'', [''operator_id'', ''reason'', ''evidence_packet_id'', ''conflict_code'']),
     (''accept_late_output'', [''operator_id'', ''risk_acceptance_reason'', ''trusted_status_artifact_id'', ''github_run_id'',
        ''output_branch'', ''replacement_or_supersession_target'']),
     (''abandon'', [''operator_id'', ''reason'', ''evidence_packet_id'', ''terminal_disposition''])]"

text \<open>The properties that every object inherits from \<open>Object.prototype\<close>.\<close>

definition object_prototype_keys :: "string list" where
  "object_prototype_keys = [''constructor'', ''__defineGetter__'', ''__defineSetter__'', ''hasOwnProperty'', ''__lookupGetter__'',
     ''__lookupSetter__'', ''isPrototypeOf'', ''propertyIsEnumerable'', ''toString'', ''valueOf'', ''__proto__'', ''toLocaleString'']"

text \<open>The property key a value is converted to; \<open>None\<close> when the conversion throws, as for an object whose own
  property \<open>toString\<close> hides the inherited method.\<close>

fun num_text :: "jsnum \<Rightarrow> string" where
  "num_text (NInf b) = (if b then ''-Infinity'' else ''Infinity'')"
| "num_text NNaN = ''NaN''"
| "num_text n = num_json n"

fun join_texts :: "string option list \<Rightarrow> string option" where
  "join_texts [] = Some []"
| "join_texts [t] = t"
| "join_texts (t # u # ts) =
     (case t of None \<Rightarrow> None | Some s \<Rightarrow> map_option (\<lambda>r. s @ '','' @ r) (join_texts (u # ts)))"

primrec to_property_key :: "jsval \<Rightarrow> string option" where
  "to_property_key JUndef = Some ''undefined''"
| "to_property_key JNull = Some ''null''"
| "to_property_key (JBool b) = Some (if b then ''true'' else ''false'')"
| "to_property_key (JNum n) = Some (num_text n)"
| "to_property_key (JStr s) = Some s"
| "to_property_key (JArr xs) = join_texts (map (\<lambda>(x, t). if nullish x then Some [] else t) (map (\<lambda>x. (x, to_property_key x)) xs))"
| "to_property_key (JObj kvs) =
     (if ''toString'' \<in> set (map fst (map (map_prod id to_property_key) kvs)) then None else Some ''[object Object]'')"

text \<open>\<open>OPERATOR_DECISIONS[decisionName]\<close> and its \<open>required\<close>: absent, the list of a decision, or an inherited property,
  which has none.\<close>

datatype decision_lookup = NoDecision | DecisionSpec "string list" | NotIterable

definition operator_decision :: "jsval \<Rightarrow> decision_lookup" where
  "operator_decision name =
     (case to_property_key name of
        None \<Rightarrow> NotIterable
      | Some key \<Rightarrow>
          (case map_of OPERATOR_DECISIONS key of
             Some required \<Rightarrow> DecisionSpec required
           | None \<Rightarrow> if key \<in> set object_prototype_keys then NotIterable else NoDecision))"

section \<open>Results\<close>

datatype workflow_reduction =
    Accepted (rn_state: jsval) (rn_from: jsval) (rn_event: jsval) (rn_to: jsval)
      (rn_reconciliation: "jsval option") (rn_emitted: "jsval option") (rn_decision: "jsval option")
  | Rejected (rn_state: jsval) (rn_errors: "contract_error list")
  | Threw

definition state_array :: "jsval \<Rightarrow> string \<Rightarrow> jsval" where
  "state_array state key = (if is_array (js_get state key) then js_get state key else JArr [])"

definition normalizeState :: "jsval \<Rightarrow> jsval" where
  "normalizeState v =
     (let state = (if is_plain_object v then v else JObj []) in
      js_put ''emitted_records'' (state_array state ''emitted_records'')
       (js_put ''operator_decisions'' (state_array state ''operator_decisions'')
         (js_put ''reconciliation_records'' (state_array state ''reconciliation_records'')
           (js_put ''state'' (js_or_nullish (js_get state ''state'') (JStr ''input_validating'')) state))))"

definition spread_onto :: "jsval \<Rightarrow> jsobj \<Rightarrow> jsval" where
  "spread_onto v kvs = foldl (\<lambda>o1 (k, w). js_put k w o1) v kvs"

definition createTemporalWorkflowState :: "jsval \<Rightarrow> jsval" where
  "createTemporalWorkflowState overrides0 =
     normalizeState (spread_onto
       (JObj [(''state'', JStr ''input_validating''), (''reconciliation_records'', JArr []), (''operator_decisions'', JArr []),
          (''emitted_records'', JArr [])])
       (js_spread (js_default (JObj []) overrides0)))"

definition getStateName :: "jsval \<Rightarrow> jsval" where
  "getStateName v = (if is_string v then v else js_get (asObject v) ''state'')"

definition isTemporalTerminalWorkflowState :: "jsval \<Rightarrow> bool" where
  "isTemporalTerminalWorkflowState state = set_has TEMPORAL_TERMINAL_WORKFLOW_STATES (getStateName state)"

definition state_name :: "jsval \<Rightarrow> jsval" where
  "state_name state = js_get state ''state''"

abbreviation in_state :: "jsval \<Rightarrow> string \<Rightarrow> bool" where
  "in_state state name \<equiv> state_name state = JStr name"

abbreviation terminal_state :: "jsval \<Rightarrow> bool" where
  "terminal_state state \<equiv> set_has TEMPORAL_TERMINAL_WORKFLOW_STATES (state_name state)"

definition append_item :: "jsval \<Rightarrow> jsval option \<Rightarrow> jsval" where
  "append_item items item = (case item of None \<Rightarrow> items | Some x \<Rightarrow> JArr (js_items items @ [x]))"

text \<open>\<open>JSON.parse(JSON.stringify(value))\<close>: undefined members are left out, undefined elements and numbers that are not
  finite become null.\<close>

primrec clone :: "jsval \<Rightarrow> jsval" where
  "clone JUndef = JUndef"
| "clone JNull = JNull"
| "clone (JBool b) = JBool b"
| "clone (JNum n) = (case n of NInf b \<Rightarrow> JNull | NNaN \<Rightarrow> JNull | _ \<Rightarrow> JNum n)"
| "clone (JStr s) = JStr s"
| "clone (JArr xs) = JArr (map (\<lambda>x. if x = JUndef then JNull else x) (map clone xs))"
| "clone (JObj kvs) = JObj (filter (\<lambda>(k, v). v \<noteq> JUndef) (map (map_prod id clone) kvs))"

record accept_options =
  ao_persist :: "string list"
  ao_reason :: "string option"
  ao_emit_only :: bool
  ao_emitted :: "jsval option"
  ao_decision :: "jsval option"

definition no_options :: accept_options where
  "no_options = \<lparr>ao_persist = [], ao_reason = None, ao_emit_only = False, ao_emitted = None, ao_decision = None\<rparr>"

definition persist :: "jsval \<Rightarrow> string list \<Rightarrow> jsval \<Rightarrow> jsval" where
  "persist payload keys state = foldl (\<lambda>s key.
     if key \<in> set WRITE_ONCE_WRAPPER_BINDING_FIELDS \<or> js_get payload key = JUndef then s
     else js_put key (js_get payload key) s) state keys"

definition persistExpectedWrapperBindingFromInput :: "jsval \<Rightarrow> jsval \<Rightarrow> jsval \<Rightarrow> jsval" where
  "persistExpectedWrapperBindingFromInput state previous payload =
     (let launchRecord = expected_launch_record payload;
          wrapper = js_or_nullish (asObject (js_get payload ''wrapper'')) (asObject (js_get launchRecord ''wrapper''));
          s1 = (if js_get previous ''expected_wrapper_source'' = JUndef \<and> nonblank (js_get wrapper ''source'')
                then js_put ''expected_wrapper_source'' (js_get wrapper ''source'') state else state) in
      (if js_get previous ''expected_wrapper_digest'' = JUndef \<and> nonblank (js_get wrapper ''digest'')
       then js_put ''expected_wrapper_digest'' (js_get wrapper ''digest'') s1 else s1))"

definition persist_input :: "jsval \<Rightarrow> jsval \<Rightarrow> string \<Rightarrow> jsval \<Rightarrow> jsval" where
  "persist_input previous payload eventName state =
     (if eventName = ''input_valid''
      then persistExpectedWrapperBindingFromInput
        (js_put ''output_branch'' (js_or_nullish (js_get payload ''output_branch'') (js_get state ''output_branch'')) state)
        previous payload
      else state)"

text \<open>\<open>reconciliationRecordFor\<close>; \<open>None\<close> when it throws, on a reason that is not one of the reasons.\<close>

definition reconciliationRecordFor :: "jsval \<Rightarrow> string \<Rightarrow> jsval \<Rightarrow> string \<Rightarrow> jsval option" where
  "reconciliationRecordFor state eventName payload reason =
     (if reason \<notin> set TEMPORAL_RECONCILIATION_REASONS then None
      else Some (JObj [(''type'', JStr ''operator_reconciliation''), (''reason'', JStr reason), (''source_state'', state_name state),
        (''event'', JStr eventName), (''evidence_packet_id'', js_or_nullish (js_get payload ''evidence_packet_id'') JNull),
        (''payload'', clone payload)]))"

definition mark_reconciliation :: "jsval \<Rightarrow> jsval option \<Rightarrow> bool \<Rightarrow> jsval \<Rightarrow> jsval" where
  "mark_reconciliation payload reconciliation emitOnly state =
     (case reconciliation of
        Some r \<Rightarrow> if emitOnly then state
          else js_put ''evidence_packet_id''
                 (js_or_nullish (js_get payload ''evidence_packet_id'') (js_or_nullish (js_get state ''evidence_packet_id'') JNull))
                 (js_put ''reconciliation_reason'' (js_get r ''reason'') state)
      | None \<Rightarrow> state)"

definition append_logs :: "jsval \<Rightarrow> jsval option \<Rightarrow> jsval option \<Rightarrow> jsval option \<Rightarrow> jsval \<Rightarrow> jsval" where
  "append_logs previous reconciliation decision emitted state =
     js_put ''emitted_records'' (append_item (js_get previous ''emitted_records'') emitted)
      (js_put ''operator_decisions'' (append_item (js_get previous ''operator_decisions'') decision)
       (js_put ''reconciliation_records'' (append_item (js_get previous ''reconciliation_records'') reconciliation) state))"

definition accepted_state :: "jsval \<Rightarrow> string \<Rightarrow> jsval \<Rightarrow> jsval \<Rightarrow> accept_options \<Rightarrow> jsval option \<Rightarrow> jsval" where
  "accepted_state previous eventName payload nextState options reconciliation =
     append_logs previous reconciliation (ao_decision options) (ao_emitted options)
      (mark_reconciliation payload reconciliation (ao_emit_only options)
       (persist_input previous payload eventName
        (persist payload (ao_persist options)
         (js_put ''last_event'' (JStr eventName) (js_put ''state'' nextState previous)))))"

definition accepted :: "jsval \<Rightarrow> string \<Rightarrow> jsval \<Rightarrow> jsval \<Rightarrow> accept_options \<Rightarrow> workflow_reduction" where
  "accepted previous eventName payload nextState options =
     (let reconciliation = (case ao_reason options of None \<Rightarrow> None
            | Some reason \<Rightarrow> reconciliationRecordFor previous eventName payload reason) in
      if ao_reason options \<noteq> None \<and> reconciliation = None then Threw
      else Accepted (accepted_state previous eventName payload nextState options reconciliation)
             (state_name previous) (JStr eventName) nextState reconciliation (ao_emitted options) (ao_decision options))"

section \<open>Payload checks\<close>

definition payload_missing :: "jsval \<Rightarrow> bool" where
  "payload_missing v \<longleftrightarrow> v = JUndef \<or> v = JNull \<or> v = JStr []"

definition validateRequiredPayload :: "jsval \<Rightarrow> string list \<Rightarrow> contract_error list" where
  "validateRequiredPayload payload required =
     concat (map (\<lambda>key. fail_if (payload_missing (js_get payload key)) key ''required'' ''Required payload field is missing'') required)"

definition compareExpectedLaunchSha :: "jsval \<Rightarrow> jsval \<Rightarrow> string \<Rightarrow> contract_error list" where
  "compareExpectedLaunchSha state observedOrExpected path =
     fail_if (js_get state ''expected_launch_sha'' \<noteq> JUndef \<and> \<not> strict_eq observedOrExpected (js_get state ''expected_launch_sha''))
       path ''expected_launch_sha_mismatch'' ''Launch SHA must match persisted expected_launch_sha''"

definition validateNewAttemptPayload :: "jsval \<Rightarrow> jsval \<Rightarrow> contract_error list" where
  "validateNewAttemptPayload state payload =
     fail_if (js_get payload ''new_attempt_id'' \<noteq> JUndef \<and>
         strict_eq (js_get payload ''new_attempt_id'') (js_get state ''attempt_id''))
       ''new_attempt_id'' ''attempt_id_reuse'' ''New attempt id must differ from current attempt'' @
     fail_if (js_get payload ''new_dispatch_idempotency_key'' \<noteq> JUndef \<and>
         strict_eq (js_get payload ''new_dispatch_idempotency_key'') (js_get state ''dispatch_idempotency_key''))
       ''new_dispatch_idempotency_key'' ''dispatch_key_reuse'' ''New dispatch key must differ from current attempt'' @
     fail_if (js_get payload ''new_launch_ref'' \<noteq> JUndef \<and>
         strict_eq (js_get payload ''new_launch_ref'') (js_get state ''expected_launch_ref''))
       ''new_launch_ref'' ''launch_ref_reuse'' ''New launch ref must differ from current attempt'' @
     fail_if (js_get payload ''new_output_branch'' \<noteq> JUndef \<and>
         strict_eq (js_get payload ''new_output_branch'') (js_get state ''output_branch''))
       ''new_output_branch'' ''output_branch_reuse'' ''New output branch must differ from current attempt''"

definition isLateOutputReconciliationCase :: "jsval \<Rightarrow> bool" where
  "isLateOutputReconciliationCase state \<longleftrightarrow>
     (in_state state ''cancelled'' \<or> in_state state ''superseded'') \<and>
     (let expectedReason = (if in_state state ''cancelled'' then ''cancelled_but_output_completed''
            else ''superseded_but_output_completed'') in
      list_ex (\<lambda>r. strict_eq (js_get r ''reason'') (JStr expectedReason)) (js_items (js_get state ''reconciliation_records'')))"

definition canApplyOperatorDecisionToTerminalState :: "jsval \<Rightarrow> jsval \<Rightarrow> bool" where
  "canApplyOperatorDecisionToTerminalState state decisionName =
     (if decisionName = JStr ''retry_new_attempt'' then True
      else if decisionName = JStr ''accept_late_output'' \<or> decisionName = JStr ''abandon''
      then isLateOutputReconciliationCase state
      else if decisionName = JStr ''mark_failed''
      then in_state state ''inconclusive'' \<or> isLateOutputReconciliationCase state
      else if decisionName = JStr ''mark_inconclusive'' then isLateOutputReconciliationCase state
      else False)"

definition identityFromDispatchKey :: "jsval \<Rightarrow> (string \<times> string \<times> string) option" where
  "identityFromDispatchKey v =
     (case v of
        JStr s \<Rightarrow> (case split_on (CHR ''/'') s of
            [initiativeId, wkId, attemptId] \<Rightarrow>
              if initiativeId = [] \<or> wkId = [] \<or> attemptId = [] then None else Some (initiativeId, wkId, attemptId)
          | _ \<Rightarrow> None)
      | _ \<Rightarrow> None)"

definition compareBindingField :: "jsval \<Rightarrow> jsval \<Rightarrow> string \<Rightarrow> contract_error list" where
  "compareBindingField expected actual path =
     (if expected = JUndef \<or> actual = JUndef then []
      else fail_if (\<not> strict_eq expected actual) path ''state_context_mismatch'' ''Expected context must match current attempt state'')"

definition hasBindingWrapper :: "jsval \<Rightarrow> bool" where
  "hasBindingWrapper v \<longleftrightarrow>
     (let wrapper = asObject v in nonblank (js_get wrapper ''source'') \<and> nonblank (js_get wrapper ''digest''))"

definition requireBindingString :: "jsval \<Rightarrow> string \<Rightarrow> contract_error list" where
  "requireBindingString v path =
     fail_if (\<not> nonblank v) path ''required_binding_context'' ''Trusted final status requires binding expected context''"

text \<open>The first part of \<open>validateBindingExpectedContext\<close>: the wrapper the input boundary bound, and the validation mode.\<close>

definition binding_mode_errors :: "jsval \<Rightarrow> jsval \<Rightarrow> contract_error list" where
  "binding_mode_errors state expectedContext =
     fail_if (\<not> nonblank (js_get state ''expected_wrapper_source'')) ''state.expected_wrapper_source''
       ''required_authoritative_wrapper_binding''
       ''Trusted final status requires persisted expected wrapper source from the input boundary'' @
     fail_if (\<not> nonblank (js_get state ''expected_wrapper_digest'')) ''state.expected_wrapper_digest''
       ''required_authoritative_wrapper_binding''
       ''Trusted final status requires persisted expected wrapper digest from the input boundary'' @
     fail_if (\<not> set_has WORKFLOW_VALIDATION_MODES (js_get expectedContext ''validation_mode'')) ''expected_context.validation_mode''
       (if js_get expectedContext ''validation_mode'' = JUndef then ''required_binding_context'' else ''unsupported_binding_context'')
       ''Trusted final status requires explicit live or dry_run validation mode'' @
     fail_if (\<not> strict_eq (js_get expectedContext ''validation_mode'') (JStr ''live'')) ''expected_context.validation_mode''
       ''required_live_validation'' ''Trusted terminal status requires live validation mode''"

definition binding_github_errors :: "jsval \<Rightarrow> jsval \<Rightarrow> contract_error list" where
  "binding_github_errors state launchRecord =
     (let expectedGithub = asObject (js_get launchRecord ''github''); path = ''expected_context.launchRecord.github.run_name'' in
      if \<not> truthy expectedGithub
      then fail ''expected_context.launchRecord.github'' ''required_binding_context''
        ''Trusted final status requires expected GitHub context''
      else requireBindingString (js_get expectedGithub ''run_name'') path @
           compareBindingField (js_get state ''expected_run_name'') (js_get expectedGithub ''run_name'') path @
           fail_if (string_passes (\<lambda>key. string_passes (\<lambda>n. n \<noteq> ''agent-worker/'' @ key) (js_get expectedGithub ''run_name''))
               (js_get state ''dispatch_idempotency_key''))
             path ''state_context_mismatch'' ''Expected run name must match current attempt state'')"

definition binding_record_errors :: "jsval \<Rightarrow> jsval \<Rightarrow> jsval \<Rightarrow> contract_error list" where
  "binding_record_errors state expectedContext launchRecord =
     concat (map (\<lambda>field. requireBindingString (js_get launchRecord field) (''expected_context.launchRecord.'' @ field))
       BINDING_LAUNCH_RECORD_FIELDS) @
     binding_github_errors state launchRecord @
     fail_if (\<not> hasBindingWrapper (js_get expectedContext ''wrapper'') \<and> \<not> hasBindingWrapper (js_get launchRecord ''wrapper''))
       ''expected_context.wrapper'' ''required_binding_context'' ''Trusted final status requires expected wrapper source and digest'' @
     fail_if (js_get expectedContext ''validation_mode'' = JStr ''live'' \<and> js_get expectedContext ''github_run_id'' = JUndef)
       ''expected_context.github_run_id'' ''required_binding_context'' ''Live trusted final status requires expected GitHub run id'' @
     concat (map (\<lambda>(own, field). compareBindingField (js_get state own) (js_get launchRecord field) (''expected_context.launchRecord.'' @ field))
       [(''attempt_id'', ''attempt_id''), (''dispatch_idempotency_key'', ''dispatch_idempotency_key''), (''base_sha'', ''base_sha''),
        (''output_branch'', ''output_branch''), (''expected_launch_ref'', ''launch_ref''), (''expected_launch_sha'', ''launch_sha'')]) @
     compareBindingField (js_get state ''github_run_id'') (js_get expectedContext ''github_run_id'') ''expected_context.github_run_id''"

definition binding_identity_errors :: "jsval \<Rightarrow> jsval \<Rightarrow> jsval \<Rightarrow> contract_error list" where
  "binding_identity_errors state expectedContext launchRecord =
     (case identityFromDispatchKey (js_get state ''dispatch_idempotency_key'') of
        None \<Rightarrow> []
      | Some (initiativeId, wkId, attemptId) \<Rightarrow>
          compareBindingField (JStr initiativeId) (js_get launchRecord ''initiative_id'') ''expected_context.launchRecord.initiative_id'' @
          compareBindingField (JStr wkId) (js_get launchRecord ''wk_id'') ''expected_context.launchRecord.wk_id'') @
     (let contextWrapper = asObject (js_get expectedContext ''wrapper''); launchWrapper = asObject (js_get launchRecord ''wrapper'') in
      compareBindingField (js_get state ''expected_wrapper_source'')
        (js_or_nullish (js_get contextWrapper ''source'') (js_get launchWrapper ''source'')) ''expected_context.wrapper.source'' @
      compareBindingField (js_get state ''expected_wrapper_digest'')
        (js_or_nullish (js_get contextWrapper ''digest'') (js_get launchWrapper ''digest'')) ''expected_context.wrapper.digest'')"

definition validateBindingExpectedContext :: "jsval \<Rightarrow> jsval \<Rightarrow> contract_error list" where
  "validateBindingExpectedContext state expectedContext =
     binding_mode_errors state expectedContext @
     (let launchRecord = expected_launch_record expectedContext in
      if \<not> truthy launchRecord
      then fail ''expected_context.launchRecord'' ''required_binding_context''
        ''Trusted final status requires expected launch record context''
      else binding_record_errors state expectedContext launchRecord @
           binding_identity_errors state expectedContext launchRecord)"

definition expectedContextFromPayload :: "jsval \<Rightarrow> jsval" where
  "expectedContextFromPayload payload =
     asObject (js_or_nullish (js_get payload ''expected_context'') (js_get payload ''expectedContext''))"

definition validateGithubRunIdPayload :: "jsval \<Rightarrow> contract_error list" where
  "validateGithubRunIdPayload payload =
     (let v = js_get payload ''github_run_id'' in
      if payload_missing v then []
      else fail_if (\<not> nonblank v) ''github_run_id'' ''expected_string'' ''GitHub run id must be a non-empty string'')"

text \<open>The check of a trusted final status, with the errors that were pushed before it.\<close>

definition final_status_payload_errors :: "jsval \<Rightarrow> jsval \<Rightarrow> string \<Rightarrow> contract_error list \<Rightarrow> contract_error list" where
  "final_status_payload_errors state payload finalStatusResult errors =
     (let expectedContext = expectedContextFromPayload payload in
      if \<not> truthy expectedContext
      then errors @ fail ''expected_context'' ''required'' ''Trusted final status requires explicit expected context''
      else if own_keys expectedContext = []
      then errors @ fail ''expected_context'' ''expected_non_empty_object'' ''Trusted final status requires non-empty expected context''
      else
      let bound = errors @ validateBindingExpectedContext state expectedContext in
      if bound \<noteq> [] then bound
      else
      let validation = validateTemporalFinalStatus (js_get payload ''final_status'') expectedContext in
      if \<not> cr_valid validation then map (prefixError ''final_status'') (cr_errors validation)
      else fail_if (\<not> strict_eq (js_get (js_get payload ''final_status'') ''result'') (JStr finalStatusResult)) ''final_status.result''
        ''final_status_result_mismatch'' (''Expected final status result '' @ finalStatusResult))"

definition validateTransitionPayload :: "jsval \<Rightarrow> jsval \<Rightarrow> transition_spec \<Rightarrow> contract_error list \<Rightarrow> contract_error list" where
  "validateTransitionPayload state payload spec errors0 =
     (let errors = errors0 @
        (if ts_event spec \<in> set GITHUB_RUN_ID_EVENTS then validateGithubRunIdPayload payload else []) @
        (if ts_event spec = ''dispatch_requested''
         then compareExpectedLaunchSha state (js_get payload ''expected_launch_sha'') ''expected_launch_sha'' else []) @
        (if ts_observed_sha spec
         then compareExpectedLaunchSha state (js_get payload ''observed_launch_sha'') ''observed_launch_sha'' else []) @
        fail_if (ts_event spec = ''launch_ref_exists_unexpected_sha'' \<and>
            strict_eq (js_get payload ''observed_launch_sha'') (js_get payload ''expected_launch_sha''))
          ''observed_launch_sha'' ''expected_unexpected_launch_sha'' ''Observed launch SHA must differ from expected SHA'' @
        fail_if (ts_event spec = ''github_run_terminal'' \<and> js_get state ''github_run_id'' \<noteq> JUndef \<and>
            \<not> nonblank (js_get state ''github_run_id''))
          ''state.github_run_id'' ''expected_string'' ''Persisted GitHub run id must be a non-empty string'' @
        fail_if (ts_event spec = ''github_run_terminal'' \<and> nonblank (js_get state ''github_run_id'') \<and>
            nonblank (js_get payload ''github_run_id'') \<and>
            \<not> strict_eq (js_get payload ''github_run_id'') (js_get state ''github_run_id''))
          ''github_run_id'' ''state_context_mismatch'' ''Terminal GitHub run id must match persisted github_run_id'' in
      case ts_final_status spec of
        None \<Rightarrow> errors
      | Some finalStatusResult \<Rightarrow> final_status_payload_errors state payload finalStatusResult errors)"

section \<open>Operator decisions\<close>

definition retry_new_errors :: "jsval \<Rightarrow> jsval \<Rightarrow> contract_error list" where
  "retry_new_errors state payload =
     fail_if (\<not> in_state state ''operator_reconciliation_required'' \<and> \<not> set_has NON_SUCCESS_TERMINAL_STATES (state_name state))
       ''state'' ''invalid_operator_decision_state'' ''Decision requires operator reconciliation or non-success terminal state'' @
     fail_if (set_has SUCCESS_TERMINAL_STATES (state_name state)) ''state'' ''success_terminal_immutable''
       ''Successful terminal attempts cannot be retried'' @
     fail_if (length (filter (\<lambda>key. js_get payload key \<noteq> JUndef) [''superseded_attempt_id'', ''abandoned_attempt_id'']) \<noteq> 1)
       ''superseded_attempt_id'' ''required_disposition_attempt''
       ''Decision requires exactly one superseded or abandoned attempt id'' @
     validateNewAttemptPayload state payload"

definition validateOperatorDecisionPayload :: "jsval \<Rightarrow> jsval \<Rightarrow> jsval \<Rightarrow> contract_error list" where
  "validateOperatorDecisionPayload state decisionName payload =
     (if terminal_state state \<and> \<not> canApplyOperatorDecisionToTerminalState state decisionName
      then fail ''state'' ''terminal_state_immutable'' ''Terminal attempt states cannot transition''
      else if decisionName = JStr ''retry_same_attempt_observe_only''
      then fail_if (\<not> in_state state ''operator_reconciliation_required'') ''state'' ''operator_reconciliation_required''
             ''Decision requires operator_reconciliation_required'' @
           compareExpectedLaunchSha state (js_get payload ''observed_launch_sha'') ''observed_launch_sha''
      else if decisionName = JStr ''retry_new_attempt'' then retry_new_errors state payload
      else if decisionName = JStr ''mark_failed''
      then fail_if (\<not> in_state state ''operator_reconciliation_required'' \<and> \<not> in_state state ''inconclusive'' \<and>
               \<not> isLateOutputReconciliationCase state)
             ''state'' ''invalid_operator_decision_state''
             ''Decision requires operator reconciliation, inconclusive, or late-output reconciliation''
      else if decisionName = JStr ''mark_inconclusive''
      then fail_if (\<not> in_state state ''operator_reconciliation_required'' \<and> \<not> isLateOutputReconciliationCase state)
             ''state'' ''invalid_operator_decision_state'' ''Decision requires operator reconciliation or late-output reconciliation''
      else if decisionName = JStr ''accept_late_output''
      then fail_if (\<not> in_state state ''cancelled'' \<and> \<not> in_state state ''superseded'') ''state'' ''late_output_terminal_required''
             ''Late output acceptance requires cancelled or superseded terminal attempt'' @
           fail_if (js_get payload ''commit_sha'' = JUndef \<and> js_get payload ''no_change_ref_evidence'' = JUndef) ''commit_sha''
             ''required_late_output_ref'' ''Late output acceptance requires commit or no-change ref evidence''
      else if decisionName = JStr ''abandon''
      then fail_if (\<not> set_has [''operator_reconciliation_required'', ''cancelled'', ''superseded''] (state_name state))
             ''state'' ''invalid_operator_decision_state'' ''Abandon requires operator reconciliation or late-output terminal attempt'' @
           fail_if (\<not> set_has [''failed'', ''inconclusive''] (js_get payload ''terminal_disposition'')) ''terminal_disposition''
             ''unsupported_terminal_disposition'' ''Expected failed or inconclusive''
      else [])"

definition decision_record :: "jsval \<Rightarrow> jsval \<Rightarrow> jsval \<Rightarrow> jsval" where
  "decision_record state decisionName payload =
     JObj [(''type'', JStr ''operator_decision''), (''decision'', decisionName), (''source_state'', state_name state),
       (''operator_id'', js_get payload ''operator_id''),
       (''reason'', js_or_nullish (js_get payload ''reason'') (js_get payload ''risk_acceptance_reason'')),
       (''evidence_packet_id'', js_or_nullish (js_get payload ''evidence_packet_id'') JNull), (''payload'', clone payload)]"

definition retry_disposition :: "jsval \<Rightarrow> jsval \<Rightarrow> jsval" where
  "retry_disposition state payload =
     (if terminal_state state then state_name state
      else if truthy (js_get payload ''superseded_attempt_id'') then JStr ''superseded'' else JStr ''failed'')"

definition new_attempt_record :: "jsval \<Rightarrow> jsval \<Rightarrow> jsval" where
  "new_attempt_record state payload =
     JObj [(''type'', JStr ''new_attempt_requested''), (''new_attempt_id'', js_get payload ''new_attempt_id''),
       (''new_dispatch_idempotency_key'', js_get payload ''new_dispatch_idempotency_key''),
       (''new_launch_ref'', js_get payload ''new_launch_ref''), (''new_output_branch'', js_get payload ''new_output_branch''),
       (''old_attempt_id'', js_or_nullish (js_get state ''attempt_id'')
          (js_or_nullish (js_get payload ''superseded_attempt_id'') (js_get payload ''abandoned_attempt_id''))),
       (''disposition'', retry_disposition state payload)]"

definition late_output_record :: "jsval \<Rightarrow> jsval \<Rightarrow> jsval" where
  "late_output_record state payload =
     JObj [(''type'', JStr ''accepted_late_output_integration_candidate''), (''source_state'', state_name state),
       (''github_run_id'', js_get payload ''github_run_id''), (''output_branch'', js_get payload ''output_branch''),
       (''commit_sha'', js_or_nullish (js_get payload ''commit_sha'') JNull),
       (''no_change_ref_evidence'', js_or_nullish (js_get payload ''no_change_ref_evidence'') JNull),
       (''replacement_or_supersession_target'', js_get payload ''replacement_or_supersession_target'')]"

definition abandoned_record :: "jsval \<Rightarrow> jsval" where
  "abandoned_record payload =
     JObj [(''type'', JStr ''late_output_abandoned''), (''terminal_disposition'', js_get payload ''terminal_disposition''),
       (''evidence_packet_id'', js_get payload ''evidence_packet_id'')]"

definition decide :: "jsval \<Rightarrow> jsval \<Rightarrow> jsval \<Rightarrow> workflow_reduction" where
  "decide state decisionName payload =
     (let options = no_options\<lparr>ao_decision := Some (decision_record state decisionName payload)\<rparr>;
          accept = (\<lambda>next. accepted state ''operator_decision'' payload next) in
      if decisionName = JStr ''retry_same_attempt_observe_only''
      then accept (JStr ''github_run_observing'') (options\<lparr>ao_persist := [''observed_launch_sha'']\<rparr>)
      else if decisionName = JStr ''retry_new_attempt''
      then accept (retry_disposition state payload) (options\<lparr>ao_emitted := Some (new_attempt_record state payload)\<rparr>)
      else if decisionName = JStr ''mark_failed'' then accept (JStr ''failed'') options
      else if decisionName = JStr ''mark_inconclusive'' then accept (JStr ''inconclusive'') options
      else if decisionName = JStr ''accept_late_output''
      then accept (state_name state) (options\<lparr>ao_emitted := Some (late_output_record state payload)\<rparr>)
      else if decisionName = JStr ''abandon''
      then if in_state state ''operator_reconciliation_required''
           then accept (js_get payload ''terminal_disposition'') options
           else accept (state_name state) (options\<lparr>ao_emitted := Some (abandoned_record payload)\<rparr>)
      else Rejected state (fail ''decision'' ''unsupported_operator_decision'' ''Unsupported operator decision''))"

definition applyTemporalOperatorDecision :: "jsval \<Rightarrow> jsval \<Rightarrow> jsval \<Rightarrow> workflow_reduction" where
  "applyTemporalOperatorDecision current decision payload0 =
     (let state = normalizeState current; payload = js_default (JObj []) payload0;
          decisionName = js_or_nullish decision (js_get payload ''decision'') in
      if nullish decision \<and> payload = JNull then Threw
      else case operator_decision decisionName of
        NoDecision \<Rightarrow> Rejected state (fail ''decision'' ''unsupported_operator_decision'' ''Unsupported operator decision'')
      | NotIterable \<Rightarrow> Threw
      | DecisionSpec required \<Rightarrow>
          if payload = JNull then Threw
          else
          let validationErrors = validateRequiredPayload payload required @ validateOperatorDecisionPayload state decisionName payload in
          if validationErrors \<noteq> [] then Rejected state validationErrors
          else decide state decisionName payload)"

section \<open>The reducer\<close>

definition late_reason :: "jsval \<Rightarrow> string" where
  "late_reason state = (if in_state state ''cancelled'' then ''cancelled_but_output_completed'' else ''superseded_but_output_completed'')"

definition accept_checked :: "jsval \<Rightarrow> string \<Rightarrow> jsval \<Rightarrow> contract_error list \<Rightarrow> jsval \<Rightarrow> accept_options \<Rightarrow> workflow_reduction" where
  "accept_checked state eventName payload validationErrors next options =
     (if validationErrors \<noteq> [] then Rejected state validationErrors else accepted state eventName payload next options)"

definition reducePostTerminalEvent :: "jsval \<Rightarrow> string \<Rightarrow> jsval \<Rightarrow> workflow_reduction option" where
  "reducePostTerminalEvent state eventName payload =
     (if \<not> terminal_state state then None
      else if eventName = ''late_trusted_output_observed'' \<and> (in_state state ''cancelled'' \<or> in_state state ''superseded'')
      then Some (accept_checked state eventName payload (validateRequiredPayload payload [''trusted_status_evidence''])
        (state_name state) (no_options\<lparr>ao_reason := Some (late_reason state)\<rparr>))
      else if eventName = ''post_terminal_evidence_conflict'' \<and>
        set_has [''succeeded'', ''no_changes'', ''failed'', ''inconclusive''] (state_name state)
      then Some (accept_checked state eventName payload (validateRequiredPayload payload [''conflict_evidence''])
        (state_name state) (no_options\<lparr>ao_reason := Some ''temporal_github_disagreement''\<rparr>))
      else None)"

definition illegal_transition :: "jsval \<Rightarrow> string \<Rightarrow> workflow_reduction" where
  "illegal_transition state eventName = Rejected state (fail ''event.type'' ''illegal_transition''
     (''Illegal transition from '' @ string_of (state_name state) @ '' using '' @ eventName))"

definition reduceCancellation :: "jsval \<Rightarrow> string \<Rightarrow> jsval \<Rightarrow> workflow_reduction option" where
  "reduceCancellation state eventName payload =
     (if eventName \<noteq> ''cancel_requested'' then None
      else
      let validationErrors = validateRequiredPayload payload [''operator_or_signal_id'', ''reason''] in
      Some (if validationErrors \<noteq> [] then Rejected state validationErrors
        else if set_has [''input_validating'', ''ready_to_dispatch''] (state_name state)
        then accepted state eventName payload (JStr ''cancelled'') no_options
        else if in_state state ''launch_ref_creating''
        then accepted state eventName payload (JStr ''cancel_requested'') (no_options\<lparr>ao_persist := [''known_github_run_id'']\<rparr>)
        else if set_has [''launch_ref_created'', ''github_run_observing'', ''github_run_active'', ''artifact_collecting'',
            ''status_validating''] (state_name state)
        then accepted state eventName payload (JStr ''cancel_observing'') (no_options\<lparr>ao_persist := [''known_github_run_id'']\<rparr>)
        else illegal_transition state eventName))"

definition supersession_record :: "jsval \<Rightarrow> jsval \<Rightarrow> jsval" where
  "supersession_record state payload =
     JObj [(''type'', JStr ''supersession_requested''),
       (''superseded_attempt_id'', js_or_nullish (js_get state ''attempt_id'') JNull),
       (''current_launch_ref'', js_or_nullish (js_get state ''expected_launch_ref'') JNull),
       (''current_output_branch'', js_or_nullish (js_get state ''output_branch'') JNull),
       (''current_github_run_id'', js_or_nullish (js_get state ''github_run_id'')
          (js_or_nullish (js_get payload ''known_github_run_id'') JNull)),
       (''new_attempt_id'', js_get payload ''new_attempt_id''),
       (''new_dispatch_idempotency_key'', js_get payload ''new_dispatch_idempotency_key''),
       (''new_launch_ref'', js_get payload ''new_launch_ref''), (''new_output_branch'', js_get payload ''new_output_branch''),
       (''reason'', js_get payload ''reason'')]"

definition reduceSupersession :: "jsval \<Rightarrow> string \<Rightarrow> jsval \<Rightarrow> workflow_reduction option" where
  "reduceSupersession state eventName payload =
     (if eventName \<noteq> ''supersede_requested'' then None
      else Some (accept_checked state eventName payload
        (validateRequiredPayload payload
           [''new_attempt_id'', ''new_dispatch_idempotency_key'', ''new_launch_ref'', ''new_output_branch'', ''reason''] @
         validateNewAttemptPayload state payload)
        (JStr ''superseded'') (no_options\<lparr>ao_emitted := Some (supersession_record state payload)\<rparr>)))"

definition spec_options :: "transition_spec \<Rightarrow> accept_options" where
  "spec_options spec = no_options\<lparr>ao_persist := ts_persist spec, ao_reason := ts_reason spec, ao_emit_only := ts_emit_only spec\<rparr>"

definition reduce_transition :: "jsval \<Rightarrow> string \<Rightarrow> jsval \<Rightarrow> workflow_reduction" where
  "reduce_transition state eventName payload =
     (case TRANSITIONS_BY_KEY (transition_key (string_of (state_name state)) eventName) of
        None \<Rightarrow> illegal_transition state eventName
      | Some spec \<Rightarrow>
          accept_checked state eventName payload
            (validateTransitionPayload state payload spec (validateRequiredPayload payload (ts_required spec)))
            (JStr (ts_next spec)) (spec_options spec))"

definition reduce_event :: "jsval \<Rightarrow> string \<Rightarrow> jsval \<Rightarrow> workflow_reduction" where
  "reduce_event state eventName payload =
     (case reducePostTerminalEvent state eventName payload of
        Some r \<Rightarrow> r
      | None \<Rightarrow>
          if terminal_state state
          then Rejected state (fail ''state'' ''terminal_state_immutable'' ''Terminal attempt states cannot transition'')
          else case reduceCancellation state eventName payload of
            Some r \<Rightarrow> r
          | None \<Rightarrow>
              (case reduceSupersession state eventName payload of
                 Some r \<Rightarrow> r
               | None \<Rightarrow> reduce_transition state eventName payload))"

definition reduceTemporalWorkflowState :: "jsval \<Rightarrow> jsval \<Rightarrow> workflow_reduction" where
  "reduceTemporalWorkflowState current event =
     (let state = normalizeState current;
          payload = (if is_plain_object (js_get event ''payload'') then js_get event ''payload'' else JObj []);
          eventName = js_or_nullish (js_get event ''type'') (js_get event ''event'');
          baseErrors =
            fail_if (\<not> set_has TEMPORAL_WORKFLOW_STATES (state_name state)) ''state'' ''unknown_state''
              ''Unknown Temporal workflow state'' @
            fail_if (\<not> nonblank eventName) ''event.type'' ''expected_string'' ''Expected non-empty event type'' in
      if baseErrors \<noteq> [] then Rejected state baseErrors
      else if eventName = JStr ''operator_decision''
      then applyTemporalOperatorDecision state (js_or_nullish (js_get event ''decision'') (js_get payload ''decision'')) payload
      else reduce_event state (string_of eventName) payload)"

text \<open>\<open>assertTemporalWorkflowReduction\<close>: the state, or the \<open>TemporalWorkflowStateError\<close> it throws, with its message. A missing
  result is \<open>None\<close>; a reducer that threw returned none.\<close>

definition workflow_error_message :: "contract_error list \<Rightarrow> string" where
  "workflow_error_message errors = join_with '', '' (map (\<lambda>item. ce_path item @ '': '' @ ce_code item) errors)"

definition assertTemporalWorkflowReduction :: "workflow_reduction option \<Rightarrow> (string \<times> contract_error list) + jsval" where
  "assertTemporalWorkflowReduction r =
     (case r of
        Some (Accepted state from event to reconciliation emitted decision) \<Rightarrow> Inr state
      | Some (Rejected state errors) \<Rightarrow> Inl (workflow_error_message errors, errors)
      | _ \<Rightarrow> (let errors = fail [] ''invalid_reduction_result'' ''Expected reducer result'' in
            Inl (workflow_error_message errors, errors)))"

end
