(* ===== verification/ContractProperties.thy ===== *)
theory ContractProperties imports TemporalWorkflow begin

text \<open>Correctness of the contract validators (TemporalContracts). The first section says of every check when it pushes no error;
  the collection \<open>contract_valid\<close> holds these facts, and the properties read a valid document through them.\<close>

named_theorems contract_valid \<open>when a check pushes no error\<close>

section \<open>When a check pushes no error\<close>

lemma fail_not_empty [contract_valid]: "fail path code message \<noteq> []"
  by (simp add: fail_def)

lemma fail_if_empty [contract_valid]: "fail_if c path code message = [] \<longleftrightarrow> \<not> c"
  by (simp add: fail_if_def fail_def)

lemma requireObject_empty [contract_valid]: "requireObject v path body = [] \<longleftrightarrow> is_plain_object v \<and> body v = []"
  by (simp add: requireObject_def contract_valid)

lemma requireString_empty [contract_valid]: "requireString v path = [] \<longleftrightarrow> nonblank v"
  by (simp add: requireString_def contract_valid)

lemma requireArray_empty [contract_valid]: "requireArray v path body = [] \<longleftrightarrow> (\<exists>xs. v = JArr xs \<and> body xs = [])"
  by (cases v) (simp_all add: requireArray_def contract_valid)

lemma for_entries_empty [contract_valid]:
  "for_entries xs body = [] \<longleftrightarrow> (\<forall>i < length xs. body i (xs ! i) = [])"
proof -
  have "set (enumerate 0 xs) = (\<lambda>i. (i, xs ! i)) ` {..<length xs}" by (auto simp: in_set_enumerate_eq image_iff)
  then show ?thesis by (auto simp: for_entries_def)
qed

lemma concat_map_empty: "concat (map f ks) = [] \<longleftrightarrow> (\<forall>k\<in>set ks. f k = [])"
  by simp

lemma nonblank_iff: "nonblank v \<longleftrightarrow> (\<exists>s. v = JStr s \<and> js_trim s \<noteq> [])"
  by (cases v) auto

lemma string_passes_iff: "string_passes P v \<longleftrightarrow> (\<exists>s. v = JStr s \<and> P s)"
  by (cases v) auto

lemma set_has_iff: "set_has ks v \<longleftrightarrow> (\<exists>s\<in>set ks. v = JStr s)"
  by (cases v) auto

lemma requirePattern_empty [contract_valid]:
  "requirePattern v path pat = [] \<longleftrightarrow> (\<exists>s. v = JStr s \<and> js_trim s \<noteq> [] \<and> pat s)"
  by (cases v) (simp_all add: requirePattern_def contract_valid)

lemma requireRefValue_empty [contract_valid]:
  "requireRefValue v path = [] \<longleftrightarrow> (\<exists>s. v = JStr s \<and> js_trim s \<noteq> [] \<and> (s = ''absent'' \<or> SHA_PATTERN s))"
  by (cases v) (auto simp: requireRefValue_def contract_valid)

lemma requireStringArray_empty [contract_valid]:
  "requireStringArray v path = [] \<longleftrightarrow> (\<exists>xs. v = JArr xs \<and> (\<forall>x\<in>set xs. nonblank x))"
  by (auto simp: requireStringArray_def contract_valid all_set_conv_all_nth)

lemma requireTouchedPaths_empty [contract_valid]:
  "requireTouchedPaths v path = [] \<longleftrightarrow>
     (\<exists>xs. v = JArr xs \<and> (\<forall>x\<in>set xs. nonblank x \<and> \<not> string_passes forbidden_path x))"
  by (cases v) (auto simp: requireTouchedPaths_def contract_valid all_set_conv_all_nth)

lemma requireInt_empty [contract_valid]: "requireInt v path i = [] \<longleftrightarrow> v = JInt i"
  by (cases v rule: is_integer.cases) (auto simp: requireInt_def contract_valid)

lemma compareField_empty [contract_valid]:
  "compareField actual expected path code = [] \<longleftrightarrow> expected = JUndef \<or> actual = JUndef \<or> strict_eq actual expected"
  by (auto simp: compareField_def contract_valid)

lemma requireLaunchRef_empty [contract_valid]:
  "requireLaunchRef v path d = [] \<longleftrightarrow> (\<exists>s. v = JStr s \<and> js_trim s \<noteq> [] \<and> starts_with s LAUNCH_REF_PREFIX \<and>
     \<not> string_passes (\<lambda>key. DISPATCH_KEY_PATTERN key \<and> s \<noteq> LAUNCH_REF_PREFIX @ key) d)"
  by (cases v) (auto simp: requireLaunchRef_def contract_valid)

lemma requireOutputBranch_empty [contract_valid]:
  "requireOutputBranch v path d = [] \<longleftrightarrow> (\<exists>s. v = JStr s \<and> js_trim s \<noteq> [] \<and> OUTPUT_BRANCH_PATTERN s \<and>
     \<not> string_passes (\<lambda>key. DISPATCH_KEY_PATTERN key \<and> s \<noteq> ''agent/'' @ key) d)"
  by (cases v) (auto simp: requireOutputBranch_def contract_valid)

lemma requireRemoteRef_empty [contract_valid]:
  "requireRemoteRef v path b = [] \<longleftrightarrow> (\<exists>s. v = JStr s \<and> js_trim s \<noteq> [] \<and> starts_with s REMOTE_REF_PREFIX \<and>
     \<not> string_passes (\<lambda>b. s \<noteq> REMOTE_REF_PREFIX @ b) b)"
  by (cases v) (auto simp: requireRemoteRef_def contract_valid)

lemma requireIdentityMatchesDispatch_empty:
  assumes "js_get obj ''dispatch_idempotency_key'' = JStr key" and "DISPATCH_KEY_PATTERN key"
    and "js_get obj ''initiative_id'' = JStr i" and "js_get obj ''wk_id'' = JStr w" and "js_get obj ''attempt_id'' = JStr a"
  shows "requireIdentityMatchesDispatch obj pre = [] \<longleftrightarrow> split_on (CHR ''/'') key = [i, w, a]"
  using assms
  by (auto simp: requireIdentityMatchesDispatch_def contract_valid DISPATCH_KEY_PATTERN_def split: list.splits)

lemma result_valid [contract_valid]: "cr_valid (result es) \<longleftrightarrow> es = []"
  by (simp add: result_def)

lemma invalid_valid [contract_valid]: "\<not> cr_valid (invalid es)"
  by (simp add: invalid_def)

lemma split_not_Nil [simp]: "split_on c s \<noteq> []"
  by (cases s) (auto split: list.split)

lemma join_Cons: "ws \<noteq> [] \<Longrightarrow> join_with sep (w # ws) = w @ sep @ join_with sep ws"
  by (cases ws) auto

lemma split_join: "join_with [c] (split_on c s) = s"
proof (induction s)
  case (Cons x s)
  show ?case
  proof (cases "x = c")
    case False
    obtain w ws where "split_on c s = w # ws" by (cases "split_on c s") auto
    then show ?thesis using Cons False by (cases ws) auto
  qed (simp add: Cons join_Cons)
qed simp

lemma split_join_parts:
  "list_all (\<lambda>w. c \<notin> set w) ws \<Longrightarrow> ws \<noteq> [] \<Longrightarrow> split_on c (join_with [c] ws) = ws"
proof (induction ws)
  case (Cons w ws)
  have single: "c \<notin> set w \<Longrightarrow> split_on c w = [w]" for w by (induction w) auto
  have app: "c \<notin> set w \<Longrightarrow> split_on c (w @ c # t) = w # split_on c t" for w t by (induction w) auto
  show ?case
  proof (cases "ws = []")
    case True
    with Cons.prems single show ?thesis by simp
  next
    case False
    with Cons show ?thesis by (simp add: join_Cons app)
  qed
qed simp

section \<open>Identities\<close>

definition dispatch_key :: "string \<Rightarrow> string \<Rightarrow> string \<Rightarrow> string" where
  "dispatch_key i w a = join_with ''/'' [i, w, a]"

lemma starts_with_take: "starts_with s p \<Longrightarrow> s = p @ drop (length p) s"
  by (auto simp: starts_with_append)

lemma digit_not_slash: "is_digit c \<Longrightarrow> c \<noteq> CHR ''/''"
  by (auto simp: is_digit_def)

lemma digits_no_slash:
  assumes "starts_with s p" and "digits_text n (drop (length p) s)" and "CHR ''/'' \<notin> set p"
  shows "CHR ''/'' \<notin> set s"
proof -
  have "CHR ''/'' \<notin> set (drop (length p) s)" using assms(2) digit_not_slash by (auto simp: digits_text_def list_all_iff)
  then show ?thesis using starts_with_take [OF assms(1)] assms(3) by (metis Un_iff set_append)
qed

lemma pattern_no_slash:
  "IN_PATTERN s \<Longrightarrow> CHR ''/'' \<notin> set s" "WK_PATTERN s \<Longrightarrow> CHR ''/'' \<notin> set s" "ATTEMPT_PATTERN s \<Longrightarrow> CHR ''/'' \<notin> set s"
  using digits_no_slash [of s "''IN-''" 4] digits_no_slash [of s "''WK-''" 4] digits_no_slash [of s "''A''" 3]
  by (simp_all add: IN_PATTERN_def WK_PATTERN_def ATTEMPT_PATTERN_def numeral_3_eq_3)

lemma dispatch_key_split:
  assumes "IN_PATTERN i" and "WK_PATTERN w" and "ATTEMPT_PATTERN a"
  shows "split_on (CHR ''/'') (dispatch_key i w a) = [i, w, a]"
  unfolding dispatch_key_def using assms by (intro split_join_parts) (simp_all add: pattern_no_slash)

lemma dispatch_key_pattern: "DISPATCH_KEY_PATTERN key \<longleftrightarrow>
   (\<exists>i w a. IN_PATTERN i \<and> WK_PATTERN w \<and> ATTEMPT_PATTERN a \<and> key = dispatch_key i w a)"
proof
  assume "DISPATCH_KEY_PATTERN key"
  then obtain i w a where "split_on (CHR ''/'') key = [i, w, a]" "IN_PATTERN i" "WK_PATTERN w" "ATTEMPT_PATTERN a"
    by (auto simp: DISPATCH_KEY_PATTERN_def split: list.splits)
  then show "\<exists>i w a. IN_PATTERN i \<and> WK_PATTERN w \<and> ATTEMPT_PATTERN a \<and> key = dispatch_key i w a"
    unfolding dispatch_key_def using split_join [of "CHR ''/''" key] by metis
qed (auto simp: DISPATCH_KEY_PATTERN_def dispatch_key_split)

lemma require_identity_valid:
  assumes "require_identity obj = []"
  obtains i w a where "IN_PATTERN i" and "WK_PATTERN w" and "ATTEMPT_PATTERN a"
    and "js_get obj ''initiative_id'' = JStr i" and "js_get obj ''wk_id'' = JStr w" and "js_get obj ''attempt_id'' = JStr a"
    and "js_get obj ''dispatch_idempotency_key'' = JStr (dispatch_key i w a)" and "DISPATCH_KEY_PATTERN (dispatch_key i w a)"
proof -
  from assms obtain i w a key where p: "IN_PATTERN i" "WK_PATTERN w" "ATTEMPT_PATTERN a" "DISPATCH_KEY_PATTERN key"
    and g: "js_get obj ''initiative_id'' = JStr i" "js_get obj ''wk_id'' = JStr w" "js_get obj ''attempt_id'' = JStr a"
      "js_get obj ''dispatch_idempotency_key'' = JStr key"
    and m: "requireIdentityMatchesDispatch obj [] = []"
    by (auto simp: require_identity_def requireDispatchKey_def contract_valid)
  have "split_on (CHR ''/'') key = [i, w, a]"
    using m requireIdentityMatchesDispatch_empty [OF g(4) p(4) g(1-3)] by simp
  then have "key = dispatch_key i w a" unfolding dispatch_key_def using split_join [of "CHR ''/''" key] by simp
  with that p g show thesis by simp
qed

text \<open>The dispatch key of an attempt encodes its three identifiers: the key of any well-formed identifiers is a
  well-formed dispatch key and reads back as them, and every well-formed key is the key of such identifiers.\<close>

theorem dispatch_key_roundtrip:
  assumes "IN_PATTERN i" and "WK_PATTERN w" and "ATTEMPT_PATTERN a"
  shows "DISPATCH_KEY_PATTERN (dispatch_key i w a) \<and>
    identityFromDispatchKey (JStr (dispatch_key i w a)) = Some (i, w, a) \<and>
    (\<forall>key. DISPATCH_KEY_PATTERN key \<longrightarrow> (\<exists>i' w' a'. identityFromDispatchKey (JStr key) = Some (i', w', a') \<and> key = dispatch_key i' w' a'))"
proof -
  have id: "identityFromDispatchKey (JStr (dispatch_key i w a)) = Some (i, w, a)"
    if "IN_PATTERN i" "WK_PATTERN w" "ATTEMPT_PATTERN a" for i w a
    using that dispatch_key_split [OF that]
    by (auto simp: identityFromDispatchKey_def IN_PATTERN_def WK_PATTERN_def ATTEMPT_PATTERN_def)
  have "DISPATCH_KEY_PATTERN (dispatch_key i w a)" using assms dispatch_key_pattern by blast
  then show ?thesis using id assms by (auto simp: dispatch_key_pattern)
qed

theorem dispatch_key_roundtrip_witness:
  "identityFromDispatchKey (JStr ''IN-0001/WK-0002/A003'') = Some (''IN-0001'', ''WK-0002'', ''A003'')"
proof -
  have "IN_PATTERN ''IN-0001''" "WK_PATTERN ''WK-0002''" "ATTEMPT_PATTERN ''A003''" by code_simp+
  from dispatch_key_roundtrip [OF this] show ?thesis by (simp add: dispatch_key_def)
qed

section \<open>Handoff envelopes and launch records\<close>

lemma handoff_valid:
  "cr_valid (validateTemporalHandoffEnvelope v) \<longleftrightarrow> is_plain_object v \<and> handoff_errors v = []"
  by (simp add: validateTemporalHandoffEnvelope_def contract_valid)

lemma handoff_errors_empty: "cr_errors (validateTemporalHandoffEnvelope v) = [] \<longleftrightarrow> cr_valid (validateTemporalHandoffEnvelope v)"
  by (simp add: validateTemporalHandoffEnvelope_def result_def invalid_def contract_valid)

lemma launch_record_valid:
  "cr_valid (validateTemporalLaunchRecord v) \<longleftrightarrow> is_plain_object v \<and> launch_record_errors v = []"
  by (simp add: validateTemporalLaunchRecord_def contract_valid)

lemma refs_of_key:
  assumes "DISPATCH_KEY_PATTERN key"
  shows "requireLaunchRef v path (JStr key) = [] \<Longrightarrow> v = JStr (LAUNCH_REF_PREFIX @ key)"
    and "requireOutputBranch v path' (JStr key) = [] \<Longrightarrow> v = JStr (''agent/'' @ key)"
  using assms by (auto simp: contract_valid)

text \<open>A valid handoff envelope is about one attempt: its dispatch key is the one of its identifiers, and its launch
  ref and its output branch are the ones of that key.\<close>

theorem handoff_identity:
  assumes "cr_valid (validateTemporalHandoffEnvelope v)"
  shows "\<exists>i w a. js_get v ''initiative_id'' = JStr i \<and> js_get v ''wk_id'' = JStr w \<and> js_get v ''attempt_id'' = JStr a \<and>
    IN_PATTERN i \<and> WK_PATTERN w \<and> ATTEMPT_PATTERN a \<and>
    js_get v ''dispatch_idempotency_key'' = JStr (dispatch_key i w a) \<and>
    js_get v ''launch_ref'' = JStr (LAUNCH_REF_PREFIX @ dispatch_key i w a) \<and>
    js_get v ''output_branch'' = JStr (''agent/'' @ dispatch_key i w a)"
proof -
  from assms have e: "require_identity v = []"
    "requireLaunchRef (js_get v ''launch_ref'') ''launch_ref'' (js_get v ''dispatch_idempotency_key'') = []"
    "requireOutputBranch (js_get v ''output_branch'') ''output_branch'' (js_get v ''dispatch_idempotency_key'') = []"
    by (simp_all add: handoff_valid handoff_errors_def)
  obtain i w a where k: "IN_PATTERN i" "WK_PATTERN w" "ATTEMPT_PATTERN a"
    "js_get v ''initiative_id'' = JStr i" "js_get v ''wk_id'' = JStr w" "js_get v ''attempt_id'' = JStr a"
    "js_get v ''dispatch_idempotency_key'' = JStr (dispatch_key i w a)" "DISPATCH_KEY_PATTERN (dispatch_key i w a)"
    by (rule require_identity_valid [OF e(1)])
  show ?thesis using k refs_of_key [OF k(8)] e(2,3) by (intro exI [of _ i] exI [of _ w] exI [of _ a]) simp
qed

text \<open>A valid launch record that carries a handoff carries a valid one about the same attempt: dispatch key, base,
  launch ref and output branch are the same.\<close>

theorem launch_record_carries_its_handoff:
  assumes "cr_valid (validateTemporalLaunchRecord v)" and "js_get v ''handoff'' \<noteq> JUndef"
  shows "cr_valid (validateTemporalHandoffEnvelope (js_get v ''handoff'')) \<and>
    (\<forall>key\<in>{''dispatch_idempotency_key'', ''base_sha'', ''launch_ref'', ''output_branch''}.
       js_get (js_get v ''handoff'') key = js_get v key \<and> nonblank (js_get v key))"
proof -
  let ?h = "js_get v ''handoff''"
  from assms have e: "launch_record_errors v = []" by (simp add: launch_record_valid)
  then have h: "cr_valid (validateTemporalHandoffEnvelope ?h)"
    and m: "requireLaunchRecordMatchesHandoff v ?h = []"
    using assms(2) by (simp_all add: launch_record_errors_def handoff_errors_empty)
  have o: "is_plain_object ?h" using h by (simp add: handoff_valid)
  have r: "nonblank (js_get v key)"
    if "key \<in> {''dispatch_idempotency_key'', ''base_sha'', ''launch_ref'', ''output_branch''}" for key
    using e that by (auto simp: launch_record_errors_def requireSha_def requireDispatchKey_def contract_valid)
  have d: "nonblank (js_get ?h key)"
    if "key \<in> {''dispatch_idempotency_key'', ''base_sha'', ''launch_ref'', ''output_branch''}" for key
    using h that by (auto simp: handoff_valid handoff_errors_def require_identity_def requireSha_def requireDispatchKey_def contract_valid)
  have "strict_eq (js_get ?h key) (js_get v key)"
    if "key \<in> {''dispatch_idempotency_key'', ''base_sha'', ''launch_ref'', ''output_branch''}" for key
  proof -
    have "js_get v key \<noteq> JUndef" "js_get ?h key \<noteq> JUndef" using r [OF that] d [OF that] by auto
    moreover have "compareField (js_get ?h key) (js_get v key) (''handoff.'' @ key) ''launch_record_mismatch'' = []"
      using m o that unfolding requireLaunchRecordMatchesHandoff_def
      by (simp only: not_True_eq_False if_False append_is_Nil_conv concat_map_empty list.set insert_iff simp_thms)
    ultimately show ?thesis by (simp add: compareField_empty)
  qed
  then have q: "js_get ?h key = js_get v key"
    if "key \<in> {''dispatch_idempotency_key'', ''base_sha'', ''launch_ref'', ''output_branch''}" for key
    by (rule strict_eq_imp_eq [OF _]) (rule that)
  show ?thesis by (intro conjI ballI h r q)
qed


definition demo_launch :: jsval where
  "demo_launch = JObj
     [(''schema_version'', JInt 1), (''initiative_id'', JStr ''IN-0001''), (''wk_id'', JStr ''WK-0002''), (''attempt_id'', JStr ''A003''),
      (''dispatch_idempotency_key'', JStr ''IN-0001/WK-0002/A003''), (''base_sha'', JStr ''abcdef0''), (''target_branch'', JStr ''main''),
      (''launch_ref'', JStr ''refs/heads/agent-launch/IN-0001/WK-0002/A003''), (''launch_sha'', JStr ''abcdef1''),
      (''output_branch'', JStr ''agent/IN-0001/WK-0002/A003''), (''agent'', JStr ''worker''),
      (''execution'', JObj [(''backend'', JStr ''kubernetes_job''), (''job_name'', JStr ''job-1''), (''namespace'', JStr ''ns'')]),
      (''wrapper'', JObj [(''name'', JStr ''w''), (''version'', JStr ''1''),
         (''source'', JStr (''w@'' @ replicate 40 CHR ''a'')), (''digest'', JStr (''sha256:'' @ replicate 64 CHR ''b''))]),
      (''handoff'', JObj [(''goal'', JStr ''g''), (''read_first'', JArr []), (''constraints'', JArr []), (''allowed_paths'', JArr [])]),
      (''output_contract'', JObj [(''response_path'', JStr ''r''), (''agent_report_path'', JStr ''a''), (''status_path'', JStr ''s''),
         (''require_commit'', JBool True)])]"

theorem handoff_identity_witness:
  "cr_valid (validateTemporalHandoffEnvelope demo_launch) \<and>
   js_get demo_launch ''output_branch'' = JStr (''agent/'' @ dispatch_key ''IN-0001'' ''WK-0002'' ''A003'')"
proof -
  have "cr_valid (validateTemporalHandoffEnvelope demo_launch)" by code_simp
  from handoff_identity [OF this] this show ?thesis by (simp add: demo_launch_def)
qed

theorem launch_record_carries_its_handoff_witness:
  "cr_valid (validateTemporalHandoffEnvelope (js_get (js_put ''handoff'' demo_launch demo_launch) ''handoff''))"
proof -
  have "cr_valid (validateTemporalLaunchRecord (js_put ''handoff'' demo_launch demo_launch))" by code_simp
  moreover have "js_get (js_put ''handoff'' demo_launch demo_launch) ''handoff'' \<noteq> JUndef" by (simp add: demo_launch_def)
  ultimately show ?thesis using launch_record_carries_its_handoff by blast
qed

section \<open>Final statuses\<close>

lemma final_status_valid:
  "cr_valid (validateTemporalFinalStatus v e) \<longleftrightarrow> is_plain_object v \<and> final_status_errors v (js_default (JObj []) e) = []"
  by (simp add: validateTemporalFinalStatus_def Let_def contract_valid)

lemma final_status_parts:
  assumes "cr_valid (validateTemporalFinalStatus v e)"
  shows "require_identity v = []" and "status_execution_errors v (expectedExecutionBackend (js_default (JObj []) e)) = []"
    and "status_evidence_errors v = []" and "requireExpectedContext v (js_default (JObj []) e) = []"
    and "js_get v ''result'' = JStr ''succeeded'' \<Longrightarrow> gate_errors v (expectedExecutionBackend (js_default (JObj []) e)) = []"
    and "js_get v ''result'' = JStr ''no_changes'' \<Longrightarrow> \<not> isDryRunExpectedContext (js_default (JObj []) e) \<Longrightarrow>
      gate_errors v (expectedExecutionBackend (js_default (JObj []) e)) = []"
    and "js_get v ''result'' = JStr ''no_changes'' \<Longrightarrow> isDryRunExpectedContext (js_default (JObj []) e) \<Longrightarrow>
      dry_run_errors v (js_default (JObj []) e) = []"
  using assms unfolding final_status_valid final_status_errors_def Let_def
  by (simp_all split: if_splits)

lemma asObject_get [simp]: "js_get (asObject v) k = js_get v k"
  by (cases v) (simp_all add: asObject_def)

lemma gate_passed:
  assumes "gate_errors v backend = []"
  shows "js_get (js_get v ''branch_push'') ''result'' = JStr ''succeeded''"
    and "js_get (js_get v ''path_policy'') ''allowed'' = JBool True"
    and "js_get (js_get v ''path_policy'') ''violations'' = JArr []"
    and "js_get (js_get v ''secret_scan'') ''result'' = JStr ''passed''"
    and "\<exists>checks. js_get v ''checks'' = JArr checks \<and> (\<forall>c\<in>set checks. js_get c ''result'' \<noteq> JStr ''failed'')"
    and "js_get (js_get v ''finalization'') ''credentialed_model_code_executed'' = JBool False"
    and "js_get (js_get v ''finalization'') ''hooks_disabled'' = JBool True"
    and "js_get (js_get v ''finalization'') ''repo_config_ignored'' = JBool True"
    and "js_get (js_get v ''finalization'') ''staging'' = JStr TRUSTED_FINALIZATION_STAGING"
    and "js_get (js_get v ''finalization'') ''git_invocation'' = JStr TRUSTED_FINALIZATION_GIT_INVOCATION"
    and "js_get v ''result'' = JStr ''succeeded'' \<Longrightarrow> truthy (js_get v ''commit_sha'')"
    and "backend = ''github_actions'' \<Longrightarrow> truthy (js_get v ''github_run_id'')"
  using assms unfolding gate_errors_def Let_def
  by (simp_all add: contract_valid asObject_get is_array_iff list_ex_iff) (auto dest: strict_eq_imp_eq)

text \<open>C19: A final status that validates as succeeded shows all its evidence: a commit, a pushed output branch, an allowed
  and violation-free path policy, a passed secret scan, no failed check, and a finalization from clean staging with hooks
  disabled, repository configuration ignored and no model code run with credentials.\<close>

theorem success_is_gated:
  assumes "cr_valid (validateTemporalFinalStatus v expected)" and "js_get v ''result'' = JStr ''succeeded''"
  shows "(\<exists>sha. js_get v ''commit_sha'' = JStr sha \<and> SHA_PATTERN sha) \<and>
    js_get (js_get v ''branch_push'') ''result'' = JStr ''succeeded'' \<and>
    js_get (js_get v ''path_policy'') ''allowed'' = JBool True \<and>
    js_get (js_get v ''path_policy'') ''violations'' = JArr [] \<and>
    js_get (js_get v ''secret_scan'') ''result'' = JStr ''passed'' \<and>
    (\<exists>checks. js_get v ''checks'' = JArr checks \<and> (\<forall>c\<in>set checks. js_get c ''result'' \<noteq> JStr ''failed'')) \<and>
    js_get (js_get v ''finalization'') ''credentialed_model_code_executed'' = JBool False \<and>
    js_get (js_get v ''finalization'') ''hooks_disabled'' = JBool True \<and>
    js_get (js_get v ''finalization'') ''repo_config_ignored'' = JBool True \<and>
    js_get (js_get v ''finalization'') ''staging'' = JStr TRUSTED_FINALIZATION_STAGING \<and>
    js_get (js_get v ''finalization'') ''git_invocation'' = JStr TRUSTED_FINALIZATION_GIT_INVOCATION"
proof -
  note g = gate_passed [OF final_status_parts(5) [OF assms]]
  have "js_get v ''commit_sha'' \<noteq> JNull" using g(11) [OF assms(2)] by auto
  then have "\<exists>sha. js_get v ''commit_sha'' = JStr sha \<and> SHA_PATTERN sha"
    using final_status_parts(2) [OF assms(1)] by (auto simp: status_execution_errors_def requireSha_def contract_valid)
  with g(1-10) show ?thesis by blast
qed

text \<open>The touched paths of a valid final status stay inside the tree and outside the runtime, git and cache
  directories, whatever the result.\<close>

theorem touched_paths_safe:
  assumes "cr_valid (validateTemporalFinalStatus v expected)"
  shows "\<exists>paths. js_get v ''touched_paths'' = JArr (map JStr paths) \<and>
    (\<forall>p\<in>set paths. p \<noteq> [] \<and> hd p \<noteq> CHR ''/'' \<and> \<not> (\<exists>a b. p = a @ ''..'' @ b) \<and>
       (\<forall>dir\<in>{''.git'', ''.agent-runs'', ''agent-output''}. p \<noteq> dir \<and> \<not> (\<exists>b. p = dir @ ''/'' @ b)) \<and>
       \<not> (\<exists>b. p = ''.cache/repo-code-index/'' @ b))"
proof -
  from final_status_parts(3) [OF assms] obtain xs where x: "js_get v ''touched_paths'' = JArr xs"
    and s: "\<forall>x\<in>set xs. nonblank x \<and> \<not> string_passes forbidden_path x"
    by (auto simp: status_evidence_errors_def requireTouchedPaths_empty)
  define paths where "paths = map string_of xs"
  have "map JStr (map string_of xs) = xs" using s by (force simp: nonblank_iff intro!: map_idI)
  moreover have "p \<noteq> [] \<and> \<not> forbidden_path p" if "p \<in> set paths" for p
    using that s by (auto simp: paths_def nonblank_iff js_trim_def)
  moreover have "hd p \<noteq> CHR ''/'' \<and> \<not> (\<exists>a b. p = a @ ''..'' @ b) \<and>
       (\<forall>dir\<in>{''.git'', ''.agent-runs'', ''agent-output''}. p \<noteq> dir \<and> \<not> (\<exists>b. p = dir @ ''/'' @ b)) \<and>
       \<not> (\<exists>b. p = ''.cache/repo-code-index/'' @ b)" if "p \<noteq> []" "\<not> forbidden_path p" for p
    using that
    by (cases p) (simp_all add: forbidden_path_def starts_with_append js_includes_iff
      FORBIDDEN_TOUCHED_PATHS_def FORBIDDEN_TOUCHED_PATH_PREFIXES_def)
  ultimately show ?thesis using x by (intro exI [of _ paths]) (auto simp: paths_def)
qed


section \<open>The expected context\<close>

lemma compareContext_empty [contract_valid]:
  "compareContext actual expected path = [] \<longleftrightarrow> expected = JUndef \<or> actual = JUndef \<or> strict_eq actual expected"
  by (simp add: compareContext_def contract_valid)

lemma truthy_asObject [simp]: "truthy (asObject v) \<longleftrightarrow> is_plain_object v"
  by (cases v) (simp_all add: asObject_def)

lemma plain_truthy: "is_plain_object v \<Longrightarrow> truthy v"
  by (auto simp: is_plain_object_iff)

lemma truthy_launch_record: "truthy (expected_launch_record c) \<longleftrightarrow> is_plain_object (expected_launch_record c)"
  unfolding expected_launch_record_def by (simp add: asObject_def plain_truthy)

lemma expected_context_parts:
  assumes "requireExpectedContext v c = []" and "is_plain_object c"
  shows "is_plain_object (expected_launch_record c) \<Longrightarrow>
      compareLaunchRecord v (expected_launch_record c) (expectedExecutionBackend c) = []"
    and "expectedExecutionBackend c = ''github_actions'' \<Longrightarrow> js_get c ''github_run_id'' \<noteq> JUndef \<Longrightarrow>
      compareContext (js_get v ''github_run_id'') (js_get c ''github_run_id'') ''github_run_id'' = []"
    and "js_get c ''wrapper'' \<noteq> JUndef \<Longrightarrow> compareWrapper (js_get v ''wrapper'') (js_get c ''wrapper'') ''wrapper'' = []"
proof -
  have "asObject c = c" "truthy c" using assms(2) by (simp_all add: asObject_def plain_truthy)
  note a = assms(1) [unfolded requireExpectedContext_def this Let_def]
  show "is_plain_object (expected_launch_record c) \<Longrightarrow>
      compareLaunchRecord v (expected_launch_record c) (expectedExecutionBackend c) = []"
    "expectedExecutionBackend c = ''github_actions'' \<Longrightarrow> js_get c ''github_run_id'' \<noteq> JUndef \<Longrightarrow>
      compareContext (js_get v ''github_run_id'') (js_get c ''github_run_id'') ''github_run_id'' = []"
    "js_get c ''wrapper'' \<noteq> JUndef \<Longrightarrow> compareWrapper (js_get v ''wrapper'') (js_get c ''wrapper'') ''wrapper'' = []"
    using a by (simp_all add: \<open>truthy c\<close> plain_truthy)
qed

lemma expected_record_fields:
  assumes "requireExpectedContext v c = []" and "is_plain_object c" and "is_plain_object (expected_launch_record c)"
    and "key \<in> {''dispatch_idempotency_key'', ''initiative_id'', ''wk_id'', ''attempt_id'', ''base_sha'', ''output_branch''}"
    and "js_get v key \<noteq> JUndef" and "js_get (expected_launch_record c) key \<noteq> JUndef"
  shows "js_get v key = js_get (expected_launch_record c) key"
proof -
  have "\<forall>k\<in>set [''dispatch_idempotency_key'', ''initiative_id'', ''wk_id'', ''attempt_id'', ''base_sha'', ''output_branch''].
      compareContext (js_get v k) (js_get (expected_launch_record c) k) k = []"
    using expected_context_parts(1) [OF assms(1-3)]
    unfolding compareLaunchRecord_def append_is_Nil_conv concat_map_empty by (elim conjE)
  then have "compareContext (js_get v key) (js_get (expected_launch_record c) key) key = []"
    by (rule bspec) (use assms(4) in simp)
  then show ?thesis using assms(5,6) by (auto simp: compareContext_empty dest: strict_eq_imp_eq)
qed

lemma compareWrapper_field:
  assumes "compareWrapper a b path = []" and "is_plain_object a" and "is_plain_object b"
    and "key \<in> {''name'', ''version'', ''source'', ''digest''}" and "js_get a key \<noteq> JUndef" and "js_get b key \<noteq> JUndef"
  shows "js_get a key = js_get b key"
proof -
  have "compareField (js_get a key) (js_get b key) (path @ ''.'' @ key) ''expected_context_mismatch'' = []"
    using assms(1-4) unfolding compareWrapper_def
    by (simp only: not_True_eq_False simp_thms if_False concat_map_empty list.set)
  then show ?thesis using assms(5,6) by (auto simp: compareField_empty dest: strict_eq_imp_eq)
qed

lemma expected_wrapper_field:
  assumes "requireExpectedContext v c = []" and "is_plain_object c" and "is_plain_object (expected_launch_record c)"
    and "is_plain_object (js_get v ''wrapper'')" and "key \<in> {''name'', ''version'', ''source'', ''digest''}"
    and "js_get (js_get v ''wrapper'') key \<noteq> JUndef"
    and "js_or_nullish (js_get (js_get c ''wrapper'') key) (js_get (js_get (expected_launch_record c) ''wrapper'') key) = JStr s"
  shows "js_get (js_get v ''wrapper'') key = JStr s"
proof -
  have l: "compareWrapper (js_get v ''wrapper'') (js_get (expected_launch_record c) ''wrapper'') ''wrapper'' = []"
    using expected_context_parts(1) [OF assms(1-3)] unfolding compareLaunchRecord_def append_is_Nil_conv by blast
  note w = expected_context_parts(3) [OF assms(1,2)]
  have o: "js_get w key \<noteq> JUndef \<Longrightarrow> is_plain_object w" for w by (cases w) auto
  show ?thesis
  proof (cases "nullish (js_get (js_get c ''wrapper'') key)")
    case True
    then have s: "js_get (js_get (expected_launch_record c) ''wrapper'') key = JStr s" using assms(7) by (simp add: js_or_nullish_def)
    show ?thesis using compareWrapper_field [OF l assms(4) _ assms(5,6)] o s by simp
  next
    case False
    then have s: "js_get (js_get c ''wrapper'') key = JStr s" using assms(7) by (simp add: js_or_nullish_def)
    then have c: "is_plain_object (js_get c ''wrapper'')" using o by simp
    then have "js_get c ''wrapper'' \<noteq> JUndef" by auto
    then show ?thesis using compareWrapper_field [OF w assms(4) c assms(5,6)] s by simp
  qed
qed


section \<open>A status that validates\<close>

definition demo_launch_run :: jsval where
  "demo_launch_run = JObj
     [(''schema_version'', JInt 1), (''initiative_id'', JStr ''IN-0001''), (''wk_id'', JStr ''WK-0002''), (''attempt_id'', JStr ''A003''),
      (''dispatch_idempotency_key'', JStr ''IN-0001/WK-0002/A003''), (''base_sha'', JStr ''abcdef0''),
      (''launch_ref'', JStr ''refs/heads/agent-launch/IN-0001/WK-0002/A003''), (''launch_sha'', JStr ''abcdef1''),
      (''output_branch'', JStr ''agent/IN-0001/WK-0002/A003''),
      (''github'', JObj [(''run_name'', JStr ''agent-worker/IN-0001/WK-0002/A003'')]), (''wrapper'', js_get demo_launch ''wrapper'')]"

definition demo_status :: jsval where
  "demo_status = JObj (js_spread demo_launch_run @
     [(''execution_id'', JStr ''e''), (''github_run_id'', JStr ''7''), (''result'', JStr ''succeeded''), (''commit_sha'', JStr ''abcdef2''),
      (''branch_push'', JObj [(''result'', JStr ''succeeded''), (''remote_ref'', JStr ''refs/heads/agent/IN-0001/WK-0002/A003''),
         (''expected_old_ref'', JStr ''absent''), (''observed_old_ref'', JNull)]),
      (''launch'', JObj [(''launch_ref'', JStr ''refs/heads/agent-launch/IN-0001/WK-0002/A003''), (''launch_sha'', JStr ''abcdef1''),
         (''trigger'', JStr ''push'')]),
      (''touched_paths'', JArr [JStr ''src/a'']), (''path_policy'', JObj [(''allowed'', JBool True), (''violations'', JArr [])]),
      (''checks'', JArr [JObj [(''name'', JStr ''t''), (''result'', JStr ''passed''), (''evidence_ref'', JStr ''r'')]]),
      (''secret_scan'', JObj [(''result'', JStr ''passed''), (''evidence_ref'', JStr ''r'')]),
      (''execution_environment'', JObj [(''model_execution_privileged'', JBool False),
         (''isolation_mode'', JStr ''isolated_model_container''), (''isolation_evidence_ref'', JStr ''r''),
         (''runner_image'', JObj [(''image'', JStr ''i''), (''digest'', JStr ''unavailable''), (''digest_unavailable_reason'', JStr ''n'')]),
         (''tool_versions'', JArr [JObj [(''name'', JStr ''g''), (''version'', JStr ''1''), (''evidence_ref'', JStr ''r'')]])]),
      (''finalization'', JObj [(''staging'', JStr ''clean_trusted_staging''), (''git_invocation'', JStr ''sanitized_git''),
         (''hooks_disabled'', JBool True), (''repo_config_ignored'', JBool True), (''credentialed_model_code_executed'', JBool False)])])"

definition demo_context :: jsval where
  "demo_context = JObj [(''validation_mode'', JStr ''live''), (''github_run_id'', JStr ''7''), (''launchRecord'', demo_launch_run)]"

lemma demo_status_valid: "cr_valid (validateTemporalFinalStatus demo_status demo_context)"
  by code_simp

theorem success_is_gated_witness: "js_get (js_get demo_status ''branch_push'') ''result'' = JStr ''succeeded''"
proof -
  have "js_get demo_status ''result'' = JStr ''succeeded''" by code_simp
  from success_is_gated [OF demo_status_valid this] show ?thesis by blast
qed

theorem touched_paths_safe_witness: "\<exists>paths. js_get demo_status ''touched_paths'' = JArr (map JStr paths)"
  using touched_paths_safe [OF demo_status_valid] by blast

end
