(* ===== verification/WorkflowReducer.thy ===== *)
theory WorkflowReducer imports ContractProperties begin

text \<open>How the workflow reducer (TemporalWorkflow) changes a state: the fields an accepted event leaves, the events it accepts as an
  inductive relation, and the lifecycle of an attempt as the specification it refines.\<close>

section \<open>What an accepted event leaves in the state\<close>

lemma spread_get [simp]: "is_plain_object s \<Longrightarrow> obj_get (js_spread s) k = js_get s k"
  by (auto simp: is_plain_object_iff)

lemma persist_get [simp]:
  "is_plain_object state \<Longrightarrow> js_get (persist payload keys state) k =
     (if k \<in> set keys \<and> k \<notin> set WRITE_ONCE_WRAPPER_BINDING_FIELDS \<and> js_get payload k \<noteq> JUndef then js_get payload k
      else js_get state k)"
proof (induction keys arbitrary: state)
  case (Cons key keys)
  have "persist payload (key # keys) state = persist payload keys
      (if key \<in> set WRITE_ONCE_WRAPPER_BINDING_FIELDS \<or> js_get payload key = JUndef then state
       else js_put key (js_get payload key) state)" by (simp add: persist_def)
  with Cons show ?case by auto
qed (simp add: persist_def)

lemma persist_plain [simp]: "is_plain_object state \<Longrightarrow> is_plain_object (persist payload keys state)"
  unfolding persist_def by (induction keys arbitrary: state) auto

lemma wrapper_binding_get [simp]:
  "is_plain_object state \<Longrightarrow> k \<noteq> ''expected_wrapper_source'' \<Longrightarrow> k \<noteq> ''expected_wrapper_digest'' \<Longrightarrow>
     js_get (persistExpectedWrapperBindingFromInput state previous payload) k = js_get state k"
  by (simp add: persistExpectedWrapperBindingFromInput_def Let_def)

lemma wrapper_binding_kept:
  "is_plain_object state \<Longrightarrow> k \<in> set WRITE_ONCE_WRAPPER_BINDING_FIELDS \<Longrightarrow> js_get previous k \<noteq> JUndef \<Longrightarrow> js_get state k = js_get previous k \<Longrightarrow>
     js_get (persistExpectedWrapperBindingFromInput state previous payload) k = js_get previous k"
  by (auto simp: persistExpectedWrapperBindingFromInput_def Let_def WRITE_ONCE_WRAPPER_BINDING_FIELDS_def)

lemma persist_input_plain [simp]: "is_plain_object state \<Longrightarrow> is_plain_object (persist_input previous payload eventName state)"
  by (simp add: persist_input_def persistExpectedWrapperBindingFromInput_def Let_def)

lemma persist_input_get [simp]:
  "is_plain_object state \<Longrightarrow> k \<notin> {''output_branch'', ''expected_wrapper_source'', ''expected_wrapper_digest''} \<Longrightarrow>
     js_get (persist_input previous payload eventName state) k = js_get state k"
  by (simp add: persist_input_def)

lemma persist_input_other: "eventName \<noteq> ''input_valid'' \<Longrightarrow> persist_input previous payload eventName state = state"
  by (simp add: persist_input_def)

lemma mark_reconciliation_plain [simp]:
  "is_plain_object state \<Longrightarrow> is_plain_object (mark_reconciliation payload r emitOnly state)"
  by (simp add: mark_reconciliation_def split: option.split)

lemma mark_reconciliation_get [simp]:
  "is_plain_object state \<Longrightarrow> k \<notin> {''reconciliation_reason'', ''evidence_packet_id''} \<Longrightarrow>
     js_get (mark_reconciliation payload r emitOnly state) k = js_get state k"
  by (simp add: mark_reconciliation_def split: option.split)

lemma append_logs_plain [simp]: "is_plain_object (append_logs p r d m state)"
  by (simp add: append_logs_def)

lemma append_logs_get [simp]:
  "is_plain_object state \<Longrightarrow> js_get (append_logs p r d m state) k =
     (if k = ''emitted_records'' then append_item (js_get p k) m
      else if k = ''operator_decisions'' then append_item (js_get p k) d
      else if k = ''reconciliation_records'' then append_item (js_get p k) r
      else js_get state k)"
  by (simp add: append_logs_def)

lemma accepted_iff:
  "accepted previous eventName payload nextState options = Accepted s' from ev to r m d \<longleftrightarrow>
     (case ao_reason options of None \<Rightarrow> r = None
       | Some reason \<Rightarrow> r \<noteq> None \<and> r = reconciliationRecordFor previous eventName payload reason) \<and>
     s' = accepted_state previous eventName payload nextState options r \<and>
     from = state_name previous \<and> ev = JStr eventName \<and> to = nextState \<and> m = ao_emitted options \<and> d = ao_decision options"
  by (auto simp: accepted_def Let_def split: option.splits)

lemma accepted_not_rejected: "accepted previous eventName payload nextState options \<noteq> Rejected s es"
  by (simp add: accepted_def Let_def)

section \<open>Normalized states\<close>

lemma normalize_get [simp]:
  "js_get (normalizeState s) k =
     (if k \<in> {''emitted_records'', ''operator_decisions'', ''reconciliation_records''} then state_array s k
      else if k = ''state'' then js_or_nullish (js_get s ''state'') (JStr ''input_validating'')
      else js_get s k)"
  by (cases s) (simp_all add: normalizeState_def Let_def state_array_def)

definition workflow_object :: "jsval \<Rightarrow> bool" where
  "workflow_object s \<longleftrightarrow> is_plain_object s \<and> (\<exists>n. state_name s = JStr n) \<and>
     (\<forall>k\<in>{''reconciliation_records'', ''operator_decisions'', ''emitted_records''}. is_array (js_get s k))"

lemma workflow_object_get: "workflow_object s \<Longrightarrow> js_get (normalizeState s) k = js_get s k"
  by (auto simp: workflow_object_def state_array_def state_name_def js_or_nullish_def nullish_def)

section \<open>What the reducer accepts\<close>

text \<open>The calls of \<open>accepted\<close> that the reducer makes, with the checks that passed before.\<close>

inductive accepts :: "jsval \<Rightarrow> string \<Rightarrow> jsval \<Rightarrow> jsval \<Rightarrow> accept_options \<Rightarrow> bool" for state where
  table: "spec \<in> set TRANSITIONS \<Longrightarrow> in_state state (ts_source spec) \<Longrightarrow>
     validateTransitionPayload state payload spec (validateRequiredPayload payload (ts_required spec)) = [] \<Longrightarrow>
     accepts state (ts_event spec) payload (JStr (ts_next spec)) (spec_options spec)"
| cancel_early: "state_name state = JStr n \<Longrightarrow> n \<in> {''input_validating'', ''ready_to_dispatch''} \<Longrightarrow>
     accepts state ''cancel_requested'' payload (JStr ''cancelled'') no_options"
| cancel_creating: "in_state state ''launch_ref_creating'' \<Longrightarrow>
     accepts state ''cancel_requested'' payload (JStr ''cancel_requested'') (no_options\<lparr>ao_persist := [''known_github_run_id'']\<rparr>)"
| cancel_running: "state_name state = JStr n \<Longrightarrow>
     n \<in> {''launch_ref_created'', ''github_run_observing'', ''github_run_active'', ''artifact_collecting'', ''status_validating''} \<Longrightarrow>
     accepts state ''cancel_requested'' payload (JStr ''cancel_observing'') (no_options\<lparr>ao_persist := [''known_github_run_id'']\<rparr>)"
| supersede: "state_name state = JStr n \<Longrightarrow> n \<in> set TEMPORAL_WORKFLOW_STATES - set TEMPORAL_TERMINAL_WORKFLOW_STATES \<Longrightarrow>
     validateNewAttemptPayload state payload = [] \<Longrightarrow>
     accepts state ''supersede_requested'' payload (JStr ''superseded'')
       (no_options\<lparr>ao_emitted := Some (supersession_record state payload)\<rparr>)"
| late: "state_name state = JStr n \<Longrightarrow> n \<in> {''cancelled'', ''superseded''} \<Longrightarrow>
     accepts state ''late_trusted_output_observed'' payload (JStr n) (no_options\<lparr>ao_reason := Some (late_reason state)\<rparr>)"
| conflict: "state_name state = JStr n \<Longrightarrow> n \<in> {''succeeded'', ''no_changes'', ''failed'', ''inconclusive''} \<Longrightarrow>
     accepts state ''post_terminal_evidence_conflict'' payload (JStr n) (no_options\<lparr>ao_reason := Some ''temporal_github_disagreement''\<rparr>)"
| observe_again: "in_state state ''operator_reconciliation_required'' \<Longrightarrow>
     accepts state ''operator_decision'' payload (JStr ''github_run_observing'')
       (no_options\<lparr>ao_decision := Some r, ao_persist := [''observed_launch_sha'']\<rparr>)"
| retry_new: "state_name state = JStr n \<Longrightarrow> n \<in> insert ''operator_reconciliation_required'' (set NON_SUCCESS_TERMINAL_STATES) \<Longrightarrow>
     validateNewAttemptPayload state payload = [] \<Longrightarrow>
     accepts state ''operator_decision'' payload (retry_disposition state payload)
       (no_options\<lparr>ao_decision := Some r, ao_emitted := Some (new_attempt_record state payload)\<rparr>)"
| mark_failed: "state_name state = JStr n \<Longrightarrow> n \<in> {''operator_reconciliation_required'', ''inconclusive''} \<or> isLateOutputReconciliationCase state \<Longrightarrow>
     accepts state ''operator_decision'' payload (JStr ''failed'') (no_options\<lparr>ao_decision := Some r\<rparr>)"
| mark_inconclusive: "state_name state = JStr n \<Longrightarrow> n = ''operator_reconciliation_required'' \<or> isLateOutputReconciliationCase state \<Longrightarrow>
     accepts state ''operator_decision'' payload (JStr ''inconclusive'') (no_options\<lparr>ao_decision := Some r\<rparr>)"
| accept_late: "state_name state = JStr n \<Longrightarrow> n \<in> {''cancelled'', ''superseded''} \<Longrightarrow> isLateOutputReconciliationCase state \<Longrightarrow>
     accepts state ''operator_decision'' payload (JStr n)
       (no_options\<lparr>ao_decision := Some r, ao_emitted := Some (late_output_record state payload)\<rparr>)"
| abandon: "in_state state ''operator_reconciliation_required'' \<Longrightarrow> d \<in> {''failed'', ''inconclusive''} \<Longrightarrow>
     accepts state ''operator_decision'' payload (JStr d) (no_options\<lparr>ao_decision := Some r\<rparr>)"
| abandon_late: "state_name state = JStr n \<Longrightarrow> n \<in> {''cancelled'', ''superseded''} \<Longrightarrow> isLateOutputReconciliationCase state \<Longrightarrow>
     accepts state ''operator_decision'' payload (JStr n)
       (no_options\<lparr>ao_decision := Some r, ao_emitted := Some (abandoned_record payload)\<rparr>)"

lemma separator_inj: "c \<notin> set a \<Longrightarrow> c \<notin> set b \<Longrightarrow> a @ c # x = b @ c # y \<longleftrightarrow> a = b \<and> x = y"
proof (induction a arbitrary: b)
  case Nil then show ?case by (cases b) auto
next
  case (Cons z a) then show ?case by (cases b) auto
qed

lemma states_no_colon: "n \<in> set TEMPORAL_WORKFLOW_STATES \<Longrightarrow> CHR '':'' \<notin> set n"
  by (auto simp: TEMPORAL_WORKFLOW_STATES_def)

lemma sources_known: "spec \<in> set TRANSITIONS \<Longrightarrow> ts_source spec \<in> set TEMPORAL_WORKFLOW_STATES"
proof -
  have "list_all (\<lambda>spec. ts_source spec \<in> set TEMPORAL_WORKFLOW_STATES) TRANSITIONS" by code_simp
  then show "spec \<in> set TRANSITIONS \<Longrightarrow> ts_source spec \<in> set TEMPORAL_WORKFLOW_STATES" by (simp add: list_all_iff)
qed

lemma transition_found:
  assumes "TRANSITIONS_BY_KEY (transition_key n event) = Some spec" and "n \<in> set TEMPORAL_WORKFLOW_STATES"
  shows "spec \<in> set TRANSITIONS" and "ts_source spec = n" and "ts_event spec = event"
proof -
  from assms(1) show m: "spec \<in> set TRANSITIONS" by (auto simp: TRANSITIONS_BY_KEY_def find_Some_iff)
  from assms(1) have "transition_key (ts_source spec) (ts_event spec) = transition_key n event"
    by (auto simp: TRANSITIONS_BY_KEY_def find_Some_iff)
  then show "ts_source spec = n" "ts_event spec = event"
    using states_no_colon [OF assms(2)] states_no_colon [OF sources_known [OF m]]
    by (auto simp: transition_key_def separator_inj)
qed

lemma validateTransitionPayload_required:
  "validateTransitionPayload state payload spec errors = [] \<Longrightarrow> errors = []"
  by (auto simp: validateTransitionPayload_def final_status_payload_errors_def Let_def contract_valid split: option.splits if_splits)

lemma accept_checked_iff:
  "accept_checked state n payload es next options = Accepted s' from ev to r m d \<longleftrightarrow>
     es = [] \<and> accepted state n payload next options = Accepted s' from ev to r m d"
  by (simp add: accept_checked_def)

lemma reduce_transition_accepts:
  assumes "reduce_transition state n payload = Accepted s' from ev to r m d"
    and "state_name state = JStr k" and "k \<in> set TEMPORAL_WORKFLOW_STATES"
  shows "\<exists>next options. accepts state n payload next options \<and> accepted state n payload next options = Accepted s' from ev to r m d"
proof -
  obtain spec where f: "TRANSITIONS_BY_KEY (transition_key k n) = Some spec"
    and v: "validateTransitionPayload state payload spec (validateRequiredPayload payload (ts_required spec)) = []"
    and a: "accepted state n payload (JStr (ts_next spec)) (spec_options spec) = Accepted s' from ev to r m d"
    using assms(1,2)
    by (auto simp: reduce_transition_def illegal_transition_def accept_checked_iff split: option.splits)
  note t = transition_found [OF f assms(3)]
  have "accepts state (ts_event spec) payload (JStr (ts_next spec)) (spec_options spec)"
    using t assms(2) v by (intro table) simp_all
  then show ?thesis using a t by blast
qed

lemma post_terminal_accepts:
  assumes "reducePostTerminalEvent state n payload = Some (Accepted s' from ev to r m d)" and k: "state_name state = JStr k"
  shows "\<exists>next options. accepts state n payload next options \<and> accepted state n payload next options = Accepted s' from ev to r m d"
proof -
  consider (late) "n = ''late_trusted_output_observed''" "k \<in> {''cancelled'', ''superseded''}"
      "accepted state n payload (JStr k) (no_options\<lparr>ao_reason := Some (late_reason state)\<rparr>) = Accepted s' from ev to r m d"
    | (conflict) "n = ''post_terminal_evidence_conflict''" "k \<in> {''succeeded'', ''no_changes'', ''failed'', ''inconclusive''}"
      "accepted state n payload (JStr k) (no_options\<lparr>ao_reason := Some ''temporal_github_disagreement''\<rparr>) = Accepted s' from ev to r m d"
    using assms(1) unfolding reducePostTerminalEvent_def k set_has.simps
    by (simp add: accept_checked_iff split: if_splits)
  then show ?thesis
  proof cases
    case late
    show ?thesis unfolding late(1) by (intro exI conjI) (rule accepts.late [OF k late(2)], rule late(3) [unfolded late(1)])
  next
    case conflict
    show ?thesis unfolding conflict(1) by (intro exI conjI) (rule accepts.conflict [OF k conflict(2)], rule conflict(3) [unfolded conflict(1)])
  qed
qed

lemma cancellation_accepts:
  assumes "reduceCancellation state n payload = Some (Accepted s' from ev to r m d)" and k: "state_name state = JStr k"
  shows "\<exists>next options. accepts state n payload next options \<and> accepted state n payload next options = Accepted s' from ev to r m d"
proof -
  have n: "n = ''cancel_requested''" using assms(1) by (simp add: reduceCancellation_def split: if_splits)
  consider (early) "k \<in> {''input_validating'', ''ready_to_dispatch''}"
      "accepted state n payload (JStr ''cancelled'') no_options = Accepted s' from ev to r m d"
    | (creating) "k = ''launch_ref_creating''"
      "accepted state n payload (JStr ''cancel_requested'') (no_options\<lparr>ao_persist := [''known_github_run_id'']\<rparr>) =
         Accepted s' from ev to r m d"
    | (running) "k \<in> {''launch_ref_created'', ''github_run_observing'', ''github_run_active'', ''artifact_collecting'', ''status_validating''}"
      "accepted state n payload (JStr ''cancel_observing'') (no_options\<lparr>ao_persist := [''known_github_run_id'']\<rparr>) =
         Accepted s' from ev to r m d"
    using assms(1) unfolding reduceCancellation_def k set_has.simps Let_def illegal_transition_def
    by (simp split: if_splits)
  then show ?thesis
  proof cases
    case early
    show ?thesis unfolding n by (intro exI conjI) (rule accepts.cancel_early [OF k early(1)], rule early(2) [unfolded n])
  next
    case creating
    have c: "in_state state ''launch_ref_creating''" using k creating(1) by simp
    show ?thesis unfolding n
      by (intro exI conjI) (rule accepts.cancel_creating [OF c], rule creating(2) [unfolded n])
  next
    case running
    show ?thesis unfolding n by (intro exI conjI) (rule accepts.cancel_running [OF k running(1)], rule running(2) [unfolded n])
  qed
qed

lemma supersession_accepts:
  assumes "reduceSupersession state n payload = Some (Accepted s' from ev to r m d)" and k: "state_name state = JStr k"
    and "k \<in> set TEMPORAL_WORKFLOW_STATES - set TEMPORAL_TERMINAL_WORKFLOW_STATES"
  shows "\<exists>next options. accepts state n payload next options \<and> accepted state n payload next options = Accepted s' from ev to r m d"
proof -
  have n: "n = ''supersede_requested''" using assms(1) by (simp add: reduceSupersession_def split: if_splits)
  have v: "validateNewAttemptPayload state payload = []"
    and a: "accepted state n payload (JStr ''superseded'') (no_options\<lparr>ao_emitted := Some (supersession_record state payload)\<rparr>) =
       Accepted s' from ev to r m d"
    using assms(1) unfolding reduceSupersession_def n by (simp_all add: accept_checked_iff)
  show ?thesis unfolding n by (intro exI conjI) (rule accepts.supersede [OF k assms(3) v], rule a [unfolded n])
qed

lemma reduce_event_accepts:
  assumes "reduce_event state n payload = Accepted s' from ev to r m d"
    and "state_name state = JStr k" and "k \<in> set TEMPORAL_WORKFLOW_STATES"
  shows "\<exists>next options. accepts state n payload next options \<and> accepted state n payload next options = Accepted s' from ev to r m d"
proof (cases "reducePostTerminalEvent state n payload")
  case (Some q)
  then have "reducePostTerminalEvent state n payload = Some (Accepted s' from ev to r m d)"
    using assms(1) by (simp add: reduce_event_def)
  from post_terminal_accepts [OF this assms(2)] show ?thesis .
next
  case None
  then have t: "\<not> terminal_state state" using assms(1) by (auto simp: reduce_event_def split: if_splits)
  show ?thesis
  proof (cases "reduceCancellation state n payload")
    case (Some q)
    then have "reduceCancellation state n payload = Some (Accepted s' from ev to r m d)"
      using assms(1) None t by (simp add: reduce_event_def)
    from cancellation_accepts [OF this assms(2)] show ?thesis .
  next
    case c: None
    show ?thesis
    proof (cases "reduceSupersession state n payload")
      case (Some q)
      then have "reduceSupersession state n payload = Some (Accepted s' from ev to r m d)"
        using assms(1) None t c by (simp add: reduce_event_def)
      from supersession_accepts [OF this assms(2)] show ?thesis using assms(2,3) t by simp
    next
      case d: None
      then show ?thesis using assms None t c by (intro reduce_transition_accepts) (simp_all add: reduce_event_def)
    qed
  qed
qed


lemma late_case_state: "isLateOutputReconciliationCase state \<Longrightarrow> state_name state = JStr k \<Longrightarrow> k \<in> {''cancelled'', ''superseded''}"
  by (simp add: isLateOutputReconciliationCase_def)

lemma decide_accepts:
  assumes "decide state decision payload = Accepted s' from ev to r m d"
    and v: "validateOperatorDecisionPayload state decision payload = []"
    and k: "state_name state = JStr k"
  shows "\<exists>next options. accepts state ''operator_decision'' payload next options \<and>
     accepted state ''operator_decision'' payload next options = Accepted s' from ev to r m d"
proof -
  note d = assms(1) [unfolded decide_def Let_def]
  have nt: "terminal_state state \<Longrightarrow> canApplyOperatorDecisionToTerminalState state decision"
    using v by (auto simp: validateOperatorDecisionPayload_def contract_valid split: if_splits)
  note p = v [unfolded validateOperatorDecisionPayload_def]
  have late: "isLateOutputReconciliationCase state"
    if n: "k \<in> {''cancelled'', ''superseded''}" and e: "decision = JStr ''accept_late_output'' \<or> decision = JStr ''abandon''"
  proof -
    have "terminal_state state" using n k by (auto simp: TEMPORAL_TERMINAL_WORKFLOW_STATES_def)
    from nt [OF this] show ?thesis using e by (elim disjE) (simp_all add: canApplyOperatorDecisionToTerminalState_def)
  qed
  consider (observe) "decision = JStr ''retry_same_attempt_observe_only''" | (retry) "decision = JStr ''retry_new_attempt''"
    | (failed) "decision = JStr ''mark_failed''" | (inconclusive) "decision = JStr ''mark_inconclusive''"
    | (accept) "decision = JStr ''accept_late_output''" | (abandon) "decision = JStr ''abandon''"
    using d by (auto split: if_splits)
  then show ?thesis
  proof cases
    case observe
    have "in_state state ''operator_reconciliation_required''"
      using p nt unfolding observe by (auto simp: contract_valid canApplyOperatorDecisionToTerminalState_def split: if_splits)
    then show ?thesis using d unfolding observe by (intro exI conjI) (rule accepts.observe_again, assumption, simp)
  next
    case retry
    have "k \<in> insert ''operator_reconciliation_required'' (set NON_SUCCESS_TERMINAL_STATES)"
      and n: "validateNewAttemptPayload state payload = []"
      using p nt k unfolding retry by (auto simp: contract_valid canApplyOperatorDecisionToTerminalState_def retry_new_errors_def split: if_splits)
    then show ?thesis using d unfolding retry by (intro exI conjI) (rule accepts.retry_new [OF k], assumption, assumption, simp)
  next
    case failed
    have "k \<in> {''operator_reconciliation_required'', ''inconclusive''} \<or> isLateOutputReconciliationCase state"
      using p k unfolding failed by (auto simp: contract_valid split: if_splits)
    then show ?thesis using d unfolding failed by (intro exI conjI) (rule accepts.mark_failed [OF k], assumption, simp)
  next
    case inconclusive
    have "k = ''operator_reconciliation_required'' \<or> isLateOutputReconciliationCase state"
      using p k unfolding inconclusive by (auto simp: contract_valid split: if_splits)
    then show ?thesis using d unfolding inconclusive by (intro exI conjI) (rule accepts.mark_inconclusive [OF k], assumption, simp)
  next
    case accept
    have n: "k \<in> {''cancelled'', ''superseded''}"
      using p k unfolding accept by (auto simp: contract_valid split: if_splits)
    have a: "accepts state ''operator_decision'' payload (JStr k) (no_options\<lparr>ao_decision := Some (decision_record state decision payload),
        ao_emitted := Some (late_output_record state payload)\<rparr>)"
      by (rule accepts.accept_late [OF k n late [OF n]]) (simp add: accept)
    show ?thesis using d k unfolding accept by (intro exI conjI) (rule a [unfolded accept], simp)
  next
    case abandon
    have n: "k \<in> {''operator_reconciliation_required'', ''cancelled'', ''superseded''}"
      and t: "js_get payload ''terminal_disposition'' \<in> {JStr ''failed'', JStr ''inconclusive''}"
      using p k unfolding abandon by (auto simp: contract_valid set_has_iff split: if_splits)
    show ?thesis
    proof (cases "k = ''operator_reconciliation_required''")
      case True
      then have o: "in_state state ''operator_reconciliation_required''" using k by simp
      from t obtain x where x: "js_get payload ''terminal_disposition'' = JStr x" "x \<in> {''failed'', ''inconclusive''}" by auto
      show ?thesis using d k True x(1) unfolding abandon
        by (intro exI conjI) (rule accepts.abandon [OF o x(2)], simp)
    next
      case False
      with n have l: "k \<in> {''cancelled'', ''superseded''}" by simp
      have a: "accepts state ''operator_decision'' payload (JStr k) (no_options\<lparr>ao_decision := Some (decision_record state decision payload),
          ao_emitted := Some (abandoned_record payload)\<rparr>)"
        by (rule accepts.abandon_late [OF k l late [OF l]]) (simp add: abandon)
      show ?thesis using d k False unfolding abandon by (intro exI conjI) (rule a [unfolded abandon], simp)
    qed
  qed
qed

lemma update_same [simp]: "update_prop k (obj_get kvs k) kvs = kvs"
  by (induction kvs) auto

lemma put_same: "k \<in> fst ` set kvs \<Longrightarrow> obj_get kvs k = v \<Longrightarrow> obj_put k v kvs = kvs"
  by (auto simp: obj_put_def)

lemma js_put_same: "has_own s k \<Longrightarrow> js_get s k = v \<Longrightarrow> js_put k v s = s"
  by (cases s) (auto simp: js_put_def has_own_def image_iff intro!: put_same)

lemma has_own_put [simp]: "has_own (js_put k v s) k' \<longleftrightarrow> k' = k \<or> k' \<in> fst ` set (js_spread s)"
  by (simp add: js_put_def has_own_def)

lemma normalize_idem [simp]: "normalizeState (normalizeState s) = normalizeState s"
proof -
  let ?n = "normalizeState s"
  have o: "is_plain_object ?n" by (simp add: normalizeState_def Let_def)
  have h: "has_own ?n k" if "k \<in> {''state'', ''reconciliation_records'', ''operator_decisions'', ''emitted_records''}" for k
    using that by (auto simp: normalizeState_def Let_def)
  have a: "state_array ?n k = js_get ?n k" if "k \<in> {''reconciliation_records'', ''operator_decisions'', ''emitted_records''}" for k
    using that by (auto simp: state_array_def)
  have n: "js_or_nullish (js_get ?n ''state'') (JStr ''input_validating'') = js_get ?n ''state''"
    by (auto simp: js_or_nullish_def nullish_def)
  have "js_put ''state'' (js_get ?n ''state'') ?n = ?n" by (rule js_put_same [OF h HOL.refl]) simp
  moreover have "js_put k (state_array ?n k) ?n = ?n"
    if "k \<in> {''reconciliation_records'', ''operator_decisions'', ''emitted_records''}" for k
    unfolding a [OF that] by (rule js_put_same [OF h HOL.refl]) (use that in auto)
  ultimately show ?thesis using o n by (subst normalizeState_def) (simp add: Let_def)
qed

lemma reduce_accepts:
  assumes "reduceTemporalWorkflowState s e = Accepted s' from ev to r m d"
  obtains k n payload "next" options where "state_name (normalizeState s) = JStr k" and "k \<in> set TEMPORAL_WORKFLOW_STATES"
    and "payload = (if is_plain_object (js_get e ''payload'') then js_get e ''payload'' else JObj [])"
    and "accepts (normalizeState s) n payload next options"
    and "accepted (normalizeState s) n payload next options = Accepted s' from ev to r m d"
    and "js_or_nullish (js_get e ''type'') (js_get e ''event'') = JStr n"
proof -
  define payload where "payload = (if is_plain_object (js_get e ''payload'') then js_get e ''payload'' else JObj [])"
  let ?s = "normalizeState s" and ?n = "js_or_nullish (js_get e ''type'') (js_get e ''event'')"
  have b: "set_has TEMPORAL_WORKFLOW_STATES (state_name ?s)" "nonblank ?n"
    using assms by (auto simp: reduceTemporalWorkflowState_def Let_def contract_valid split: if_splits)
  then obtain k n where k: "state_name ?s = JStr k" "k \<in> set TEMPORAL_WORKFLOW_STATES" and n: "?n = JStr n"
    by (auto simp: set_has_iff nonblank_iff)
  have p: "is_plain_object payload" by (simp add: payload_def)
  have "\<exists>next options. accepts ?s n payload next options \<and> accepted ?s n payload next options = Accepted s' from ev to r m d"
  proof (cases "n = ''operator_decision''")
    case True
    then have "applyTemporalOperatorDecision ?s (js_or_nullish (js_get e ''decision'') (js_get payload ''decision'')) payload =
        Accepted s' from ev to r m d"
      using assms b n by (simp add: reduceTemporalWorkflowState_def Let_def contract_valid payload_def)
    then obtain decision where "decide ?s decision payload = Accepted s' from ev to r m d"
      and "validateOperatorDecisionPayload ?s decision payload = []"
      using p by (auto simp: applyTemporalOperatorDecision_def Let_def js_default_def split: if_splits decision_lookup.splits)
    from decide_accepts [OF this k(1)] show ?thesis unfolding True .
  next
    case False
    then have "reduce_event ?s n payload = Accepted s' from ev to r m d"
      using assms b n by (simp add: reduceTemporalWorkflowState_def Let_def contract_valid payload_def)
    from reduce_event_accepts [OF this k] show ?thesis .
  qed
  with that k n show thesis unfolding payload_def by blast
qed

lemma accepts_reason:
  assumes "accepts state n payload next options" and "ao_reason options = Some reason"
  shows "reason \<in> set TEMPORAL_RECONCILIATION_REASONS"
proof -
  have t: "list_all (\<lambda>spec. case ts_reason spec of None \<Rightarrow> True | Some r \<Rightarrow> r \<in> set TEMPORAL_RECONCILIATION_REASONS) TRANSITIONS"
    by code_simp
  from assms show ?thesis
  proof cases
    case (table spec)
    then show ?thesis using t assms(2) by (auto simp: list_all_iff spec_options_def split: option.splits)
  qed (auto simp: no_options_def late_reason_def TEMPORAL_RECONCILIATION_REASONS_def)
qed

section \<open>The fields of the next state\<close>

text \<open>The fields that no event persists: the state, the logs and the wrapper binding.\<close>

lemma accepts_persist:
  assumes "accepts state n payload next options" and "k \<in> set (ao_persist options)"
  shows "k \<notin> {''state'', ''last_event'', ''reconciliation_records'', ''operator_decisions'', ''emitted_records'', ''output_branch''} \<and>
    (n \<noteq> ''input_valid'' \<longrightarrow> k \<notin> {''attempt_id'', ''dispatch_idempotency_key'', ''base_sha'', ''expected_launch_sha''})"
proof -
  have t: "list_all (\<lambda>spec. list_all (\<lambda>k. k \<notin> set [''state'', ''last_event'', ''reconciliation_records'', ''operator_decisions'',
      ''emitted_records'', ''output_branch''] \<and>
      (ts_event spec = ''input_valid'' \<or> k \<notin> set [''attempt_id'', ''dispatch_idempotency_key'', ''base_sha'', ''expected_launch_sha'']))
      (ts_persist spec)) TRANSITIONS"
    by code_simp
  from assms show ?thesis
  proof cases
    case (table spec)
    then have "k \<in> set (ts_persist spec)" using assms(2) by (simp add: spec_options_def)
    with t table show ?thesis unfolding list_all_iff by fastforce
  qed (use assms(2) in \<open>simp_all add: no_options_def\<close>)
qed

lemma normalize_plain [simp]: "is_plain_object (normalizeState s)"
  by (simp add: normalizeState_def Let_def)

lemma accepted_state_get:
  assumes "k \<notin> {''last_event'', ''output_branch'', ''expected_wrapper_source'', ''expected_wrapper_digest'', ''reconciliation_reason'',
      ''evidence_packet_id''}"
    and "accepts previous n payload next options" and "is_plain_object previous"
  shows "js_get (accepted_state previous n payload next options r) k =
     (if k = ''emitted_records'' then append_item (js_get previous k) (ao_emitted options)
      else if k = ''operator_decisions'' then append_item (js_get previous k) (ao_decision options)
      else if k = ''reconciliation_records'' then append_item (js_get previous k) r
      else if k = ''state'' then next
      else if k \<in> set (ao_persist options) \<and> js_get payload k \<noteq> JUndef then js_get payload k
      else js_get previous k)"
  using assms accepts_persist [OF assms(2), of k]
  by (auto simp: accepted_state_def WRITE_ONCE_WRAPPER_BINDING_FIELDS_def)

lemma accepted_state_plain [simp]: "is_plain_object (accepted_state previous n payload next options r)"
  by (simp add: accepted_state_def)

section \<open>The lifecycle of an attempt\<close>

text \<open>The specification: the phases of an attempt and its outcomes. An open attempt is prepared, launched, run and judged; it can
  be cancelled or superseded, or stop for an operator. An outcome stays, but for those that an operator may correct.\<close>

datatype outcome = Succeeded | NoChanges | Failed | Cancelled | Superseded | Inconclusive

datatype attempt_phase = Preparing | Launching | Running | Judging | Cancelling | Reconciling | Done outcome

inductive attempt_step :: "attempt_phase \<Rightarrow> attempt_phase \<Rightarrow> bool" where
  prepare: "p \<in> {Preparing, Launching, Done Failed, Done Cancelled} \<Longrightarrow> attempt_step Preparing p"
| launch: "p \<in> {Launching, Running, Reconciling, Cancelling} \<Longrightarrow> attempt_step Launching p"
| run: "p \<in> {Running, Judging, Reconciling, Cancelling} \<Longrightarrow> attempt_step Running p"
| judge: "p \<in> {Judging, Cancelling, Done Succeeded, Done NoChanges, Done Failed, Done Inconclusive} \<Longrightarrow> attempt_step Judging p"
| cancel: "attempt_step Cancelling (Done Cancelled)"
| reconcile: "p \<in> {Running, Done Failed, Done Inconclusive} \<Longrightarrow> attempt_step Reconciling p"
| supersede: "p \<noteq> Done k \<Longrightarrow> attempt_step p (Done Superseded)"
| evidence: "attempt_step (Done k) (Done k)"
| correct: "k \<in> {Cancelled, Superseded, Inconclusive} \<Longrightarrow> attempt_step (Done k) (Done Failed)"
| withdraw: "k \<in> {Cancelled, Superseded} \<Longrightarrow> attempt_step (Done k) (Done Inconclusive)"

inductive_cases attempt_from_done: "attempt_step (Done k) p"
inductive_cases attempt_to_success: "attempt_step p (Done Succeeded)"

definition phase_table :: "(string \<times> attempt_phase) list" where
  "phase_table =
    [(''input_validating'', Preparing), (''ready_to_dispatch'', Preparing), (''launch_ref_creating'', Launching),
     (''launch_ref_created'', Launching), (''dispatch_uncertain'', Launching), (''github_run_observing'', Running),
     (''github_run_active'', Running), (''artifact_collecting'', Judging), (''status_validating'', Judging),
     (''succeeded'', Done Succeeded), (''no_changes'', Done NoChanges), (''failed'', Done Failed), (''cancel_requested'', Cancelling),
     (''cancel_observing'', Cancelling), (''cancelled'', Done Cancelled), (''superseded'', Done Superseded),
     (''inconclusive'', Done Inconclusive), (''operator_reconciliation_required'', Reconciling)]"

definition phase_of :: "jsval \<Rightarrow> attempt_phase option" where
  "phase_of v = (case v of JStr n \<Rightarrow> map_of phase_table n | _ \<Rightarrow> None)"

lemma phase_known: "n \<in> set TEMPORAL_WORKFLOW_STATES \<longleftrightarrow> (\<exists>p. phase_of (JStr n) = Some p)"
  by (simp add: TEMPORAL_WORKFLOW_STATES_def phase_of_def phase_table_def)

lemma phase_of_simps [simp]:
  "phase_of (JStr ''input_validating'') = Some Preparing" "phase_of (JStr ''ready_to_dispatch'') = Some Preparing"
  "phase_of (JStr ''launch_ref_creating'') = Some Launching" "phase_of (JStr ''launch_ref_created'') = Some Launching"
  "phase_of (JStr ''dispatch_uncertain'') = Some Launching" "phase_of (JStr ''github_run_observing'') = Some Running"
  "phase_of (JStr ''github_run_active'') = Some Running" "phase_of (JStr ''artifact_collecting'') = Some Judging"
  "phase_of (JStr ''status_validating'') = Some Judging" "phase_of (JStr ''succeeded'') = Some (Done Succeeded)"
  "phase_of (JStr ''no_changes'') = Some (Done NoChanges)" "phase_of (JStr ''failed'') = Some (Done Failed)"
  "phase_of (JStr ''cancel_requested'') = Some Cancelling" "phase_of (JStr ''cancel_observing'') = Some Cancelling"
  "phase_of (JStr ''cancelled'') = Some (Done Cancelled)" "phase_of (JStr ''superseded'') = Some (Done Superseded)"
  "phase_of (JStr ''inconclusive'') = Some (Done Inconclusive)" "phase_of (JStr ''operator_reconciliation_required'') = Some Reconciling"
  by (simp_all add: phase_of_def phase_table_def)

definition phase_step :: "jsval \<Rightarrow> jsval \<Rightarrow> bool" where
  "phase_step a b \<longleftrightarrow> (\<exists>p q. phase_of a = Some p \<and> phase_of b = Some q \<and> attempt_step p q)"

lemma table_step: "list_all (\<lambda>spec. phase_step (JStr (ts_source spec)) (JStr (ts_next spec))) TRANSITIONS"
  by (simp add: TRANSITIONS_def transition_def phase_step_def attempt_step.simps)

lemma state_cases:
  assumes "k \<in> set TEMPORAL_TERMINAL_WORKFLOW_STATES"
  shows "\<exists>c. phase_of (JStr k) = Some (Done c)"
  using assms by (auto simp: TEMPORAL_TERMINAL_WORKFLOW_STATES_def)

lemma open_phase:
  assumes "k \<in> set TEMPORAL_WORKFLOW_STATES - set TEMPORAL_TERMINAL_WORKFLOW_STATES"
  shows "\<exists>p. phase_of (JStr k) = Some p \<and> (\<forall>c. p \<noteq> Done c)"
proof -
  have "list_all (\<lambda>k. k \<in> set TEMPORAL_TERMINAL_WORKFLOW_STATES \<or>
      (case phase_of (JStr k) of None \<Rightarrow> False | Some p \<Rightarrow> (case p of Done c \<Rightarrow> False | _ \<Rightarrow> True))) TEMPORAL_WORKFLOW_STATES"
    by code_simp
  then show ?thesis using assms by (auto simp: list_all_iff split: option.splits attempt_phase.splits)
qed

lemma retry_step:
  assumes "state_name state = JStr k" and "k \<in> insert ''operator_reconciliation_required'' (set NON_SUCCESS_TERMINAL_STATES)"
  shows "phase_step (JStr k) (retry_disposition state payload)"
proof (cases "k = ''operator_reconciliation_required''")
  case True
  then have "\<not> terminal_state state" using assms(1) by (simp add: TEMPORAL_TERMINAL_WORKFLOW_STATES_def)
  then have "retry_disposition state payload \<in> {JStr ''superseded'', JStr ''failed''}" by (simp add: retry_disposition_def)
  then show ?thesis by (auto simp: phase_step_def True attempt_step.simps)
next
  case False
  then have t: "k \<in> set TEMPORAL_TERMINAL_WORKFLOW_STATES"
    using assms(2) by (auto simp: NON_SUCCESS_TERMINAL_STATES_def TEMPORAL_TERMINAL_WORKFLOW_STATES_def)
  then have "retry_disposition state payload = JStr k" using assms(1) by (simp add: retry_disposition_def)
  with state_cases [OF t] show ?thesis by (auto simp: phase_step_def intro: attempt_step.evidence)
qed

lemma accepts_step:
  assumes "accepts state n payload next options" and k: "state_name state = JStr k"
  shows "phase_step (JStr k) next"
  using assms(1)
proof cases
  case (table spec)
  then show ?thesis using table_step k by (simp add: list_all_iff)
next
  case (supersede n)
  then obtain p where "phase_of (JStr n) = Some p" "\<forall>c. p \<noteq> Done c" using open_phase by blast
  then show ?thesis using supersede k by (auto simp: phase_step_def intro: attempt_step.supersede)
next
  case (retry_new n)
  then show ?thesis using retry_step k by simp
next
  case (mark_failed n)
  then show ?thesis using k late_case_state [of state] by (auto simp: phase_step_def attempt_step.simps)
next
  case (mark_inconclusive n)
  then show ?thesis using k late_case_state [of state] by (auto simp: phase_step_def attempt_step.simps)
qed (use k in \<open>auto simp: phase_step_def attempt_step.simps\<close>)

end
