(* ===== verification/WorkflowProperties.thy ===== *)
theory WorkflowProperties imports WorkflowReducer begin

text \<open>Correctness of the workflow reducer: typed states, final outcomes, append-only logs, the write-once binding, bounded runs,
  progress, the only exception, and success bound to the attempt and its wrapper.\<close>

text \<open>C11: The reducer implements the lifecycle of an attempt: every event it accepts moves the attempt from the phase of its
  state to the phase of the next one by a step of the lifecycle.\<close>

theorem reducer_refines_lifecycle:
  assumes "reduceTemporalWorkflowState s e = Accepted s' from ev to r m d"
  shows "\<exists>p q. phase_of (state_name (normalizeState s)) = Some p \<and> phase_of (state_name s') = Some q \<and> attempt_step p q \<and>
    from = state_name (normalizeState s) \<and> to = state_name s'"
proof -
  obtain k n payload "next" options where k: "state_name (normalizeState s) = JStr k"
    and a: "accepts (normalizeState s) n payload next options"
    and e: "accepted (normalizeState s) n payload next options = Accepted s' from ev to r m d"
    by (rule reduce_accepts [OF assms])
  have t: "state_name s' = next" "from = JStr k" "to = next"
    using e accepted_state_get [OF _ a, of "''state''"] k by (auto simp: accepted_iff state_name_def)
  show ?thesis using accepts_step [OF a k] unfolding t k phase_step_def by auto
qed

theorem reducer_refines_lifecycle_witness:
  "\<exists>p q. phase_of (JStr ''input_validating'') = Some p \<and> phase_of (JStr ''cancelled'') = Some q \<and> attempt_step p q"
proof -
  let ?e = "JObj [(''type'', JStr ''cancel_requested''),
    (''payload'', JObj [(''operator_or_signal_id'', JStr ''o''), (''reason'', JStr ''r'')])]"
  have a: "reduceTemporalWorkflowState (createTemporalWorkflowState JUndef) ?e =
      Accepted (JObj [(''state'', JStr ''cancelled''), (''reconciliation_records'', JArr []), (''operator_decisions'', JArr []),
          (''emitted_records'', JArr []), (''last_event'', JStr ''cancel_requested'')])
        (JStr ''input_validating'') (JStr ''cancel_requested'') (JStr ''cancelled'') None None None" by code_simp
  have n: "state_name (normalizeState (createTemporalWorkflowState JUndef)) = JStr ''input_validating''" by code_simp
  from reducer_refines_lifecycle [OF a] show ?thesis unfolding n by (simp add: state_name_def)
qed

section \<open>Runs of the reducer\<close>

text \<open>Applying a list of events: the state after them when every one was accepted.\<close>

fun reduce_all :: "jsval \<Rightarrow> jsval list \<Rightarrow> jsval option" where
  "reduce_all s [] = Some s"
| "reduce_all s (e # es) =
     (case reduceTemporalWorkflowState s e of
        Accepted s' from ev to r m d \<Rightarrow> reduce_all s' es
      | _ \<Rightarrow> None)"

inductive workflow_next :: "jsval \<Rightarrow> jsval \<Rightarrow> bool" where
  "reduceTemporalWorkflowState s e = Accepted s' from ev to r m d \<Longrightarrow> workflow_next s s'"

inductive workflow_reachable :: "jsval \<Rightarrow> bool" where
  start: "workflow_reachable (createTemporalWorkflowState JUndef)"
| step: "workflow_reachable s \<Longrightarrow> workflow_next s s' \<Longrightarrow> workflow_reachable s'"

lemma next_accepts:
  assumes "workflow_next s s'"
  obtains k n payload "next" options r where "state_name (normalizeState s) = JStr k" and "k \<in> set TEMPORAL_WORKFLOW_STATES"
    and "accepts (normalizeState s) n payload next options"
    and "s' = accepted_state (normalizeState s) n payload next options r"
    and "r = (case ao_reason options of None \<Rightarrow> None
      | Some reason \<Rightarrow> reconciliationRecordFor (normalizeState s) n payload reason)"
  using assms
proof cases
  case (1 e "from" ev to r m d)
  obtain k n payload "next" options where "state_name (normalizeState s) = JStr k" "k \<in> set TEMPORAL_WORKFLOW_STATES"
    and "accepts (normalizeState s) n payload next options"
    and "accepted (normalizeState s) n payload next options = Accepted s' from ev to r m d"
    by (rule reduce_accepts [OF 1])
  then show thesis by (intro that) (auto simp: accepted_iff split: option.splits)
qed

text \<open>What a state of the workflow is: an object with a known state and three logs, whose reconciliation records carry a known
  reason.\<close>

definition typed_state :: "jsval \<Rightarrow> bool" where
  "typed_state s \<longleftrightarrow> is_plain_object s \<and> set_has TEMPORAL_WORKFLOW_STATES (state_name s) \<and>
     is_array (js_get s ''operator_decisions'') \<and> is_array (js_get s ''emitted_records'') \<and>
     is_array (js_get s ''reconciliation_records'') \<and>
     list_all (\<lambda>r. set_has TEMPORAL_RECONCILIATION_REASONS (js_get r ''reason'')) (js_items (js_get s ''reconciliation_records''))"

lemma typed_get: "typed_state s \<Longrightarrow> js_get (normalizeState s) k = js_get s k"
  by (auto simp: typed_state_def state_array_def state_name_def js_or_nullish_def nullish_def set_has_iff)

lemma typed_state_name: "typed_state s \<Longrightarrow> state_name (normalizeState s) = state_name s"
  unfolding state_name_def by (rule typed_get)

lemma append_array [simp]: "is_array a \<Longrightarrow> is_array (append_item a x)"
  by (simp add: append_item_def split: option.split)

lemma next_get:
  assumes "accepts (normalizeState s) n payload next options" and "s' = accepted_state (normalizeState s) n payload next options r"
    and "typed_state s"
  shows "state_name s' = next"
    and "js_get s' ''emitted_records'' = append_item (js_get s ''emitted_records'') (ao_emitted options)"
    and "js_get s' ''operator_decisions'' = append_item (js_get s ''operator_decisions'') (ao_decision options)"
    and "js_get s' ''reconciliation_records'' = append_item (js_get s ''reconciliation_records'') r"
  using accepted_state_get [OF _ assms(1), of "''state''"] accepted_state_get [OF _ assms(1), of "''emitted_records''"]
    accepted_state_get [OF _ assms(1), of "''operator_decisions''"] accepted_state_get [OF _ assms(1), of "''reconciliation_records''"]
  unfolding assms(2) state_name_def typed_get [OF assms(3)] by simp_all

lemma typed_next:
  assumes "typed_state s" and "workflow_next s s'"
  shows "typed_state s'"
proof -
  obtain k n payload "next" options r where k: "state_name (normalizeState s) = JStr k"
    and a: "accepts (normalizeState s) n payload next options"
    and e: "s' = accepted_state (normalizeState s) n payload next options r"
    and r: "r = (case ao_reason options of None \<Rightarrow> None
      | Some reason \<Rightarrow> reconciliationRecordFor (normalizeState s) n payload reason)"
    by (rule next_accepts [OF assms(2)])
  note g = next_get [OF a e assms(1)]
  have "phase_step (JStr k) next" by (rule accepts_step [OF a k])
  then have "set_has TEMPORAL_WORKFLOW_STATES next"
    using phase_known by (cases "next") (auto simp: phase_step_def phase_of_def split: jsval.splits)
  moreover have "list_all (\<lambda>r. set_has TEMPORAL_RECONCILIATION_REASONS (js_get r ''reason''))
      (js_items (js_get s' ''reconciliation_records''))"
    using assms(1) accepts_reason [OF a] unfolding g(4) r
    by (auto simp: typed_state_def append_item_def reconciliationRecordFor_def split: option.splits)
  ultimately show ?thesis using assms(1) unfolding typed_state_def g(1-4) by (auto simp: e)
qed

lemma typed_start: "typed_state (createTemporalWorkflowState JUndef)"
  by code_simp

text \<open>C36: Every state the reducer reaches from the initial one is well formed: a known state name, three logs that are arrays, and
  only known reasons in the reconciliation records.\<close>

theorem workflow_states_typed:
  assumes "workflow_reachable s"
  shows "typed_state s"
  using assms by induction (blast intro: typed_start typed_next)+

theorem workflow_states_typed_witness: "typed_state (createTemporalWorkflowState JUndef)"
  by (rule workflow_states_typed [OF workflow_reachable.start])

lemma outcomes_final_step:
  assumes "reduceTemporalWorkflowState s e = Accepted s' from ev to r m d"
    and "terminal_state (normalizeState s)" and "to \<noteq> from"
  shows "ev = JStr ''operator_decision'' \<and>
    (from = JStr ''inconclusive'' \<and> to = JStr ''failed'' \<or>
     from \<in> {JStr ''cancelled'', JStr ''superseded''} \<and> to \<in> {JStr ''failed'', JStr ''inconclusive''} \<and>
       isLateOutputReconciliationCase (normalizeState s))"
proof -
  let ?s = "normalizeState s"
  obtain k n payload "next" options where k: "state_name ?s = JStr k"
    and a: "accepts ?s n payload next options"
    and e: "accepted ?s n payload next options = Accepted s' from ev to r m d"
    by (rule reduce_accepts [OF assms(1)])
  have f: "from = JStr k" "ev = JStr n" "to = next" using e k by (auto simp: accepted_iff)
  have t: "k \<in> set TEMPORAL_TERMINAL_WORKFLOW_STATES" using assms(2) k by simp
  have o: "k \<noteq> ''operator_reconciliation_required''" using t by (auto simp: TEMPORAL_TERMINAL_WORKFLOW_STATES_def)
  have src: "list_all (\<lambda>spec. ts_source spec \<notin> set TEMPORAL_TERMINAL_WORKFLOW_STATES) TRANSITIONS" by code_simp
  show ?thesis using a
  proof cases
    case (table spec)
    then show ?thesis using src assms(2) by (auto simp: list_all_iff)
  next
    case (retry_new n)
    then show ?thesis using assms(2,3) f k by (simp add: retry_disposition_def)
  next
    case (mark_failed j)
    then consider "k = ''inconclusive''" | "isLateOutputReconciliationCase ?s" using k o by auto
    then show ?thesis
    proof cases
      case 2
      then show ?thesis using f mark_failed(1,2) late_case_state [OF 2 k] by simp
    qed (simp add: f mark_failed)
  next
    case (mark_inconclusive j)
    then have l: "isLateOutputReconciliationCase ?s" using k o by auto
    then show ?thesis using f mark_inconclusive(1,2) late_case_state [OF l k] by simp
  qed (use assms(2,3) f k t in \<open>auto simp: TEMPORAL_TERMINAL_WORKFLOW_STATES_def\<close>)
qed

text \<open>C23: An outcome is final. An attempt that succeeded, changed nothing or failed never changes state again; one that was
  cancelled, superseded or left inconclusive changes only by an operator decision, to failed or inconclusive, and out of cancelled
  and superseded only when late output was observed.\<close>

theorem outcomes_are_final:
  assumes "reduceTemporalWorkflowState s e = Accepted s' from ev to r m d"
    and "terminal_state (normalizeState s)" and "to \<noteq> from"
  shows "ev = JStr ''operator_decision'' \<and>
    (from = JStr ''inconclusive'' \<and> to = JStr ''failed'' \<or>
     from \<in> {JStr ''cancelled'', JStr ''superseded''} \<and> to \<in> {JStr ''failed'', JStr ''inconclusive''} \<and>
       isLateOutputReconciliationCase (normalizeState s))"
  by (rule outcomes_final_step [OF assms])

text \<open>The logs are append-only: an accepted event keeps every reconciliation record, operator decision and emitted record of a
  well-formed state and adds at most one of each.\<close>

theorem logs_append_only:
  assumes "typed_state s" and "reduceTemporalWorkflowState s e = Accepted s' from ev to r m d"
  shows "js_items (js_get s' ''reconciliation_records'') = js_items (js_get s ''reconciliation_records'') @ (case r of None \<Rightarrow> [] | Some x \<Rightarrow> [x]) \<and>
    js_items (js_get s' ''operator_decisions'') = js_items (js_get s ''operator_decisions'') @ (case d of None \<Rightarrow> [] | Some x \<Rightarrow> [x]) \<and>
    js_items (js_get s' ''emitted_records'') = js_items (js_get s ''emitted_records'') @ (case m of None \<Rightarrow> [] | Some x \<Rightarrow> [x]) \<and>
    (d \<noteq> None \<longleftrightarrow> ev = JStr ''operator_decision'')"
proof -
  obtain k n payload "next" options where k: "state_name (normalizeState s) = JStr k"
    and a: "accepts (normalizeState s) n payload next options"
    and e: "accepted (normalizeState s) n payload next options = Accepted s' from ev to r m d"
    by (rule reduce_accepts [OF assms(2)])
  have s': "s' = accepted_state (normalizeState s) n payload next options r" and o: "m = ao_emitted options" "d = ao_decision options"
    and ev: "ev = JStr n" using e by (auto simp: accepted_iff)
  have events: "list_all (\<lambda>spec. ts_event spec \<noteq> ''operator_decision'') TRANSITIONS" by code_simp
  have "ao_decision options \<noteq> None \<longleftrightarrow> n = ''operator_decision''"
    using a events by cases (auto simp: no_options_def spec_options_def list_all_iff)
  then show ?thesis
    unfolding next_get [OF a s' assms(1)] o ev by (auto simp: append_item_def split: option.split)
qed

section \<open>Binding of an attempt\<close>

definition binding_fields :: "string list" where
  "binding_fields = [''attempt_id'', ''dispatch_idempotency_key'', ''base_sha'', ''expected_launch_sha'', ''output_branch'',
     ''expected_wrapper_source'', ''expected_wrapper_digest'']"

lemma input_valid_only:
  assumes "accepts state n payload next options" and "n = ''input_valid''"
  shows "in_state state ''input_validating''"
proof -
  have "list_all (\<lambda>spec. ts_event spec = ''input_valid'' \<longrightarrow> ts_source spec = ''input_validating'') TRANSITIONS" by code_simp
  with assms show ?thesis by cases (auto simp: list_all_iff)
qed

lemma binding_kept:
  assumes "typed_state s" and "workflow_next s s'" and "\<not> in_state s ''input_validating''" and "f \<in> set binding_fields"
  shows "js_get s' f = js_get s f"
proof -
  let ?s = "normalizeState s"
  obtain k n payload "next" options r where k: "state_name ?s = JStr k"
    and a: "accepts ?s n payload next options" and e: "s' = accepted_state ?s n payload next options r"
    by (rule next_accepts [OF assms(2)])
  have n: "n \<noteq> ''input_valid''"
    using input_valid_only [OF a] assms(1,3) typed_state_name by auto
  have p: "f \<in> set (ao_persist options) \<Longrightarrow> f \<in> set WRITE_ONCE_WRAPPER_BINDING_FIELDS"
    using accepts_persist [OF a, of f] n assms(4) by (auto simp: binding_fields_def WRITE_ONCE_WRAPPER_BINDING_FIELDS_def)
  have f: "f \<notin> {''state'', ''last_event'', ''reconciliation_records'', ''operator_decisions'', ''emitted_records'',
      ''reconciliation_reason'', ''evidence_packet_id''}" using assms(4) by (auto simp: binding_fields_def)
  have "js_get s' f = js_get ?s f"
    using f p unfolding e accepted_state_def persist_input_other [OF n] by auto
  then show ?thesis using typed_get [OF assms(1)] by simp
qed

inductive later_state :: "jsval \<Rightarrow> jsval \<Rightarrow> bool" for s where
  now: "later_state s s"
| later: "later_state s t \<Longrightarrow> workflow_next t u \<Longrightarrow> later_state s u"

lemma no_return_to_input:
  assumes "typed_state s" and "workflow_next s s'" shows "\<not> in_state s' ''input_validating''"
proof -
  obtain k n payload "next" options r where k: "state_name (normalizeState s) = JStr k"
    and a: "accepts (normalizeState s) n payload next options" and e: "s' = accepted_state (normalizeState s) n payload next options r"
    by (rule next_accepts [OF assms(2)])
  have t: "list_all (\<lambda>spec. ts_next spec \<noteq> ''input_validating'') TRANSITIONS" by code_simp
  have "next \<noteq> JStr ''input_validating''"
    using a
  proof cases
    case (table spec)
    then show ?thesis using t by (simp add: list_all_iff)
  next
    case (retry_new j)
    then have "terminal_state (normalizeState s) \<Longrightarrow> j \<noteq> ''input_validating''" by (auto simp: TEMPORAL_TERMINAL_WORKFLOW_STATES_def)
    then show ?thesis using retry_new by (auto simp: retry_disposition_def)
  qed auto
  then show ?thesis using next_get(1) [OF a e assms(1)] by simp
qed

text \<open>C31: What the input boundary bound is never written again: once an attempt has left input validation, its identifiers, base,
  expected launch commit, output branch and expected wrapper are the same in every later state.\<close>

theorem binding_is_write_once:
  assumes "typed_state s" and "\<not> in_state s ''input_validating''" and "later_state s t" and "f \<in> set binding_fields"
  shows "js_get t f = js_get s f"
proof -
  from assms(3) have "typed_state t \<and> \<not> in_state t ''input_validating'' \<and> js_get t f = js_get s f"
  proof induction
    case now
    then show ?case using assms by simp
  next
    case (later t u)
    then show ?case using typed_next no_return_to_input binding_kept [OF _ _ _ assms(4)] by metis
  qed
  then show ?thesis by blast
qed

section \<open>Bounded runs\<close>

text \<open>The number of further events an open attempt can take without an operator.\<close>

definition state_rank :: "string \<Rightarrow> nat" where
  "state_rank n = (case map_of [(''input_validating'', 9), (''ready_to_dispatch'', 8), (''launch_ref_creating'', 7),
      (''launch_ref_created'', 6), (''github_run_observing'', 5), (''github_run_active'', 4), (''artifact_collecting'', 3),
      (''status_validating'', 2), (''cancel_requested'', 1), (''cancel_observing'', 1), (''dispatch_uncertain'', 1),
      (''operator_reconciliation_required'', 1)] n of None \<Rightarrow> 0 | Some r \<Rightarrow> r)"

lemma rank_open: "n \<in> set TEMPORAL_WORKFLOW_STATES - set TEMPORAL_TERMINAL_WORKFLOW_STATES \<Longrightarrow> 0 < state_rank n"
proof -
  have "list_all (\<lambda>n. n \<in> set TEMPORAL_TERMINAL_WORKFLOW_STATES \<or> 0 < state_rank n) TEMPORAL_WORKFLOW_STATES" by code_simp
  then show "n \<in> set TEMPORAL_WORKFLOW_STATES - set TEMPORAL_TERMINAL_WORKFLOW_STATES \<Longrightarrow> 0 < state_rank n"
    by (auto simp: list_all_iff)
qed

lemma rank_decreases:
  assumes "accepts state n payload next options" and "n \<noteq> ''operator_decision''" and k: "state_name state = JStr k"
    and "k \<in> set TEMPORAL_WORKFLOW_STATES - set TEMPORAL_TERMINAL_WORKFLOW_STATES"
  shows "\<exists>j. next = JStr j \<and> state_rank j < state_rank k"
proof -
  have t: "list_all (\<lambda>spec. state_rank (ts_next spec) < state_rank (ts_source spec)) TRANSITIONS" by code_simp
  have z: "state_rank ''superseded'' = 0" "state_rank ''cancelled'' = 0" by code_simp+
  have r: "1 < state_rank j" if "j \<in> set [''input_validating'', ''ready_to_dispatch'', ''launch_ref_creating'', ''launch_ref_created'',
      ''github_run_observing'', ''github_run_active'', ''artifact_collecting'', ''status_validating'']" for j
    using that by (auto simp: state_rank_def)
  have c: "state_rank ''cancel_requested'' = 1" "state_rank ''cancel_observing'' = 1" by code_simp+
  from assms(1) show ?thesis
  proof cases
    case (table spec)
    then show ?thesis using t k by (simp add: list_all_iff)
  next
    case (late j)
    then show ?thesis using k assms(4) by (auto simp: TEMPORAL_TERMINAL_WORKFLOW_STATES_def)
  next
    case (conflict j)
    then show ?thesis using k assms(4) by (auto simp: TEMPORAL_TERMINAL_WORKFLOW_STATES_def)
  next
    case (supersede j)
    then show ?thesis using rank_open [OF assms(4)] z by simp
  next
    case (cancel_early j)
    then show ?thesis using rank_open [OF assms(4)] z by simp
  next
    case cancel_creating
    then show ?thesis using r [of k] k c by simp
  next
    case (cancel_running j)
    then have "k \<in> set [''input_validating'', ''ready_to_dispatch'', ''launch_ref_creating'', ''launch_ref_created'',
      ''github_run_observing'', ''github_run_active'', ''artifact_collecting'', ''status_validating'']" using k by auto
    then show ?thesis using r [of k] cancel_running c by simp
  qed (use assms(2) in simp_all)
qed

definition event_name :: "jsval \<Rightarrow> jsval" where
  "event_name e = js_or_nullish (js_get e ''type'') (js_get e ''event'')"

lemma accepted_from: "reduceTemporalWorkflowState s e = Accepted s' from ev to r m d \<Longrightarrow> from = state_name (normalizeState s)"
  by (erule reduce_accepts) (simp add: accepted_iff)

lemma accepted_event: "reduceTemporalWorkflowState s e = Accepted s' from ev to r m d \<Longrightarrow> ev = event_name e"
  by (erule reduce_accepts) (simp add: accepted_iff event_name_def)

lemma reduce_all_typed: "reduce_all s es = Some t \<Longrightarrow> typed_state s \<Longrightarrow> typed_state t"
proof (induction es arbitrary: s)
  case (Cons e es)
  then obtain s' where "workflow_next s s'" "reduce_all s' es = Some t"
    by (auto split: workflow_reduction.splits intro: workflow_next.intros)
  with Cons show ?case using typed_next by blast
qed simp

lemma reduce_all_rank:
  assumes "reduce_all s es = Some t" and "typed_state s" and "\<forall>e\<in>set es. event_name e \<noteq> JStr ''operator_decision''"
    and "\<not> terminal_state t"
  shows "length es + state_rank (string_of (state_name t)) \<le> state_rank (string_of (state_name s)) \<and> \<not> terminal_state s"
  using assms
proof (induction es arbitrary: s)
  case (Cons e es)
  then obtain s' "from" ev to r m d where a: "reduceTemporalWorkflowState s e = Accepted s' from ev to r m d"
    and t: "reduce_all s' es = Some t"
    by (auto split: workflow_reduction.splits)
  have nx: "workflow_next s s'" using a by (rule workflow_next.intros)
  have i: "length es + state_rank (string_of (state_name t)) \<le> state_rank (string_of (state_name s'))" "\<not> terminal_state s'"
    using Cons.IH [OF t typed_next [OF Cons.prems(2) nx]] Cons.prems by auto
  obtain k n payload "next" options where k: "state_name (normalizeState s) = JStr k" "k \<in> set TEMPORAL_WORKFLOW_STATES"
    and c: "accepts (normalizeState s) n payload next options"
    and e: "accepted (normalizeState s) n payload next options = Accepted s' from ev to r m d"
    and n: "js_or_nullish (js_get e ''type'') (js_get e ''event'') = JStr n"
    by (rule reduce_accepts [OF a])
  have ks: "state_name s = JStr k" using k(1) typed_state_name [OF Cons.prems(2)] by simp
  have nn: "n \<noteq> ''operator_decision''" using Cons.prems(3) n by (auto simp: event_name_def)
  have s': "state_name s' = next" using e next_get(1) [OF c _ Cons.prems(2)] by (auto simp: accepted_iff)
  have o: "k \<notin> set TEMPORAL_TERMINAL_WORKFLOW_STATES"
  proof
    assume "k \<in> set TEMPORAL_TERMINAL_WORKFLOW_STATES"
    then have "terminal_state (normalizeState s)" using k(1) by simp
    moreover have "ev = JStr n" "from = JStr k" "to = next" using e k by (auto simp: accepted_iff)
    ultimately have "next = JStr k" using outcomes_final_step [OF a] nn by auto
    then show False using i(2) s' \<open>k \<in> set TEMPORAL_TERMINAL_WORKFLOW_STATES\<close> by simp
  qed
  obtain j where "next = JStr j" "state_rank j < state_rank k"
    using rank_decreases [OF c nn k(1)] k(2) o by auto
  then show ?case using i(1) s' ks o by simp
qed simp

text \<open>C37: Without operator decisions an attempt cannot go on for ever: from a well-formed state, a run of accepted events that
  leaves the attempt open has at most eight events, however the events are chosen.\<close>

theorem open_runs_bounded:
  assumes "reduce_all s es = Some t" and "typed_state s" and "\<forall>e\<in>set es. event_name e \<noteq> JStr ''operator_decision''"
    and "\<not> terminal_state t"
  shows "length es \<le> 8"
proof -
  have b: "state_rank n \<le> 9" for n by (auto simp: state_rank_def)
  obtain n where n: "state_name t = JStr n" "n \<in> set TEMPORAL_WORKFLOW_STATES - set TEMPORAL_TERMINAL_WORKFLOW_STATES"
    using reduce_all_typed [OF assms(1,2)] assms(4) by (auto simp: typed_state_def set_has_iff)
  have "length es + state_rank n \<le> state_rank (string_of (state_name s))" using reduce_all_rank [OF assms] n(1) by simp
  with b [of "string_of (state_name s)"] rank_open [OF n(2)] show ?thesis by linarith
qed

section \<open>Success\<close>

lemma compareBindingField_empty [contract_valid]:
  "compareBindingField expected actual path = [] \<longleftrightarrow> expected = JUndef \<or> actual = JUndef \<or> strict_eq expected actual"
  by (simp add: compareBindingField_def contract_valid)

lemma requireBindingString_empty [contract_valid]: "requireBindingString v path = [] \<longleftrightarrow> nonblank v"
  by (simp add: requireBindingString_def contract_valid)

lemma final_status_payload_valid:
  assumes "final_status_payload_errors state payload res errors = []"
  defines "c \<equiv> expectedContextFromPayload payload"
  shows "is_plain_object c" and "validateBindingExpectedContext state c = []"
    and "cr_valid (validateTemporalFinalStatus (js_get payload ''final_status'') c)"
    and "js_get (js_get payload ''final_status'') ''result'' = JStr res"
proof -
  have o: "truthy c \<longleftrightarrow> is_plain_object c" unfolding c_def expectedContextFromPayload_def by (auto simp: asObject_def plain_truthy)
  have e: "cr_errors (validateTemporalFinalStatus v c) = [] \<Longrightarrow> cr_valid (validateTemporalFinalStatus v c)" for v
    by (auto simp: validateTemporalFinalStatus_def Let_def result_def invalid_def contract_valid split: if_splits)
  note a = assms(1) [unfolded final_status_payload_errors_def Let_def, folded c_def]
  show "is_plain_object c" using a o by (auto simp: contract_valid split: if_splits)
  show "validateBindingExpectedContext state c = []" using a by (auto simp: contract_valid split: if_splits)
  show "cr_valid (validateTemporalFinalStatus (js_get payload ''final_status'') c)"
    using a e by (auto simp: contract_valid split: if_splits)
  show "js_get (js_get payload ''final_status'') ''result'' = JStr res"
    using a e by (auto simp: contract_valid dest: strict_eq_imp_eq split: if_splits)
qed

lemma transition_final_status:
  assumes "validateTransitionPayload state payload spec errors = []" and "ts_final_status spec = Some res"
  shows "final_status_payload_errors state payload res [] = []"
proof -
  have "final_status_payload_errors state payload res es = [] \<Longrightarrow> es = []" for es
    by (auto simp: final_status_payload_errors_def Let_def contract_valid split: if_splits)
  with assms show ?thesis unfolding validateTransitionPayload_def Let_def option.case by (metis option.simps(5))
qed

lemma binding_context_parts:
  assumes "validateBindingExpectedContext state c = []"
  defines "l \<equiv> expected_launch_record c"
  shows "js_get c ''validation_mode'' = JStr ''live''" and "is_plain_object l"
    and "nonblank (js_get state ''expected_wrapper_source'')" and "nonblank (js_get state ''expected_wrapper_digest'')"
    and "binding_record_errors state c l = []" and "binding_identity_errors state c l = []"
  using assms(1) unfolding validateBindingExpectedContext_def Let_def l_def [symmetric]
  by (auto simp: l_def truthy_launch_record binding_mode_errors_def contract_valid dest: strict_eq_imp_eq split: if_splits)

lemma binding_fields_match:
  assumes "binding_record_errors state c l = []"
    and "f \<in> {''attempt_id'', ''dispatch_idempotency_key'', ''base_sha'', ''output_branch''}" and "js_get state f \<noteq> JUndef"
  shows "js_get l f = js_get state f"
proof -
  have n: "nonblank (js_get l f)"
  proof -
    have "\<forall>k\<in>set BINDING_LAUNCH_RECORD_FIELDS. requireBindingString (js_get l k) (''expected_context.launchRecord.'' @ k) = []"
      using assms(1) unfolding binding_record_errors_def append_is_Nil_conv concat_map_empty by (elim conjE)
    moreover have "f \<in> set BINDING_LAUNCH_RECORD_FIELDS" using assms(2) by (auto simp: BINDING_LAUNCH_RECORD_FIELDS_def)
    ultimately show ?thesis by (simp add: requireBindingString_empty)
  qed
  have "\<forall>p\<in>set [(''attempt_id'', ''attempt_id''), (''dispatch_idempotency_key'', ''dispatch_idempotency_key''), (''base_sha'', ''base_sha''),
        (''output_branch'', ''output_branch''), (''expected_launch_ref'', ''launch_ref''), (''expected_launch_sha'', ''launch_sha'')].
      (case p of (own, field) \<Rightarrow> compareBindingField (js_get state own) (js_get l field) (''expected_context.launchRecord.'' @ field)) = []"
    using assms(1) unfolding binding_record_errors_def append_is_Nil_conv concat_map_empty by (elim conjE)
  then have "compareBindingField (js_get state f) (js_get l f) (''expected_context.launchRecord.'' @ f) = []"
    using assms(2) by auto
  with n assms(3) show ?thesis by (auto simp: compareBindingField_empty dest: strict_eq_imp_eq)
qed

lemma binding_wrapper_match:
  assumes "validateBindingExpectedContext state c = []" and "key \<in> {''source'', ''digest''}"
  defines "l \<equiv> expected_launch_record c"
  shows "js_or_nullish (js_get (js_get c ''wrapper'') key) (js_get (js_get l ''wrapper'') key) = js_get state (''expected_wrapper_'' @ key)"
proof -
  let ?v = "js_or_nullish (js_get (js_get c ''wrapper'') key) (js_get (js_get l ''wrapper'') key)"
  note p = binding_context_parts [OF assms(1), folded l_def]
  have "hasBindingWrapper (js_get c ''wrapper'') \<or> hasBindingWrapper (js_get l ''wrapper'')"
    using p(5) by (auto simp: binding_record_errors_def contract_valid)
  then have v: "?v \<noteq> JUndef"
    using assms(2) by (auto simp: hasBindingWrapper_def nonblank_iff js_or_nullish_def nullish_def)
  have s: "js_get state (''expected_wrapper_'' @ key) \<noteq> JUndef" using p(3,4) assms(2) by auto
  have "compareBindingField (js_get state (''expected_wrapper_'' @ key)) ?v (''expected_context.wrapper.'' @ key) = []"
    using p(6) assms(2) by (auto simp: binding_identity_errors_def Let_def)
  with v s show ?thesis by (auto simp: compareBindingField_empty dest: strict_eq_imp_eq)
qed

lemma final_status_strings:
  assumes "cr_valid (validateTemporalFinalStatus v c)"
  shows "f \<in> {''attempt_id'', ''dispatch_idempotency_key'', ''base_sha'', ''output_branch''} \<Longrightarrow> js_get v f \<noteq> JUndef"
    and "is_plain_object (js_get v ''wrapper'')"
    and "key \<in> {''source'', ''digest''} \<Longrightarrow> js_get (js_get v ''wrapper'') key \<noteq> JUndef"
proof -
  note p = final_status_parts [OF assms]
  show "f \<in> {''attempt_id'', ''dispatch_idempotency_key'', ''base_sha'', ''output_branch''} \<Longrightarrow> js_get v f \<noteq> JUndef"
    using p(1,2) by (auto simp: require_identity_def status_execution_errors_def requireSha_def requireDispatchKey_def contract_valid)
  have w: "requireWrapper (js_get v ''wrapper'') ''wrapper'' = []" using p(3) by (simp add: status_evidence_errors_def)
  then show "is_plain_object (js_get v ''wrapper'')" by (simp add: requireWrapper_def contract_valid)
  show "key \<in> {''source'', ''digest''} \<Longrightarrow> js_get (js_get v ''wrapper'') key \<noteq> JUndef"
    using w by (auto simp: requireWrapper_def contract_valid)
qed

lemma success_source:
  assumes "accepts state n payload next options" and "next = JStr ''succeeded''" and "\<not> in_state state ''succeeded''"
  shows "in_state state ''status_validating'' \<and> final_status_payload_errors state payload ''succeeded'' [] = []"
proof -
  have t: "list_all (\<lambda>spec. ts_next spec = ''succeeded'' \<longrightarrow> ts_source spec = ''status_validating'' \<and> ts_final_status spec = Some ''succeeded'')
     TRANSITIONS" by code_simp
  from assms(1) show ?thesis
  proof cases
    case (table spec)
    with t assms(2) have "ts_source spec = ''status_validating''" "ts_final_status spec = Some ''succeeded''" by (auto simp: list_all_iff)
    then show ?thesis using transition_final_status table by auto
  next
    case (retry_new j)
    then show ?thesis using assms(2,3) by (auto simp: retry_disposition_def split: if_splits)
  next
    case (abandon j)
    then show ?thesis using assms(2) by auto
  qed (use assms(2,3) in simp_all)
qed

lemma status_bound:
  assumes "validateBindingExpectedContext s c = []" and "is_plain_object c" and "cr_valid (validateTemporalFinalStatus v c)"
  shows "\<forall>f\<in>{''attempt_id'', ''dispatch_idempotency_key'', ''base_sha'', ''output_branch''}.
      js_get s f \<noteq> JUndef \<longrightarrow> js_get v f = js_get s f"
    and "js_get (js_get v ''wrapper'') ''source'' = js_get s ''expected_wrapper_source''"
    and "js_get (js_get v ''wrapper'') ''digest'' = js_get s ''expected_wrapper_digest''"
proof -
  let ?l = "expected_launch_record c"
  note b = binding_context_parts [OF assms(1)] and u = final_status_strings [OF assms(3)]
  have d: "js_default (JObj []) c = c" using assms(2) by (auto simp: js_default_def)
  note x = final_status_parts(4) [OF assms(3), unfolded d]
  have "js_get v f = js_get s f"
    if f: "f \<in> {''attempt_id'', ''dispatch_idempotency_key'', ''base_sha'', ''output_branch''}" and n: "js_get s f \<noteq> JUndef" for f
  proof -
    have l: "js_get ?l f = js_get s f" by (rule binding_fields_match [OF b(5) f n])
    have "js_get v f = js_get ?l f"
      by (rule expected_record_fields [OF x assms(2) b(2) _ u(1) [OF f]]) (use f l n in auto)
    with l show ?thesis by simp
  qed
  then show "\<forall>f\<in>{''attempt_id'', ''dispatch_idempotency_key'', ''base_sha'', ''output_branch''}.
      js_get s f \<noteq> JUndef \<longrightarrow> js_get v f = js_get s f" by blast
  have w: "js_get (js_get v ''wrapper'') key = js_get s (''expected_wrapper_'' @ key)" if k: "key \<in> {''source'', ''digest''}" for key
  proof -
    obtain t where t: "js_get s (''expected_wrapper_'' @ key) = JStr t" using b(3,4) k by (auto simp: nonblank_iff)
    have "js_get (js_get v ''wrapper'') key = JStr t"
      by (rule expected_wrapper_field [OF x assms(2) b(2) u(2) _ u(3) [OF k]])
        (use k binding_wrapper_match [OF assms(1) k] t in auto)
    with t show ?thesis by simp
  qed
  show "js_get (js_get v ''wrapper'') ''source'' = js_get s ''expected_wrapper_source''"
    "js_get (js_get v ''wrapper'') ''digest'' = js_get s ''expected_wrapper_digest''"
    using w [of "''source''"] w [of "''digest''"] by simp_all
qed

text \<open>C7: An attempt succeeds only on a trusted status of its own. The event that makes it succeed comes while its status is being
  validated and carries a final status with result \<open>succeeded\<close> that validates against a live expected context, is about the attempt,
  dispatch key, base and output branch that the state holds, and was produced by the wrapper that was bound at the input boundary.\<close>

theorem success_bound_to_attempt:
  assumes "typed_state s" and "reduceTemporalWorkflowState s e = Accepted s' from ev (JStr ''succeeded'') r m d"
    and "\<not> in_state s ''succeeded''"
  shows "from = JStr ''status_validating'' \<and>
    (\<exists>status context. status = js_get (js_get e ''payload'') ''final_status'' \<and>
       cr_valid (validateTemporalFinalStatus status context) \<and> js_get status ''result'' = JStr ''succeeded'' \<and>
       js_get context ''validation_mode'' = JStr ''live'' \<and>
       (\<forall>f\<in>{''attempt_id'', ''dispatch_idempotency_key'', ''base_sha'', ''output_branch''}.
          js_get s f \<noteq> JUndef \<longrightarrow> js_get status f = js_get s f) \<and>
       js_get (js_get status ''wrapper'') ''source'' = js_get s ''expected_wrapper_source'' \<and>
       js_get (js_get status ''wrapper'') ''digest'' = js_get s ''expected_wrapper_digest'')"
proof -
  let ?s = "normalizeState s"
  note g = typed_get [OF assms(1)]
  obtain k n payload "next" options where k: "state_name ?s = JStr k"
    and p: "payload = (if is_plain_object (js_get e ''payload'') then js_get e ''payload'' else JObj [])"
    and a: "accepts ?s n payload next options"
    and x: "accepted ?s n payload next options = Accepted s' from ev (JStr ''succeeded'') r m d"
    by (rule reduce_accepts [OF assms(2)])
  have f: "next = JStr ''succeeded''" "from = state_name ?s" using x by (auto simp: accepted_iff)
  have q: "js_get payload h = js_get (js_get e ''payload'') h" for h
    using p js_get_non_object by simp
  from success_source [OF a f(1)] assms(3)
  have v: "in_state ?s ''status_validating''" "final_status_payload_errors ?s payload ''succeeded'' [] = []"
    using typed_state_name [OF assms(1)] by auto
  note c = final_status_payload_valid [OF v(2)]
  have "from = JStr ''status_validating''" using f(2) v(1) by simp
  moreover note c(3,4) binding_context_parts(1) [OF c(2)] status_bound [OF c(2,1,3), unfolded g]
  ultimately show ?thesis unfolding q by blast
qed

section \<open>Progress\<close>

lemma accepts_reasons_known:
  "accepted state n payload next options = Threw \<longleftrightarrow> (\<exists>reason. ao_reason options = Some reason \<and> reason \<notin> set TEMPORAL_RECONCILIATION_REASONS)"
  by (auto simp: accepted_def Let_def reconciliationRecordFor_def split: option.splits)

text \<open>No open attempt is stuck: in every well-formed state that is not terminal, a request to supersede it with identifiers that
  are given and new is accepted and ends the attempt.\<close>

theorem open_attempt_can_be_superseded:
  assumes "typed_state s" and "\<not> terminal_state s"
    and "js_get e ''type'' = JStr ''supersede_requested''" and "is_plain_object (js_get e ''payload'')"
    and "\<forall>key\<in>{''new_attempt_id'', ''new_dispatch_idempotency_key'', ''new_launch_ref'', ''new_output_branch'', ''reason''}.
       nonblank (js_get (js_get e ''payload'') key)"
    and "js_get (js_get e ''payload'') ''new_attempt_id'' \<noteq> js_get s ''attempt_id''"
    and "js_get (js_get e ''payload'') ''new_dispatch_idempotency_key'' \<noteq> js_get s ''dispatch_idempotency_key''"
    and "js_get (js_get e ''payload'') ''new_launch_ref'' \<noteq> js_get s ''expected_launch_ref''"
    and "js_get (js_get e ''payload'') ''new_output_branch'' \<noteq> js_get s ''output_branch''"
  shows "\<exists>s' m. reduceTemporalWorkflowState s e =
      Accepted s' (state_name s) (JStr ''supersede_requested'') (JStr ''superseded'') None (Some m) None \<and> terminal_state s'"
proof -
  let ?s = "normalizeState s" and ?p = "js_get e ''payload''"
  note g = typed_get [OF assms(1)] and n = typed_state_name [OF assms(1)]
  have k: "set_has TEMPORAL_WORKFLOW_STATES (state_name ?s)" using assms(1) n by (simp add: typed_state_def)
  have ne: "strict_eq a b \<longrightarrow> a = b" for a b by (simp add: strict_eq_imp_eq)
  have v: "validateNewAttemptPayload ?s ?p = []"
    using ne assms(6-9) unfolding validateNewAttemptPayload_def g append_is_Nil_conv fail_if_empty by blast
  have "\<not> payload_missing (js_get ?p key)"
    if "key \<in> {''new_attempt_id'', ''new_dispatch_idempotency_key'', ''new_launch_ref'', ''new_output_branch'', ''reason''}" for key
    using assms(5) that by (auto simp: payload_missing_def js_trim_def)
  then have q: "validateRequiredPayload ?p [''new_attempt_id'', ''new_dispatch_idempotency_key'', ''new_launch_ref'', ''new_output_branch'', ''reason''] = []"
    by (simp add: validateRequiredPayload_def contract_valid)
  have b: "nonblank (JStr ''supersede_requested'')" by code_simp
  have t: "\<not> terminal_state ?s" using assms(2) n by simp
  let ?o = "no_options\<lparr>ao_emitted := Some (supersession_record ?s ?p)\<rparr>"
  have "reduceTemporalWorkflowState s e = accepted ?s ''supersede_requested'' ?p (JStr ''superseded'') ?o"
    using k t v q b assms(3,4)
    by (simp add: reduceTemporalWorkflowState_def Let_def contract_valid js_or_nullish_def nullish_def reduce_event_def
      reducePostTerminalEvent_def reduceCancellation_def reduceSupersession_def accept_checked_def)
  also have "\<dots> = Accepted (accepted_state ?s ''supersede_requested'' ?p (JStr ''superseded'') ?o None) (state_name s)
      (JStr ''supersede_requested'') (JStr ''superseded'') None (Some (supersession_record ?s ?p)) None"
    by (simp add: accepted_def Let_def no_options_def n)
  finally show ?thesis
    by (intro exI conjI) (assumption, simp add: state_name_def accepted_state_def no_options_def TEMPORAL_TERMINAL_WORKFLOW_STATES_def)
qed

section \<open>Rejections and exceptions\<close>

lemma accepted_not_threw: "ao_reason options = None \<Longrightarrow> accepted state n payload next options \<noteq> Threw"
  by (simp add: accepts_reasons_known)

lemma decide_not_threw: "decide state decision payload \<noteq> Threw"
  by (simp add: decide_def Let_def accepted_not_threw no_options_def)

lemma reduce_event_not_threw: "reduce_event state n payload \<noteq> Threw"
proof -
  have t: "list_all (\<lambda>spec. case ts_reason spec of None \<Rightarrow> True | Some r \<Rightarrow> r \<in> set TEMPORAL_RECONCILIATION_REASONS) TRANSITIONS"
    by code_simp
  have "accept_checked state x payload es next options \<noteq> Threw"
    if "\<And>r. ao_reason options = Some r \<Longrightarrow> r \<in> set TEMPORAL_RECONCILIATION_REASONS" for x es "next" options
    using that by (auto simp: accept_checked_def accepts_reasons_known)
  note c = this
  have l: "late_reason state \<in> set TEMPORAL_RECONCILIATION_REASONS" "''temporal_github_disagreement'' \<in> set TEMPORAL_RECONCILIATION_REASONS"
    by (simp_all add: late_reason_def TEMPORAL_RECONCILIATION_REASONS_def)
  have c1: "accept_checked state y payload es nx (no_options\<lparr>ao_reason := Some (late_reason state)\<rparr>) \<noteq> Threw" for y es nx
    by (rule c) (simp add: l(1))
  have c2: "accept_checked state y payload es nx (no_options\<lparr>ao_reason := Some ''temporal_github_disagreement''\<rparr>) \<noteq> Threw" for y es nx
    by (rule c) (simp add: l(2))
  have c3: "accept_checked state y payload es nx (no_options\<lparr>ao_emitted := x\<rparr>) \<noteq> Threw" for y es nx x
    by (rule c) (simp add: no_options_def)
  have "reducePostTerminalEvent state n payload \<noteq> Some Threw"
    unfolding reducePostTerminalEvent_def using c1 c2 by simp
  moreover have "reduceCancellation state n payload \<noteq> Some Threw"
    by (simp add: reduceCancellation_def Let_def accepted_not_threw no_options_def illegal_transition_def)
  moreover have "reduceSupersession state n payload \<noteq> Some Threw"
    unfolding reduceSupersession_def using c3 by simp
  moreover have "reduce_transition state n payload \<noteq> Threw"
  proof (cases "TRANSITIONS_BY_KEY (transition_key (string_of (state_name state)) n)")
    case (Some spec)
    then have "spec \<in> set TRANSITIONS" by (auto simp: TRANSITIONS_BY_KEY_def find_Some_iff)
    with t have "ao_reason (spec_options spec) = Some r \<Longrightarrow> r \<in> set TEMPORAL_RECONCILIATION_REASONS" for r
      by (auto simp: list_all_iff spec_options_def split: option.splits)
    with Some c show ?thesis by (simp add: reduce_transition_def)
  qed (simp add: reduce_transition_def illegal_transition_def)
  ultimately show ?thesis by (auto simp: reduce_event_def split: option.split)
qed

lemma reducer_throws:
  "reduceTemporalWorkflowState s e = Threw \<longleftrightarrow>
     set_has TEMPORAL_WORKFLOW_STATES (state_name (normalizeState s)) \<and> event_name e = JStr ''operator_decision'' \<and>
     operator_decision (js_or_nullish (js_get e ''decision'') (js_get (js_get e ''payload'') ''decision'')) = NotIterable"
proof -
  let ?p = "if is_plain_object (js_get e ''payload'') then js_get e ''payload'' else JObj []"
  let ?d = "js_or_nullish (js_get e ''decision'') (js_get (js_get e ''payload'') ''decision'')"
  have p: "js_get ?p k = js_get (js_get e ''payload'') k" for k using js_get_non_object by simp
  have d: "js_or_nullish ?d (js_get (js_get e ''payload'') ''decision'') = ?d" by (simp add: js_or_nullish_def)
  have j: "js_default (JObj []) ?p = ?p" "?p \<noteq> JNull" by (auto simp: js_default_def)
  have "applyTemporalOperatorDecision (normalizeState s) ?d ?p = Threw \<longleftrightarrow> operator_decision ?d = NotIterable"
    unfolding applyTemporalOperatorDecision_def Let_def j(1) p d
    using j(2) decide_not_threw by (auto split: decision_lookup.split)
  moreover have "nonblank (JStr ''operator_decision'')" by code_simp
  ultimately show ?thesis
    unfolding reduceTemporalWorkflowState_def Let_def p event_name_def using reduce_event_not_threw
    by (auto simp: contract_valid)
qed

lemma inherited_decision:
  assumes "name \<in> set object_prototype_keys"
  shows "reduceTemporalWorkflowState (createTemporalWorkflowState JUndef)
     (JObj [(''type'', JStr ''operator_decision''), (''decision'', JStr name)]) = Threw"
proof -
  have "list_all (\<lambda>name. operator_decision (JStr name) = NotIterable) object_prototype_keys" by code_simp
  then have "operator_decision (JStr name) = NotIterable" using assms by (simp add: list_all_iff)
  moreover have "set_has TEMPORAL_WORKFLOW_STATES (state_name (normalizeState (createTemporalWorkflowState JUndef)))" by code_simp
  ultimately show ?thesis
    using reducer_throws by (simp add: event_name_def js_or_nullish_def nullish_def)
qed

text \<open>C40: The reducer throws in exactly one case: an operator decision, in a known state, whose name is a property that every
  object inherits or that cannot be made a property key; any other event is accepted or rejected. On the initial state it throws
  for each name that objects inherit, where an unknown decision is rejected.\<close>

theorem reducer_throws_iff:
  "(reduceTemporalWorkflowState s e = Threw \<longleftrightarrow>
     set_has TEMPORAL_WORKFLOW_STATES (state_name (normalizeState s)) \<and> event_name e = JStr ''operator_decision'' \<and>
     operator_decision (js_or_nullish (js_get e ''decision'') (js_get (js_get e ''payload'') ''decision'')) = NotIterable) \<and>
   list_all (\<lambda>name. reduceTemporalWorkflowState (createTemporalWorkflowState JUndef)
     (JObj [(''type'', JStr ''operator_decision''), (''decision'', JStr name)]) = Threw) object_prototype_keys"
  by (intro conjI reducer_throws) (simp add: list_all_iff inherited_decision)

section \<open>A run to success\<close>

definition demo_event :: "string \<Rightarrow> jsobj \<Rightarrow> jsval" where
  "demo_event n payload = JObj [(''type'', JStr n), (''payload'', JObj payload)]"

definition demo_events :: "jsval list" where
  "demo_events =
    [demo_event ''input_valid'' [(''attempt_id'', JStr ''A003''), (''dispatch_idempotency_key'', JStr ''IN-0001/WK-0002/A003''),
       (''base_sha'', JStr ''abcdef0''), (''expected_launch_sha'', JStr ''abcdef1''), (''output_branch'', JStr ''agent/IN-0001/WK-0002/A003''),
       (''wrapper'', js_get demo_launch ''wrapper'')],
     demo_event ''dispatch_requested'' [(''expected_launch_ref'', JStr ''refs/heads/agent-launch/IN-0001/WK-0002/A003''),
       (''expected_launch_sha'', JStr ''abcdef1'')],
     demo_event ''launch_ref_created'' [(''observed_launch_sha'', JStr ''abcdef1'')],
     demo_event ''observe_runs'' [(''launch_ref'', JStr ''r''), (''expected_run_name'', JStr ''agent-worker/IN-0001/WK-0002/A003'')],
     demo_event ''github_run_one_active'' [(''github_run_id'', JStr ''7''), (''run_url'', JStr ''u'')],
     demo_event ''github_run_terminal'' [(''github_run_id'', JStr ''7''), (''conclusion'', JStr ''success'')],
     demo_event ''artifacts_collected'' [(''status_artifact_id'', JStr ''s''), (''response_artifact_id'', JStr ''r'')]]"

definition demo_success :: jsval where
  "demo_success = demo_event ''trusted_status_succeeded'' [(''final_status'', demo_status), (''expected_context'', demo_context)]"

definition demo_after :: "nat \<Rightarrow> jsval" where
  "demo_after n = the (reduce_all (createTemporalWorkflowState JUndef) (take n demo_events))"

lemma demo_typed: "typed_state (demo_after 7)" "typed_state (demo_after 1)"
  by code_simp+

definition accepts_to :: "jsval \<Rightarrow> workflow_reduction \<Rightarrow> bool" where
  "accepts_to t red = (case red of Accepted s' f ev to r m d \<Rightarrow> to = t | _ \<Rightarrow> False)"

lemma accepts_toE:
  assumes "accepts_to t red" obtains s' f ev r m d where "red = Accepted s' f ev t r m d"
  using assms by (cases red) (auto simp: accepts_to_def)

lemma demo_succeeds: "accepts_to (JStr ''succeeded'') (reduceTemporalWorkflowState (demo_after 7) demo_success)"
  by code_simp

lemma demo_advance: "reduce_all (demo_after 1) (drop 1 demo_events) = Some (demo_after 7)"
  by code_simp

lemma reduce_all_later: "later_state a s \<Longrightarrow> reduce_all s es = Some t \<Longrightarrow> later_state a t"
proof (induction es arbitrary: s)
  case (Cons e es)
  then obtain s' where "workflow_next s s'" "reduce_all s' es = Some t"
    by (auto split: workflow_reduction.splits intro: workflow_next.intros)
  with Cons show ?case using later_state.later by blast
qed simp

theorem success_bound_to_attempt_witness:
  "js_get (demo_after 7) ''attempt_id'' \<noteq> JUndef \<and> js_get demo_status ''attempt_id'' = js_get (demo_after 7) ''attempt_id''"
proof -
  obtain s' f ev r m d where a: "reduceTemporalWorkflowState (demo_after 7) demo_success = Accepted s' f ev (JStr ''succeeded'') r m d"
    by (rule accepts_toE [OF demo_succeeds])
  have n: "\<not> in_state (demo_after 7) ''succeeded''" "js_get (demo_after 7) ''attempt_id'' \<noteq> JUndef" by code_simp+
  have "js_get (js_get demo_success ''payload'') ''final_status'' = demo_status" by (simp add: demo_success_def demo_event_def)
  with success_bound_to_attempt [OF demo_typed(1) a n(1)] n(2) show ?thesis by auto
qed

theorem binding_is_write_once_witness: "js_get (demo_after 7) ''expected_wrapper_digest'' = js_get (demo_after 1) ''expected_wrapper_digest''"
proof -
  have "later_state (demo_after 1) (demo_after 7)" by (rule reduce_all_later [OF later_state.now demo_advance])
  moreover have "\<not> in_state (demo_after 1) ''input_validating''" by code_simp
  moreover have "''expected_wrapper_digest'' \<in> set binding_fields" by (simp add: binding_fields_def)
  ultimately show ?thesis using binding_is_write_once [OF demo_typed(2)] by blast
qed

theorem open_runs_bounded_witness: "length (drop 1 demo_events) \<le> 8"
proof -
  have "list_all (\<lambda>e. event_name e \<noteq> JStr ''operator_decision'') (drop 1 demo_events)" by code_simp
  then have l: "\<forall>e\<in>set (drop 1 demo_events). event_name e \<noteq> JStr ''operator_decision''" by (simp only: list_all_iff)
  have "\<not> terminal_state (demo_after 7)" by code_simp
  then show ?thesis by (rule open_runs_bounded [OF demo_advance demo_typed(2) l])
qed

definition demo_supersede :: jsval where
  "demo_supersede = demo_event ''supersede_requested'' [(''new_attempt_id'', JStr ''A004''),
     (''new_dispatch_idempotency_key'', JStr ''IN-0001/WK-0002/A004''), (''new_launch_ref'', JStr ''l''), (''new_output_branch'', JStr ''b''),
     (''reason'', JStr ''r'')]"

theorem open_attempt_can_be_superseded_witness:
  "\<exists>s' m. reduceTemporalWorkflowState (demo_after 1) demo_supersede =
     Accepted s' (state_name (demo_after 1)) (JStr ''supersede_requested'') (JStr ''superseded'') None (Some m) None"
proof -
  have a: "\<not> terminal_state (demo_after 1)" "js_get demo_supersede ''type'' = JStr ''supersede_requested''"
    "is_plain_object (js_get demo_supersede ''payload'')"
    "\<forall>key\<in>{''new_attempt_id'', ''new_dispatch_idempotency_key'', ''new_launch_ref'', ''new_output_branch'', ''reason''}.
       nonblank (js_get (js_get demo_supersede ''payload'') key)"
    "js_get (js_get demo_supersede ''payload'') ''new_attempt_id'' \<noteq> js_get (demo_after 1) ''attempt_id''"
    "js_get (js_get demo_supersede ''payload'') ''new_dispatch_idempotency_key'' \<noteq> js_get (demo_after 1) ''dispatch_idempotency_key''"
    "js_get (js_get demo_supersede ''payload'') ''new_launch_ref'' \<noteq> js_get (demo_after 1) ''expected_launch_ref''"
    "js_get (js_get demo_supersede ''payload'') ''new_output_branch'' \<noteq> js_get (demo_after 1) ''output_branch''"
    by code_simp+
  show ?thesis using open_attempt_can_be_superseded [OF demo_typed(2) a] by blast
qed

definition demo_cancelled :: jsval where
  "demo_cancelled = the (reduce_all (createTemporalWorkflowState JUndef)
     [demo_event ''cancel_requested'' [(''operator_or_signal_id'', JStr ''o''), (''reason'', JStr ''r'')],
      demo_event ''late_trusted_output_observed'' [(''trusted_status_evidence'', JStr ''t'')]])"

definition demo_mark_failed :: jsval where
  "demo_mark_failed = JObj [(''type'', JStr ''operator_decision''), (''decision'', JStr ''mark_failed''),
     (''payload'', JObj [(''operator_id'', JStr ''o''), (''reason'', JStr ''r''), (''evidence_packet_id'', JStr ''p''), (''failure_code'', JStr ''f'')])]"

lemma demo_correction: "accepts_to (JStr ''failed'') (reduceTemporalWorkflowState demo_cancelled demo_mark_failed)"
  by code_simp

theorem outcomes_are_final_witness: "isLateOutputReconciliationCase (normalizeState demo_cancelled)"
proof -
  obtain s' f ev r m d where a: "reduceTemporalWorkflowState demo_cancelled demo_mark_failed = Accepted s' f ev (JStr ''failed'') r m d"
    by (rule accepts_toE [OF demo_correction])
  have n: "state_name (normalizeState demo_cancelled) = JStr ''cancelled''" by code_simp
  have f: "f = JStr ''cancelled''" using accepted_from [OF a] n by simp
  have t: "terminal_state (normalizeState demo_cancelled)" unfolding n by code_simp
  have ne: "JStr ''failed'' \<noteq> f" unfolding f by simp
  show ?thesis using outcomes_are_final [OF a t ne] f by simp
qed

theorem logs_append_only_witness:
  "\<exists>s' x. js_items (js_get s' ''operator_decisions'') = js_items (js_get demo_cancelled ''operator_decisions'') @ [x]"
proof -
  obtain s' f ev r m d where a: "reduceTemporalWorkflowState demo_cancelled demo_mark_failed = Accepted s' f ev (JStr ''failed'') r m d"
    by (rule accepts_toE [OF demo_correction])
  have t: "typed_state demo_cancelled" by code_simp
  have "ev = JStr ''operator_decision''" using accepted_event [OF a] by (simp add: event_name_def demo_mark_failed_def js_or_nullish_def nullish_def)
  with logs_append_only [OF t a] show ?thesis by (auto split: option.splits)
qed

end
