(* ===== verification/TemporalRunner.thy ===== *)
theory TemporalRunner
  imports WorkflowProperties
begin

text \<open>
  The runner of a dispatched attempt: \<open>temporal-workflow-runner.mjs\<close>. It drives the workflow reducer with what its five
  activities report (create the launch ref, observe the run, await its end, collect its artifacts, load the final status).

  The activities are supplied by the caller: the parameter \<open>activities\<close> gives for a name the function, if there is one, and a
  function returns a value or throws. They do not change the objects they are given. The context of the source is the
  record \<open>run_context\<close>; a thrown error is the left alternative of a sum.
\<close>

section \<open>Errors, steps and the context\<close>

datatype runner_failure =
    TemporalWorkflowRunnerError (rf_message: string) (rf_code: string) (rf_errors: "contract_error list")
      (rf_activity: "string option") (rf_state: "jsval option")
  | ActivityThrew (rf_name: string) (rf_reason: jsval)
  | LanguageError

datatype activity_outcome = Returns jsval | Throws jsval

type_synonym activities = "string \<Rightarrow> (jsval \<Rightarrow> activity_outcome) option"

datatype runner_step =
    ActivityStep (step_name: string) (step_result: jsval)
  | ReducerStep (step_event: string) (step_ok: bool) (step_transition: jsval) (step_reconciliation: jsval) (step_emitted: jsval)
      (step_errors: jsval)

record run_context =
  cx_handoff :: jsval
  cx_launchRecord :: jsval
  cx_state :: jsval
  cx_steps :: "runner_step list"
  cx_errors :: "contract_error list"

record runner_result =
  rr_ok :: bool
  rr_completed :: bool
  rr_state :: jsval
  rr_steps :: "runner_step list"
  rr_errors :: "contract_error list"

definition SUCCESS_STATES :: "string list" where
  "SUCCESS_STATES = [''succeeded'', ''no_changes'']"

definition FINAL_STATUS_EVENTS :: "(string \<times> string) list" where
  "FINAL_STATUS_EVENTS = [(''succeeded'', ''trusted_status_succeeded''), (''no_changes'', ''trusted_status_no_changes''),
     (''failed'', ''trusted_status_failed'')]"

definition SUCCESSFUL_GITHUB_CONCLUSION :: jsval where
  "SUCCESSFUL_GITHUB_CONCLUSION = JStr ''success''"

definition runnerError :: "string \<Rightarrow> string \<Rightarrow> string \<Rightarrow> contract_error" where
  "runnerError path code message = \<lparr>ce_path = path, ce_code = code, ce_message = message\<rparr>"

text \<open>An error as the object it is in a payload or a step.\<close>

definition error_json :: "contract_error \<Rightarrow> jsval" where
  "error_json e = JObj [(''path'', JStr (ce_path e)), (''code'', JStr (ce_code e)), (''message'', JStr (ce_message e))]"

definition errors_json :: "contract_error list \<Rightarrow> jsval" where
  "errors_json es = JArr (map error_json es)"

definition shouldStop :: "jsval \<Rightarrow> bool" where
  "shouldStop state \<longleftrightarrow> isTemporalTerminalWorkflowState state \<or> js_get state ''state'' = JStr ''operator_reconciliation_required''"

definition runnerResult :: "run_context \<Rightarrow> runner_result" where
  "runnerResult c =
     \<lparr>rr_ok = set_has SUCCESS_STATES (js_get (cx_state c) ''state''),
      rr_completed = (isTemporalTerminalWorkflowState (cx_state c) \<or>
        js_get (cx_state c) ''state'' = JStr ''operator_reconciliation_required''),
      rr_state = cx_state c, rr_steps = cx_steps c, rr_errors = cx_errors c\<rparr>"

section \<open>Calling activities and the reducer\<close>

definition callActivity :: "activities \<Rightarrow> run_context \<Rightarrow> string \<Rightarrow> jsval \<Rightarrow> runner_failure + (run_context \<times> jsval)" where
  "callActivity activities c name input =
     (case activities name of
        None \<Rightarrow> Inl (TemporalWorkflowRunnerError (''Missing Temporal workflow runner activity: '' @ name) ''missing_activity'' []
          (Some name) (Some (cx_state c)))
      | Some activity \<Rightarrow>
          (case activity input of
             Throws reason \<Rightarrow> Inl (ActivityThrew name reason)
           | Returns v \<Rightarrow> Inr (c\<lparr>cx_steps := cx_steps c @ [ActivityStep name (clone v)]\<rparr>, v)))"

definition or_null :: "jsval option \<Rightarrow> jsval" where
  "or_null r = (case r of None \<Rightarrow> JNull | Some v \<Rightarrow> v)"

definition rejected_by_reducer :: "contract_error list \<Rightarrow> jsval \<Rightarrow> string option \<Rightarrow> runner_failure" where
  "rejected_by_reducer errors state activity =
     (case activity of
        Some name \<Rightarrow> TemporalWorkflowRunnerError ''Temporal workflow runner activity payload was rejected''
          ''invalid_activity_payload'' errors (Some name) (Some state)
      | None \<Rightarrow> TemporalWorkflowRunnerError ''Temporal workflow runner reducer transition was rejected''
          ''reducer_transition_rejected'' errors None (Some state))"

definition reduceIntoContext :: "run_context \<Rightarrow> string \<Rightarrow> jsobj \<Rightarrow> string option \<Rightarrow> runner_failure + run_context" where
  "reduceIntoContext c event payload activity =
     (case reduceTemporalWorkflowState (cx_state c) (JObj [(''type'', JStr event), (''payload'', JObj payload)]) of
        Accepted state fro ev to reconciliation emitted decision \<Rightarrow>
          Inr (c\<lparr>cx_state := state,
                 cx_steps := cx_steps c @ [ReducerStep event True (clone (JObj [(''from'', fro), (''event'', ev), (''to'', to)]))
                   (clone (or_null reconciliation)) (clone (or_null emitted)) JUndef]\<rparr>)
      | Rejected state errors \<Rightarrow> Inl (rejected_by_reducer errors state activity)
      | Threw \<Rightarrow> Inl LanguageError)"

section \<open>The input\<close>

definition appendValidationErrors :: "string \<Rightarrow> contract_result \<Rightarrow> contract_error list" where
  "appendValidationErrors pre validation =
     (if cr_valid validation then []
      else map (\<lambda>item. item\<lparr>ce_path := (if ce_path item \<noteq> [] then pre @ ''.'' @ ce_path item else pre)\<rparr>) (cr_errors validation))"

definition compareRunnerField :: "jsval \<Rightarrow> jsval \<Rightarrow> string \<Rightarrow> contract_error list" where
  "compareRunnerField actual expected path =
     (if actual = JUndef \<or> expected = JUndef
      then [runnerError path ''required_binding_context'' ''Runner requires matching handoff and launch-record context'']
      else if \<not> strict_eq actual expected
      then [runnerError path ''handoff_launch_mismatch'' ''Launch record must match handoff context''] else [])"

definition runner_fields :: "string list" where
  "runner_fields = [''initiative_id'', ''wk_id'', ''attempt_id'', ''dispatch_idempotency_key'', ''base_sha'', ''launch_ref'',
     ''output_branch'']"

definition validateRunnerInput :: "jsval \<Rightarrow> jsval \<Rightarrow> contract_error list" where
  "validateRunnerInput handoff launchRecord =
     (let errors = appendValidationErrors ''handoff'' (validateTemporalHandoffEnvelope handoff) @
            appendValidationErrors ''launchRecord'' (validateTemporalLaunchRecord launchRecord) in
      if \<not> is_plain_object handoff \<or> \<not> is_plain_object launchRecord then errors
      else errors @
        concat (map (\<lambda>key. compareRunnerField (js_get handoff key) (js_get launchRecord key) (''launchRecord.'' @ key)) runner_fields) @
        compareRunnerField (js_get (js_get handoff ''github'') ''run_name'') (js_get (js_get launchRecord ''github'') ''run_name'')
          ''launchRecord.github.run_name'' @
        compareRunnerField (js_get (js_get handoff ''github'') ''workflow_ref'')
          (js_get (js_get launchRecord ''github'') ''workflow_ref'') ''launchRecord.github.workflow_ref'' @
        (if \<not> is_plain_object (js_get launchRecord ''wrapper'')
         then [runnerError ''launchRecord.wrapper'' ''required_binding_context'' ''Runner requires launch-record wrapper binding'']
         else []) @
        (if \<not> is_plain_object (js_get launchRecord ''github'')
         then [runnerError ''launchRecord.github'' ''required_binding_context'' ''Runner requires launch-record GitHub binding'']
         else []))"

section \<open>The activities' outcomes\<close>

definition outcome_type :: "jsval \<Rightarrow> jsval" where
  "outcome_type v = js_or_nullish (js_get v ''type'') (js_get v ''outcome'')"

definition unsupported :: "string \<Rightarrow> string \<Rightarrow> string \<Rightarrow> runner_failure" where
  "unsupported message code activity = TemporalWorkflowRunnerError message code [] (Some activity) None"

definition applyLaunchOutcome :: "run_context \<Rightarrow> jsval \<Rightarrow> runner_failure + run_context" where
  "applyLaunchOutcome c outcome =
     (let type = outcome_type outcome; launch_sha = js_get (cx_launchRecord c) ''launch_sha'';
          activity = Some ''createOrObserveLaunchRef'' in
      if type = JStr ''created''
      then reduceIntoContext c ''launch_ref_created''
        [(''observed_launch_sha'', js_or_nullish (js_get outcome ''observed_launch_sha'') launch_sha)] activity
      else if type = JStr ''exists_expected_sha''
      then reduceIntoContext c ''launch_ref_exists_expected_sha''
        [(''observed_launch_sha'', js_or_nullish (js_get outcome ''observed_launch_sha'') launch_sha)] activity
      else if type = JStr ''exists_unexpected_sha''
      then reduceIntoContext c ''launch_ref_exists_unexpected_sha''
        [(''observed_launch_sha'', js_get outcome ''observed_launch_sha''),
         (''expected_launch_sha'', js_or_nullish (js_get outcome ''expected_launch_sha'') launch_sha),
         (''evidence_packet_id'', js_or_nullish (js_get outcome ''evidence_packet_id'') JNull)] activity
      else if type = JStr ''unknown_unproven''
      then reduceIntoContext c ''launch_ref_outcome_unknown_unproven''
        [(''last_error'', js_or_nullish (js_get outcome ''last_error'') (JStr ''launch ref outcome could not be proven'')),
         (''evidence_packet_id'', js_get outcome ''evidence_packet_id'')] activity
      else Inl (unsupported ''Unsupported launch-ref activity outcome'' ''unsupported_launch_ref_outcome'' ''createOrObserveLaunchRef''))"

definition applyGitHubObservation :: "run_context \<Rightarrow> jsval \<Rightarrow> jsval \<Rightarrow> runner_failure + run_context" where
  "applyGitHubObservation c observation launchRecord =
     (let type = outcome_type observation; activity = Some ''observeGitHubRun'' in
      if type = JStr ''zero_matches_timeout''
      then reduceIntoContext c ''github_run_zero_matches_timeout''
        [(''launch_ref'', js_or_nullish (js_get observation ''launch_ref'') (js_get launchRecord ''launch_ref'')),
         (''observation_window'', js_get observation ''observation_window'')] activity
      else if type = JStr ''one_active''
      then reduceIntoContext c ''github_run_one_active''
        [(''github_run_id'', js_get observation ''github_run_id''), (''run_url'', js_get observation ''run_url'')] activity
      else if type = JStr ''one_terminal''
      then reduceIntoContext c ''github_run_one_terminal''
        [(''github_run_id'', js_get observation ''github_run_id''), (''conclusion'', js_get observation ''conclusion''),
         (''run_url'', js_get observation ''run_url'')] activity
      else if type = JStr ''multiple_matches''
      then reduceIntoContext c ''github_run_multiple_matches''
        [(''matching_run_ids'', js_get observation ''matching_run_ids''),
         (''evidence_packet_id'', js_or_nullish (js_get observation ''evidence_packet_id'') JNull)] activity
      else Inl (unsupported ''Unsupported GitHub observation outcome'' ''unsupported_github_observation_outcome'' ''observeGitHubRun''))"

definition validateTerminalGitHubRunBinding :: "run_context \<Rightarrow> jsval \<Rightarrow> runner_failure + unit" where
  "validateTerminalGitHubRunBinding c terminalRun =
     (let bound = js_get (cx_state c) ''github_run_id'' in
      if nullish bound then Inr ()
      else if strict_eq (js_get terminalRun ''github_run_id'') bound then Inr ()
      else Inl (TemporalWorkflowRunnerError ''Temporal workflow runner activity payload was rejected'' ''invalid_activity_payload''
        [runnerError ''awaitGitHubRunTerminal.github_run_id'' ''github_run_id_mismatch''
           ''Terminal GitHub run id must match the previously observed active run id'']
        (Some ''awaitGitHubRunTerminal'') (Some (cx_state c))))"

definition applyArtifactCollection :: "run_context \<Rightarrow> jsval \<Rightarrow> runner_failure + run_context" where
  "applyArtifactCollection c artifacts =
     (let type = outcome_type artifacts; activity = Some ''collectRunArtifacts'' in
      if type = JStr ''collected''
      then reduceIntoContext c ''artifacts_collected''
        [(''status_artifact_id'', js_get artifacts ''status_artifact_id''),
         (''response_artifact_id'', js_get artifacts ''response_artifact_id'')] activity
      else if type = JStr ''missing''
      then reduceIntoContext c ''artifacts_missing'' [(''missing_artifacts'', js_get artifacts ''missing_artifacts'')] activity
      else Inl (unsupported ''Unsupported artifact collection outcome'' ''unsupported_artifact_collection_outcome'' ''collectRunArtifacts''))"

section \<open>The final status\<close>

definition compareProofField :: "jsval \<Rightarrow> jsval \<Rightarrow> string \<Rightarrow> contract_error list" where
  "compareProofField actual expected path =
     (if \<not> nonblank actual
      then [runnerError path ''required_trusted_wrapper_origin'' ''Trusted-wrapper origin proof requires binding field'']
      else if expected \<noteq> JUndef \<and> \<not> strict_eq actual expected
      then [runnerError path ''trusted_wrapper_origin_mismatch'' ''Trusted-wrapper origin proof must match current attempt context'']
      else [])"

definition trusted_wrapper_origin :: "jsval \<Rightarrow> jsval" where
  "trusted_wrapper_origin v = js_or_nullish (js_get v ''trusted_wrapper_origin'') (js_get v ''trustedWrapperOrigin'')"

definition validateTrustedWrapperOriginProof :: "run_context \<Rightarrow> jsval \<Rightarrow> contract_error list" where
  "validateTrustedWrapperOriginProof c v =
     (if \<not> is_plain_object v
      then [runnerError ''loadFinalStatus'' ''required_trusted_wrapper_origin''
              ''Final status must be returned in a trusted wrapper envelope'']
      else
      (if js_get v ''trusted'' \<noteq> JBool True
       then [runnerError ''loadFinalStatus.trusted'' ''required_trusted_wrapper_origin''
               ''Final status requires positive trusted-wrapper proof''] else []) @
      (let proof = trusted_wrapper_origin v; wrapper = js_get (cx_launchRecord c) ''wrapper'' in
       if \<not> is_plain_object proof
       then [runnerError ''loadFinalStatus.trusted_wrapper_origin'' ''required_trusted_wrapper_origin''
               ''Final status requires trusted-wrapper origin proof'']
       else
         compareProofField (js_get proof ''source'') (js_get wrapper ''source'') ''loadFinalStatus.trusted_wrapper_origin.source'' @
         compareProofField (js_get proof ''digest'') (js_get wrapper ''digest'') ''loadFinalStatus.trusted_wrapper_origin.digest'' @
         compareProofField (js_get proof ''github_run_id'') (js_get (cx_state c) ''github_run_id'')
           ''loadFinalStatus.trusted_wrapper_origin.github_run_id'' @
         compareProofField (js_get proof ''status_artifact_id'') (js_get (cx_state c) ''status_artifact_id'')
           ''loadFinalStatus.trusted_wrapper_origin.status_artifact_id''))"

definition validationErrorsFromFinalStatusResult :: "jsval \<Rightarrow> jsval list" where
  "validationErrorsFromFinalStatusResult v = js_items (js_get v ''validation_errors'')"

definition buildTemporalRunnerExpectedContext :: "jsval \<Rightarrow> jsval \<Rightarrow> jsval" where
  "buildTemporalRunnerExpectedContext launchRecord state =
     JObj [(''validation_mode'', JStr ''live''), (''launchRecord'', launchRecord), (''wrapper'', js_get launchRecord ''wrapper''),
       (''github_run_id'', js_get state ''github_run_id'')]"

text \<open>\<open>FINAL_STATUS_EVENTS[result]\<close>, for a result that was checked to be one of the known texts.\<close>

definition final_status_event :: "jsval \<Rightarrow> string option" where
  "final_status_event v = (case v of JStr s \<Rightarrow> map_of FINAL_STATUS_EVENTS s | _ \<Rightarrow> None)"

definition final_status_of :: "jsval \<Rightarrow> jsval" where
  "final_status_of v = js_or_nullish (js_get v ''final_status'') (js_or_nullish (js_get v ''status'') v)"

definition untrusted :: "run_context \<Rightarrow> jsval \<Rightarrow> jsval list \<Rightarrow> runner_failure + run_context" where
  "untrusted c reason errors =
     reduceIntoContext c ''status_invalid_or_untrusted'' [(''reason'', reason), (''validation_errors'', JArr errors)] None"

definition applyFinalStatus :: "run_context \<Rightarrow> jsval \<Rightarrow> runner_failure + run_context" where
  "applyFinalStatus c v =
     (let finalStatus = final_status_of v; trustedOriginErrors = validateTrustedWrapperOriginProof c v in
      if trustedOriginErrors \<noteq> []
      then untrusted c (js_or_nullish (js_get v ''reason'') (JStr ''status_untrusted''))
        (validationErrorsFromFinalStatusResult v @ map error_json trustedOriginErrors)
      else
      let expectedContext = buildTemporalRunnerExpectedContext (cx_launchRecord c) (cx_state c);
          validation = validateTemporalFinalStatus finalStatus expectedContext in
      if \<not> cr_valid validation
      then untrusted c (JStr ''status_schema_invalid'') (map error_json (cr_errors validation))
      else case final_status_event (js_get finalStatus ''result'') of
        None \<Rightarrow> untrusted c (JStr ''unsupported_final_status_result'')
          [error_json (runnerError ''final_status.result'' ''unsupported_result''
             ''Runner cannot close attempt with this final status result'')]
      | Some eventName \<Rightarrow>
          if set_has [''succeeded'', ''no_changes''] (js_get finalStatus ''result'') \<and>
             js_get (cx_state c) ''conclusion'' \<noteq> SUCCESSFUL_GITHUB_CONCLUSION
          then untrusted c (JStr ''github_run_conclusion_not_success'')
            [error_json (runnerError ''github_run.conclusion'' ''github_run_conclusion_not_success''
               ''Trusted succeeded or no_changes status requires observed successful GitHub run conclusion'')]
          else reduceIntoContext c eventName [(''final_status'', finalStatus), (''expected_context'', expectedContext)]
            (Some ''loadFinalStatus''))"

section \<open>The run\<close>

definition activity_input :: "run_context \<Rightarrow> jsobj" where
  "activity_input c = [(''handoff'', cx_handoff c), (''launchRecord'', cx_launchRecord c), (''state'', cx_state c)]"

text \<open>\<open>if (shouldStop(context.state)) return runnerResult(context);\<close> and otherwise what follows.\<close>

definition unless_stopped :: "(run_context \<Rightarrow> runner_failure + runner_result) \<Rightarrow> run_context \<Rightarrow> runner_failure + runner_result" where
  "unless_stopped k c = (if shouldStop (cx_state c) then Inr (runnerResult c) else k c)"

definition await_terminal :: "activities \<Rightarrow> run_context \<Rightarrow> runner_failure + run_context" where
  "await_terminal activities c =
     (if js_get (cx_state c) ''state'' = JStr ''github_run_active''
      then and_then (callActivity activities c ''awaitGitHubRunTerminal'' (JObj (activity_input c))) (\<lambda>(c, terminalRun).
        and_then (validateTerminalGitHubRunBinding c terminalRun) (\<lambda>_.
        if nullish terminalRun then Inl LanguageError
        else reduceIntoContext c ''github_run_terminal''
          [(''github_run_id'', js_or_nullish (js_get terminalRun ''github_run_id'') (js_get (cx_state c) ''github_run_id'')),
           (''conclusion'', js_get terminalRun ''conclusion'')] (Some ''awaitGitHubRunTerminal'')))
      else Inr c)"

definition close_attempt :: "activities \<Rightarrow> run_context \<Rightarrow> runner_failure + runner_result" where
  "close_attempt activities c =
     and_then (callActivity activities c ''loadFinalStatus''
       (JObj (activity_input c @ [(''status_artifact_id'', js_get (cx_state c) ''status_artifact_id'')]))) (\<lambda>(c, v).
     and_then (applyFinalStatus c v) (\<lambda>c. Inr (runnerResult c)))"

definition collect_and_close :: "activities \<Rightarrow> run_context \<Rightarrow> runner_failure + runner_result" where
  "collect_and_close activities c =
     and_then (callActivity activities c ''collectRunArtifacts'' (JObj (activity_input c))) (\<lambda>(c, artifacts).
     and_then (applyArtifactCollection c artifacts) (unless_stopped (close_attempt activities)))"

definition observe_and_close :: "activities \<Rightarrow> run_context \<Rightarrow> runner_failure + runner_result" where
  "observe_and_close activities c =
     and_then (callActivity activities c ''observeGitHubRun'' (JObj (activity_input c))) (\<lambda>(c, observation).
     and_then (applyGitHubObservation c observation (cx_launchRecord c)) (unless_stopped (\<lambda>c.
     and_then (await_terminal activities c) (unless_stopped (collect_and_close activities)))))"

definition start_observing :: "activities \<Rightarrow> run_context \<Rightarrow> runner_failure + runner_result" where
  "start_observing activities c =
     and_then (reduceIntoContext c ''observe_runs''
       [(''launch_ref'', js_get (cx_launchRecord c) ''launch_ref''),
        (''expected_run_name'', js_get (js_get (cx_launchRecord c) ''github'') ''run_name'')] None)
       (unless_stopped (observe_and_close activities))"

definition launch_and_close :: "activities \<Rightarrow> run_context \<Rightarrow> runner_failure + runner_result" where
  "launch_and_close activities c =
     and_then (callActivity activities c ''createOrObserveLaunchRef'' (JObj (activity_input c))) (\<lambda>(c, launchOutcome).
     and_then (applyLaunchOutcome c launchOutcome) (unless_stopped (start_observing activities)))"

definition request_dispatch :: "activities \<Rightarrow> run_context \<Rightarrow> runner_failure + runner_result" where
  "request_dispatch activities c =
     and_then (reduceIntoContext c ''dispatch_requested''
       [(''expected_launch_ref'', js_get (cx_launchRecord c) ''launch_ref''),
        (''expected_launch_sha'', js_get (cx_launchRecord c) ''launch_sha'')] None)
       (unless_stopped (launch_and_close activities))"

definition input_payload :: "jsval \<Rightarrow> jsval \<Rightarrow> jsobj" where
  "input_payload handoff launchRecord =
     [(''attempt_id'', js_get handoff ''attempt_id''), (''dispatch_idempotency_key'', js_get handoff ''dispatch_idempotency_key''),
      (''base_sha'', js_get handoff ''base_sha''), (''expected_launch_sha'', js_get launchRecord ''launch_sha''),
      (''output_branch'', js_get handoff ''output_branch''), (''launchRecord'', launchRecord)]"

definition runTemporalWorkflowAttempt :: "jsval \<Rightarrow> jsval \<Rightarrow> activities \<Rightarrow> jsval \<Rightarrow> runner_failure + runner_result" where
  "runTemporalWorkflowAttempt handoff launchRecord activities state0 =
     (let state = js_default (createTemporalWorkflowState JUndef) state0;
          c = \<lparr>cx_handoff = handoff, cx_launchRecord = launchRecord, cx_state = state, cx_steps = [], cx_errors = []\<rparr>;
          inputErrors = validateRunnerInput handoff launchRecord in
      if inputErrors \<noteq> []
      then and_then (reduceIntoContext c ''input_invalid''
          [(''reason'', JStr ''runner_input_invalid''), (''validation_errors'', errors_json inputErrors)] None)
        (\<lambda>c. Inr (runnerResult (c\<lparr>cx_errors := inputErrors\<rparr>)))
      else
      and_then (reduceIntoContext c ''input_valid'' (input_payload handoff launchRecord) None)
        (unless_stopped (request_dispatch activities)))"

section \<open>Single events and operator decisions\<close>

definition checked_reduction :: "string \<Rightarrow> string \<Rightarrow> workflow_reduction \<Rightarrow> runner_failure + workflow_reduction" where
  "checked_reduction message code r =
     (case r of
        Accepted state fro ev to reconciliation emitted decision \<Rightarrow> Inr r
      | Rejected state errors \<Rightarrow> Inl (TemporalWorkflowRunnerError message code errors None (Some state))
      | Threw \<Rightarrow> Inl LanguageError)"

definition applyTemporalWorkflowRunnerEvent :: "jsval \<Rightarrow> jsval \<Rightarrow> runner_failure + workflow_reduction" where
  "applyTemporalWorkflowRunnerEvent state event =
     checked_reduction ''Temporal workflow runner event was rejected'' ''reducer_event_rejected'' (reduceTemporalWorkflowState state event)"

definition recordTemporalWorkflowOperatorDecision :: "jsval \<Rightarrow> jsval \<Rightarrow> jsval \<Rightarrow> activities \<Rightarrow> runner_failure + workflow_reduction" where
  "recordTemporalWorkflowOperatorDecision state decision payload activities =
     and_then (checked_reduction ''Temporal workflow operator decision was rejected'' ''operator_decision_rejected''
       (applyTemporalOperatorDecision state decision payload)) (\<lambda>r.
     case activities ''recordOperatorDecision'' of
       None \<Rightarrow> Inr r
     | Some activity \<Rightarrow>
         (case activity (JObj [(''state'', state), (''decision'', decision), (''payload'', payload)]) of
            Throws reason \<Rightarrow> Inl (ActivityThrew ''recordOperatorDecision'' reason)
          | Returns _ \<Rightarrow> Inr r))"

end
