(* ===== verification/RunnerSteps.thy ===== *)
theory RunnerSteps
  imports TemporalRunner "HOL-Library.Sublist"
begin

text \<open>
  The steps of a run: what an accepted event does to the context, the moves a run is made of, and how a run ends.
\<close>

section \<open>Steps of the runner\<close>

text \<open>The events of the runner are those of the transition table.\<close>

definition special_events :: "string list" where
  "special_events = [''cancel_requested'', ''supersede_requested'', ''late_trusted_output_observed'',
     ''post_terminal_evidence_conflict'', ''operator_decision'']"

definition edges :: "string \<Rightarrow> (string \<times> string) list" where
  "edges n = map (\<lambda>spec. (ts_source spec, ts_next spec)) (filter (\<lambda>spec. ts_event spec = n) TRANSITIONS)"

lemma accepts_edge:
  assumes "accepts state n payload next options" and "n \<notin> set special_events"
  shows "\<exists>spec\<in>set TRANSITIONS. ts_event spec = n \<and> state_name state = JStr (ts_source spec) \<and> next = JStr (ts_next spec) \<and>
    options = spec_options spec \<and>
    validateTransitionPayload state payload spec (validateRequiredPayload payload (ts_required spec)) = []"
  using assms(1)
proof cases
  case (table spec)
  then show ?thesis by blast
qed (use assms(2) in \<open>simp_all add: special_events_def\<close>)

fun is_activity :: "runner_step \<Rightarrow> bool" where
  "is_activity (ActivityStep n v) = True"
| "is_activity _ = False"

lemma reduce_into:
  assumes "reduceIntoContext c n payload activity = Inr c'"
  obtains "next" options r step where "accepts (normalizeState (cx_state c)) n (JObj payload) next options"
    and "cx_state c' = accepted_state (normalizeState (cx_state c)) n (JObj payload) next options r"
    and "workflow_next (cx_state c) (cx_state c')" and "js_get (cx_state c') ''state'' = next"
    and "c' = c\<lparr>cx_state := cx_state c', cx_steps := cx_steps c @ [step]\<rparr>" and "\<not> is_activity step"
proof -
  let ?e = "JObj [(''type'', JStr n), (''payload'', JObj payload)]"
  obtain s' fro ev to rec em d where red: "reduceTemporalWorkflowState (cx_state c) ?e = Accepted s' fro ev to rec em d"
    and c': "c' = c\<lparr>cx_state := s', cx_steps := cx_steps c @ [ReducerStep n True (clone (JObj [(''from'', fro), (''event'', ev), (''to'', to)]))
                   (clone (or_null rec)) (clone (or_null em)) JUndef]\<rparr>"
    using assms by (auto simp: reduceIntoContext_def split: workflow_reduction.splits)
  obtain k m p "next" options where p: "p = (if is_plain_object (js_get ?e ''payload'') then js_get ?e ''payload'' else JObj [])"
    and a: "accepts (normalizeState (cx_state c)) m p next options"
    and acc: "accepted (normalizeState (cx_state c)) m p next options = Accepted s' fro ev to rec em d"
    and m: "js_or_nullish (js_get ?e ''type'') (js_get ?e ''event'') = JStr m"
    by (rule reduce_accepts [OF red])
  have mp: "m = n" "p = JObj payload" using m p by (simp_all add: js_or_nullish_def nullish_def)
  have s': "s' = accepted_state (normalizeState (cx_state c)) n (JObj payload) next options rec"
    using acc unfolding mp by (simp add: accepted_iff)
  have "js_get s' ''state'' = next"
    unfolding s' using accepted_state_get [OF _ a [unfolded mp], of "''state''" rec] by simp
  with a s' c' red show thesis
    unfolding mp by (intro that [of "next" options rec]) (auto intro: workflow_next.intros)
qed

text \<open>The result of one event: where it came from, where it leads, and what stays.\<close>

lemma reduce_edge:
  assumes "reduceIntoContext c n payload activity = Inr c'" and "n \<notin> set special_events"
  shows "\<exists>(src, nxt)\<in>set (edges n). state_name (normalizeState (cx_state c)) = JStr src \<and> js_get (cx_state c') ''state'' = JStr nxt"
proof -
  obtain "next" options r where a: "accepts (normalizeState (cx_state c)) n (JObj payload) next options"
    and s: "js_get (cx_state c') ''state'' = next"
    by (rule reduce_into [OF assms(1)])
  from accepts_edge [OF a assms(2)] s show ?thesis by (auto simp: edges_def)
qed

definition activity_names :: "runner_step list \<Rightarrow> string list" where
  "activity_names steps = map step_name (filter is_activity steps)"

lemma reduce_keeps:
  assumes "reduceIntoContext c n payload activity = Inr c'"
  shows "cx_handoff c' = cx_handoff c" and "cx_launchRecord c' = cx_launchRecord c" and "cx_errors c' = cx_errors c"
    and "activity_names (cx_steps c') = activity_names (cx_steps c)" and "workflow_next (cx_state c) (cx_state c')"
proof -
  obtain step where c': "c' = c\<lparr>cx_state := cx_state c', cx_steps := cx_steps c @ [step]\<rparr>" and s: "\<not> is_activity step"
    and w: "workflow_next (cx_state c) (cx_state c')"
    by (rule reduce_into [OF assms])
  show "cx_handoff c' = cx_handoff c" "cx_launchRecord c' = cx_launchRecord c" "cx_errors c' = cx_errors c"
    by (subst c', simp)+
  from s show "activity_names (cx_steps c') = activity_names (cx_steps c)"
    by (subst c') (simp add: activity_names_def)
  show "workflow_next (cx_state c) (cx_state c')" by (rule w)
qed

lemma call_activity:
  "callActivity activities c name input = Inr (c', v) \<longleftrightarrow>
   (\<exists>activity. activities name = Some activity \<and> activity input = Returns v) \<and>
   c' = c\<lparr>cx_steps := cx_steps c @ [ActivityStep name (clone v)]\<rparr>"
  by (auto simp: callActivity_def split: option.splits activity_outcome.splits)

section \<open>How a run ends\<close>

lemma success_states_stop: "set_has SUCCESS_STATES (js_get s ''state'') \<Longrightarrow> shouldStop s"
proof -
  have "list_all (\<lambda>k. k \<in> set TEMPORAL_TERMINAL_WORKFLOW_STATES) SUCCESS_STATES" by code_simp
  then show "set_has SUCCESS_STATES (js_get s ''state'') \<Longrightarrow> shouldStop s"
    unfolding shouldStop_def isTemporalTerminalWorkflowState_def getStateName_def set_has_iff list_all_iff
    by (cases s) auto
qed

lemma stops_at:
  "js_get s ''state'' = JStr k \<Longrightarrow> k \<in> set (''operator_reconciliation_required'' # TEMPORAL_TERMINAL_WORKFLOW_STATES) \<Longrightarrow> shouldStop s"
  unfolding shouldStop_def isTemporalTerminalWorkflowState_def getStateName_def by (cases s) (auto simp: set_has_iff)

text \<open>The events that close an attempt.\<close>

definition closing_events :: "string list" where
  "closing_events = [''input_invalid'', ''status_invalid_or_untrusted'', ''trusted_status_succeeded'', ''trusted_status_no_changes'',
     ''trusted_status_failed'']"

lemma closing_stops:
  assumes "reduceIntoContext c n payload activity = Inr c'" and "n \<in> set closing_events"
  shows "shouldStop (cx_state c')"
proof -
  have "list_all (\<lambda>n. n \<notin> set special_events \<and>
    list_all (\<lambda>(src, nxt). nxt \<in> set TEMPORAL_TERMINAL_WORKFLOW_STATES) (edges n)) closing_events" by code_simp
  then have "n \<notin> set special_events" and t: "\<forall>(src, nxt)\<in>set (edges n). nxt \<in> set TEMPORAL_TERMINAL_WORKFLOW_STATES"
    using assms(2) by (auto simp only: list_all_iff)
  with reduce_edge [OF assms(1)] obtain src nxt where "js_get (cx_state c') ''state'' = JStr nxt"
    "nxt \<in> set TEMPORAL_TERMINAL_WORKFLOW_STATES" by blast
  then show ?thesis by (auto intro: stops_at)
qed

lemma final_status_event_closing: "final_status_event v = Some n \<Longrightarrow> n \<in> set closing_events"
proof -
  have "list_all (\<lambda>(k, n). n \<in> set closing_events) FINAL_STATUS_EVENTS" by code_simp
  then show "final_status_event v = Some n \<Longrightarrow> n \<in> set closing_events"
    unfolding list_all_iff final_status_event_def by (auto split: jsval.splits dest!: map_of_SomeD)
qed

lemma final_status_reduces:
  assumes "applyFinalStatus c v = Inr c'"
  shows "\<exists>n payload activity. n \<in> set closing_events \<and> reduceIntoContext c n payload activity = Inr c'"
proof -
  have "''status_invalid_or_untrusted'' \<in> set closing_events" by (simp add: closing_events_def)
  with assms final_status_event_closing show ?thesis
    by (auto simp: applyFinalStatus_def untrusted_def Let_def split: if_splits option.splits)
qed

lemma completed_iff: "rr_completed (runnerResult c) \<longleftrightarrow> shouldStop (cx_state c)"
  by (simp add: runnerResult_def shouldStop_def)

text \<open>The moves of a run: accepted events and returning activities.\<close>

inductive runner_moves :: "activities \<Rightarrow> run_context \<Rightarrow> run_context \<Rightarrow> bool" for activities where
  here: "runner_moves activities c c"
| reduce: "runner_moves activities c d \<Longrightarrow> reduceIntoContext d n payload activity = Inr d' \<Longrightarrow> runner_moves activities c d'"
| call: "runner_moves activities c d \<Longrightarrow> callActivity activities d name input = Inr (d', v) \<Longrightarrow> runner_moves activities c d'"

lemmas move_reduce = runner_moves.reduce [OF runner_moves.here]
lemmas move_call = runner_moves.call [OF runner_moves.here]

lemma moves_trans: "runner_moves activities d e \<Longrightarrow> runner_moves activities c d \<Longrightarrow> runner_moves activities c e"
  by (induction rule: runner_moves.induct) (auto intro: runner_moves.intros)

lemma moves_keep:
  assumes "runner_moves activities c d"
  shows "cx_handoff d = cx_handoff c" and "cx_launchRecord d = cx_launchRecord c" and "cx_errors d = cx_errors c"
  using assms by (induction rule: runner_moves.induct) (auto simp: reduce_keeps call_activity)

lemma moves_reachable: "runner_moves activities c d \<Longrightarrow> workflow_reachable (cx_state c) \<Longrightarrow> workflow_reachable (cx_state d)"
  by (induction rule: runner_moves.induct) (auto simp: call_activity intro: workflow_reachable.step dest: reduce_keeps(5))

text \<open>How a run ends: it stops, and with success only after a final status was loaded and applied.\<close>

abbreviation run_succeeded :: "run_context \<Rightarrow> bool" where
  "run_succeeded c \<equiv> set_has SUCCESS_STATES (js_get (cx_state c) ''state'')"

definition ends :: "activities \<Rightarrow> run_context \<Rightarrow> runner_result \<Rightarrow> bool" where
  "ends activities c r \<longleftrightarrow> (\<exists>c'. r = runnerResult c' \<and> runner_moves activities c c' \<and> shouldStop (cx_state c') \<and>
     (run_succeeded c' \<longrightarrow> (\<exists>d d' v input. runner_moves activities c d \<and>
        callActivity activities d ''loadFinalStatus'' input = Inr (d', v) \<and> applyFinalStatus d' v = Inr c')))"

lemma ends_after: "runner_moves activities c d \<Longrightarrow> ends activities d r \<Longrightarrow> ends activities c r"
  unfolding ends_def using moves_trans by blast

lemma ends_unless_stopped:
  assumes "unless_stopped k c = Inr r" and "\<not> run_succeeded c" and "k c = Inr r \<Longrightarrow> ends activities c r"
  shows "ends activities c r"
  using assms by (auto simp: unless_stopped_def ends_def intro: runner_moves.here split: if_splits)

definition success_events :: "string list" where
  "success_events = [''trusted_status_succeeded'', ''trusted_status_no_changes'']"

lemma reduce_not_success:
  assumes "reduceIntoContext c n payload activity = Inr c'" and "n \<notin> set (success_events @ special_events)"
  shows "\<not> run_succeeded c'"
proof -
  have "list_all (\<lambda>spec. ts_event spec \<in> set success_events \<or> ts_next spec \<notin> set SUCCESS_STATES) TRANSITIONS" by code_simp
  then have "\<forall>(src, nxt)\<in>set (edges n). nxt \<notin> set SUCCESS_STATES"
    using assms(2) unfolding list_all_iff edges_def set_append by auto
  moreover have "n \<notin> set special_events" using assms(2) unfolding set_append by blast
  ultimately obtain nxt where "js_get (cx_state c') ''state'' = JStr nxt" "nxt \<notin> set SUCCESS_STATES"
    using reduce_edge [OF assms(1)] by blast
  then show ?thesis by (simp add: set_has_iff)
qed

text \<open>An event that is not a trusted success.\<close>

definition quietly :: "run_context \<Rightarrow> run_context \<Rightarrow> bool" where
  "quietly c c' \<longleftrightarrow> (\<exists>n payload activity. n \<notin> set (success_events @ special_events) \<and> reduceIntoContext c n payload activity = Inr c')"

lemma quietly_moves: "quietly c c' \<Longrightarrow> runner_moves activities c c'" and quietly_not_success: "quietly c c' \<Longrightarrow> \<not> run_succeeded c'"
  by (auto simp only: quietly_def intro: move_reduce dest: reduce_not_success)

lemma quietlyI:
  "reduceIntoContext c n payload activity = Inr c' \<Longrightarrow> n \<notin> set (success_events @ special_events) \<Longrightarrow> quietly c c'"
  unfolding quietly_def by blast

lemma launch_quiet: "applyLaunchOutcome c v = Inr c' \<Longrightarrow> quietly c c'"
  unfolding applyLaunchOutcome_def Let_def
  by (auto split: if_splits elim!: quietlyI simp: success_events_def special_events_def)

lemma observation_quiet: "applyGitHubObservation c v l = Inr c' \<Longrightarrow> quietly c c'"
  unfolding applyGitHubObservation_def Let_def
  by (auto split: if_splits elim!: quietlyI simp: success_events_def special_events_def)

lemma artifacts_quiet: "applyArtifactCollection c v = Inr c' \<Longrightarrow> quietly c c'"
  unfolding applyArtifactCollection_def Let_def
  by (auto split: if_splits elim!: quietlyI simp: success_events_def special_events_def)

lemma close_ends:
  assumes "close_attempt activities c = Inr r"
  shows "ends activities c r"
proof -
  obtain d v c' input where call: "callActivity activities c ''loadFinalStatus'' input = Inr (d, v)"
    and app: "applyFinalStatus d v = Inr c'" and r: "r = runnerResult c'"
    using assms by (auto simp: close_attempt_def and_then_Inr)
  obtain n payload activity where n: "n \<in> set closing_events" "reduceIntoContext d n payload activity = Inr c'"
    using final_status_reduces [OF app] by blast
  have "runner_moves activities c c'" by (rule runner_moves.reduce [OF move_call [OF call] n(2)])
  with call app r closing_stops [OF n(2,1)] show ?thesis
    unfolding ends_def using runner_moves.here by blast
qed

lemma collect_ends:
  assumes "collect_and_close activities c = Inr r"
  shows "ends activities c r"
proof -
  obtain d v d' input where call: "callActivity activities c ''collectRunArtifacts'' input = Inr (d, v)"
    and q: "quietly d d'" and u: "unless_stopped (close_attempt activities) d' = Inr r"
    using assms artifacts_quiet by (auto simp: collect_and_close_def and_then_Inr) blast
  have "ends activities d' r"
    by (rule ends_unless_stopped [OF u quietly_not_success [OF q]]) (rule close_ends)
  then show ?thesis by (intro ends_after [OF move_call [OF call]] ends_after [OF quietly_moves [OF q]])
qed

lemma await_moves:
  assumes "await_terminal activities c = Inr d" and "\<not> run_succeeded c"
  shows "runner_moves activities c d \<and> \<not> run_succeeded d"
proof (cases "js_get (cx_state c) ''state'' = JStr ''github_run_active''")
  case True
  then obtain e v input payload activity where call: "callActivity activities c ''awaitGitHubRunTerminal'' input = Inr (e, v)"
    and red: "reduceIntoContext e ''github_run_terminal'' payload activity = Inr d"
    using assms(1) by (auto simp: await_terminal_def and_then_Inr split: if_splits)
  have "quietly e d" by (rule quietlyI [OF red]) (simp add: success_events_def special_events_def)
  then show ?thesis using quietly_not_success runner_moves.reduce [OF move_call [OF call] red] by blast
next
  case False
  then show ?thesis using assms by (auto simp: await_terminal_def intro: runner_moves.here)
qed

lemma observe_ends:
  assumes "observe_and_close activities c = Inr r"
  shows "ends activities c r"
proof -
  obtain d v d' input where call: "callActivity activities c ''observeGitHubRun'' input = Inr (d, v)" and q: "quietly d d'"
    and u: "unless_stopped (\<lambda>c. and_then (await_terminal activities c) (unless_stopped (collect_and_close activities))) d' = Inr r"
    using assms observation_quiet by (auto simp: observe_and_close_def and_then_Inr) blast
  have "ends activities d' r"
  proof (rule ends_unless_stopped [OF u quietly_not_success [OF q]])
    assume "and_then (await_terminal activities d') (unless_stopped (collect_and_close activities)) = Inr r"
    then obtain e where e: "await_terminal activities d' = Inr e" and ue: "unless_stopped (collect_and_close activities) e = Inr r"
      by (auto simp: and_then_Inr)
    note m = await_moves [OF e quietly_not_success [OF q]]
    have "ends activities e r" by (rule ends_unless_stopped [OF ue]) (use m collect_ends in auto)
    with m show "ends activities d' r" by (blast intro: ends_after)
  qed
  then show ?thesis by (intro ends_after [OF move_call [OF call]] ends_after [OF quietly_moves [OF q]])
qed

lemma start_observing_ends:
  assumes "start_observing activities c = Inr r"
  shows "ends activities c r"
proof -
  obtain d payload where red: "reduceIntoContext c ''observe_runs'' payload None = Inr d"
    and u: "unless_stopped (observe_and_close activities) d = Inr r"
    using assms by (auto simp: start_observing_def and_then_Inr)
  have q: "quietly c d" by (rule quietlyI [OF red]) (simp add: success_events_def special_events_def)
  have "ends activities d r" by (rule ends_unless_stopped [OF u quietly_not_success [OF q]]) (rule observe_ends)
  then show ?thesis by (rule ends_after [OF quietly_moves [OF q]])
qed

lemma launch_ends:
  assumes "launch_and_close activities c = Inr r"
  shows "ends activities c r"
proof -
  obtain d v d' input where call: "callActivity activities c ''createOrObserveLaunchRef'' input = Inr (d, v)" and q: "quietly d d'"
    and u: "unless_stopped (start_observing activities) d' = Inr r"
    using assms launch_quiet by (auto simp: launch_and_close_def and_then_Inr) blast
  have "ends activities d' r"
    by (rule ends_unless_stopped [OF u quietly_not_success [OF q]]) (rule start_observing_ends)
  then show ?thesis by (intro ends_after [OF move_call [OF call]] ends_after [OF quietly_moves [OF q]])
qed

lemma dispatch_ends:
  assumes "request_dispatch activities c = Inr r"
  shows "ends activities c r"
proof -
  obtain d payload where red: "reduceIntoContext c ''dispatch_requested'' payload None = Inr d"
    and u: "unless_stopped (launch_and_close activities) d = Inr r"
    using assms by (auto simp: request_dispatch_def and_then_Inr)
  have q: "quietly c d" by (rule quietlyI [OF red]) (simp add: success_events_def special_events_def)
  have "ends activities d r" by (rule ends_unless_stopped [OF u quietly_not_success [OF q]]) (rule launch_ends)
  then show ?thesis by (rule ends_after [OF quietly_moves [OF q]])
qed

definition start_context :: "jsval \<Rightarrow> jsval \<Rightarrow> jsval \<Rightarrow> run_context" where
  "start_context handoff launchRecord state0 =
     \<lparr>cx_handoff = handoff, cx_launchRecord = launchRecord, cx_state = js_default (createTemporalWorkflowState JUndef) state0,
      cx_steps = [], cx_errors = []\<rparr>"

lemma run_ends:
  assumes "runTemporalWorkflowAttempt handoff launchRecord activities state0 = Inr r"
  shows "validateRunnerInput handoff launchRecord = [] \<and> ends activities (start_context handoff launchRecord state0) r \<or>
    (\<exists>c'. quietly (start_context handoff launchRecord state0) c' \<and> shouldStop (cx_state c') \<and>
       r = runnerResult (c'\<lparr>cx_errors := validateRunnerInput handoff launchRecord\<rparr>))"
proof (cases "validateRunnerInput handoff launchRecord = []")
  case True
  then obtain d payload where red: "reduceIntoContext (start_context handoff launchRecord state0) ''input_valid'' payload None = Inr d"
    and u: "unless_stopped (request_dispatch activities) d = Inr r"
    using assms by (auto simp: runTemporalWorkflowAttempt_def Let_def and_then_Inr start_context_def)
  have q: "quietly (start_context handoff launchRecord state0) d"
    by (rule quietlyI [OF red]) (simp add: success_events_def special_events_def)
  have "ends activities d r" by (rule ends_unless_stopped [OF u quietly_not_success [OF q]]) (rule dispatch_ends)
  with True show ?thesis using ends_after [OF quietly_moves [OF q]] by blast
next
  case False
  then obtain d payload where red: "reduceIntoContext (start_context handoff launchRecord state0) ''input_invalid'' payload None = Inr d"
    and r: "r = runnerResult (d\<lparr>cx_errors := validateRunnerInput handoff launchRecord\<rparr>)"
    using assms by (auto simp: runTemporalWorkflowAttempt_def Let_def and_then_Inr start_context_def)
  have "quietly (start_context handoff launchRecord state0) d"
    by (rule quietlyI [OF red]) (simp add: success_events_def special_events_def)
  moreover have "shouldStop (cx_state d)" by (rule closing_stops [OF red]) (simp add: closing_events_def)
  ultimately show ?thesis using r by blast
qed

definition stop_names :: "string list" where
  "stop_names = ''operator_reconciliation_required'' # TEMPORAL_TERMINAL_WORKFLOW_STATES"

end
