(* ===== verification/RunnerProperties.thy ===== *)
theory RunnerProperties
  imports RunnerSteps
begin

text \<open>
  Properties of a run that returns: it has closed its attempt or handed it to an operator; its state is one the reducer reaches;
  it reports success only on a trusted final status; and it calls its activities in one order, each at most once. At the end a
  run to success, for the witnesses.
\<close>

section \<open>A run that returns is complete\<close>

text \<open>A run that returns has closed its attempt: the state it returns is terminal, or it asks for an operator. It never
  returns in the middle of the lifecycle.\<close>

theorem returned_run_is_complete:
  assumes "runTemporalWorkflowAttempt handoff launchRecord activities state0 = Inr r"
  shows "rr_completed r"
  using run_ends [OF assms] by (auto simp: ends_def completed_iff)

text \<open>The state a run returns is one that the workflow reducer reaches from the state it was given.\<close>

theorem run_state_reachable:
  assumes "runTemporalWorkflowAttempt handoff launchRecord activities state0 = Inr r"
    and "workflow_reachable (js_default (createTemporalWorkflowState JUndef) state0)"
  shows "workflow_reachable (rr_state r)"
proof -
  have s: "workflow_reachable (cx_state (start_context handoff launchRecord state0))" using assms(2) by (simp add: start_context_def)
  from run_ends [OF assms(1)] show ?thesis
    using moves_reachable [OF _ s] quietly_moves by (auto simp: ends_def runnerResult_def)
qed

section \<open>Success needs a trusted status\<close>

text \<open>From the observation of a run on, an attempt knows the run; from the judgement of its status on, the artifact of the
  status.\<close>

definition known_from :: "string \<Rightarrow> string list" where
  "known_from key =
     (if key = ''github_run_id'' then [''github_run_active'', ''artifact_collecting'', ''status_validating'', ''succeeded'', ''no_changes'']
      else if key = ''status_artifact_id'' then [''status_validating'', ''succeeded'', ''no_changes''] else [])"

definition identified :: "string \<Rightarrow> jsval \<Rightarrow> bool" where
  "identified key s \<longleftrightarrow> (set_has (known_from key) (state_name s) \<longrightarrow> \<not> payload_missing (js_get s key))"

lemma required_present:
  assumes "validateTransitionPayload state payload spec (validateRequiredPayload payload (ts_required spec)) = []"
    and "k \<in> set (ts_required spec)"
  shows "\<not> payload_missing (js_get payload k)"
  using validateTransitionPayload_required [OF assms(1)] assms(2)
  by (auto simp: validateRequiredPayload_def concat_map_empty fail_if_empty)

lemma identified_next:
  assumes "typed_state s" and "identified key s" and "workflow_next s s'" and key: "key \<in> set [''github_run_id'', ''status_artifact_id'']"
  shows "identified key s'"
proof -
  obtain k n payload "next" options r where k: "state_name (normalizeState s) = JStr k"
    and a: "accepts (normalizeState s) n payload next options"
    and e: "s' = accepted_state (normalizeState s) n payload next options r"
    by (rule next_accepts [OF assms(3)])
  note g = next_get [OF a e assms(1)]
  have sk: "state_name s = JStr k" using k typed_state_name [OF assms(1)] by simp
  have get: "js_get s' key = (if key \<in> set (ao_persist options) \<and> js_get payload key \<noteq> JUndef then js_get payload key else js_get s key)"
    using accepted_state_get [OF _ a, of key r] key unfolding e by auto
  have t: "list_all (\<lambda>spec. list_all (\<lambda>key. (key \<in> set (ts_persist spec) \<longrightarrow> key \<in> set (ts_required spec)) \<and>
      (ts_next spec \<in> set (known_from key) \<longrightarrow> key \<in> set (ts_persist spec) \<or> ts_source spec \<in> set (known_from key)))
      [''github_run_id'', ''status_artifact_id'']) TRANSITIONS" by code_simp
  have same: ?thesis if "key \<notin> set (ao_persist options)" "next = JStr k \<or> \<not> set_has (known_from key) next"
    using that get assms(2) sk g(1) by (auto simp: identified_def)
  have "list_all (\<lambda>key. list_all (\<lambda>m. m \<notin> set (known_from key)) [''cancelled'', ''cancel_requested'', ''cancel_observing'', ''superseded'',
    ''github_run_observing'', ''failed'', ''inconclusive'']) [''github_run_id'', ''status_artifact_id'']" by code_simp
  then have "list_all (\<lambda>m. m \<notin> set (known_from key)) [''cancelled'', ''cancel_requested'', ''cancel_observing'', ''superseded'',
    ''github_run_observing'', ''failed'', ''inconclusive'']" using key unfolding list_all_iff [of _ "[''github_run_id'', ''status_artifact_id'']"] by blast
  then have out: "''cancelled'' \<notin> set (known_from key)" "''cancel_requested'' \<notin> set (known_from key)"
    "''cancel_observing'' \<notin> set (known_from key)" "''superseded'' \<notin> set (known_from key)"
    "''github_run_observing'' \<notin> set (known_from key)" "''failed'' \<notin> set (known_from key)" "''inconclusive'' \<notin> set (known_from key)"
    by simp_all
  have other: "key \<noteq> ''known_github_run_id''" "key \<noteq> ''observed_launch_sha''" using key by auto
  from a show ?thesis
  proof cases
    case (table spec)
    have spec: "(key \<in> set (ts_persist spec) \<longrightarrow> key \<in> set (ts_required spec)) \<and>
      (ts_next spec \<in> set (known_from key) \<longrightarrow> key \<in> set (ts_persist spec) \<or> ts_source spec \<in> set (known_from key))"
      using t table(4) key unfolding list_all_iff by blast
    show ?thesis
    proof (cases "key \<in> set (ts_persist spec)")
      case True
      then have "\<not> payload_missing (js_get payload key)" using spec required_present [OF table(6)] by blast
      with True get table(3) show ?thesis by (auto simp: identified_def spec_options_def payload_missing_def)
    next
      case False
      with spec get table assms(2) sk k g(1) show ?thesis
        by (auto simp: identified_def spec_options_def set_has_iff)
    qed
  next
    case (retry_new n' r')
    have "retry_disposition (normalizeState s) payload = JStr k \<or> retry_disposition (normalizeState s) payload \<in> {JStr ''superseded'', JStr ''failed''}"
      using k by (auto simp: retry_disposition_def)
    with retry_new show ?thesis by (intro same) (auto simp: no_options_def out set_has_iff)
  next
    case cancel_early
    show ?thesis by (rule same) (simp_all add: cancel_early no_options_def out set_has_iff other)
  next
    case cancel_creating
    show ?thesis by (rule same) (simp_all add: cancel_creating no_options_def out set_has_iff other)
  next
    case cancel_running
    show ?thesis by (rule same) (simp_all add: cancel_running no_options_def out set_has_iff other)
  next
    case supersede
    show ?thesis by (rule same) (simp_all add: supersede no_options_def out set_has_iff other)
  next
    case observe_again
    show ?thesis by (rule same) (simp_all add: observe_again no_options_def out set_has_iff other)
  next
    case mark_failed
    show ?thesis by (rule same) (simp_all add: mark_failed no_options_def out set_has_iff other)
  next
    case mark_inconclusive
    show ?thesis by (rule same) (simp_all add: mark_inconclusive no_options_def out set_has_iff other)
  next
    case late
    show ?thesis by (rule same) (use k in \<open>simp_all add: late no_options_def\<close>)
  next
    case conflict
    show ?thesis by (rule same) (use k in \<open>simp_all add: conflict no_options_def\<close>)
  next
    case accept_late
    show ?thesis by (rule same) (use k in \<open>simp_all add: accept_late no_options_def\<close>)
  next
    case abandon_late
    show ?thesis by (rule same) (use k in \<open>simp_all add: abandon_late no_options_def\<close>)
  next
    case (abandon d)
    then have "d \<notin> set (known_from key)" using out by blast
    then show ?thesis by (intro same) (simp_all add: abandon(2,3) no_options_def set_has_iff)
  qed
qed

lemma reachable_identified:
  assumes "workflow_reachable s" and "key \<in> set [''github_run_id'', ''status_artifact_id'']"
  shows "typed_state s \<and> identified key s"
  using assms(1)
proof (induction rule: workflow_reachable.induct)
  case start
  have "list_all (\<lambda>key. identified key (createTemporalWorkflowState JUndef)) [''github_run_id'', ''status_artifact_id'']" by code_simp
  then show ?case using assms(2) typed_start unfolding list_all_iff by blast
next
  case (step s s')
  then show ?case using typed_next identified_next assms(2) by blast
qed

lemma compareProofField_empty: "compareProofField a e path = [] \<longleftrightarrow> nonblank a \<and> (e = JUndef \<or> strict_eq a e)"
  by (simp add: compareProofField_def)

lemma trusted_proof:
  assumes "validateTrustedWrapperOriginProof c v = []"
  shows "js_get v ''trusted'' = JBool True"
    and "js_get (js_get (cx_launchRecord c) ''wrapper'') ''source'' \<noteq> JUndef \<Longrightarrow>
      js_get (trusted_wrapper_origin v) ''source'' = js_get (js_get (cx_launchRecord c) ''wrapper'') ''source''"
    and "js_get (js_get (cx_launchRecord c) ''wrapper'') ''digest'' \<noteq> JUndef \<Longrightarrow>
      js_get (trusted_wrapper_origin v) ''digest'' = js_get (js_get (cx_launchRecord c) ''wrapper'') ''digest''"
    and "js_get (cx_state c) ''github_run_id'' \<noteq> JUndef \<Longrightarrow>
      js_get (trusted_wrapper_origin v) ''github_run_id'' = js_get (cx_state c) ''github_run_id''"
    and "js_get (cx_state c) ''status_artifact_id'' \<noteq> JUndef \<Longrightarrow>
      js_get (trusted_wrapper_origin v) ''status_artifact_id'' = js_get (cx_state c) ''status_artifact_id''"
  using assms by (auto simp: validateTrustedWrapperOriginProof_def Let_def compareProofField_empty dest: strict_eq_imp_eq split: if_splits)

lemma untrusted_quiet: "untrusted c reason errors = Inr c' \<Longrightarrow> quietly c c'"
  unfolding untrusted_def by (erule quietlyI) (simp add: success_events_def special_events_def)

lemma final_status_success:
  assumes "applyFinalStatus c v = Inr c'" and "run_succeeded c'"
  obtains n payload where "validateTrustedWrapperOriginProof c v = []"
    and "cr_valid (validateTemporalFinalStatus (final_status_of v) (buildTemporalRunnerExpectedContext (cx_launchRecord c) (cx_state c)))"
    and "js_get (cx_state c) ''conclusion'' = JStr ''success''" and "reduceIntoContext c n payload (Some ''loadFinalStatus'') = Inr c'"
    and "final_status_event (js_get (final_status_of v) ''result'') = Some n" and "n \<in> set success_events"
proof -
  have u: "\<And>reason errors. untrusted c reason errors \<noteq> Inr c'" using assms(2) untrusted_quiet quietly_not_success by blast
  obtain n payload where n: "final_status_event (js_get (final_status_of v) ''result'') = Some n"
    "validateTrustedWrapperOriginProof c v = []"
    "cr_valid (validateTemporalFinalStatus (final_status_of v) (buildTemporalRunnerExpectedContext (cx_launchRecord c) (cx_state c)))"
    and concl: "\<not> (set_has [''succeeded'', ''no_changes''] (js_get (final_status_of v) ''result'') \<and>
      js_get (cx_state c) ''conclusion'' \<noteq> SUCCESSFUL_GITHUB_CONCLUSION)"
    and red: "reduceIntoContext c n payload (Some ''loadFinalStatus'') = Inr c'"
    using assms(1) u by (auto simp: applyFinalStatus_def Let_def split: if_splits option.splits)
  have "list_all (\<lambda>(k, n). n \<notin> set special_events \<and> (n \<in> set success_events \<longrightarrow> k \<in> set [''succeeded'', ''no_changes''])) FINAL_STATUS_EVENTS"
    by code_simp
  moreover obtain k where k: "js_get (final_status_of v) ''result'' = JStr k" "(k, n) \<in> set FINAL_STATUS_EVENTS"
    using n(1) by (auto simp: final_status_event_def split: jsval.splits dest: map_of_SomeD)
  ultimately have t: "n \<notin> set special_events" "n \<in> set success_events \<Longrightarrow> k \<in> set [''succeeded'', ''no_changes'']"
    unfolding list_all_iff by blast+
  have "n \<in> set success_events" using reduce_not_success [OF red] assms(2) t(1) unfolding set_append by blast
  moreover have "js_get (cx_state c) ''conclusion'' = JStr ''success''"
    using concl k(1) t(2) calculation by (auto simp: set_has_iff SUCCESSFUL_GITHUB_CONCLUSION_def)
  ultimately show thesis using that n red by blast
qed

lemma trusted_event_keeps:
  assumes "reduceIntoContext c n payload activity = Inr c'" and "n \<in> set success_events"
    and "k \<in> set [''github_run_id'', ''status_artifact_id'', ''conclusion'']"
  shows "js_get (cx_state c') k = js_get (cx_state c) k"
proof -
  obtain "next" options r where a: "accepts (normalizeState (cx_state c)) n (JObj payload) next options"
    and e: "cx_state c' = accepted_state (normalizeState (cx_state c)) n (JObj payload) next options r"
    by (rule reduce_into [OF assms(1)])
  have "list_all (\<lambda>n. n \<notin> set special_events) success_events" by code_simp
  then have "n \<notin> set special_events" using assms(2) unfolding list_all_iff by blast
  then obtain spec where spec: "spec \<in> set TRANSITIONS" "ts_event spec = n" "options = spec_options spec"
    using accepts_edge [OF a] by blast
  have "list_all (\<lambda>spec. ts_event spec \<in> set success_events \<longrightarrow> ts_persist spec = []) TRANSITIONS" by code_simp
  then have "ao_persist options = []" using spec assms(2) unfolding list_all_iff by (auto simp: spec_options_def)
  then show ?thesis using accepted_state_get [OF _ a, of k r] assms(3) unfolding e by auto
qed

lemma appendValidation_empty: "appendValidationErrors pre r = [] \<Longrightarrow> cr_valid r \<or> cr_errors r = []"
  by (auto simp: appendValidationErrors_def split: if_splits)

lemma launch_errors_empty: "cr_errors (validateTemporalLaunchRecord v) = [] \<longleftrightarrow> cr_valid (validateTemporalLaunchRecord v)"
  by (simp add: validateTemporalLaunchRecord_def result_def invalid_def contract_valid)

lemma runner_input_valid:
  assumes "validateRunnerInput handoff launchRecord = []"
  shows "cr_valid (validateTemporalHandoffEnvelope handoff)" and "cr_valid (validateTemporalLaunchRecord launchRecord)"
    and "is_plain_object (js_get launchRecord ''github'')"
proof -
  have "appendValidationErrors ''handoff'' (validateTemporalHandoffEnvelope handoff) = []"
    and "appendValidationErrors ''launchRecord'' (validateTemporalLaunchRecord launchRecord) = []"
    using assms by (auto simp: validateRunnerInput_def Let_def split: if_splits)
  then show h: "cr_valid (validateTemporalHandoffEnvelope handoff)" and l: "cr_valid (validateTemporalLaunchRecord launchRecord)"
    using appendValidation_empty handoff_errors_empty launch_errors_empty by blast+
  show "is_plain_object (js_get launchRecord ''github'')"
    using assms h l by (auto simp: validateRunnerInput_def Let_def handoff_valid launch_record_valid split: if_splits)
qed

lemma launch_wrapper:
  "cr_valid (validateTemporalLaunchRecord v) \<Longrightarrow> nonblank (js_get (js_get v ''wrapper'') ''source'') \<and> js_get (js_get v ''wrapper'') ''digest'' \<noteq> JUndef"
  by (auto simp: launch_record_valid launch_record_errors_def requireWrapper_def contract_valid)

lemma success_identified:
  assumes "workflow_reachable (cx_state c)" and "run_succeeded c" and "key \<in> set [''github_run_id'', ''status_artifact_id'']"
  shows "js_get (cx_state c) key \<noteq> JUndef"
proof -
  have "list_all (\<lambda>key. list_all (\<lambda>k. k \<in> set (known_from key)) SUCCESS_STATES) [''github_run_id'', ''status_artifact_id'']" by code_simp
  then have "\<forall>k\<in>set SUCCESS_STATES. k \<in> set (known_from key)" using assms(3) unfolding list_all_iff by blast
  then have "set_has (known_from key) (js_get (cx_state c) ''state'')" using assms(2) by (auto simp: set_has_iff)
  then show ?thesis using reachable_identified [OF assms(1,3)]
    by (simp add: identified_def state_name_def payload_missing_def)
qed

text \<open>C3: A run that reports success got its final status from the \<open>loadFinalStatus\<close> activity in a trusted envelope: the proof of
  origin names the wrapper of the launch record, the run and the status artifact of the attempt; the status validates in the
  context of this launch and this run; and the run itself concluded with success.\<close>

theorem success_needs_trusted_status:
  assumes "runTemporalWorkflowAttempt handoff launchRecord activities state0 = Inr r" and "rr_ok r"
    and "workflow_reachable (js_default (createTemporalWorkflowState JUndef) state0)"
  shows "\<exists>activity input v. activities ''loadFinalStatus'' = Some activity \<and> activity input = Returns v \<and>
    js_get v ''trusted'' = JBool True \<and>
    (\<forall>key\<in>{''source'', ''digest''}. js_get (trusted_wrapper_origin v) key = js_get (js_get launchRecord ''wrapper'') key) \<and>
    (\<forall>key\<in>{''github_run_id'', ''status_artifact_id''}. js_get (trusted_wrapper_origin v) key = js_get (rr_state r) key) \<and>
    cr_valid (validateTemporalFinalStatus (final_status_of v) (buildTemporalRunnerExpectedContext launchRecord (rr_state r))) \<and>
    js_get (rr_state r) ''conclusion'' = JStr ''success''"
proof -
  let ?c = "start_context handoff launchRecord state0"
  have start: "workflow_reachable (cx_state ?c)" using assms(3) by (simp add: start_context_def)
  have "\<not> (\<exists>c'. quietly ?c c' \<and> r = runnerResult (c'\<lparr>cx_errors := validateRunnerInput handoff launchRecord\<rparr>))"
    using assms(2) quietly_not_success by (auto simp: runnerResult_def)
  with run_ends [OF assms(1)] have input: "validateRunnerInput handoff launchRecord = []" and "ends activities ?c r" by auto
  then obtain c' d d' v input where r: "r = runnerResult c'" and m: "runner_moves activities ?c c'"
    and moves: "runner_moves activities ?c d"
    and call: "callActivity activities d ''loadFinalStatus'' input = Inr (d', v)" and app: "applyFinalStatus d' v = Inr c'"
    using assms(2) by (auto simp: ends_def runnerResult_def)
  have ok: "run_succeeded c'" and st: "rr_state r = cx_state c'" using assms(2) r by (simp_all add: runnerResult_def)
  obtain n payload where trusted: "validateTrustedWrapperOriginProof d' v = []"
    and valid: "cr_valid (validateTemporalFinalStatus (final_status_of v) (buildTemporalRunnerExpectedContext (cx_launchRecord d') (cx_state d')))"
    and concl: "js_get (cx_state d') ''conclusion'' = JStr ''success''"
    and red: "reduceIntoContext d' n payload (Some ''loadFinalStatus'') = Inr c'" and n: "n \<in> set success_events"
    by (rule final_status_success [OF app ok])
  note keep = trusted_event_keeps [OF red n]
  have l: "cx_launchRecord d' = launchRecord"
    using moves_keep(2) [OF runner_moves.call [OF moves call]] by (simp add: start_context_def)
  note known = success_identified [OF moves_reachable [OF m start] ok]
  have kept: "js_get (cx_state c') ''github_run_id'' = js_get (cx_state d') ''github_run_id''"
    "js_get (cx_state c') ''status_artifact_id'' = js_get (cx_state d') ''status_artifact_id''"
    "js_get (cx_state c') ''conclusion'' = js_get (cx_state d') ''conclusion''"
    by (rule keep; simp)+
  have ids: "js_get (cx_state d') ''github_run_id'' \<noteq> JUndef" "js_get (cx_state d') ''status_artifact_id'' \<noteq> JUndef"
    using known [of "''github_run_id''"] known [of "''status_artifact_id''"] by (simp_all add: kept)
  have w: "js_get (js_get launchRecord ''wrapper'') ''source'' \<noteq> JUndef" "js_get (js_get launchRecord ''wrapper'') ''digest'' \<noteq> JUndef"
    using launch_wrapper [OF runner_input_valid(2) [OF input]] by auto
  have "buildTemporalRunnerExpectedContext launchRecord (cx_state d') = buildTemporalRunnerExpectedContext launchRecord (rr_state r)"
    by (simp add: buildTemporalRunnerExpectedContext_def st kept)
  with valid l have "cr_valid (validateTemporalFinalStatus (final_status_of v) (buildTemporalRunnerExpectedContext launchRecord (rr_state r)))" by simp
  moreover obtain activity where "activities ''loadFinalStatus'' = Some activity" "activity input = Returns v"
    using call by (auto simp: call_activity)
  ultimately show ?thesis
    using trusted_proof [OF trusted] ids w concl unfolding l st
    by (intro exI [of _ activity] exI [of _ input] exI [of _ v]) (simp add: kept)
qed

section \<open>The order of the activities\<close>

definition activity_order :: "string list" where
  "activity_order = [''createOrObserveLaunchRef'', ''observeGitHubRun'', ''awaitGitHubRunTerminal'', ''collectRunArtifacts'', ''loadFinalStatus'']"

definition calls :: "run_context \<Rightarrow> runner_result \<Rightarrow> string list \<Rightarrow> bool" where
  "calls c r order \<longleftrightarrow> (\<exists>t. activity_names (rr_steps r) = activity_names (cx_steps c) @ t \<and> subseq t order)"

lemma calls_stop: "calls c (runnerResult c) order"
  by (simp add: calls_def runnerResult_def)

lemma calls_reduce: "reduceIntoContext c n payload activity = Inr d \<Longrightarrow> calls d r order \<Longrightarrow> calls c r order"
  by (simp add: calls_def reduce_keeps(4))

lemma calls_quietly: "quietly c d \<Longrightarrow> calls d r order \<Longrightarrow> calls c r order"
  unfolding quietly_def using calls_reduce by blast

lemma calls_call: "callActivity activities c name input = Inr (d, v) \<Longrightarrow> calls d r order \<Longrightarrow> calls c r (name # order)"
  by (auto simp: calls_def call_activity activity_names_def)

lemma calls_skip: "calls c r order \<Longrightarrow> calls c r (name # order)"
  by (auto simp: calls_def)

lemma calls_unless: "unless_stopped k c = Inr r \<Longrightarrow> (k c = Inr r \<Longrightarrow> calls c r order) \<Longrightarrow> calls c r order"
  by (auto simp: unless_stopped_def calls_stop split: if_splits)

lemma close_calls:
  assumes "close_attempt activities c = Inr r"
  shows "calls c r [''loadFinalStatus'']"
proof -
  obtain d v c' input where call: "callActivity activities c ''loadFinalStatus'' input = Inr (d, v)"
    and app: "applyFinalStatus d v = Inr c'" and r: "r = runnerResult c'"
    using assms by (auto simp: close_attempt_def and_then_Inr)
  from final_status_reduces [OF app] have "calls d r []" using r calls_reduce calls_stop by blast
  then show ?thesis by (rule calls_call [OF call])
qed

lemma collect_calls:
  assumes "collect_and_close activities c = Inr r"
  shows "calls c r [''collectRunArtifacts'', ''loadFinalStatus'']"
proof -
  obtain d v d' input where call: "callActivity activities c ''collectRunArtifacts'' input = Inr (d, v)"
    and q: "quietly d d'" and u: "unless_stopped (close_attempt activities) d' = Inr r"
    using assms artifacts_quiet by (auto simp: collect_and_close_def and_then_Inr) blast
  show ?thesis by (rule calls_call [OF call], rule calls_quietly [OF q], rule calls_unless [OF u], rule close_calls)
qed

lemma await_calls:
  assumes "await_terminal activities c = Inr d" and "calls d r order"
  shows "calls c r (''awaitGitHubRunTerminal'' # order)"
proof (cases "js_get (cx_state c) ''state'' = JStr ''github_run_active''")
  case True
  then obtain e v input payload activity where call: "callActivity activities c ''awaitGitHubRunTerminal'' input = Inr (e, v)"
    and red: "reduceIntoContext e ''github_run_terminal'' payload activity = Inr d"
    using assms(1) by (auto simp: await_terminal_def and_then_Inr split: if_splits)
  show ?thesis by (rule calls_call [OF call], rule calls_reduce [OF red assms(2)])
next
  case False
  then show ?thesis using assms calls_skip by (auto simp: await_terminal_def)
qed

lemma observe_calls:
  assumes "observe_and_close activities c = Inr r"
  shows "calls c r (tl activity_order)"
proof -
  obtain d v d' input where call: "callActivity activities c ''observeGitHubRun'' input = Inr (d, v)" and q: "quietly d d'"
    and u: "unless_stopped (\<lambda>c. and_then (await_terminal activities c) (unless_stopped (collect_and_close activities))) d' = Inr r"
    using assms observation_quiet by (auto simp: observe_and_close_def and_then_Inr) blast
  have "calls d' r [''awaitGitHubRunTerminal'', ''collectRunArtifacts'', ''loadFinalStatus'']"
  proof (rule calls_unless [OF u])
    assume "and_then (await_terminal activities d') (unless_stopped (collect_and_close activities)) = Inr r"
    then obtain e where e: "await_terminal activities d' = Inr e" and ue: "unless_stopped (collect_and_close activities) e = Inr r"
      by (auto simp: and_then_Inr)
    show "calls d' r [''awaitGitHubRunTerminal'', ''collectRunArtifacts'', ''loadFinalStatus'']"
      by (rule await_calls [OF e], rule calls_unless [OF ue], rule collect_calls)
  qed
  then show ?thesis unfolding activity_order_def list.sel by (intro calls_call [OF call] calls_quietly [OF q])
qed

lemma launch_calls:
  assumes "launch_and_close activities c = Inr r"
  shows "calls c r activity_order"
proof -
  obtain d v d' input where call: "callActivity activities c ''createOrObserveLaunchRef'' input = Inr (d, v)" and q: "quietly d d'"
    and u: "unless_stopped (start_observing activities) d' = Inr r"
    using assms launch_quiet by (auto simp: launch_and_close_def and_then_Inr) blast
  have "calls d' r (tl activity_order)"
  proof (rule calls_unless [OF u])
    assume "start_observing activities d' = Inr r"
    then obtain e payload where red: "reduceIntoContext d' ''observe_runs'' payload None = Inr e"
      and ue: "unless_stopped (observe_and_close activities) e = Inr r"
      by (auto simp: start_observing_def and_then_Inr)
    show "calls d' r (tl activity_order)" by (rule calls_reduce [OF red], rule calls_unless [OF ue], rule observe_calls)
  qed
  then have "calls c r (''createOrObserveLaunchRef'' # tl activity_order)" by (intro calls_call [OF call] calls_quietly [OF q])
  then show ?thesis by (simp add: activity_order_def)
qed

text \<open>C30: A run calls its activities in one order, each at most once: the launch ref, the observation of the run, its end, its
  artifacts, the final status.\<close>

theorem activities_called_in_order:
  assumes "runTemporalWorkflowAttempt handoff launchRecord activities state0 = Inr r"
  shows "subseq (activity_names (rr_steps r)) activity_order"
proof -
  let ?c = "start_context handoff launchRecord state0"
  have "calls ?c r activity_order"
  proof (cases "validateRunnerInput handoff launchRecord = []")
    case True
    then obtain d payload where red: "reduceIntoContext ?c ''input_valid'' payload None = Inr d"
      and u: "unless_stopped (request_dispatch activities) d = Inr r"
      using assms by (auto simp: runTemporalWorkflowAttempt_def Let_def and_then_Inr start_context_def)
    have "calls d r activity_order"
    proof (rule calls_unless [OF u])
      assume "request_dispatch activities d = Inr r"
      then obtain e payload where red': "reduceIntoContext d ''dispatch_requested'' payload None = Inr e"
        and u': "unless_stopped (launch_and_close activities) e = Inr r"
        by (auto simp: request_dispatch_def and_then_Inr)
      show "calls d r activity_order" by (rule calls_reduce [OF red'], rule calls_unless [OF u'], rule launch_calls)
    qed
    then show ?thesis by (rule calls_reduce [OF red])
  next
    case False
    then obtain d payload where red: "reduceIntoContext ?c ''input_invalid'' payload None = Inr d"
      and r: "r = runnerResult (d\<lparr>cx_errors := validateRunnerInput handoff launchRecord\<rparr>)"
      using assms by (auto simp: runTemporalWorkflowAttempt_def Let_def and_then_Inr start_context_def)
    have "calls d r activity_order" using calls_stop [of d] by (simp add: calls_def r runnerResult_def)
    then show ?thesis by (rule calls_reduce [OF red])
  qed
  then show ?thesis by (simp add: calls_def start_context_def activity_names_def)
qed

section \<open>A run to success\<close>

text \<open>The part of a run before the final status, for a run that does not stop.\<close>

definition launch_prefix :: "jsval \<Rightarrow> jsval \<Rightarrow> activities \<Rightarrow> runner_failure + run_context" where
  "launch_prefix handoff launchRecord activities =
     (case reduceIntoContext (start_context handoff launchRecord JUndef) ''input_valid'' (input_payload handoff launchRecord) None of
        Inl f \<Rightarrow> Inl f | Inr c \<Rightarrow>
      case reduceIntoContext c ''dispatch_requested''
        [(''expected_launch_ref'', js_get (cx_launchRecord c) ''launch_ref''), (''expected_launch_sha'', js_get (cx_launchRecord c) ''launch_sha'')] None of
        Inl f \<Rightarrow> Inl f | Inr c \<Rightarrow>
      case callActivity activities c ''createOrObserveLaunchRef'' (JObj (activity_input c)) of Inl f \<Rightarrow> Inl f | Inr p \<Rightarrow>
      applyLaunchOutcome (fst p) (snd p))"

definition run_prefix :: "activities \<Rightarrow> run_context \<Rightarrow> runner_failure + run_context" where
  "run_prefix activities c =
     (case reduceIntoContext c ''observe_runs'' [(''launch_ref'', js_get (cx_launchRecord c) ''launch_ref''),
        (''expected_run_name'', js_get (js_get (cx_launchRecord c) ''github'') ''run_name'')] None of Inl f \<Rightarrow> Inl f | Inr c \<Rightarrow>
      case callActivity activities c ''observeGitHubRun'' (JObj (activity_input c)) of Inl f \<Rightarrow> Inl f | Inr p \<Rightarrow>
      case applyGitHubObservation (fst p) (snd p) (cx_launchRecord (fst p)) of Inl f \<Rightarrow> Inl f | Inr c \<Rightarrow>
      case await_terminal activities c of Inl f \<Rightarrow> Inl f | Inr c \<Rightarrow>
      case callActivity activities c ''collectRunArtifacts'' (JObj (activity_input c)) of Inl f \<Rightarrow> Inl f | Inr p \<Rightarrow>
      applyArtifactCollection (fst p) (snd p))"

definition prepare :: "jsval \<Rightarrow> jsval \<Rightarrow> activities \<Rightarrow> runner_failure + run_context" where
  "prepare handoff launchRecord activities =
     (case launch_prefix handoff launchRecord activities of Inl f \<Rightarrow> Inl f | Inr c \<Rightarrow> run_prefix activities c)"

text \<open>An event of the table starts in a state in which a run goes on.\<close>

lemma reduce_plain: "reduceIntoContext c n payload activity = Inr c' \<Longrightarrow> is_plain_object (cx_state c')"
proof -
  assume a: "reduceIntoContext c n payload activity = Inr c'"
  show ?thesis
  proof (rule reduce_into [OF a])
    fix "next" options r assume "cx_state c' = accepted_state (normalizeState (cx_state c)) n (JObj payload) next options r"
    then show ?thesis by (simp only: accepted_state_plain)
  qed
qed

lemma quietly_plain: "quietly c c' \<Longrightarrow> is_plain_object (cx_state c')"
  unfolding quietly_def using reduce_plain by blast

lemma stops_plain:
  "is_plain_object s \<Longrightarrow> shouldStop s \<longleftrightarrow> set_has stop_names (js_get s ''state'')"
  unfolding stop_names_def shouldStop_def isTemporalTerminalWorkflowState_def getStateName_def by (cases s) (auto simp: set_has_iff)

lemma reduce_from_live:
  assumes "reduceIntoContext c n payload activity = Inr c'" and "n \<notin> set special_events" and "is_plain_object (cx_state c)"
  shows "\<not> shouldStop (cx_state c)"
proof -
  have "list_all (\<lambda>spec. ts_source spec \<notin> set stop_names) TRANSITIONS" by code_simp
  then have "\<forall>(src, nxt)\<in>set (edges n). src \<notin> set stop_names" unfolding list_all_iff edges_def by auto
  with reduce_edge [OF assms(1,2)] obtain src where src: "state_name (normalizeState (cx_state c)) = JStr src" "src \<notin> set stop_names" by blast
  then have "\<not> set_has stop_names (js_get (cx_state c) ''state'')"
    by (auto simp: set_has_iff state_name_def js_or_nullish_def nullish_def split: if_splits)
  then show ?thesis using stops_plain [OF assms(3)] by simp
qed

lemma quietly_live: "quietly c c' \<Longrightarrow> is_plain_object (cx_state c) \<Longrightarrow> \<not> shouldStop (cx_state c)"
  unfolding quietly_def set_append using reduce_from_live by blast

lemma call_live: "callActivity activities c name input = Inr (d, v) \<Longrightarrow> shouldStop (cx_state d) = shouldStop (cx_state c)"
  by (auto simp: call_activity)

lemma call_quietly_live: "callActivity activities c name input = Inr (d, v) \<Longrightarrow> quietly d e \<Longrightarrow> is_plain_object (cx_state c) \<Longrightarrow>
   \<not> shouldStop (cx_state c)"
  using quietly_live [of d e] call_live [of activities c name input d v] by (auto simp: call_activity)

lemma await_plain: "await_terminal activities c = Inr d \<Longrightarrow> is_plain_object (cx_state c) \<Longrightarrow> is_plain_object (cx_state d)"
  by (auto simp: await_terminal_def and_then_Inr dest: reduce_plain split: if_splits)

lemma run_prefix_live:
  assumes "run_prefix activities c = Inr e" and "\<not> shouldStop (cx_state e)" and "close_attempt activities e = Inr r"
    and "is_plain_object (cx_state c)"
  shows "start_observing activities c = Inr r \<and> \<not> shouldStop (cx_state c)"
proof -
  obtain c1 i1 c2 v2 c3 c4 i4 c5 v5 payload where 1: "reduceIntoContext c ''observe_runs'' payload None = Inr c1"
      "payload = [(''launch_ref'', js_get (cx_launchRecord c) ''launch_ref''),
        (''expected_run_name'', js_get (js_get (cx_launchRecord c) ''github'') ''run_name'')]"
    and 2: "callActivity activities c1 ''observeGitHubRun'' (JObj (activity_input c1)) = Inr (c2, v2)"
    and 3: "applyGitHubObservation c2 v2 (cx_launchRecord c2) = Inr c3" and 4: "await_terminal activities c3 = Inr c4"
    and 5: "callActivity activities c4 ''collectRunArtifacts'' (JObj (activity_input c4)) = Inr (c5, v5)"
    and 6: "applyArtifactCollection c5 v5 = Inr e"
    using assms(1) by (auto simp: run_prefix_def split: sum.splits prod.splits)
  have "\<not> shouldStop (cx_state c)" by (rule reduce_from_live [OF 1(1) _ assms(4)]) (simp add: special_events_def)
  moreover have "\<not> shouldStop (cx_state c1)" by (rule call_quietly_live [OF 2 observation_quiet [OF 3] reduce_plain [OF 1(1)]])
  moreover have live4: "\<not> shouldStop (cx_state c4)"
    by (rule call_quietly_live [OF 5 artifacts_quiet [OF 6] await_plain [OF 4 quietly_plain [OF observation_quiet [OF 3]]]])
  moreover have "\<not> shouldStop (cx_state c3)"
  proof (cases "js_get (cx_state c3) ''state'' = JStr ''github_run_active''")
    case True
    then show ?thesis
      by (cases "cx_state c3") (simp_all add: shouldStop_def isTemporalTerminalWorkflowState_def getStateName_def set_has_iff
          TEMPORAL_TERMINAL_WORKFLOW_STATES_def)
  next
    case False
    then show ?thesis using 4 live4 by (simp add: await_terminal_def)
  qed
  ultimately show ?thesis
    using 1 2 3 4 5 6 assms(2,3)
    by (simp add: start_observing_def observe_and_close_def collect_and_close_def unless_stopped_def)
qed

lemma prepared_run:
  assumes "prepare handoff launchRecord activities = Inr e" and "\<not> shouldStop (cx_state e)" and "close_attempt activities e = Inr r"
    and "validateRunnerInput handoff launchRecord = []"
  shows "runTemporalWorkflowAttempt handoff launchRecord activities JUndef = Inr r"
proof -
  obtain d where d: "launch_prefix handoff launchRecord activities = Inr d" and e: "run_prefix activities d = Inr e"
    using assms(1) by (auto simp: prepare_def split: sum.splits)
  obtain c1 c2 c3 v3 where 1: "reduceIntoContext (start_context handoff launchRecord JUndef) ''input_valid'' (input_payload handoff launchRecord) None = Inr c1"
    and 2: "reduceIntoContext c1 ''dispatch_requested''
        [(''expected_launch_ref'', js_get (cx_launchRecord c1) ''launch_ref''), (''expected_launch_sha'', js_get (cx_launchRecord c1) ''launch_sha'')] None = Inr c2"
    and 3: "callActivity activities c2 ''createOrObserveLaunchRef'' (JObj (activity_input c2)) = Inr (c3, v3)"
    and 4: "applyLaunchOutcome c3 v3 = Inr d"
    using d by (auto simp: launch_prefix_def split: sum.splits prod.splits)
  have "\<not> shouldStop (cx_state c1)" by (rule reduce_from_live [OF 2 _ reduce_plain [OF 1]]) (simp add: special_events_def)
  moreover have "\<not> shouldStop (cx_state c2)" by (rule call_quietly_live [OF 3 launch_quiet [OF 4] reduce_plain [OF 2]])
  moreover note d2 = run_prefix_live [OF e assms(2,3) quietly_plain [OF launch_quiet [OF 4]]]
  ultimately show ?thesis
    using 1 2 3 4 assms(4)
    by (simp add: runTemporalWorkflowAttempt_def Let_def start_context_def request_dispatch_def launch_and_close_def unless_stopped_def)
qed

definition demo_github :: jsval where
  "demo_github = JObj [(''trigger'', JStr ''push''), (''workflow_file'', JStr ''w''), (''workflow_ref'', js_get demo_launch_run ''launch_ref''),
     (''run_name'', js_get (js_get demo_launch_run ''github'') ''run_name'')]"
definition demo_handoff :: jsval where
  "demo_handoff = JObj (obj_put ''github'' demo_github (obj_remove ''execution'' (js_spread demo_launch)))"
definition demo_record :: jsval where
  "demo_record = js_put ''github'' demo_github demo_launch_run"
definition demo_final :: jsval where
  "demo_final = js_put ''github'' demo_github demo_status"
definition demo_trusted :: jsval where
  "demo_trusted = JObj [(''trusted'', JBool True), (''final_status'', demo_final),
     (''trusted_wrapper_origin'', JObj [(''source'', js_get (js_get demo_launch ''wrapper'') ''source''), (''digest'', js_get (js_get demo_launch ''wrapper'') ''digest''), (''github_run_id'', JStr ''7''), (''status_artifact_id'', JStr ''s'')])]"
definition demo_activities :: activities where
  "demo_activities = map_of
    [(''createOrObserveLaunchRef'', \<lambda>i. Returns (JObj [(''type'', JStr ''created'')])),
     (''observeGitHubRun'', \<lambda>i. Returns (JObj [(''type'', JStr ''one_active''), (''github_run_id'', JStr ''7''), (''run_url'', JStr ''u'')])),
     (''awaitGitHubRunTerminal'', \<lambda>i. Returns (JObj [(''github_run_id'', JStr ''7''), (''conclusion'', JStr ''success'')])),
     (''collectRunArtifacts'', \<lambda>i. Returns (JObj [(''type'', JStr ''collected''), (''status_artifact_id'', JStr ''s''), (''response_artifact_id'', JStr ''r'')])),
     (''loadFinalStatus'', \<lambda>i. Returns demo_trusted)]"


definition demo_closing :: jsval where
  "demo_closing = JObj
  [(''state'', JStr ''status_validating''), (''reconciliation_records'', JArr []), (''operator_decisions'', JArr []),
   (''emitted_records'', JArr []), (''last_event'', JStr ''artifacts_collected''), (''attempt_id'', JStr ''A003''),
   (''dispatch_idempotency_key'', JStr ''IN-0001/WK-0002/A003''), (''base_sha'', JStr ''abcdef0''), (''expected_launch_sha'', JStr ''abcdef1''),
   (''output_branch'', JStr ''agent/IN-0001/WK-0002/A003''), (''expected_wrapper_source'', JStr (''w@'' @ replicate 40 CHR ''a'')),
   (''expected_wrapper_digest'', JStr (''sha256:'' @ replicate 64 CHR ''b'')),
   (''expected_launch_ref'', JStr ''refs/heads/agent-launch/IN-0001/WK-0002/A003''),
   (''launch_ref'', JStr ''refs/heads/agent-launch/IN-0001/WK-0002/A003''),
   (''expected_run_name'', JStr ''agent-worker/IN-0001/WK-0002/A003''), (''github_run_id'', JStr ''7''), (''run_url'', JStr ''u''),
   (''conclusion'', JStr ''success''), (''status_artifact_id'', JStr ''s''), (''response_artifact_id'', JStr ''r'')]"
lemma demo_prepared:
  "case prepare demo_handoff demo_record demo_activities of Inr c \<Rightarrow> cx_state c = demo_closing \<and> cx_launchRecord c = demo_record | Inl f \<Rightarrow> False"
  by code_simp

lemma demo_input: "validateRunnerInput demo_handoff demo_record = []" by code_simp

lemma demo_trust: "validateTrustedWrapperOriginProof \<lparr>cx_handoff = h, cx_launchRecord = demo_record, cx_state = demo_closing, cx_steps = ss, cx_errors = es\<rparr> demo_trusted = []"
  by code_simp

lemma demo_run_valid: "cr_valid (validateTemporalFinalStatus demo_final (buildTemporalRunnerExpectedContext demo_record demo_closing))"
  by code_simp

lemma demo_event_accepted: "accepts_to (JStr ''succeeded'') (reduceTemporalWorkflowState demo_closing (demo_event ''trusted_status_succeeded''
   [(''final_status'', demo_final), (''expected_context'', buildTemporalRunnerExpectedContext demo_record demo_closing)]))"
  by code_simp

lemma demo_applied:
  assumes "cx_state d = demo_closing" and "cx_launchRecord d = demo_record"
  shows "\<exists>c'. applyFinalStatus d demo_trusted = Inr c' \<and> run_succeeded c'"
proof -
  obtain h ss es where d: "d = \<lparr>cx_handoff = h, cx_launchRecord = demo_record, cx_state = demo_closing, cx_steps = ss, cx_errors = es\<rparr>"
    using assms by (cases d) auto
  have final: "final_status_of demo_trusted = demo_final"
    by (simp add: final_status_of_def demo_trusted_def demo_final_def js_or_nullish_def nullish_def js_put_def)
  have event: "final_status_event (js_get demo_final ''result'') = Some ''trusted_status_succeeded''" by code_simp
  have concl: "js_get demo_closing ''conclusion'' = SUCCESSFUL_GITHUB_CONCLUSION" by code_simp
  let ?c = "buildTemporalRunnerExpectedContext demo_record demo_closing"
  obtain s' f ev r m dd where acc: "reduceTemporalWorkflowState demo_closing (demo_event ''trusted_status_succeeded''
      [(''final_status'', demo_final), (''expected_context'', ?c)]) = Accepted s' f ev (JStr ''succeeded'') r m dd"
    using demo_event_accepted by (rule accepts_toE)
  obtain c' where c': "reduceIntoContext d ''trusted_status_succeeded'' [(''final_status'', demo_final), (''expected_context'', ?c)]
      (Some ''loadFinalStatus'') = Inr c'"
    using acc by (simp add: reduceIntoContext_def demo_event_def d)
  have "edges ''trusted_status_succeeded'' = [(''status_validating'', ''succeeded'')]" by code_simp
  moreover have "''trusted_status_succeeded'' \<notin> set special_events" by code_simp
  ultimately have "run_succeeded c'" using reduce_edge [OF c'] by (simp add: set_has_iff SUCCESS_STATES_def)
  moreover have "applyFinalStatus d demo_trusted = Inr c'"
    using demo_trust [of h ss es] demo_run_valid c' event concl unfolding applyFinalStatus_def Let_def final d by simp
  ultimately show ?thesis by blast
qed

lemma demo_succeeds_run: "\<exists>r. runTemporalWorkflowAttempt demo_handoff demo_record demo_activities JUndef = Inr r \<and> rr_ok r"
proof -
  obtain c where c: "prepare demo_handoff demo_record demo_activities = Inr c" "cx_state c = demo_closing" "cx_launchRecord c = demo_record"
    using demo_prepared by (auto split: sum.splits)
  obtain d input where call: "callActivity demo_activities c ''loadFinalStatus'' input = Inr (d, demo_trusted)"
     "input = JObj (activity_input c @ [(''status_artifact_id'', js_get (cx_state c) ''status_artifact_id'')])"
    by (simp add: call_activity demo_activities_def)
  then have "cx_state d = demo_closing" "cx_launchRecord d = demo_record" using c by (auto simp: call_activity)
  then obtain c' where c': "applyFinalStatus d demo_trusted = Inr c'" "run_succeeded c'" using demo_applied by blast
  then have "close_attempt demo_activities c = Inr (runnerResult c')" using call by (simp add: close_attempt_def)
  moreover have "\<not> shouldStop (cx_state c)" unfolding c(2) by code_simp
  ultimately have "runTemporalWorkflowAttempt demo_handoff demo_record demo_activities JUndef = Inr (runnerResult c')"
    by (intro prepared_run [OF c(1)] demo_input)
  with c'(2) show ?thesis by (auto simp: runnerResult_def)
qed

theorem success_needs_trusted_status_witness:
  "\<exists>r. runTemporalWorkflowAttempt demo_handoff demo_record demo_activities JUndef = Inr r \<and> js_get (rr_state r) ''conclusion'' = JStr ''success''"
proof -
  obtain r where r: "runTemporalWorkflowAttempt demo_handoff demo_record demo_activities JUndef = Inr r" "rr_ok r"
    using demo_succeeds_run by blast
  have "workflow_reachable (js_default (createTemporalWorkflowState JUndef) JUndef)" by (simp add: js_default_def workflow_reachable.start)
  from success_needs_trusted_status [OF r this] r show ?thesis by blast
qed

theorem returned_run_is_complete_witness:
  "\<exists>r. runTemporalWorkflowAttempt demo_handoff demo_record demo_activities JUndef = Inr r \<and> rr_completed r"
  using demo_succeeds_run returned_run_is_complete by blast

theorem run_state_reachable_witness:
  "\<exists>r. runTemporalWorkflowAttempt demo_handoff demo_record demo_activities JUndef = Inr r \<and> workflow_reachable (rr_state r)"
proof -
  obtain r where r: "runTemporalWorkflowAttempt demo_handoff demo_record demo_activities JUndef = Inr r" using demo_succeeds_run by blast
  have "workflow_reachable (js_default (createTemporalWorkflowState JUndef) JUndef)" by (simp add: js_default_def workflow_reachable.start)
  from run_state_reachable [OF r this] r show ?thesis by blast
qed

theorem activities_called_in_order_witness:
  "\<exists>r. runTemporalWorkflowAttempt demo_handoff demo_record demo_activities JUndef = Inr r \<and> subseq (activity_names (rr_steps r)) activity_order"
  using demo_succeeds_run activities_called_in_order by blast

end
