(* ===== verification/RunnerFailures.thy ===== *)
theory RunnerFailures
  imports RunnerProperties
begin

text \<open>
  What makes a run fail: the events the runner sends on its own are accepted where it sends them, so that only its activities can
  make it throw.
\<close>

section \<open>What makes a run fail\<close>

text \<open>A failure of an activity: it is missing, it throws, or the runner rejects what it returned.\<close>

definition activity_failure :: "runner_failure \<Rightarrow> bool" where
  "activity_failure f = (case f of
     ActivityThrew name reason \<Rightarrow> True
   | TemporalWorkflowRunnerError message code errors activity state \<Rightarrow> activity \<noteq> None
   | LanguageError \<Rightarrow> False)"

text \<open>An untrusted status with the empty text as its reason, which the reducer does not take for a reason.\<close>

definition blank_reason :: "activities \<Rightarrow> bool" where
  "blank_reason activities \<longleftrightarrow> (\<exists>activity input v. activities ''loadFinalStatus'' = Some activity \<and> activity input = Returns v \<and>
     js_get v ''reason'' = JStr [])"

lemma reduce_fails:
  assumes "reduceIntoContext c n payload activity = Inl f" and "n \<noteq> ''operator_decision''"
  shows "\<exists>state errors. f = rejected_by_reducer errors state activity"
proof -
  have "reduceTemporalWorkflowState (cx_state c) (JObj [(''type'', JStr n), (''payload'', JObj payload)]) \<noteq> Threw"
    using assms(2) reduce_event_not_threw
    by (auto simp: reduceTemporalWorkflowState_def Let_def js_or_nullish_def nullish_def split: if_splits)
  then show ?thesis using assms(1) by (auto simp: reduceIntoContext_def split: workflow_reduction.splits)
qed

lemma activity_reduce_fails:
  "reduceIntoContext c n payload (Some a) = Inl f \<Longrightarrow> n \<noteq> ''operator_decision'' \<Longrightarrow> activity_failure f"
  using reduce_fails [of c n payload "Some a" f] by (auto simp: rejected_by_reducer_def activity_failure_def)

lemma call_fails: "callActivity activities c name input = Inl f \<Longrightarrow> activity_failure f"
  by (auto simp: callActivity_def activity_failure_def split: option.splits activity_outcome.splits)

lemma outcome_fails:
  "applyLaunchOutcome c v = Inl f \<Longrightarrow> activity_failure f"
  "applyGitHubObservation c v l = Inl f \<Longrightarrow> activity_failure f"
  "applyArtifactCollection c v = Inl f \<Longrightarrow> activity_failure f"
  unfolding applyLaunchOutcome_def applyGitHubObservation_def applyArtifactCollection_def Let_def
  by (auto simp: unsupported_def activity_failure_def split: if_splits elim!: activity_reduce_fails [unfolded activity_failure_def])

text \<open>An event of the table is accepted in its state with a payload that passes.\<close>

lemma table_event_accepted:
  assumes "state_name (normalizeState (cx_state c)) = JStr src" and "spec \<in> set TRANSITIONS" and "ts_source spec = src" and "ts_event spec = n"
    and "n \<notin> set special_events" and "nonblank (JStr n)" and "src \<notin> set TEMPORAL_TERMINAL_WORKFLOW_STATES"
    and "validateTransitionPayload (normalizeState (cx_state c)) (JObj payload) spec (validateRequiredPayload (JObj payload) (ts_required spec)) = []"
  shows "\<exists>c'. reduceIntoContext c n payload activity = Inr c'"
proof -
  let ?s = "normalizeState (cx_state c)"
  have known: "src \<in> set TEMPORAL_WORKFLOW_STATES" using sources_known [OF assms(2)] assms(3) by simp
  have keys: "list_all (\<lambda>spec. TRANSITIONS_BY_KEY (transition_key (ts_source spec) (ts_event spec)) = Some spec) TRANSITIONS" by code_simp
  then have key: "TRANSITIONS_BY_KEY (transition_key src n) = Some spec" using assms(2-4) unfolding list_all_iff by blast
  have live: "\<not> terminal_state ?s" using assms(1,7) by (auto simp: set_has_iff)
  have n: "n \<noteq> ''cancel_requested''" "n \<noteq> ''supersede_requested''" "n \<noteq> ''operator_decision''"
    using assms(5) by (auto simp: special_events_def)
  have "reduce_event ?s n (JObj payload) = accept_checked ?s n (JObj payload) [] (JStr (ts_next spec)) (spec_options spec)"
    using live n key assms(1,8)
    by (simp add: reduce_event_def reducePostTerminalEvent_def reduceCancellation_def reduceSupersession_def reduce_transition_def)
  moreover have "set_has TEMPORAL_WORKFLOW_STATES (state_name ?s)" using known assms(1) by (auto simp: set_has_iff)
  then have "reduceTemporalWorkflowState (cx_state c) (JObj [(''type'', JStr n), (''payload'', JObj payload)]) = reduce_event ?s n (JObj payload)"
    using n(3) assms(6)
    by (simp add: reduceTemporalWorkflowState_def Let_def js_or_nullish_def nullish_def fail_if_def)
  ultimately show ?thesis
    using reduce_event_not_threw [of ?s n "JObj payload"] accepted_not_rejected
    by (auto simp: reduceIntoContext_def accept_checked_def split: workflow_reduction.splits)
qed

lemma nonblank_present: "nonblank v \<Longrightarrow> \<not> payload_missing v \<and> v \<noteq> JUndef"
  by (auto simp: nonblank_iff payload_missing_def js_trim_def)

lemma pattern_nonblank: "requirePattern v path P = [] \<Longrightarrow> nonblank v"
  by (auto simp: contract_valid)

lemma launch_ref_nonblank: "requireLaunchRef v path key = [] \<Longrightarrow> nonblank v"
  by (auto simp: contract_valid)

lemma runner_input_present:
  assumes "validateRunnerInput handoff launchRecord = []"
  shows "nonblank (js_get handoff ''attempt_id'')" "nonblank (js_get handoff ''dispatch_idempotency_key'')"
    "nonblank (js_get handoff ''base_sha'')" "nonblank (js_get launchRecord ''launch_sha'')" "nonblank (js_get launchRecord ''launch_ref'')"
    "nonblank (js_get (js_get launchRecord ''github'') ''run_name'')"
proof -
  note v = runner_input_valid [OF assms]
  have h: "handoff_errors handoff = []" and l: "launch_record_errors launchRecord = []"
    using v(1,2) by (simp_all add: handoff_valid launch_record_valid)
  show "nonblank (js_get handoff ''attempt_id'')" "nonblank (js_get handoff ''dispatch_idempotency_key'')" "nonblank (js_get handoff ''base_sha'')"
    using h unfolding handoff_errors_def require_identity_def requireSha_def requireDispatchKey_def append_is_Nil_conv
    by (blast intro: pattern_nonblank)+
  show "nonblank (js_get launchRecord ''launch_sha'')" "nonblank (js_get launchRecord ''launch_ref'')"
    using l unfolding launch_record_errors_def requireSha_def append_is_Nil_conv
    by (blast intro: pattern_nonblank launch_ref_nonblank)+
  have "require_launch_context launchRecord = []" using l by (simp add: launch_record_errors_def)
  then have "requireGithubLaunchFields (js_get launchRecord ''github'') ''github'' (js_get launchRecord ''dispatch_idempotency_key'')
      (js_get launchRecord ''launch_ref'') = []"
    using v(3) by (auto simp: require_launch_context_def Let_def truthy_asObject requireObject_empty split: prod.splits if_splits)
  then show "nonblank (js_get (js_get launchRecord ''github'') ''run_name'')"
    by (simp add: requireGithubLaunchFields_def requireCanonicalRunName_def contract_valid)
qed

text \<open>Where an event leads when the run does not stop.\<close>

definition leads_to :: "string \<Rightarrow> string list \<Rightarrow> bool" where
  "leads_to target ns \<longleftrightarrow> list_all (\<lambda>n. n \<notin> set special_events \<and> list_all (\<lambda>(src, nxt). nxt = target \<or> nxt \<in> set stop_names) (edges n)) ns"

lemma reduce_lands:
  assumes "reduceIntoContext c n payload activity = Inr c'" and "n \<in> set ns" and "leads_to target ns" and "\<not> shouldStop (cx_state c')"
  shows "js_get (cx_state c') ''state'' = JStr target"
proof -
  have t: "n \<notin> set special_events \<and> (\<forall>(src, nxt)\<in>set (edges n). nxt = target \<or> nxt \<in> set stop_names)"
    using assms(2,3) by (simp add: leads_to_def list_all_iff)
  then have "n \<notin> set special_events" by (rule conjunct1)
  from reduce_edge [OF assms(1) this] obtain src nxt where e: "(src, nxt) \<in> set (edges n)" "js_get (cx_state c') ''state'' = JStr nxt" by blast
  have "nxt = target \<or> nxt \<in> set stop_names" using t e(1) by blast
  moreover have "nxt \<notin> set stop_names" using stops_at [OF e(2)] assms(4) unfolding stop_names_def by blast
  ultimately show ?thesis using e(2) by simp
qed

lemma launch_lands:
  assumes "applyLaunchOutcome c v = Inr c'" and "\<not> shouldStop (cx_state c')"
  shows "js_get (cx_state c') ''state'' = JStr ''launch_ref_created''"
proof -
  let ?ns = "[''launch_ref_created'', ''launch_ref_exists_expected_sha'', ''launch_ref_exists_unexpected_sha'', ''launch_ref_outcome_unknown_unproven'']"
  have t: "leads_to ''launch_ref_created'' ?ns" by code_simp
  obtain n payload activity where "n \<in> set ?ns" "reduceIntoContext c n payload activity = Inr c'"
    using assms(1) unfolding applyLaunchOutcome_def Let_def by (auto split: if_splits)
  then show ?thesis using reduce_lands t assms(2) by blast
qed

lemma artifacts_land:
  assumes "applyArtifactCollection c v = Inr c'" and "\<not> shouldStop (cx_state c')"
  shows "js_get (cx_state c') ''state'' = JStr ''status_validating''"
proof -
  let ?ns = "[''artifacts_collected'', ''artifacts_missing'']"
  have t: "leads_to ''status_validating'' ?ns" by code_simp
  obtain n payload activity where "n \<in> set ?ns" "reduceIntoContext c n payload activity = Inr c'"
    using assms(1) unfolding applyArtifactCollection_def Let_def by (auto split: if_splits)
  then show ?thesis using reduce_lands t assms(2) by blast
qed

lemma event_lands:
  assumes "reduceIntoContext c n payload activity = Inr c'" and "leads_to target [n]" and "\<not> shouldStop (cx_state c')"
  shows "js_get (cx_state c') ''state'' = JStr target"
  by (rule reduce_lands [OF assms(1) _ assms(2,3)]) simp

lemma state_name_at: "js_get s ''state'' = JStr k \<Longrightarrow> state_name (normalizeState s) = JStr k"
  by (simp add: state_name_def js_or_nullish_def nullish_def)

text \<open>The runner's own events are accepted where it sends them.\<close>

definition own_event :: "transition_spec \<Rightarrow> bool" where
  "own_event spec \<longleftrightarrow> List.member TRANSITIONS spec \<and> ts_event spec \<notin> set special_events \<and> nonblank (JStr (ts_event spec)) \<and>
     ts_source spec \<notin> set TEMPORAL_TERMINAL_WORKFLOW_STATES"

lemma own_event_accepted:
  assumes "state_name (normalizeState (cx_state c)) = JStr (ts_source spec)" and "own_event spec"
    and "validateTransitionPayload (normalizeState (cx_state c)) (JObj payload) spec (validateRequiredPayload (JObj payload) (ts_required spec)) = []"
  shows "reduceIntoContext c (ts_event spec) payload activity \<noteq> Inl f"
  using table_event_accepted [OF assms(1) _ refl refl, of payload activity] assms by (auto simp: own_event_def List.member_iff)

lemma untrusted_accepted:
  assumes "js_get (cx_state c) ''state'' = JStr ''status_validating''" and "\<not> payload_missing reason"
  shows "untrusted c reason errors \<noteq> Inl f"
proof -
  let ?spec = "transition ''status_validating'' ''status_invalid_or_untrusted'' [''reason'', ''validation_errors''] ''inconclusive''"
  have "own_event ?spec" by code_simp
  moreover have "validateTransitionPayload (normalizeState (cx_state c)) (JObj [(''reason'', reason), (''validation_errors'', JArr errors)]) ?spec
      (validateRequiredPayload (JObj [(''reason'', reason), (''validation_errors'', JArr errors)]) (ts_required ?spec)) = []"
    using assms(2) by (simp add: validateTransitionPayload_def validateRequiredPayload_def transition_def GITHUB_RUN_ID_EVENTS_def
        fail_if_def payload_missing_def)
  ultimately show ?thesis
    using own_event_accepted [of c ?spec "[(''reason'', reason), (''validation_errors'', JArr errors)]" None f] state_name_at [OF assms(1)]
    by (simp add: untrusted_def transition_def)
qed

lemma observe_runs_accepted:
  assumes "js_get (cx_state c) ''state'' = JStr ''launch_ref_created''" and "nonblank ref" and "nonblank name"
  shows "reduceIntoContext c ''observe_runs'' [(''launch_ref'', ref), (''expected_run_name'', name)] None \<noteq> Inl f"
proof -
  let ?spec = "(transition ''launch_ref_created'' ''observe_runs'' [''launch_ref'', ''expected_run_name''] ''github_run_observing'')
        \<lparr>ts_persist := [''launch_ref'', ''expected_run_name'']\<rparr>"
  have "own_event ?spec" by code_simp
  moreover have "validateTransitionPayload (normalizeState (cx_state c)) (JObj [(''launch_ref'', ref), (''expected_run_name'', name)]) ?spec
      (validateRequiredPayload (JObj [(''launch_ref'', ref), (''expected_run_name'', name)]) (ts_required ?spec)) = []"
    using assms(2,3) nonblank_present by (simp add: validateTransitionPayload_def validateRequiredPayload_def transition_def
        GITHUB_RUN_ID_EVENTS_def fail_if_def)
  ultimately show ?thesis
    using own_event_accepted [of c ?spec "[(''launch_ref'', ref), (''expected_run_name'', name)]" None f] state_name_at [OF assms(1)]
    by (simp add: transition_def)
qed

lemma dispatch_accepted:
  assumes "js_get (cx_state c) ''state'' = JStr ''ready_to_dispatch''" and "nonblank ref" and "nonblank sha"
    and "js_get (cx_state c) ''expected_launch_sha'' = sha"
  shows "reduceIntoContext c ''dispatch_requested'' [(''expected_launch_ref'', ref), (''expected_launch_sha'', sha)] None \<noteq> Inl f"
proof -
  let ?spec = "(transition ''ready_to_dispatch'' ''dispatch_requested'' [''expected_launch_ref'', ''expected_launch_sha''] ''launch_ref_creating'')
        \<lparr>ts_persist := [''expected_launch_ref'']\<rparr>"
  have "own_event ?spec" by code_simp
  moreover have "strict_eq sha sha" using assms(3) by (auto simp: nonblank_iff)
  then have "validateTransitionPayload (normalizeState (cx_state c)) (JObj [(''expected_launch_ref'', ref), (''expected_launch_sha'', sha)]) ?spec
      (validateRequiredPayload (JObj [(''expected_launch_ref'', ref), (''expected_launch_sha'', sha)]) (ts_required ?spec)) = []"
    using assms(2-4) nonblank_present by (simp add: validateTransitionPayload_def validateRequiredPayload_def transition_def
        GITHUB_RUN_ID_EVENTS_def fail_if_def compareExpectedLaunchSha_def)
  ultimately show ?thesis
    using own_event_accepted [of c ?spec "[(''expected_launch_ref'', ref), (''expected_launch_sha'', sha)]" None f] state_name_at [OF assms(1)]
    by (simp add: transition_def)
qed

lemma input_accepted:
  assumes "state_name (normalizeState (cx_state c)) = JStr ''input_validating''" and "validateRunnerInput handoff launchRecord = []"
  shows "reduceIntoContext c ''input_valid'' (input_payload handoff launchRecord) None \<noteq> Inl f"
proof -
  let ?spec = "(transition ''input_validating'' ''input_valid''
        [''attempt_id'', ''dispatch_idempotency_key'', ''base_sha'', ''expected_launch_sha''] ''ready_to_dispatch'')
        \<lparr>ts_persist := [''attempt_id'', ''dispatch_idempotency_key'', ''base_sha'', ''expected_launch_sha'']\<rparr>"
  have "own_event ?spec" by code_simp
  moreover have "validateTransitionPayload (normalizeState (cx_state c)) (JObj (input_payload handoff launchRecord)) ?spec
      (validateRequiredPayload (JObj (input_payload handoff launchRecord)) (ts_required ?spec)) = []"
    using runner_input_present(1-4) [OF assms(2)] nonblank_present by (simp add: validateTransitionPayload_def validateRequiredPayload_def
        transition_def GITHUB_RUN_ID_EVENTS_def fail_if_def input_payload_def)
  ultimately show ?thesis
    using own_event_accepted [of c ?spec "input_payload handoff launchRecord" None f] assms(1) by (simp add: transition_def)
qed

lemma invalid_input_accepted:
  assumes "state_name (normalizeState (cx_state c)) = JStr ''input_validating''"
  shows "reduceIntoContext c ''input_invalid'' [(''reason'', JStr ''runner_input_invalid''), (''validation_errors'', errors_json es)] None \<noteq> Inl f"
proof -
  let ?spec = "transition ''input_validating'' ''input_invalid'' [''reason'', ''validation_errors''] ''failed''"
  have "own_event ?spec" by code_simp
  moreover have "validateTransitionPayload (normalizeState (cx_state c))
      (JObj [(''reason'', JStr ''runner_input_invalid''), (''validation_errors'', errors_json es)]) ?spec
      (validateRequiredPayload (JObj [(''reason'', JStr ''runner_input_invalid''), (''validation_errors'', errors_json es)]) (ts_required ?spec)) = []"
    by (simp add: validateTransitionPayload_def validateRequiredPayload_def transition_def GITHUB_RUN_ID_EVENTS_def
        fail_if_def payload_missing_def errors_json_def)
  ultimately show ?thesis
    using own_event_accepted [of c ?spec "[(''reason'', JStr ''runner_input_invalid''), (''validation_errors'', errors_json es)]" None f] assms
    by (simp add: transition_def)
qed

section \<open>Failures of the stages\<close>

definition runner_fault :: "activities \<Rightarrow> runner_failure \<Rightarrow> bool" where
  "runner_fault activities f \<longleftrightarrow> activity_failure f \<or> blank_reason activities"

lemma faults [intro]: "activity_failure f \<Longrightarrow> runner_fault activities f" "blank_reason activities \<Longrightarrow> runner_fault activities f"
  by (simp_all add: runner_fault_def)

lemma unless_stopped_Inl: "unless_stopped k c = Inl f \<longleftrightarrow> \<not> shouldStop (cx_state c) \<and> k c = Inl f"
  by (simp add: unless_stopped_def)

lemma final_status_fails:
  assumes "applyFinalStatus c v = Inl f" and "js_get (cx_state c) ''state'' = JStr ''status_validating''"
  shows "activity_failure f \<or> js_get v ''reason'' = JStr []"
proof -
  have texts: "\<not> payload_missing (JStr ''status_schema_invalid'')" "\<not> payload_missing (JStr ''unsupported_final_status_result'')"
    "\<not> payload_missing (JStr ''github_run_conclusion_not_success'')" by (simp_all add: payload_missing_def)
  have reason: "payload_missing (js_or_nullish w (JStr ''status_untrusted'')) \<Longrightarrow> w = JStr []" for w
    by (auto simp: payload_missing_def js_or_nullish_def nullish_def split: if_splits)
  have "list_all (\<lambda>(k, n). n \<noteq> ''operator_decision'') FINAL_STATUS_EVENTS" by code_simp
  then have event: "final_status_event w = Some n \<Longrightarrow> n \<noteq> ''operator_decision''" for w n
    unfolding list_all_iff final_status_event_def by (auto split: jsval.splits dest!: map_of_SomeD)
  show ?thesis
    using assms(1) untrusted_accepted [OF assms(2)] texts reason event activity_reduce_fails
    by (auto simp: applyFinalStatus_def Let_def split: if_splits option.splits)
qed

lemma close_fails:
  assumes "close_attempt activities c = Inl f" and "js_get (cx_state c) ''state'' = JStr ''status_validating''"
  shows "runner_fault activities f"
proof -
  obtain input where or: "callActivity activities c ''loadFinalStatus'' input = Inl f \<or>
      (\<exists>d v. callActivity activities c ''loadFinalStatus'' input = Inr (d, v) \<and> applyFinalStatus d v = Inl f)"
    using assms(1) by (auto simp: close_attempt_def and_then_Inl)
  then show ?thesis
  proof
    assume "callActivity activities c ''loadFinalStatus'' input = Inl f"
    then show ?thesis by (auto dest: call_fails)
  next
    assume "\<exists>d v. callActivity activities c ''loadFinalStatus'' input = Inr (d, v) \<and> applyFinalStatus d v = Inl f"
    then obtain d v where call: "callActivity activities c ''loadFinalStatus'' input = Inr (d, v)" and app: "applyFinalStatus d v = Inl f" by blast
    have "js_get (cx_state d) ''state'' = JStr ''status_validating''" using call assms(2) by (auto simp: call_activity)
    from final_status_fails [OF app this] show ?thesis
    proof
      assume "js_get v ''reason'' = JStr []"
      then have "blank_reason activities" unfolding blank_reason_def using call [unfolded call_activity] by blast
      then show ?thesis by blast
    qed blast
  qed
qed

lemma collect_fails:
  assumes "collect_and_close activities c = Inl f"
  shows "runner_fault activities f"
  using assms call_fails outcome_fails(3) artifacts_land close_fails
  by (auto simp: collect_and_close_def and_then_Inl unless_stopped_Inl)

lemma await_fails:
  assumes "await_terminal activities c = Inl f" and "workflow_reachable (cx_state c)"
  shows "activity_failure f"
proof -
  have active: "js_get (cx_state c) ''state'' = JStr ''github_run_active''" using assms(1) by (auto simp: await_terminal_def split: if_splits)
  have "list_all (\<lambda>k. k \<in> set (known_from ''github_run_id'')) [''github_run_active'']" by code_simp
  then have "\<not> payload_missing (js_get (cx_state c) ''github_run_id'')"
    using reachable_identified [OF assms(2), of "''github_run_id''"] active by (simp add: identified_def state_name_def set_has_iff)
  then have bound: "\<not> nullish (js_get (cx_state c) ''github_run_id'')" by (auto simp: payload_missing_def nullish_def)
  have "\<not> strict_eq JUndef (js_get (cx_state c) ''github_run_id'')"
    using bound by (auto simp: nullish_def dest: strict_eq_imp_eq)
  moreover have "nullish v \<Longrightarrow> js_get v k = JUndef" for v k by (auto simp: nullish_def)
  ultimately show ?thesis
    using assms(1) active bound call_fails activity_reduce_fails
    by (auto simp: await_terminal_def and_then_Inl validateTerminalGitHubRunBinding_def Let_def activity_failure_def call_activity split: if_splits)
qed

lemma observe_fails:
  assumes "observe_and_close activities c = Inl f" and "workflow_reachable (cx_state c)"
  shows "runner_fault activities f"
proof -
  consider "activity_failure f"
    | d v d' input where "callActivity activities c ''observeGitHubRun'' input = Inr (d, v)" "applyGitHubObservation d v (cx_launchRecord d) = Inr d'"
      "and_then (await_terminal activities d') (unless_stopped (collect_and_close activities)) = Inl f"
    using assms(1) call_fails outcome_fails(2) by (auto simp: observe_and_close_def and_then_Inl unless_stopped_Inl)
  then show ?thesis
  proof cases
    case (2 d v d' input)
    have "workflow_reachable (cx_state d')"
      by (rule moves_reachable [OF moves_trans [OF quietly_moves [OF observation_quiet [OF 2(2)]] move_call [OF 2(1)]] assms(2)])
    with 2(3) show ?thesis using await_fails collect_fails by (auto simp: and_then_Inl unless_stopped_Inl)
  qed blast
qed

lemma start_observing_fails:
  assumes "start_observing activities c = Inl f" and "workflow_reachable (cx_state c)"
    and "js_get (cx_state c) ''state'' = JStr ''launch_ref_created''"
    and "nonblank (js_get (cx_launchRecord c) ''launch_ref'')" and "nonblank (js_get (js_get (cx_launchRecord c) ''github'') ''run_name'')"
  shows "runner_fault activities f"
proof -
  obtain d payload where red: "reduceIntoContext c ''observe_runs'' payload None = Inr d" and fail: "observe_and_close activities d = Inl f"
    using assms(1) observe_runs_accepted [OF assms(3-5)] by (auto simp: start_observing_def and_then_Inl unless_stopped_Inl)
  have "workflow_reachable (cx_state d)" by (rule workflow_reachable.step [OF assms(2) reduce_keeps(5) [OF red]])
  then show ?thesis by (rule observe_fails [OF fail])
qed

lemma launch_fails:
  assumes "launch_and_close activities c = Inl f" and "workflow_reachable (cx_state c)"
    and "nonblank (js_get (cx_launchRecord c) ''launch_ref'')" and "nonblank (js_get (js_get (cx_launchRecord c) ''github'') ''run_name'')"
  shows "runner_fault activities f"
proof -
  consider "activity_failure f"
    | d v d' input where "callActivity activities c ''createOrObserveLaunchRef'' input = Inr (d, v)" "applyLaunchOutcome d v = Inr d'"
      "\<not> shouldStop (cx_state d')" "start_observing activities d' = Inl f"
    using assms(1) call_fails outcome_fails(1) by (auto simp: launch_and_close_def and_then_Inl unless_stopped_Inl)
  then show ?thesis
  proof cases
    case (2 d v d' input)
    have m: "runner_moves activities c d'" by (rule moves_trans [OF quietly_moves [OF launch_quiet [OF 2(2)]] move_call [OF 2(1)]])
    show ?thesis
      by (rule start_observing_fails [OF 2(4) moves_reachable [OF m assms(2)] launch_lands [OF 2(2,3)]])
        (use assms(3,4) moves_keep(2) [OF m] in simp_all)
  qed blast
qed

lemma input_persists:
  assumes "reduceIntoContext c ''input_valid'' (input_payload handoff launchRecord) None = Inr d" and "nonblank (js_get launchRecord ''launch_sha'')"
  shows "js_get (cx_state d) ''expected_launch_sha'' = js_get launchRecord ''launch_sha''"
proof -
  obtain n payload where n: "n = ''input_valid''" and p: "payload = input_payload handoff launchRecord" by blast
  obtain "next" options r where a: "accepts (normalizeState (cx_state c)) n (JObj payload) next options"
    and e: "cx_state d = accepted_state (normalizeState (cx_state c)) n (JObj payload) next options r"
    by (rule reduce_into [OF assms(1)]) (use n p in blast)
  have "n \<notin> set special_events" using n by (simp add: special_events_def)
  then obtain spec where spec: "spec \<in> set TRANSITIONS" "ts_event spec = n" "options = spec_options spec" using accepts_edge [OF a] by blast
  have "list_all (\<lambda>spec. ts_event spec = ''input_valid'' \<longrightarrow> ''expected_launch_sha'' \<in> set (ts_persist spec)) TRANSITIONS" by code_simp
  then have "''expected_launch_sha'' \<in> set (ao_persist options)" using spec n unfolding list_all_iff by (auto simp: spec_options_def)
  then show ?thesis
    using accepted_state_get [OF _ a, of "''expected_launch_sha''" r] nonblank_present [OF assms(2)] unfolding e p by (simp add: input_payload_def)
qed

text \<open>C24: Nothing but its activities makes a run fail: a run from the initial state returns a result, or an activity was missing,
  threw, or returned what the runner rejects. The one exception is a final status result that is not trusted and gives the empty
  text as its reason: the reducer refuses that reason.\<close>

theorem only_activities_fail_a_run:
  assumes "runTemporalWorkflowAttempt handoff launchRecord activities JUndef = Inl f"
  shows "activity_failure f \<or> blank_reason activities"
proof -
  let ?c = "start_context handoff launchRecord JUndef"
  have r: "workflow_reachable (cx_state ?c)" by (simp add: start_context_def js_default_def workflow_reachable.start)
  have n: "state_name (normalizeState (cx_state ?c)) = JStr ''input_validating''"
    unfolding start_context_def js_default_def by simp code_simp
  have "runner_fault activities f"
  proof (cases "validateRunnerInput handoff launchRecord = []")
    case True
    note present = runner_input_present [OF True]
    obtain d where red: "reduceIntoContext ?c ''input_valid'' (input_payload handoff launchRecord) None = Inr d"
      and stop: "\<not> shouldStop (cx_state d)" and fail: "request_dispatch activities d = Inl f"
      using assms True input_accepted [OF n True]
      by (auto simp: runTemporalWorkflowAttempt_def Let_def and_then_Inl start_context_def unless_stopped_Inl)
    have m: "runner_moves activities ?c d" by (rule move_reduce [OF red])
    have l: "cx_launchRecord d = launchRecord" using moves_keep(2) [OF m] by (simp add: start_context_def)
    have "leads_to ''ready_to_dispatch'' [''input_valid'']" by code_simp
    note at = event_lands [OF red this stop]
    obtain e payload where red': "reduceIntoContext d ''dispatch_requested'' payload None = Inr e" and fail': "launch_and_close activities e = Inl f"
      using fail dispatch_accepted [OF at present(5,4) input_persists [OF red present(4)]] l
      by (auto simp: request_dispatch_def and_then_Inl unless_stopped_Inl)
    have m': "runner_moves activities ?c e" by (rule runner_moves.reduce [OF m red'])
    show ?thesis
      by (rule launch_fails [OF fail' moves_reachable [OF m' r]])
        (use present(5,6) moves_keep(2) [OF m'] in \<open>simp_all add: start_context_def\<close>)
  next
    case False
    then show ?thesis using assms invalid_input_accepted [OF n]
      by (auto simp: runTemporalWorkflowAttempt_def Let_def and_then_Inl start_context_def)
  qed
  then show ?thesis by (simp add: runner_fault_def)
qed

lemma demo_missing: "isl (runTemporalWorkflowAttempt demo_handoff demo_record (\<lambda>n. None) JUndef)"
  by code_simp

theorem only_activities_fail_a_run_witness:
  "\<exists>f. runTemporalWorkflowAttempt demo_handoff demo_record (\<lambda>n. None) JUndef = Inl f \<and> activity_failure f"
proof -
  obtain f where f: "runTemporalWorkflowAttempt demo_handoff demo_record (\<lambda>n. None) JUndef = Inl f"
    using demo_missing by (auto simp: isl_def)
  with only_activities_fail_a_run [OF f] show ?thesis by (simp add: blank_reason_def)
qed

end
