(* ===== verification/Base64Text.thy ===== *)
theory Base64Text
  imports JsPrelude
begin

text \<open>
  \<open>Buffer.from(text, "utf8").toString("base64url")\<close> and \<open>Buffer.from(cursor, "base64url").toString("utf8")\<close>: the text of a
  cursor. A byte is a natural number below 256, a sextet one below 64.

  A code unit below 256 takes one byte or two. Decoding is modelled on the texts that have only characters of the alphabet
  (of base64 or base64url) and on the bytes that encode code units below 256; on the others the result is \<open>None\<close>.

  Main result: decoding gives back every text that was encoded.
\<close>

section \<open>Bytes of a text\<close>

definition utf8_char :: "char \<Rightarrow> nat list" where
  "utf8_char c = (let n = of_char c in if n < 128 then [n] else [192 + n div 64, 128 + n mod 64])"

definition utf8_encode :: "string \<Rightarrow> nat list" where
  "utf8_encode s = concat (map utf8_char s)"

fun utf8_decode :: "nat list \<Rightarrow> string option" where
  "utf8_decode [] = Some []"
| "utf8_decode (a # bs) =
     (if a < 128 then map_option ((#) (char_of a)) (utf8_decode bs)
      else case bs of
        b # cs \<Rightarrow>
          if (a = 194 \<or> a = 195) \<and> 128 \<le> b \<and> b < 192
          then map_option ((#) (char_of ((a - 192) * 64 + (b - 128)))) (utf8_decode cs) else None
      | [] \<Rightarrow> None)"

lemma utf8_decode_char: "utf8_decode (utf8_char c @ bs) = map_option ((#) c) (utf8_decode bs)"
proof -
  have c: "of_char c < (256 :: nat)" by simp
  show ?thesis
  proof (cases "of_char c < (128 :: nat)")
    case True
    then show ?thesis by (simp add: utf8_char_def)
  next
    case False
    with c have "of_char c div 64 = (2 :: nat) \<or> of_char c div 64 = (3 :: nat)" by linarith
    moreover have "(of_char c div 64) * 64 + of_char c mod 64 = (of_char c :: nat)" by simp
    ultimately show ?thesis using False by (auto simp: utf8_char_def Let_def)
  qed
qed

lemma utf8_roundtrip: "utf8_decode (utf8_encode s) = Some s"
  by (induction s) (simp_all add: utf8_encode_def utf8_decode_char)

lemma utf8_bytes: "b \<in> set (utf8_encode s) \<Longrightarrow> b < 256"
proof -
  have "\<forall>b\<in>set (utf8_char c). b < 256" for c
  proof -
    have "of_char c < (256 :: nat)" by simp
    moreover from this have "of_char c div 64 < (64 :: nat)" by linarith
    moreover have "of_char c mod 64 < (128 :: nat)" by (rule less_trans [of _ 64]) simp_all
    ultimately show ?thesis by (simp add: utf8_char_def Let_def)
  qed
  then show "b \<in> set (utf8_encode s) \<Longrightarrow> b < 256" by (auto simp: utf8_encode_def)
qed

section \<open>Sextets of the bytes\<close>

fun sextets :: "nat list \<Rightarrow> nat list" where
  "sextets [] = []"
| "sextets [a] = [a div 4, a mod 4 * 16]"
| "sextets [a, b] = [a div 4, a mod 4 * 16 + b div 16, b mod 16 * 4]"
| "sextets (a # b # c # bs) = [a div 4, a mod 4 * 16 + b div 16, b mod 16 * 4 + c div 64, c mod 64] @ sextets bs"

fun unsextets :: "nat list \<Rightarrow> nat list option" where
  "unsextets [] = Some []"
| "unsextets [p] = None"
| "unsextets [p, q] = Some [p * 4 + q div 16]"
| "unsextets [p, q, r] = Some [p * 4 + q div 16, q mod 16 * 16 + r div 4]"
| "unsextets (p # q # r # s # ss) =
     map_option ((@) [p * 4 + q div 16, q mod 16 * 16 + r div 4, r mod 4 * 64 + s]) (unsextets ss)"

lemma sextets_bound: "\<forall>b\<in>set bs. b < 256 \<Longrightarrow> s \<in> set (sextets bs) \<Longrightarrow> s < 64"
proof (induction bs rule: sextets.induct)
  case (4 a b c bs)
  from "4.prems" have "s \<in> {a div 4, a mod 4 * 16 + b div 16, b mod 16 * 4 + c div 64, c mod 64} \<or> s \<in> set (sextets bs)"
    and "a < 256" "b < 256" "c < 256" by auto
  then show ?case using "4.IH" "4.prems"(1) by (elim disjE insertE) (simp_all, (linarith | fastforce)+)
qed (auto)

lemma join_bits: "a div 4 * 4 + (a mod 4 * 16 + x) div 16 = a" if "x < 16" for a x :: nat
  using that by simp

lemma sextets_roundtrip: "\<forall>b\<in>set bs. b < 256 \<Longrightarrow> unsextets (sextets bs) = Some bs"
proof (induction bs rule: sextets.induct)
  case (3 a b)
  then have "b div 16 < 16" by auto
  moreover have "b div 16 * 16 + b mod 16 = b" by simp
  ultimately show ?case by simp
next
  case (4 a b c bs)
  then have "b div 16 < 16" "c div 64 < 4" by auto
  moreover have "b div 16 * 16 + b mod 16 = b" "c div 64 * 64 + c mod 64 = c" by simp_all
  ultimately show ?case using 4 by simp
qed simp_all

section \<open>Characters of the sextets\<close>

definition base64_char :: "nat \<Rightarrow> char" where
  "base64_char n =
     (if n < 26 then char_of (n + 65) else if n < 52 then char_of (n + 71) else if n < 62 then char_of (n - 4)
      else if n = 62 then CHR ''-'' else CHR ''_'')"

definition base64_value :: "char \<Rightarrow> nat option" where
  "base64_value c = (let n = of_char c in
     if 65 \<le> n \<and> n \<le> 90 then Some (n - 65)
     else if 97 \<le> n \<and> n \<le> 122 then Some (n - 71)
     else if 48 \<le> n \<and> n \<le> 57 then Some (n + 4)
     else if c \<in> {CHR ''-'', CHR ''+''} then Some 62
     else if c \<in> {CHR ''_'', CHR ''/''} then Some 63
     else None)"

fun base64_values :: "string \<Rightarrow> nat list option" where
  "base64_values [] = Some []"
| "base64_values (c # s) =
     (case base64_value c of None \<Rightarrow> None | Some n \<Rightarrow> map_option ((#) n) (base64_values s))"

lemma base64_value_char: "n < 64 \<Longrightarrow> base64_value (base64_char n) = Some n"
  by (auto simp: base64_value_def base64_char_def Let_def)

lemma base64_values_chars: "\<forall>n\<in>set ns. n < 64 \<Longrightarrow> base64_values (map base64_char ns) = Some ns"
  by (induction ns) (simp_all add: base64_value_char)

section \<open>Texts\<close>

definition to_base64url :: "string \<Rightarrow> string" where
  "to_base64url s = map base64_char (sextets (utf8_encode s))"

definition from_base64url :: "string \<Rightarrow> string option" where
  "from_base64url t =
     (case base64_values t of None \<Rightarrow> None
      | Some ns \<Rightarrow> (case unsextets ns of None \<Rightarrow> None | Some bs \<Rightarrow> utf8_decode bs))"

lemma base64url_roundtrip: "from_base64url (to_base64url s) = Some s"
proof -
  have "base64_values (map base64_char (sextets (utf8_encode s))) = Some (sextets (utf8_encode s))"
    by (rule base64_values_chars) (use sextets_bound utf8_bytes in blast)
  moreover have "unsextets (sextets (utf8_encode s)) = Some (utf8_encode s)"
    by (rule sextets_roundtrip) (use utf8_bytes in blast)
  ultimately show ?thesis by (simp add: from_base64url_def to_base64url_def utf8_roundtrip)
qed

end
