(* ===== verification/ManagedDetail.thy ===== *)
theory ManagedDetail
  imports ManagedObservation TemporalWorkflow JsonParse Base64Text
begin

text \<open>
  The paged detail of managed attempts, the second part of \<open>managed-run-observation.mjs\<close>: the summary of the proof
  verifications of an attempt, the pages of its failures, of its proof verifications and of the attempts themselves, and the
  cursor that carries a reader from one page to the next.

  A cursor is the base64url text of a JSON object with a checksum. Its reading has the result \<open>CursorOutside\<close> where the text lies
  outside the model (a byte sequence that is not the text of code units below 256). A cursor that was not issued may name its
  position by any JSON value, which JavaScript makes a property name.
\<close>

section \<open>Refusals shown to a caller\<close>

definition ATTEMPT_SELECTION_REFUSAL_CODES :: "string list" where
  "ATTEMPT_SELECTION_REFUSAL_CODES = [''attempt_selector_mismatch'', ''attempt_selection_ambiguous'',
     ''attempt_observation_unavailable'']"

definition isManagedAttemptSelectionRefusal :: "jsval \<Rightarrow> bool" where
  "isManagedAttemptSelectionRefusal observation \<longleftrightarrow>
     strict_eq (js_get observation ''ok'') (JBool False) \<and>
     js_get observation ''code'' \<in> JStr ` set ATTEMPT_SELECTION_REFUSAL_CODES"

definition withheld_keys :: "string list" where
  "withheld_keys = [''events'', ''attempts'', ''prefix'', ''repository'', ''verified_source'']"

definition managedObservationFailureFacts :: "jsval \<Rightarrow> jsval" where
  "managedObservationFailureFacts observation =
     (if \<not> strict_eq (js_get observation ''ok'') (JBool False) then observation
      else JObj (filter (\<lambda>(k, v). k \<notin> set withheld_keys) (js_spread observation)))"

definition dispatchBinding :: "jsval list \<Rightarrow> jsval \<Rightarrow> jsval" where
  "dispatchBinding events attempt =
     (case find (\<lambda>e. ev_kind e = Some PendingPublished \<and> sameAttempt (ev_attempt e) attempt) events of
        None \<Rightarrow> JNull
      | Some e \<Rightarrow> js_or_nullish (ev_dispatch_tuple e) JNull)"

definition resultDigest :: "hash \<Rightarrow> jsval \<Rightarrow> string" where
  "resultDigest H v = digestOf H v"

section \<open>The summary of proof verifications\<close>

definition get_or_null :: "jsval \<Rightarrow> string \<Rightarrow> jsval" where
  "get_or_null v k = js_or_nullish (js_get v k) JNull"

definition tested_source_keys :: "string list" where
  "tested_source_keys = [''wk_id'', ''selected_unit'', ''focus'', ''candidate'', ''source_snapshot_digest'',
     ''contract_generation'', ''canonical_contract_digest'', ''contract_digest'', ''binding_digest'']"

definition compactTestedSource :: "jsval \<Rightarrow> jsval" where
  "compactTestedSource testedSource =
     (if is_plain_object testedSource \<or> is_array testedSource
      then JObj (map (\<lambda>k. (k, get_or_null testedSource k)) tested_source_keys) else JNull)"

text \<open>Both summaries are refused with the reason that \<open>recordedProofVerificationOutcomeSummary\<close> gives.\<close>

definition last_summary :: "recorded_item \<Rightarrow> jsval \<Rightarrow> jsval option \<Rightarrow> jsobj" where
  "last_summary item verification outcome_summary =
     [(''invocation_id'', ri_invocation_id item), (''sequence'', ri_sequence item), (''event_digest'', ri_digest item),
      (''record_identity'', get_or_null verification ''record_identity''),
      (''requested_unit'', get_or_null (js_get verification ''request'') ''subject''),
      (''assigned_unit'', get_or_null (js_get verification ''caller'') ''assigned_unit''),
      (''outcome'', get_or_null verification ''outcome''), (''status'', get_or_null verification ''status''),
      (''reason_code'', get_or_null verification ''reason_code''),
      (''selected_proof_count'', if is_integer (js_get (js_get verification ''counts'') ''proofs'')
         then js_get (js_get verification ''counts'') ''proofs'' else JNull),
      (''tested_source'', compactTestedSource (get_or_null verification ''tested_source'')),
      (''result_digest'', get_or_null verification ''result_digest'')] @
     (case outcome_summary of None \<Rightarrow> [] | Some s \<Rightarrow> [(''outcome_summary'', s)]) @
     [(''coverage_scope'', JStr ''requested_selection_only''), (''grants_authority'', JBool False)]"

definition summarizeLastRecordedInvocation :: "recorded_item option \<Rightarrow> string + jsval" where
  "summarizeLastRecordedInvocation item =
     (case item of
        None \<Rightarrow> Inr JNull
      | Some item \<Rightarrow>
          let verification = js_or_nullish (ri_value item) (JObj []) in
          (case recordedProofVerificationOutcomeSummary verification of
             Inl reason \<Rightarrow> Inl reason
           | Inr outcome_summary \<Rightarrow> Inr (JObj (last_summary item verification outcome_summary))))"

text \<open>\<open>counts[name]\<close> before the first own value: the text of the property that \<open>counts\<close> inherits under the name, if any; adding
  1 to a text appends it.\<close>

definition inherited_text :: "string \<Rightarrow> jsval" where
  "inherited_text name =
     (if name \<notin> set object_prototype_keys then JUndef
      else if name = ''__proto__'' then JStr ''[object Object]''
      else JStr (''function '' @ (if name = ''constructor'' then ''Object'' else name) @ ''() { [native code] }''))"

fun one_more :: "jsval \<Rightarrow> jsval" where
  "one_more (JNum (NInt i)) = JInt (i + 1)"
| "one_more (JStr t) = JStr (t @ ''1'')"
| "one_more _ = JInt 1"

definition count_name :: "string \<Rightarrow> jsobj \<Rightarrow> jsobj" where
  "count_name name counts =
     obj_assign name (one_more (if name \<in> set (map fst counts) then obj_get counts name else inherited_text name)) counts"

definition string_or :: "string \<Rightarrow> jsval \<Rightarrow> string" where
  "string_or other v = (case v of JStr s \<Rightarrow> s | _ \<Rightarrow> other)"

definition outcome_name :: "recorded_item \<Rightarrow> string" where
  "outcome_name item = string_or ''unknown'' (js_get (ri_value item) ''outcome'')"

definition status_name :: "recorded_item \<Rightarrow> string" where
  "status_name item = string_or ''none'' (js_get (ri_value item) ''status'')"

fun count_outcomes :: "jsobj \<Rightarrow> jsobj \<Rightarrow> recorded_item list \<Rightarrow> (string \<times> jsval) + (jsobj \<times> jsobj)" where
  "count_outcomes outcomes statuses [] = Inr (outcomes, statuses)"
| "count_outcomes outcomes statuses (item # population) =
     (case recordedProofVerificationOutcomeSummary (ri_value item) of
        Inl reason \<Rightarrow> Inl (reason, ri_invocation_id item)
      | Inr _ \<Rightarrow> count_outcomes (count_name (outcome_name item) outcomes) (count_name (status_name item) statuses) population)"

definition later :: "jsval \<Rightarrow> jsval \<Rightarrow> bool" where
  "later a b \<longleftrightarrow> (case (a, b) of (JNum (NInt i), JNum (NInt j)) \<Rightarrow> j < i | _ \<Rightarrow> False)"

definition last_recorded :: "recorded_item list \<Rightarrow> recorded_item option" where
  "last_recorded population = foldl (\<lambda>latest item.
     (case latest of None \<Rightarrow> Some item
      | Some l \<Rightarrow> if later (ri_sequence item) (ri_sequence l) then Some item else Some l)) None population"

text \<open>The left alternative: the reason and the invocation of the first record that is not valid.\<close>

definition summarizeProofVerifications :: "recorded_item list \<Rightarrow> (string \<times> jsval) + jsval" where
  "summarizeProofVerifications population =
     (case count_outcomes [] [] population of
        Inl r \<Rightarrow> Inl r
      | Inr (outcomes, statuses) \<Rightarrow>
          (case summarizeLastRecordedInvocation (last_recorded population) of
             Inl reason \<Rightarrow> Inl (reason, (case last_recorded population of None \<Rightarrow> JUndef | Some item \<Rightarrow> ri_invocation_id item))
           | Inr recent \<Rightarrow> Inr (JObj
               [(''schema_version'', JStr ''managed-attempt-proof-verification-summary.v1''),
                (''recorded_count'', JInt (int (length population))),
                (''outcome_counts'', JObj outcomes), (''status_counts'', JObj statuses),
                (''last_recorded_invocation'', recent)])))"

section \<open>Cursors\<close>

definition cursor_schema_version :: jsval where
  "cursor_schema_version = JStr ''managed-attempt-observation-cursor.v1''"

definition encodeCursor :: "hash \<Rightarrow> jsobj \<Rightarrow> string" where
  "encodeCursor H payload =
     (let unsigned = (''schema_version'', cursor_schema_version) # payload in
      to_base64url (or_null_text (canonicalJson (JObj (unsigned @ [(''checksum'', JStr (digestOf H (JObj unsigned)))])))))"

datatype cursor_reading = CursorRead jsval | CursorInvalid | CursorOutside

definition cursor_content :: "hash \<Rightarrow> jsval \<Rightarrow> cursor_reading" where
  "cursor_content H v =
     (let unsigned = JObj (obj_remove ''checksum'' (js_spread v)) in
      if nullish v then CursorInvalid
      else if \<not> strict_eq (js_get unsigned ''schema_version'') cursor_schema_version \<or>
        \<not> strict_eq (js_get v ''checksum'') (JStr (digestOf H unsigned)) then CursorInvalid
      else CursorRead unsigned)"

definition decodeCursor :: "hash \<Rightarrow> number_reader \<Rightarrow> string \<Rightarrow> cursor_reading" where
  "decodeCursor H NUM cursor =
     (case from_base64url cursor of
        None \<Rightarrow> CursorOutside
      | Some text \<Rightarrow> (case json_parse NUM text of
          Outside \<Rightarrow> CursorOutside | SyntaxError \<Rightarrow> CursorInvalid | Read v r \<Rightarrow> cursor_content H v))"

definition read_cursor :: "hash \<Rightarrow> number_reader \<Rightarrow> jsval \<Rightarrow> cursor_reading" where
  "read_cursor H NUM cursor = (case cursor of JStr s \<Rightarrow> decodeCursor H NUM s | _ \<Rightarrow> CursorInvalid)"

section \<open>Pages\<close>

definition MANAGED_ATTEMPT_DETAIL_KINDS :: "string list" where
  "MANAGED_ATTEMPT_DETAIL_KINDS = [''failure_history'', ''attempts'', ''proof_verification'']"

record attempt_summary =
  as_attempt_id :: jsval
  as_dispatch_tuple :: jsval
  as_released :: bool
  as_last_lifecycle_kind :: "event_kind option"
  as_result_recorded :: bool
  as_failure_total :: nat
  as_proof_verification_total :: nat

datatype detail_item = AttemptDetail attempt_summary | RecordedDetail recorded_item

text \<open>The snapshot a page names; the members of one that was taken from a cursor are what the cursor holds.\<close>

record page_snapshot =
  sn_sequence :: jsval
  sn_digest :: jsval
  sn_event_count :: jsval

definition snapshot_of :: "journal_prefix \<Rightarrow> page_snapshot" where
  "snapshot_of pre = \<lparr>sn_sequence = JInt (px_sequence pre), sn_digest = px_digest pre, sn_event_count = JInt (px_event_count pre)\<rparr>"

record detail_page =
  dp_kind :: jsval
  dp_attempt_id :: jsval
  dp_invocation_id :: jsval
  dp_total_count :: nat
  dp_returned_count :: nat
  dp_items :: "detail_item list"
  dp_summary :: "jsval option"
  dp_snapshot :: page_snapshot
  dp_cursor :: "string option"

text \<open>A page, a code, the failed selection, the refusal of the summary with its reason and invocation, or a thrown
  \<open>TypeError\<close>.\<close>

datatype detail_outcome =
    DetailPage detail_page
  | DetailRefused string
  | DetailNotSelected selection
  | SummaryRefused string jsval
  | DetailThrew
  | DetailOutside

fun attempts_of :: "selection \<Rightarrow> observation list" where
  "attempts_of (Selected item indeterminate attempts pre) = attempts"
| "attempts_of (NotSelected code attempts pre) = attempts"
| "attempts_of (SelectionRefused r) = []"

fun selected_of :: "selection \<Rightarrow> observation option" where
  "selected_of (Selected item indeterminate attempts pre) = item"
| "selected_of _ = None"

text \<open>\<open>!selection.ok && !(kind === "attempts" && selection.code === "attempt_selection_ambiguous")\<close>, negated, with the prefix.\<close>

fun answerable :: "jsval \<Rightarrow> selection \<Rightarrow> journal_prefix option" where
  "answerable kind (Selected item indeterminate attempts pre) = Some pre"
| "answerable kind (NotSelected code attempts pre) =
     (if kind = JStr ''attempts'' \<and> code = AttemptSelectionAmbiguous then Some pre else None)"
| "answerable kind (SelectionRefused r) = None"

definition attempt_summary_of :: "observation \<Rightarrow> attempt_summary" where
  "attempt_summary_of item = \<lparr>as_attempt_id = get_or_null (ob_dispatch_tuple item) ''run_id'',
     as_dispatch_tuple = ob_dispatch_tuple item, as_released = ob_released item,
     as_last_lifecycle_kind = ob_last_lifecycle_kind item, as_result_recorded = (ob_result item \<noteq> JNull),
     as_failure_total = length (ob_failures item), as_proof_verification_total = length (ob_proof_verifications item)\<rparr>"

definition recorded_of :: "(observation \<Rightarrow> recorded_item list) \<Rightarrow> observation option \<Rightarrow> recorded_item list" where
  "recorded_of field selected = (case selected of None \<Rightarrow> [] | Some item \<Rightarrow> field item)"

definition run_id_of :: "observation option \<Rightarrow> jsval \<Rightarrow> jsval" where
  "run_id_of selected attemptId =
     (case selected of None \<Rightarrow> attemptId | Some item \<Rightarrow> js_or_nullish (js_get (ob_dispatch_tuple item) ''run_id'') attemptId)"

definition detail_population :: "jsval \<Rightarrow> selection \<Rightarrow> detail_item list" where
  "detail_population kind s =
     (if kind = JStr ''attempts'' then map (\<lambda>item. AttemptDetail (attempt_summary_of item)) (attempts_of s)
      else map RecordedDetail (recorded_of
        (if kind = JStr ''proof_verification'' then ob_proof_verifications else ob_failures) (selected_of s)))"

definition detail_summary :: "jsval \<Rightarrow> selection \<Rightarrow> (string \<times> jsval) + jsval option" where
  "detail_summary kind s =
     (if kind \<noteq> JStr ''proof_verification'' then Inr None
      else case summarizeProofVerifications (recorded_of ob_proof_verifications (selected_of s)) of
        Inl r \<Rightarrow> Inl r | Inr summary \<Rightarrow> Inr (Some summary))"

definition cursor_payload :: "jsval \<Rightarrow> jsval \<Rightarrow> jsval \<Rightarrow> jsval \<Rightarrow> page_snapshot \<Rightarrow> nat \<Rightarrow> jsobj" where
  "cursor_payload repository subject attemptId kind pre offset =
     [(''repository'', repository), (''subject'', subject), (''attempt_id'', attemptId), (''kind'', kind),
      (''prefix_sequence'', sn_sequence pre), (''prefix_digest'', sn_digest pre), (''offset'', JInt (int offset))]"

definition page_of :: "hash \<Rightarrow> jsval \<Rightarrow> jsval \<Rightarrow> jsval \<Rightarrow> jsval \<Rightarrow> nat option \<Rightarrow> page_snapshot \<Rightarrow> nat \<Rightarrow> selection \<Rightarrow> detail_outcome" where
  "page_of H repository subject attemptId kind limit pre offset s =
     (let population = detail_population kind s in
      case detail_summary kind s of
        Inl (reason, invocation) \<Rightarrow> SummaryRefused reason invocation
      | Inr summary \<Rightarrow>
          let items = (case limit of None \<Rightarrow> drop offset population | Some n \<Rightarrow> take n (drop offset population));
              nextOffset = offset + length items in
          DetailPage \<lparr>dp_kind = kind,
            dp_attempt_id = (if kind = JStr ''attempts'' then attemptId else run_id_of (selected_of s) attemptId),
            dp_invocation_id = JUndef, dp_total_count = length population, dp_returned_count = length items, dp_items = items,
            dp_summary = summary, dp_snapshot = pre,
            dp_cursor = (if nextOffset < length population
              then Some (encodeCursor H (cursor_payload repository subject attemptId kind pre nextOffset)) else None)\<rparr>)"

text \<open>\<open>events[key]\<close> for the name a key is: an element, the length, or what arrays inherit under the name. An inherited property is a
  function or an object, true and without a member \<open>digest\<close>; the empty object stands for it.\<close>

definition array_prototype_keys :: "string list" where
  "array_prototype_keys = [''at'', ''concat'', ''copyWithin'', ''fill'', ''find'', ''findIndex'', ''findLast'', ''findLastIndex'', ''lastIndexOf'',
     ''pop'', ''push'', ''reverse'', ''shift'', ''unshift'', ''slice'', ''sort'', ''splice'', ''includes'', ''indexOf'', ''join'', ''keys'',
     ''entries'', ''values'', ''forEach'', ''filter'', ''flat'', ''flatMap'', ''map'', ''every'', ''some'', ''reduce'', ''reduceRight'',
     ''toReversed'', ''toSorted'', ''toSpliced'', ''with'']"

definition array_property :: "jsval list \<Rightarrow> string \<Rightarrow> jsval" where
  "array_property xs key =
     (if dec_nat (nat_of_digits key) = key \<and> nat_of_digits key < length xs then xs ! nat_of_digits key
      else if key = ''length'' then JInt (int (length xs))
      else if key \<in> set (array_prototype_keys @ object_prototype_keys) then JObj [] else JUndef)"

text \<open>\<open>None\<close>: the key is an object whose conversion to a name throws.\<close>

definition array_element :: "jsval list \<Rightarrow> jsval \<Rightarrow> jsval option" where
  "array_element xs key = map_option (array_property xs) (to_property_key key)"

text \<open>\<open>key + 1\<close> for a key with \<open>events[key]\<close> true: a whole number, or a string or array, to whose text it appends. No property of an
  array has the name that another number, \<open>null\<close>, \<open>undefined\<close>, a boolean or an object has.\<close>

definition plus_one :: "jsval \<Rightarrow> jsval" where
  "plus_one key =
     (case key of
        JNum (NInt i) \<Rightarrow> JInt (i + 1)
      | _ \<Rightarrow> (case to_property_key key of None \<Rightarrow> JUndef | Some t \<Rightarrow> JStr (t @ ''1'')))"

text \<open>The number of elements \<open>events.slice(0, end)\<close> takes, for such a sum: a text is the number it is the numeral of, and otherwise no
  number, so none.\<close>

definition slice_end :: "jsval \<Rightarrow> nat" where
  "slice_end v =
     (case v of
        JNum (NInt i) \<Rightarrow> nat i
      | JStr t \<Rightarrow> if t \<noteq> [] \<and> list_all is_digit t then nat_of_digits t else 0
      | _ \<Rightarrow> 0)"

definition cursor_fits :: "jsval \<Rightarrow> jsval \<Rightarrow> jsval \<Rightarrow> jsval \<Rightarrow> jsval \<Rightarrow> bool" where
  "cursor_fits repository subject attemptId kind decoded \<longleftrightarrow>
     strict_eq (js_get decoded ''repository'') repository \<and> strict_eq (js_get decoded ''subject'') subject \<and>
     strict_eq (js_get decoded ''attempt_id'') attemptId \<and> strict_eq (js_get decoded ''kind'') kind \<and>
     is_nonneg_integer (js_get decoded ''offset'')"

text \<open>The number a checked integer is.\<close>

fun offset_of :: "jsval \<Rightarrow> nat" where
  "offset_of (JNum (NInt i)) = nat i"
| "offset_of _ = 0"

definition replayed_page :: "hash \<Rightarrow> jsval \<Rightarrow> jsval \<Rightarrow> jsval list \<Rightarrow> jsval \<Rightarrow> jsval \<Rightarrow> nat option \<Rightarrow> jsval \<Rightarrow> detail_outcome" where
  "replayed_page H repository subject events attemptId kind limit decoded =
     (let position = js_get decoded ''prefix_sequence''; digest = js_get decoded ''prefix_digest'' in
      case array_element events position of
        None \<Rightarrow> DetailThrew
      | Some observed \<Rightarrow>
          if \<not> truthy observed \<or> \<not> strict_eq (js_get observed ''digest'') digest
          then DetailRefused ''attempt_detail_snapshot_unavailable''
          else
          let count = plus_one position;
              replayed = selectManagedAttempt H repository subject (JArr (take (slice_end count) events)) attemptId in
          (case answerable kind replayed of
             None \<Rightarrow> DetailNotSelected replayed
           | Some _ \<Rightarrow> page_of H repository subject attemptId kind limit
               \<lparr>sn_sequence = position, sn_digest = digest, sn_event_count = count\<rparr>
               (offset_of (js_get decoded ''offset'')) replayed))"

definition invocation_page :: "jsval \<Rightarrow> jsval \<Rightarrow> jsval \<Rightarrow> selection \<Rightarrow> journal_prefix \<Rightarrow> detail_outcome" where
  "invocation_page attemptId kind invocationId s pre =
     (let recorded = recorded_of ob_proof_verifications (selected_of s) in
      case find (\<lambda>entry. strict_eq (ri_invocation_id entry) invocationId) recorded of
        None \<Rightarrow> DetailRefused ''proof_verification_invocation_unknown''
      | Some item \<Rightarrow>
          (case summarizeProofVerifications recorded of
             Inl (reason, invocation) \<Rightarrow> SummaryRefused reason invocation
           | Inr summary \<Rightarrow>
               DetailPage \<lparr>dp_kind = kind, dp_attempt_id = run_id_of (selected_of s) attemptId, dp_invocation_id = invocationId,
                 dp_total_count = length recorded, dp_returned_count = 1, dp_items = [RecordedDetail item],
                 dp_summary = Some summary, dp_snapshot = snapshot_of pre, dp_cursor = None\<rparr>))"

record detail_request =
  dr_attemptId :: jsval
  dr_kind :: jsval
  dr_cursor :: jsval
  dr_limit :: jsval
  dr_invocationId :: jsval
  dr_complete :: jsval

fun valid_limit :: "jsval \<Rightarrow> bool" where
  "valid_limit (JNum (NInt i)) \<longleftrightarrow> 1 \<le> i \<and> i \<le> 100"
| "valid_limit _ \<longleftrightarrow> False"

definition request_valid :: "jsval \<Rightarrow> jsval \<Rightarrow> jsval \<Rightarrow> jsval \<Rightarrow> bool" where
  "request_valid kind cursor limit invocationId \<longleftrightarrow>
     kind \<in> JStr ` set MANAGED_ATTEMPT_DETAIL_KINDS \<and> valid_limit limit \<and>
     (invocationId = JNull \<or> (kind = JStr ''proof_verification'' \<and> cursor = JNull \<and> is_nonempty_string invocationId))"

text \<open>\<open>complete ? undefined : offset + limit\<close>, as the number of items of a page.\<close>

definition page_size :: "detail_request \<Rightarrow> nat option" where
  "page_size q = (if truthy (js_default (JBool False) (dr_complete q)) then None
     else Some (offset_of (js_default (JInt 20) (dr_limit q))))"

definition pageManagedAttemptDetail :: "hash \<Rightarrow> number_reader \<Rightarrow> jsval \<Rightarrow> jsval \<Rightarrow> jsval \<Rightarrow> detail_request \<Rightarrow> detail_outcome" where
  "pageManagedAttemptDetail H NUM repository subject events q =
     (let kind = dr_kind q; attemptId = dr_attemptId q; cursor = js_default JNull (dr_cursor q);
          limit = js_default (JInt 20) (dr_limit q); invocationId = js_default JNull (dr_invocationId q);
          size = page_size q in
      if \<not> request_valid kind cursor limit invocationId then DetailRefused ''attempt_detail_request_invalid''
      else
      let s = selectManagedAttempt H repository subject events attemptId in
      case answerable kind s of
        None \<Rightarrow> DetailNotSelected s
      | Some pre \<Rightarrow>
          if invocationId \<noteq> JNull then invocation_page attemptId kind invocationId s pre
          else if cursor = JNull then page_of H repository subject attemptId kind size (snapshot_of pre) 0 s
          else
          (case read_cursor H NUM cursor of
             CursorOutside \<Rightarrow> DetailOutside
           | CursorInvalid \<Rightarrow> DetailRefused ''attempt_detail_cursor_invalid''
           | CursorRead decoded \<Rightarrow>
               if \<not> cursor_fits repository subject attemptId kind decoded then DetailRefused ''attempt_detail_cursor_invalid''
               else replayed_page H repository subject (js_items events) attemptId kind size decoded))"

end
