(* ===== verification/DetailProperties.thy ===== *)
theory DetailProperties
  imports ManagedDetail ObservationProperties
begin

text \<open>
  The pages of the detail of managed attempts: a cursor is read back; a page shows a prefix of the journal, whatever the
  cursor, and names it unless the cursor was forged; a reader that names its attempt and follows the cursors gets every item of
  its first snapshot once, however much commands make the journal grow; and what the summary of proof verifications counts.
\<close>

section \<open>A cursor is read back\<close>

definition cursor_object :: "jsobj \<Rightarrow> jsobj" where
  "cursor_object p = map (\<lambda>k. (k, obj_get ((''schema_version'', cursor_schema_version) # p) k))
     [''attempt_id'', ''kind'', ''offset'', ''prefix_digest'', ''prefix_sequence'', ''repository'', ''schema_version'', ''subject'']"

abbreviation position :: "jsval \<Rightarrow> string \<Rightarrow> jsval \<Rightarrow> page_snapshot" where
  "position v d c \<equiv> \<lparr>sn_sequence = v, sn_digest = JStr d, sn_event_count = c\<rparr>"

lemma canonical_cursor:
  assumes "a = JNull \<or> is_string a" and v: "v = JInt i \<or> v = JStr t"
    and p_def: "p = cursor_payload (JStr r) (JStr s) a (JStr k) (position v d w) n"
  shows "canonicalize (JObj ((''schema_version'', cursor_schema_version) # p)) = JObj (cursor_object p)"
    and "canonicalize (JObj (cursor_object p)) = JObj (cursor_object p)"
    and "canonicalize (JObj ((''schema_version'', cursor_schema_version) # p @ [(''checksum'', JStr c)])) =
      JObj ((''attempt_id'', a) # (''checksum'', JStr c) # tl (cursor_object p))"
    and "obj_remove ''checksum'' ((''attempt_id'', a) # (''checksum'', JStr c) # tl (cursor_object p)) = cursor_object p"
    and "own_key_order (map fst ((''attempt_id'', a) # (''checksum'', JStr c) # tl (cursor_object p)))"
proof -
  obtain b where a: "a = JNull \<or> a = JStr b" using assms(1) by (auto simp: is_string_iff)
  show "canonicalize (JObj ((''schema_version'', cursor_schema_version) # p)) = JObj (cursor_object p)"
    "canonicalize (JObj (cursor_object p)) = JObj (cursor_object p)"
    "canonicalize (JObj ((''schema_version'', cursor_schema_version) # p @ [(''checksum'', JStr c)])) =
      JObj ((''attempt_id'', a) # (''checksum'', JStr c) # tl (cursor_object p))"
    "obj_remove ''checksum'' ((''attempt_id'', a) # (''checksum'', JStr c) # tl (cursor_object p)) = cursor_object p"
    "own_key_order (map fst ((''attempt_id'', a) # (''checksum'', JStr c) # tl (cursor_object p)))"
    unfolding p_def by (rule disjE [OF a]; rule disjE [OF v]; hypsubst; code_simp)+
qed

lemma cursor_object_get:
  assumes p_def: "p = cursor_payload repository subject a kind pre n"
  shows "js_get (JObj (cursor_object p)) ''repository'' = repository"
    and "js_get (JObj (cursor_object p)) ''subject'' = subject"
    and "js_get (JObj (cursor_object p)) ''attempt_id'' = a"
    and "js_get (JObj (cursor_object p)) ''kind'' = kind"
    and "js_get (JObj (cursor_object p)) ''prefix_sequence'' = sn_sequence pre"
    and "js_get (JObj (cursor_object p)) ''prefix_digest'' = sn_digest pre"
    and "js_get (JObj (cursor_object p)) ''offset'' = JInt (int n)"
    and "js_get (JObj (cursor_object p)) ''schema_version'' = cursor_schema_version"
  unfolding p_def cursor_object_def cursor_payload_def by simp_all

lemma cursor_roundtrip:
  assumes "a = JNull \<or> is_string a" and v: "v = JInt i \<and> \<bar>i\<bar> < 2 ^ 53 \<or> v = JStr t" and n: "int n < 2 ^ 53"
    and p_def: "p = cursor_payload (JStr r) (JStr s) a (JStr k) (position v d w) n"
  shows "decodeCursor H NUM (encodeCursor H p) = CursorRead (JObj (cursor_object p))"
proof -
  let ?u = "(''schema_version'', cursor_schema_version) # p"
  let ?c = "digestOf H (JObj ?u)"
  let ?o = "(''attempt_id'', a) # (''checksum'', JStr ?c) # tl (cursor_object p)"
  have "v = JInt i \<or> v = JStr t" using v by blast
  note canon = canonical_cursor [OF assms(1) this p_def]
  have num: "readable NUM v" "reads_number NUM (NInt (int n))" using v n by (auto simp: safe_integer_reads)
  then have "readable NUM (JObj ?o)"
    using canon(5) assms(1)
    by (auto simp: p_def cursor_object_def cursor_payload_def cursor_schema_version_def is_string_iff)
  moreover have "canonicalJson (JObj (?u @ [(''checksum'', JStr ?c)])) = Some (json_text (JObj ?o))"
    using canon(3) unfolding canonicalJson_def by (simp only: append_Cons json_stringify_Some jsval.distinct not_False_eq_True)
  ultimately have "json_parse NUM (or_null_text (canonicalJson (JObj (?u @ [(''checksum'', JStr ?c)])))) = Read (JObj ?o) []"
    by (simp add: or_null_text_def json_parse_text)
  moreover have "digestOf H (JObj (cursor_object p)) = ?c" using canon(1,2) by (simp add: digestOf_def canonicalJson_def)
  then have "cursor_content H (JObj ?o) = CursorRead (JObj (cursor_object p))"
    using cursor_object_get(8) [OF p_def] canon(4)
    by (simp add: cursor_content_def Let_def nullish_def cursor_schema_version_def)
  ultimately show ?thesis
    by (simp add: decodeCursor_def encodeCursor_def Let_def base64url_roundtrip)
qed

section \<open>An attempt stays selected\<close>

lemma selection_of_valid:
  assumes "valid_journal H repo subj es st"
  shows "selectManagedAttempt H repo subj (JArr es) a =
    select_from (js_default JNull a) (observations_of es) (prefix_of es (prior_digest st))"
  using assms by (simp add: selectManagedAttempt_def projectManagedAttemptObservations_def validateAttemptJournal_def valid_journal_def)

text \<open>A selection that can be answered is that of a valid journal with an event.\<close>

lemma selection_valid:
  assumes "answerable kind (selectManagedAttempt H repo subj events a) = Some pre"
  obtains es st where "events = JArr es" and "es \<noteq> []" and "valid_journal H repo subj es st"
    and "pre = prefix_of es (prior_digest st)"
    and "selectManagedAttempt H repo subj events a = select_from (js_default JNull a) (observations_of es) pre"
proof -
  from assms obtain es st where es: "events = JArr es" "valid_journal H repo subj es st"
    by (fastforce simp: selectManagedAttempt_def projectManagedAttemptObservations_def validateAttemptJournal_Inr valid_journal_def
      split: sum.splits)
  moreover note s = selection_of_valid [OF es(2), of a, folded es(1)]
  moreover have "es \<noteq> []" using assms unfolding s
    by (auto simp: select_from_def Let_def observations_of_def split: if_splits)
  moreover have "pre = prefix_of es (prior_digest st)" using assms unfolding s
    by (auto simp: select_from_def Let_def split: if_splits option.splits)
  ultimately show ?thesis using that by simp
qed

lemma observe_tuple: "ev_kind e \<noteq> Some PendingPublished \<Longrightarrow> ob_dispatch_tuple (observe_event i e) = ob_dispatch_tuple i"
  by (cases "the (ev_kind e)"; cases "ev_kind e") (simp_all add: observe_event_def)

lemma tuple_published:
  "ob_dispatch_tuple (foldl observe_event i es) \<noteq> ob_dispatch_tuple i \<Longrightarrow> 0 < kind_count PendingPublished es"
proof (induction es arbitrary: i)
  case (Cons e es)
  then show ?case
    using observe_tuple [of e i] Cons.IH [of "observe_event i e"] by (cases "ev_kind e = Some PendingPublished") (auto simp: kind_count_def)
qed simp

lemma observation_fold: "i \<in> set (observations_of es) \<longleftrightarrow> op.key_fold (ob_key i) es = Some i"
  using op.projection_member [of i es] op.projection_find [of "ob_key i" es]
  by (auto simp: observations_of_def find_Some_iff)

lemma reachable_prefix: "reachable_journal H repo subj (es @ [e]) \<Longrightarrow> reachable_journal H repo subj es"
  by (cases rule: reachable_journal.cases, assumption) (auto dest: admit_step)

lemma reachable_take: "reachable_journal H repo subj es \<Longrightarrow> reachable_journal H repo subj (take n es)"
proof (induction es rule: rev_induct)
  case (snoc e es)
  then show ?case using reachable_prefix by (cases "n \<le> length es") auto
qed simp

lemma observation_persists:
  assumes "reachable_journal H repo subj (es @ new)" and "i \<in> set (observations_of es)" and "ob_dispatch_tuple i \<noteq> JNull"
  shows "\<exists>j \<in> set (observations_of (es @ new)). ob_dispatch_tuple j = ob_dispatch_tuple i"
  using assms(1)
proof (induction new rule: rev_induct)
  case Nil
  with assms(2) show ?case by auto
next
  case (snoc e new)
  then obtain j where j: "j \<in> set (observations_of (es @ new))" "ob_dispatch_tuple j = ob_dispatch_tuple i"
    using reachable_prefix [of H repo subj "es @ new" e] by auto
  note f = j(1) [unfolded observation_fold]
  from f obtain x r where k: "key_events (ob_key j) (es @ new) = x # r" and jx: "j = foldl observe_event (new_observation x) (x # r)"
    by (auto simp: op_fold split: list.splits simp del: foldl_Cons)
  have "0 < kind_count PendingPublished (x # r)"
    by (rule tuple_published [of "new_observation x"]) (use assms(3) j(2) jx in \<open>simp add: new_observation_def del: foldl_Cons\<close>)
  moreover have "kind_count PendingPublished (key_events (ob_key j) (es @ new @ [e])) \<le> 1"
    using reachable_published_once [OF snoc.prems] by (simp add: published_once_def)
  ultimately have e: "ev_key e = ob_key j \<Longrightarrow> ev_kind e \<noteq> Some PendingPublished"
    using k kind_count_snoc [of PendingPublished "x # r" e] by (auto simp: key_events_snoc simp flip: append_assoc)
  let ?j = "if ev_key e = ob_key j then observe_event j e else j"
  have "op.key_fold (ob_key ?j) ((es @ new) @ [e]) = Some ?j" unfolding op.key_fold_snoc using f by simp
  then have "?j \<in> set (observations_of (es @ new @ [e]))" unfolding observation_fold by simp
  moreover have "ob_dispatch_tuple ?j = ob_dispatch_tuple i" using observe_tuple e j(2) by auto
  ultimately show ?case by blast
qed

text \<open>An attempt that is selected by its id stays selected in every journal that commands make of the journal.\<close>

lemma named_stays_answerable:
  assumes "valid_journal H repo subj es st" and "reachable_journal H repo subj (es @ new)" and "is_string a"
    and "answerable kind (selectManagedAttempt H repo subj (JArr es) a) \<noteq> None"
  shows "answerable kind (selectManagedAttempt H repo subj (JArr (es @ new)) a) \<noteq> None"
proof -
  obtain st' where st': "valid_journal H repo subj (es @ new) st'" using reachable_valid [OF assms(2)] by blast
  have a: "js_default JNull a = a" "a \<noteq> JNull" using assms(3) by (auto simp: is_string_iff js_default_def)
  have "find (run_id_matches a) (filter (\<lambda>i. ob_dispatch_tuple i \<noteq> JNull) (observations_of es)) \<noteq> None"
    using assms(4) a(2) unfolding selection_of_valid [OF assms(1)] a(1)
    by (auto simp: select_from_def Let_def split: option.splits)
  then obtain i where i: "i \<in> set (observations_of es)" "ob_dispatch_tuple i \<noteq> JNull" "run_id_matches a i"
    by (auto simp: find_None_iff)
  from observation_persists [OF assms(2) i(1,2)] obtain j where
    "j \<in> set (observations_of (es @ new))" "ob_dispatch_tuple j = ob_dispatch_tuple i" by blast
  with i(2,3) have "find (run_id_matches a) (filter (\<lambda>i. ob_dispatch_tuple i \<noteq> JNull) (observations_of (es @ new))) \<noteq> None"
    by (auto simp: find_None_iff run_id_matches_def)
  then show ?thesis using a(2) unfolding selection_of_valid [OF st'] a(1) by (auto simp: select_from_def Let_def split: option.splits)
qed

section \<open>The page a cursor asks for\<close>

lemma valid_event_at:
  assumes "valid_journal H repo subj (es @ new) st" and "valid_journal H repo subj es st0" and "es \<noteq> []"
  shows "truthy ((es @ new) ! (length es - 1))"
    and "strict_eq (js_get ((es @ new) ! (length es - 1)) ''digest'') (prior_digest st0)"
proof -
  from assms(3) obtain xs x where es: "es = xs @ [x]" by (cases es rule: rev_cases) auto
  with assms(2) have "envelope_refusal H repo subj (length xs) x = None"
    by (auto simp: valid_journal_snoc validate_event_Inr)
  then have "is_plain_object x" by (rule has_exact_keysD [OF envelope_accepts(1)])
  then show "truthy ((es @ new) ! (length es - 1))" by (auto simp: es is_plain_object_iff nth_append)
  have "ev_digest x = prior_digest st0" using prior_digest_last [OF assms(2)] es by simp
  moreover have "is_nonempty_string (prior_digest st0)" using valid_digest_string [OF assms(2,3)] .
  ultimately show "strict_eq (js_get ((es @ new) ! (length es - 1)) ''digest'') (prior_digest st0)"
    by (auto simp: es nth_append ev_digest_def is_nonempty_string_iff)
qed

lemma page_size_cursor [simp]: "page_size (q\<lparr>dr_cursor := c\<rparr>) = page_size q"
  by (simp add: page_size_def)

abbreviation plain_request :: "detail_request \<Rightarrow> bool" where
  "plain_request q \<equiv> (dr_attemptId q = JNull \<or> is_string (dr_attemptId q)) \<and>
     request_valid (dr_kind q) JNull (js_default (JInt 20) (dr_limit q)) JNull \<and> js_default JNull (dr_invocationId q) = JNull"

lemma first_page:
  assumes "plain_request q" and "js_default JNull (dr_cursor q) = JNull"
    and "answerable (dr_kind q) (selectManagedAttempt H repo subj events (dr_attemptId q)) = Some pre"
  shows "pageManagedAttemptDetail H NUM repo subj events q =
    page_of H repo subj (dr_attemptId q) (dr_kind q) (page_size q) (snapshot_of pre) 0 (selectManagedAttempt H repo subj events (dr_attemptId q))"
  using assms by (simp add: pageManagedAttemptDetail_def Let_def)

lemma array_element_at: "0 \<le> i \<Longrightarrow> i < int (length xs) \<Longrightarrow> array_element xs (JInt i) = Some (xs ! nat i)"
  by (simp add: array_element_def array_property_def dec_int_def nat_less_iff)

text \<open>A cursor that holds the position of an event, by number or by text, and its digest is followed.\<close>

lemma position_page:
  fixes r s k :: string
  assumes q: "plain_request q"
    and c: "dr_cursor q = JStr (encodeCursor H (cursor_payload (JStr r) (JStr s) (dr_attemptId q) (dr_kind q) (position v d w) n))"
    and v: "v = JInt i \<and> \<bar>i\<bar> < 2 ^ 53 \<or> v = JStr t" and n: "int n < 2 ^ 53"
    and current: "answerable (dr_kind q) (selectManagedAttempt H (JStr r) (JStr s) (JArr es) (dr_attemptId q)) \<noteq> None"
    and at: "array_element es v = Some x" "truthy x" "js_get x ''digest'' = JStr d"
    and replayed: "answerable (dr_kind q)
      (selectManagedAttempt H (JStr r) (JStr s) (JArr (take (slice_end (plus_one v)) es)) (dr_attemptId q)) \<noteq> None"
  shows "pageManagedAttemptDetail H NUM (JStr r) (JStr s) (JArr es) q =
    page_of H (JStr r) (JStr s) (dr_attemptId q) (dr_kind q) (page_size q) (position v d (plus_one v)) n
      (selectManagedAttempt H (JStr r) (JStr s) (JArr (take (slice_end (plus_one v)) es)) (dr_attemptId q))"
proof -
  obtain k where k: "dr_kind q = JStr k" using q by (auto simp: request_valid_def)
  let ?at = "position v d w"
  let ?p = "cursor_payload (JStr r) (JStr s) (dr_attemptId q) (dr_kind q) ?at n"
  let ?d = "JObj (cursor_object ?p)"
  have read: "decodeCursor H NUM (encodeCursor H ?p) = CursorRead ?d"
    using cursor_roundtrip [OF _ v n, of "dr_attemptId q" ?p r s k d w] q k by simp
  note get = cursor_object_get [OF refl, of "JStr r" "JStr s" "dr_attemptId q" "dr_kind q" ?at n]
  have fits: "cursor_fits (JStr r) (JStr s) (dr_attemptId q) (dr_kind q) ?d"
    unfolding cursor_fits_def get using q k by (auto simp: is_string_iff)
  have "replayed_page H (JStr r) (JStr s) es (dr_attemptId q) (dr_kind q) (page_size q) ?d =
    page_of H (JStr r) (JStr s) (dr_attemptId q) (dr_kind q) (page_size q) (position v d (plus_one v)) n
      (selectManagedAttempt H (JStr r) (JStr s) (JArr (take (slice_end (plus_one v)) es)) (dr_attemptId q))"
    unfolding replayed_page_def Let_def get page_snapshot.simps at option.case using at replayed by auto
  then show ?thesis
    using q current fits read k unfolding pageManagedAttemptDetail_def Let_def
    by (auto simp: c js_default_def read_cursor_def request_valid_def)
qed

lemma cursor_page:
  fixes r s :: string
  assumes q: "plain_request q"
    and c: "dr_cursor q = JStr (encodeCursor H (cursor_payload (JStr r) (JStr s) (dr_attemptId q) (dr_kind q) (snapshot_of pre) n))"
    and n: "int n < 2 ^ 53" "int (length es) < 2 ^ 53"
    and first: "valid_journal H (JStr r) (JStr s) es st" "es \<noteq> []" "pre = prefix_of es (prior_digest st)"
      "answerable (dr_kind q) (selectManagedAttempt H (JStr r) (JStr s) (JArr es) (dr_attemptId q)) = Some pre"
    and grown: "answerable (dr_kind q) (selectManagedAttempt H (JStr r) (JStr s) (JArr (es @ new)) (dr_attemptId q)) \<noteq> None"
  shows "pageManagedAttemptDetail H NUM (JStr r) (JStr s) (JArr (es @ new)) q =
    page_of H (JStr r) (JStr s) (dr_attemptId q) (dr_kind q) (page_size q) (snapshot_of pre) n
      (selectManagedAttempt H (JStr r) (JStr s) (JArr es) (dr_attemptId q))"
proof -
  from grown obtain pre' where pre': "answerable (dr_kind q) (selectManagedAttempt H (JStr r) (JStr s) (JArr (es @ new)) (dr_attemptId q)) = Some pre'"
    by auto
  from selection_valid [OF this] obtain st' where st': "valid_journal H (JStr r) (JStr s) (es @ new) st'" by auto
  obtain d where d: "prior_digest st = JStr d" using valid_digest_string [OF first(1,2)] by (auto simp: is_nonempty_string_iff)
  let ?i = "int (length es) - 1"
  have pos: "snapshot_of pre = position (JInt ?i) d (JInt (int (length es)))" by (simp add: first(3) prefix_of_def snapshot_of_def d)
  have len: "0 < length es" using first(2) by simp
  have i: "JInt ?i = JInt ?i \<and> \<bar>?i\<bar> < 2 ^ 53 \<or> JInt ?i = JStr []" using n(2) len by simp
  have "nat ?i = length es - 1" by simp
  then have at: "array_element (es @ new) (JInt ?i) = Some ((es @ new) ! (length es - 1))"
    using len array_element_at [of ?i "es @ new"] by simp
  have count: "plus_one (JInt ?i) = JInt (int (length es))" "slice_end (JInt (int (length es))) = length es"
    using len by (simp_all add: plus_one_def slice_end_def)
  note x = valid_event_at [OF st' first(1,2)]
  have x': "js_get ((es @ new) ! (length es - 1)) ''digest'' = JStr d" using strict_eq_imp_eq [OF x(2)] d by simp
  show ?thesis
    using position_page [OF q c [unfolded pos] i n(1) grown at x(1) x'] first(4) by (simp add: count pos)
qed

section \<open>Reading all pages\<close>

text \<open>A reader that follows the cursors, asking once on each of a list of journals; \<open>None\<close> when a question is refused or the
  journals do not suffice.\<close>

fun follow :: "(jsval list \<Rightarrow> detail_request \<Rightarrow> detail_outcome) \<Rightarrow> detail_request \<Rightarrow> jsval list list \<Rightarrow> detail_item list option" where
  "follow ask q [] = None"
| "follow ask q (es # journals) =
     (case ask es q of
        DetailPage p \<Rightarrow>
          (case dp_cursor p of
             None \<Rightarrow> Some (dp_items p)
           | Some c \<Rightarrow> map_option ((@) (dp_items p)) (follow ask (q\<lparr>dr_cursor := JStr c\<rparr>) journals))
      | _ \<Rightarrow> None)"

abbreviation ask_detail :: "hash \<Rightarrow> number_reader \<Rightarrow> jsval \<Rightarrow> jsval \<Rightarrow> jsval list \<Rightarrow> detail_request \<Rightarrow> detail_outcome" where
  "ask_detail H NUM repo subj es q \<equiv> pageManagedAttemptDetail H NUM repo subj (JArr es) q"

abbreviation select_detail :: "hash \<Rightarrow> string \<Rightarrow> string \<Rightarrow> detail_request \<Rightarrow> jsval list \<Rightarrow> selection" where
  "select_detail H r s q es \<equiv> selectManagedAttempt H (JStr r) (JStr s) (JArr es) (dr_attemptId q)"

lemma page_of_items:
  assumes "detail_summary kind s = Inr summary"
  obtains p where "page_of H repo subj a kind limit pre n s = DetailPage p"
    and "dp_items p = (case limit of None \<Rightarrow> drop n (detail_population kind s) | Some l \<Rightarrow> take l (drop n (detail_population kind s)))"
    and "dp_total_count p = length (detail_population kind s)"
    and "dp_cursor p = (let m = n + length (dp_items p) in if m < length (detail_population kind s)
       then Some (encodeCursor H (cursor_payload repo subj a kind pre m)) else None)"
  using assms by (auto simp: page_of_def Let_def)

lemma page_of_summary: "page_of H repo subj a kind limit pre n s = DetailPage p \<Longrightarrow> \<exists>summary. detail_summary kind s = Inr summary"
  by (auto simp: page_of_def Let_def split: sum.splits)

lemma follow_page:
  fixes r s :: string and q :: detail_request
  assumes sel_def: "sel = select_detail H r s q es"
    and pop_def: "pop = detail_population (dr_kind q) sel"
    and page: "ask_detail H NUM (JStr r) (JStr s) js q =
      page_of H (JStr r) (JStr s) (dr_attemptId q) (dr_kind q) (page_size q) pre n sel"
    and sum: "detail_summary (dr_kind q) sel = Inr summary"
    and later: "\<And>m. n < m \<Longrightarrow> m < length pop \<Longrightarrow> page_size q = Some (m - n) \<Longrightarrow>
      follow (ask_detail H NUM (JStr r) (JStr s))
        (q\<lparr>dr_cursor := JStr (encodeCursor H (cursor_payload (JStr r) (JStr s) (dr_attemptId q) (dr_kind q) pre m))\<rparr>) journals =
      Some (drop m pop)"
    and size: "page_size q \<noteq> Some 0"
  shows "follow (ask_detail H NUM (JStr r) (JStr s)) q (js # journals) = Some (drop n pop)"
proof -
  obtain p where p: "ask_detail H NUM (JStr r) (JStr s) js q = DetailPage p"
    and items: "dp_items p = (case page_size q of None \<Rightarrow> drop n pop | Some l \<Rightarrow> take l (drop n pop))"
    and cursor: "dp_cursor p = (let m = n + length (dp_items p) in if m < length pop
       then Some (encodeCursor H (cursor_payload (JStr r) (JStr s) (dr_attemptId q) (dr_kind q) pre m)) else None)"
    using page_of_items [OF sum] page unfolding pop_def by metis
  show ?thesis
  proof (cases "n + length (dp_items p) < length pop")
    case False
    then have "dp_items p = drop n pop" unfolding items by (auto split: option.splits)
    with False show ?thesis by (simp add: p cursor)
  next
    case True
    then obtain l where l: "page_size q = Some l" and m: "n + length (dp_items p) = n + l"
      unfolding items by (cases "page_size q") auto
    have "0 < l" using size l by (cases l) simp_all
    then have "follow (ask_detail H NUM (JStr r) (JStr s)) (q\<lparr>dr_cursor := JStr (encodeCursor H
        (cursor_payload (JStr r) (JStr s) (dr_attemptId q) (dr_kind q) pre (n + l)))\<rparr>) journals = Some (drop (n + l) pop)"
      using later [of "n + l"] True m l by simp
    moreover have "dp_items p @ drop (n + l) pop = drop n pop"
      unfolding items l by (simp add: append_take_drop_id add.commute flip: drop_drop)
    ultimately show ?thesis using True m by (simp add: p cursor Let_def)
  qed
qed

lemma follow_cursors:
  fixes r s :: string and q :: detail_request
  assumes sel_def: "sel = select_detail H r s q es"
    and pop_def: "pop = detail_population (dr_kind q) sel"
    and q: "plain_request q"
    and small: "int (length pop) < 2 ^ 53" "int (length es) < 2 ^ 53"
    and first: "answerable (dr_kind q) sel = Some pre"
    and sum: "detail_summary (dr_kind q) sel = Inr summary"
    and grown: "\<forall>new\<in>set news. answerable (dr_kind q)
      (selectManagedAttempt H (JStr r) (JStr s) (JArr (es @ new)) (dr_attemptId q)) \<noteq> None"
    and enough: "n < length pop" "length pop \<le> n + offset_of (js_default (JInt 20) (dr_limit q)) * length news"
  shows "follow (ask_detail H NUM (JStr r) (JStr s))
    (q\<lparr>dr_cursor := JStr (encodeCursor H (cursor_payload (JStr r) (JStr s) (dr_attemptId q) (dr_kind q) (snapshot_of pre) n))\<rparr>)
    (map ((@) es) news) = Some (drop n pop)"
  using grown enough
proof (induction news arbitrary: n)
  case Nil
  then show ?case by simp
next
  case (Cons new news)
  let ?q = "q\<lparr>dr_cursor := JStr (encodeCursor H (cursor_payload (JStr r) (JStr s) (dr_attemptId q) (dr_kind q) (snapshot_of pre) n))\<rparr>"
  from selection_valid [OF first [unfolded sel_def]] obtain st where
    st: "valid_journal H (JStr r) (JStr s) es st" "es \<noteq> []" "pre = prefix_of es (prior_digest st)" by auto
  have page: "ask_detail H NUM (JStr r) (JStr s) (es @ new) ?q =
      page_of H (JStr r) (JStr s) (dr_attemptId q) (dr_kind q) (page_size q) (snapshot_of pre) n sel"
    using cursor_page [of ?q H r s pre n es st new NUM] q small(2) st first Cons.prems small(1) by (simp add: sel_def)
  have nonzero: "page_size q \<noteq> Some 0" using Cons.prems by (intro notI) (simp add: page_size_def split: if_splits)
  have rest: "follow (ask_detail H NUM (JStr r) (JStr s))
      (q\<lparr>dr_cursor := JStr (encodeCursor H (cursor_payload (JStr r) (JStr s) (dr_attemptId q) (dr_kind q) (snapshot_of pre) m))\<rparr>)
      (map ((@) es) news) = Some (drop m pop)" if "n < m" "m < length pop" "page_size q = Some (m - n)" for m
    using that Cons.prems by (intro Cons.IH) (auto simp: page_size_def algebra_simps split: if_splits)
  have "sel = select_detail H r s ?q es" "pop = detail_population (dr_kind ?q) sel" by (simp_all add: sel_def pop_def)
  note follow_page [OF this, where n = n and pre = "snapshot_of pre"]
  then show ?case unfolding list.map by this (use page nonzero rest sum in simp_all)
qed

lemma pages_enumerated:
  fixes r s :: string
  assumes "dr_attemptId q = JNull \<or> is_string (dr_attemptId q)" and "js_default JNull (dr_cursor q) = JNull"
    and "js_default JNull (dr_invocationId q) = JNull"
    and "ask_detail H NUM (JStr r) (JStr s) es q = DetailPage p"
    and "\<forall>new\<in>set news. answerable (dr_kind q) (select_detail H r s q (es @ new)) \<noteq> None"
    and "dp_total_count p \<le> offset_of (js_default (JInt 20) (dr_limit q)) * Suc (length news)"
    and "dp_total_count p < 2 ^ 53" and "length es < 2 ^ 53"
  shows "follow (ask_detail H NUM (JStr r) (JStr s)) q (es # map ((@) es) news) = Some (detail_population (dr_kind q) (select_detail H r s q es))"
proof -
  let ?a = "dr_attemptId q"
  have valid: "request_valid (dr_kind q) JNull (js_default (JInt 20) (dr_limit q)) JNull"
    using assms(4) by (auto simp: pageManagedAttemptDetail_def Let_def assms(2,3) split: if_splits)
  then have q: "plain_request q" using assms(1,3) by simp
  obtain pre where pre: "answerable (dr_kind q) (select_detail H r s q es) = Some pre"
    using assms(4) valid by (auto simp: pageManagedAttemptDetail_def Let_def assms(2,3) split: if_splits option.splits)
  note first = first_page [OF q assms(2) pre]
  obtain summary where sum: "detail_summary (dr_kind q) (select_detail H r s q es) = Inr summary"
    using page_of_summary first assms(4) by metis
  have total: "dp_total_count p = length (detail_population (dr_kind q) (select_detail H r s q es))"
    using first assms(4) sum by (auto simp: page_of_def Let_def)
  have "0 < offset_of (js_default (JInt 20) (dr_limit q))"
    using valid by (auto simp: request_valid_def elim!: valid_limit.elims)
  moreover have "follow (ask_detail H NUM (JStr r) (JStr s))
      (q\<lparr>dr_cursor := JStr (encodeCursor H (cursor_payload (JStr r) (JStr s) ?a (dr_kind q) (snapshot_of pre) m))\<rparr>) (map ((@) es) news) =
      Some (drop m (detail_population (dr_kind q) (select_detail H r s q es)))"
    if "0 < m" "m < length (detail_population (dr_kind q) (select_detail H r s q es))" "page_size q = Some (m - 0)" for m
    using that assms(5-8) q pre sum total
    by (intro follow_cursors) (auto simp: page_size_def split: if_splits)
  ultimately show ?thesis
    using follow_page [OF refl refl first sum] by (simp add: page_size_def)
qed

text \<open>C20: A reader that follows the cursors gets every item of the snapshot exactly once and in order, and stops: from the first
  page on, its questions concern the journal as it was then, and pages of the requested size suffice. A reader that names its attempt
  does so however much commands have made the journal grow at each question. One that names none depends on the grown journals: each
  must still select an attempt, or be ambiguous where the attempts themselves are listed, for the code selects in the grown journal
  before it reads the cursor.\<close>

theorem pages_enumerate_snapshot:
  fixes r s :: string
  assumes "dr_attemptId q = JNull \<or> is_string (dr_attemptId q)" and "js_default JNull (dr_cursor q) = JNull"
    and "js_default JNull (dr_invocationId q) = JNull"
    and "ask_detail H NUM (JStr r) (JStr s) es q = DetailPage p"
    and "\<forall>new\<in>set news. reachable_journal H (JStr r) (JStr s) (es @ new)"
    and "is_string (dr_attemptId q) \<or> (\<forall>new\<in>set news. answerable (dr_kind q) (select_detail H r s q (es @ new)) \<noteq> None)"
    and "dp_total_count p \<le> offset_of (js_default (JInt 20) (dr_limit q)) * Suc (length news)"
    and "dp_total_count p < 2 ^ 53" and "length es < 2 ^ 53"
  shows "follow (ask_detail H NUM (JStr r) (JStr s)) q (es # map ((@) es) news) = Some (detail_population (dr_kind q) (select_detail H r s q es))"
proof -
  have first: "answerable (dr_kind q) (select_detail H r s q es) \<noteq> None"
    using assms(4) by (auto simp: pageManagedAttemptDetail_def Let_def split: if_splits option.splits)
  then obtain st where "valid_journal H (JStr r) (JStr s) es st" by (auto elim: selection_valid)
  then have "\<forall>new\<in>set news. answerable (dr_kind q) (select_detail H r s q (es @ new)) \<noteq> None"
    using assms(5,6) named_stays_answerable [OF _ _ _ first] by blast
  with assms show ?thesis by (intro pages_enumerated)
qed

text \<open>A reader that names no attempt is left with a cursor that no question answers once the journal has two released attempts.\<close>

lemma unnamed_reader_stranded:
  assumes "valid_journal H repo subj es st" and "dr_attemptId q = JNull" and "dr_kind q \<noteq> JStr ''attempts''"
    and "request_valid (dr_kind q) (js_default JNull (dr_cursor q)) (js_default (JInt 20) (dr_limit q)) (js_default JNull (dr_invocationId q))"
    and "\<forall>i\<in>set (observations_of es). ob_dispatch_tuple i \<noteq> JNull \<longrightarrow> ob_released i"
    and "1 < length (filter (\<lambda>i. ob_dispatch_tuple i \<noteq> JNull) (observations_of es))"
  shows "pageManagedAttemptDetail H NUM repo subj (JArr es) q =
    DetailNotSelected (NotSelected AttemptSelectionAmbiguous (observations_of es) (prefix_of es (prior_digest st)))"
proof -
  have "filter (\<lambda>i. \<not> ob_released i) (filter (\<lambda>i. ob_dispatch_tuple i \<noteq> JNull) (observations_of es)) = []"
    using assms(5) by (auto simp: filter_empty_conv)
  then have "selectManagedAttempt H repo subj (JArr es) JNull =
      NotSelected AttemptSelectionAmbiguous (observations_of es) (prefix_of es (prior_digest st))"
    unfolding selection_of_valid [OF assms(1)] using assms(6) by (simp add: select_from_def Let_def js_default_def)
  with assms(2-4) show ?thesis by (simp add: pageManagedAttemptDetail_def Let_def)
qed

definition demo_failures :: "jsval list" where
  "demo_failures = (case admit_all demo_hash (JStr ''repo'') (JStr ''subject'') []
     (demo_run 0 [ReservationClaimed, PendingPublished] @
      map (\<lambda>i. demo_command 0 LifecycleFailureRecorded
          (JObj [(''dispatch_tuple'', demo_tuple 0), (''invocation_id'', JStr i), (''failure'', JObj [])])) [''1'', ''2'', ''3'']) of
     None \<Rightarrow> [] | Some es \<Rightarrow> es)"

lemma demo_failures_reachable: "reachable_journal demo_hash (JStr ''repo'') (JStr ''subject'') (take n demo_failures)"
  by (rule reachable_take) (auto simp: demo_failures_def intro: reachable_journal.empty admit_all_from_empty split: option.splits)

definition demo_request :: detail_request where
  "demo_request = \<lparr>dr_attemptId = JStr ''run'', dr_kind = JStr ''failure_history'', dr_cursor = JUndef, dr_limit = JInt 1,
     dr_invocationId = JUndef, dr_complete = JUndef\<rparr>"

lemma first_page_exists:
  assumes "plain_request q" and "js_default JNull (dr_cursor q) = JNull"
    and "answerable (dr_kind q) (select_detail H r s q es) \<noteq> None"
    and "detail_summary (dr_kind q) (select_detail H r s q es) = Inr summary"
  shows "\<exists>p. ask_detail H NUM (JStr r) (JStr s) es q = DetailPage p \<and>
    dp_total_count p = length (detail_population (dr_kind q) (select_detail H r s q es))"
proof -
  obtain pre where "answerable (dr_kind q) (select_detail H r s q es) = Some pre" using assms(3) by auto
  note page = first_page [OF assms(1,2) this]
  show ?thesis unfolding page by (rule page_of_items [OF assms(4)]) blast
qed

lemma demo_plain: "plain_request demo_request" "js_default JNull (dr_cursor demo_request) = JNull"
  by (simp_all add: demo_request_def js_default_def request_valid_def MANAGED_ATTEMPT_DETAIL_KINDS_def)

lemma demo_no_summary: "detail_summary (dr_kind demo_request) s = Inr None"
  by (simp add: detail_summary_def demo_request_def)

lemma demo_grown:
  "case map (\<lambda>n. select_detail demo_hash ''repo'' ''subject'' demo_request (take n demo_failures)) [4, 5] of
     [s, t] \<Rightarrow> answerable (dr_kind demo_request) s \<noteq> None \<and> answerable (dr_kind demo_request) t \<noteq> None \<and>
       length (detail_population (dr_kind demo_request) s) = 2 | _ \<Rightarrow> False"
  by code_simp

theorem pages_enumerate_snapshot_witness:
  "\<exists>items. follow (ask_detail demo_hash (\<lambda>t. NNaN) (JStr ''repo'') (JStr ''subject'')) demo_request
     [take 4 demo_failures, take 5 demo_failures] = Some items \<and> length items = 2"
proof -
  let ?es = "take 4 demo_failures" and ?new = "drop 4 (take 5 demo_failures)"
  have all: "?es @ ?new = take 5 demo_failures" 
    using append_take_drop_id [of 4 "take 5 demo_failures"] by (simp only: take_take) simp
  from demo_grown have first: "answerable (dr_kind demo_request) (select_detail demo_hash ''repo'' ''subject'' demo_request ?es) \<noteq> None"
    and new: "answerable (dr_kind demo_request) (select_detail demo_hash ''repo'' ''subject'' demo_request (?es @ ?new)) \<noteq> None"
    and two: "length (detail_population (dr_kind demo_request) (select_detail demo_hash ''repo'' ''subject'' demo_request ?es)) = 2"
    unfolding all by simp_all
  from first_page_exists [OF demo_plain first demo_no_summary, of "\<lambda>t. NNaN"] two
  obtain p where p: "ask_detail demo_hash (\<lambda>t. NNaN) (JStr ''repo'') (JStr ''subject'') ?es demo_request = DetailPage p"
    "dp_total_count p = 2"
    by (elim exE conjE) simp
  have "follow (ask_detail demo_hash (\<lambda>t. NNaN) (JStr ''repo'') (JStr ''subject'')) demo_request (?es # map ((@) ?es) [?new]) =
    Some (detail_population (dr_kind demo_request) (select_detail demo_hash ''repo'' ''subject'' demo_request ?es))"
    by (rule pages_enumerate_snapshot [OF _ demo_plain(2) _ p(1)])
      (use new p(2) demo_failures_reachable [of 5] all in \<open>simp_all add: demo_request_def js_default_def\<close>)
  with two show ?thesis unfolding list.map all by auto
qed

section \<open>What a page shows\<close>

text \<open>The members of \<open>array_prototype_keys\<close>, of \<open>object_prototype_keys\<close> and \<open>length\<close> are no numerals.\<close>

lemma names_are_no_numerals: "list_all (\<lambda>k. \<not> list_all is_digit k) (''length'' # array_prototype_keys @ object_prototype_keys)"
  by code_simp

lemma numeral_element: "list_all is_digit t \<Longrightarrow> truthy (array_property xs t) \<Longrightarrow>
   \<exists>i < length xs. t = dec_nat i \<and> array_property xs t = xs ! i"
  using names_are_no_numerals
  by (auto simp: array_property_def list_all_iff intro!: exI [of _ "nat_of_digits t"] split: if_splits)

text \<open>The position of a page that shows anything is the numeral of an event; the number of events shown is its successor, or what its
  text followed by a 1 is.\<close>

lemma position_element:
  assumes "array_element xs v = Some x" and "truthy x" and "0 < slice_end (plus_one v)"
  shows "\<exists>i < length xs. x = xs ! i \<and> to_property_key v = Some (dec_nat i) \<and>
    (case v of JNum (NInt j) \<Rightarrow> j = int i \<and> slice_end (plus_one v) = i + 1
     | _ \<Rightarrow> plus_one v = JStr (dec_nat i @ ''1'') \<and> slice_end (plus_one v) = 10 * i + 1)"
proof -
  from assms(1) obtain t where t: "to_property_key v = Some t" "x = array_property xs t" by (auto simp: array_element_def)
  show ?thesis
  proof (cases "\<exists>j. v = JInt j")
    case True
    then obtain j where j: "v = JInt j" by blast
    then have "0 \<le> j" using assms(3) by (simp add: plus_one_def slice_end_def)
    then have "t = dec_nat (nat j)" using t j by (simp add: dec_int_def)
    with numeral_element [of t xs] t assms(2) obtain i where "i < length xs" "dec_nat (nat j) = dec_nat i" "x = xs ! i"
      using dec_nat_digits by (auto simp: list_all_iff)
    moreover from this(2) have "nat j = i" by (metis nat_of_dec_nat)
    ultimately show ?thesis using j \<open>0 \<le> j\<close> by (auto simp: plus_one_def slice_end_def dec_int_def)
  next
    case False
    then have plus: "plus_one v = JStr (t @ ''1'')" using t(1) by (auto simp: plus_one_def simp del: to_property_key.simps split: jsval.splits jsnum.splits)
    with assms(3) have digits: "list_all is_digit t" by (auto simp: slice_end_def split: if_splits)
    with numeral_element [of t xs] t assms(2) obtain i where i: "i < length xs" "t = dec_nat i" "x = xs ! i" by auto
    moreover have "slice_end (JStr (t @ ''1'')) = 10 * i + 1"
      using digits i(2) nat_of_digits_snoc [of t "CHR ''1''"] by (simp add: slice_end_def is_digit_def digit_val_def)
    ultimately show ?thesis using plus t(1) False by (auto simp del: to_property_key.simps split: jsval.splits jsnum.splits)
  qed
qed

definition shows_prefix :: "hash \<Rightarrow> jsval \<Rightarrow> jsval \<Rightarrow> jsval \<Rightarrow> jsval \<Rightarrow> jsval list \<Rightarrow> detail_page \<Rightarrow> bool" where
  "shows_prefix H repo subj a kind es p \<longleftrightarrow>
     (\<exists>n st. 0 < n \<and> n \<le> length es \<and> valid_journal H repo subj (take n es) st \<and>
        set (dp_items p) \<subseteq> set (detail_population kind (selectManagedAttempt H repo subj (JArr (take n es)) a)) \<and>
        dp_total_count p = length (detail_population kind (selectManagedAttempt H repo subj (JArr (take n es)) a)) \<and>
        (case sn_sequence (dp_snapshot p) of
           JNum (NInt j) \<Rightarrow> dp_snapshot p = snapshot_of (prefix_of (take n es) (prior_digest st))
         | v \<Rightarrow> \<exists>i < length es. to_property_key v = Some (dec_nat i) \<and> n = min (10 * i + 1) (length es) \<and>
             dp_snapshot p = \<lparr>sn_sequence = v, sn_digest = ev_digest (es ! i), sn_event_count = JStr (dec_nat i @ ''1'')\<rparr>))"

lemma page_of_shows:
  assumes "page_of H repo subj a kind limit pre n s = DetailPage p"
  shows "dp_snapshot p = pre \<and> set (dp_items p) \<subseteq> set (detail_population kind s) \<and> dp_total_count p = length (detail_population kind s)"
  using assms by (auto simp: page_of_def Let_def split: sum.splits option.splits) (meson in_set_takeD in_set_dropD)+

lemma replayed_page_shows:
  assumes "replayed_page H repo subj es a kind limit decoded = DetailPage p"
  shows "shows_prefix H repo subj a kind es p"
proof -
  let ?sel = "\<lambda>es. selectManagedAttempt H repo subj (JArr es) a"
  let ?v = "js_get decoded ''prefix_sequence''" and ?d = "js_get decoded ''prefix_digest''"
  let ?m = "slice_end (plus_one ?v)"
  from assms obtain observed pre' where at: "array_element es ?v = Some observed" "truthy observed" "strict_eq (js_get observed ''digest'') ?d"
    and ans: "answerable kind (?sel (take ?m es)) = Some pre'"
    and pg: "page_of H repo subj a kind limit \<lparr>sn_sequence = ?v, sn_digest = ?d, sn_event_count = plus_one ?v\<rparr>
      (offset_of (js_get decoded ''offset'')) (?sel (take ?m es)) = DetailPage p"
    by (auto simp: replayed_page_def Let_def split: option.splits if_splits)
  from selection_valid [OF ans] obtain st where st: "take ?m es \<noteq> []" "valid_journal H repo subj (take ?m es) st"
    by (metis jsval.inject(4))
  then have "0 < ?m" by (cases ?m) auto
  from position_element [OF at(1,2) this] obtain i where i: "i < length es" "observed = es ! i" "to_property_key ?v = Some (dec_nat i)"
    and v: "case ?v of JNum (NInt j) \<Rightarrow> j = int i \<and> ?m = i + 1 | _ \<Rightarrow> plus_one ?v = JStr (dec_nat i @ ''1'') \<and> ?m = 10 * i + 1"
    by blast
  have d: "?d = ev_digest (es ! i)" using strict_eq_imp_eq [OF at(3)] i(2) by (simp add: ev_digest_def)
  let ?n = "min ?m (length es)"
  have take: "take ?n es = take ?m es" by (simp add: min_def)
  note shown = page_of_shows [OF pg]
  then have snap: "dp_snapshot p = \<lparr>sn_sequence = ?v, sn_digest = ?d, sn_event_count = plus_one ?v\<rparr>" by blast
  have named: "case sn_sequence (dp_snapshot p) of
       JNum (NInt j) \<Rightarrow> dp_snapshot p = snapshot_of (prefix_of (take ?n es) (prior_digest st))
     | v \<Rightarrow> \<exists>i < length es. to_property_key v = Some (dec_nat i) \<and> ?n = min (10 * i + 1) (length es) \<and>
         dp_snapshot p = \<lparr>sn_sequence = v, sn_digest = ev_digest (es ! i), sn_event_count = JStr (dec_nat i @ ''1'')\<rparr>"
  proof (cases "\<exists>j. ?v = JInt j")
    case True
    then have m: "?v = JInt (int i)" "?m = i + 1" using v by auto
    have "prior_digest st = ev_digest (last (take ?m es))" using prior_digest_last [OF st(2)] st(1) by auto
    also have "last (take ?m es) = es ! i" using st(1) m(2) i(1) by (subst last_conv_nth) simp_all
    finally show ?thesis using m i(1) d by (simp add: snap snapshot_of_def prefix_of_def plus_one_def)
  next
    case False
    then show ?thesis using v i d by (auto simp: snap simp del: to_property_key.simps split: jsval.splits jsnum.splits)
  qed
  show ?thesis unfolding shows_prefix_def
    by (intro exI [of _ ?n] exI [of _ st] conjI; (rule named)?) (use st shown \<open>0 < ?m\<close> in \<open>simp_all only: take\<close>, simp_all)
qed

text \<open>C35: Whatever cursor a caller presents, its own or a forged one, a page shows what a non-empty prefix of the journal records: the
  prefix is valid, and the items are taken from it and counted in it. Where the snapshot of the page names its position by a whole
  number, it names that prefix: its length, and the position and the digest of its last event. A forged cursor that names the position
  of an event by its numeral as a text (or an array of it) is followed too, and then the page says less than it shows: the snapshot
  has that position and digest, and for a count the numeral with a 1 appended, and the items are those of the prefix which has that
  many events, as far as there are.\<close>

theorem detail_shows_recorded_prefix:
  assumes "pageManagedAttemptDetail H NUM repo subj (JArr es) q = DetailPage p"
  shows "\<exists>n st. 0 < n \<and> n \<le> length es \<and> valid_journal H repo subj (take n es) st \<and>
    set (dp_items p) \<subseteq> set (detail_population (dr_kind q) (selectManagedAttempt H repo subj (JArr (take n es)) (dr_attemptId q))) \<and>
    dp_total_count p = length (detail_population (dr_kind q) (selectManagedAttempt H repo subj (JArr (take n es)) (dr_attemptId q))) \<and>
    (case sn_sequence (dp_snapshot p) of
       JNum (NInt j) \<Rightarrow> dp_snapshot p = snapshot_of (prefix_of (take n es) (prior_digest st))
     | v \<Rightarrow> \<exists>i < length es. to_property_key v = Some (dec_nat i) \<and> n = min (10 * i + 1) (length es) \<and>
         dp_snapshot p = \<lparr>sn_sequence = v, sn_digest = ev_digest (es ! i), sn_event_count = JStr (dec_nat i @ ''1'')\<rparr>)"
proof -
  let ?sel = "\<lambda>es. selectManagedAttempt H repo subj (JArr es) (dr_attemptId q)"
  obtain pre where pre: "answerable (dr_kind q) (?sel es) = Some pre"
    using assms by (auto simp: pageManagedAttemptDetail_def Let_def split: if_splits option.splits)
  from selection_valid [OF this] obtain st where
    st: "es \<noteq> []" "valid_journal H repo subj es st" "pre = prefix_of es (prior_digest st)" by auto
  have whole: ?thesis if "dp_snapshot p = snapshot_of pre \<and> set (dp_items p) \<subseteq> set (detail_population (dr_kind q) (?sel es)) \<and>
      dp_total_count p = length (detail_population (dr_kind q) (?sel es))"
    using that st by (intro exI [of _ "length es"] exI [of _ st]) (simp add: snapshot_of_def)
  consider "js_default JNull (dr_invocationId q) \<noteq> JNull" | "js_default JNull (dr_invocationId q) = JNull" "js_default JNull (dr_cursor q) = JNull"
    | "js_default JNull (dr_invocationId q) = JNull" "js_default JNull (dr_cursor q) \<noteq> JNull" by blast
  then show ?thesis
  proof cases
    case 1
    then have "dr_kind q = JStr ''proof_verification''"
      and "invocation_page (dr_attemptId q) (dr_kind q) (js_default JNull (dr_invocationId q)) (?sel es) pre = DetailPage p"
      using assms pre by (auto simp: pageManagedAttemptDetail_def Let_def request_valid_def split: if_splits)
    then show ?thesis
      by (intro whole) (auto simp: invocation_page_def Let_def detail_population_def find_Some_iff split: option.splits sum.splits)
  next
    case 2
    then show ?thesis
      using assms pre page_of_shows whole by (auto simp: pageManagedAttemptDetail_def Let_def split: if_splits)
  next
    case 3
    then obtain decoded where "replayed_page H repo subj es (dr_attemptId q) (dr_kind q) (page_size q) decoded = DetailPage p"
      using assms pre by (auto simp: pageManagedAttemptDetail_def Let_def split: if_splits cursor_reading.splits)
    then show ?thesis using replayed_page_shows [unfolded shows_prefix_def] by blast
  qed
qed

text \<open>The cursor of a forger: the text \<open>1\<close> for the position of the second event. Its page counts the failures that the five events
  record.\<close>

definition forged_request :: detail_request where
  "forged_request = demo_request\<lparr>dr_cursor := JStr (encodeCursor demo_hash (cursor_payload (JStr ''repo'') (JStr ''subject'')
     (JStr ''run'') (JStr ''failure_history'')
     \<lparr>sn_sequence = JStr ''1'', sn_digest = ev_digest (demo_failures ! 1), sn_event_count = JUndef\<rparr> 0))\<rparr>"

lemma forged_facts:
  "case demo_failures of
     [a, b, c, d, e] \<Rightarrow> truthy b \<and> is_string (ev_digest b) \<and>
       (case [select_detail demo_hash ''repo'' ''subject'' demo_request [a, b, c, d, e]] of
          [s] \<Rightarrow> answerable (dr_kind demo_request) s \<noteq> None \<and> length (detail_population (dr_kind demo_request) s) = 3
        | _ \<Rightarrow> False)
   | _ \<Rightarrow> False"
  by code_simp

lemma forged_page:
  "\<exists>p. ask_detail demo_hash (\<lambda>t. NNaN) (JStr ''repo'') (JStr ''subject'') demo_failures forged_request = DetailPage p \<and>
     sn_sequence (dp_snapshot p) = JStr ''1'' \<and> dp_total_count p = 3"
proof -
  let ?q = forged_request and ?es = demo_failures
  from forged_facts obtain a b c d e where es: "?es = [a, b, c, d, e]" and b: "truthy b" "is_string (ev_digest b)"
    by (auto split: list.splits)
  from forged_facts [unfolded es] have facts: "length ?es = 5" "truthy (?es ! 1)" "is_string (ev_digest (?es ! 1))"
    "answerable (dr_kind demo_request) (select_detail demo_hash ''repo'' ''subject'' demo_request ?es) \<noteq> None"
    "length (detail_population (dr_kind demo_request) (select_detail demo_hash ''repo'' ''subject'' demo_request ?es)) = 3"
    unfolding es using b by auto
  obtain d where d: "ev_digest (?es ! 1) = JStr d" using facts by (auto simp: is_string_iff)
  have same: "dr_attemptId ?q = dr_attemptId demo_request" "dr_kind ?q = dr_kind demo_request" "page_size ?q = page_size demo_request"
    by (simp_all add: forged_request_def)
  have q: "plain_request ?q" using demo_plain(1) by (simp add: forged_request_def)
  have c: "dr_cursor ?q = JStr (encodeCursor demo_hash (cursor_payload (JStr ''repo'') (JStr ''subject'')
      (dr_attemptId ?q) (dr_kind ?q) (position (JStr ''1'') d JUndef) 0))"
    by (simp add: forged_request_def demo_request_def d [unfolded One_nat_def])
  have digits: "nat_of_digits ''1'' = 1" "nat_of_digits ''11'' = 11" "dec_nat 1 = ''1''" "list_all is_digit ''11''" by code_simp+
  have at: "array_element ?es (JStr ''1'') = Some (?es ! 1)"
    using facts digits(3) by (simp add: array_element_def array_property_def digits(1))
  have all: "take (slice_end (plus_one (JStr ''1''))) ?es = ?es"
    using facts digits(2,4) by (simp add: plus_one_def slice_end_def)
  have "ask_detail demo_hash (\<lambda>t. NNaN) (JStr ''repo'') (JStr ''subject'') ?es ?q =
    page_of demo_hash (JStr ''repo'') (JStr ''subject'') (dr_attemptId ?q) (dr_kind ?q) (page_size ?q)
      (position (JStr ''1'') d (plus_one (JStr ''1''))) 0 (select_detail demo_hash ''repo'' ''subject'' ?q ?es)"
    using position_page [OF q c, of 0 "''1''" ?es "?es ! 1"] facts at d by (simp add: all ev_digest_def same)
  then show ?thesis
    using facts by (simp add: page_of_def Let_def demo_no_summary same)
qed

theorem detail_shows_recorded_prefix_witness:
  "\<exists>p. ask_detail demo_hash (\<lambda>t. NNaN) (JStr ''repo'') (JStr ''subject'') demo_failures forged_request = DetailPage p \<and>
     sn_event_count (dp_snapshot p) = JStr ''11'' \<and> dp_total_count p = 3"
proof -
  from forged_page obtain p where p: "ask_detail demo_hash (\<lambda>t. NNaN) (JStr ''repo'') (JStr ''subject'') demo_failures forged_request = DetailPage p"
    "sn_sequence (dp_snapshot p) = JStr ''1''" "dp_total_count p = 3"
    by (auto split: detail_outcome.splits)
  from detail_shows_recorded_prefix [OF p(1)] p(2) obtain i where "''1'' = dec_nat i" "sn_event_count (dp_snapshot p) = JStr (dec_nat i @ ''1'')"
    by auto
  with p show ?thesis by auto
qed

section \<open>The counts of a summary\<close>

definition named :: "(recorded_item \<Rightarrow> string) \<Rightarrow> string \<Rightarrow> recorded_item list \<Rightarrow> nat" where
  "named name_of name population = length (filter (\<lambda>item. name_of item = name) population)"

text \<open>What the member \<open>name\<close> of an object of counts holds after \<open>n\<close> counts of that name.\<close>

definition counted :: "string \<Rightarrow> nat \<Rightarrow> jsval" where
  "counted name n =
     (if n = 0 \<or> name = ''__proto__'' then JUndef
      else case inherited_text name of JStr t \<Rightarrow> JStr (t @ replicate n CHR ''1'') | _ \<Rightarrow> JInt (int n))"

definition counts_are :: "(recorded_item \<Rightarrow> string) \<Rightarrow> recorded_item list \<Rightarrow> jsobj \<Rightarrow> bool" where
  "counts_are name_of population counts \<longleftrightarrow>
     (\<forall>name. obj_get counts name = counted name (named name_of name population) \<and>
        (name \<in> fst ` set counts \<longleftrightarrow> counted name (named name_of name population) \<noteq> JUndef))"

lemma named_snoc [simp]:
  "named name_of name (population @ [item]) = (if name_of item = name then Suc (named name_of name population) else named name_of name population)"
  by (simp add: named_def)

lemma counted_zero: "counted name n = JUndef \<longleftrightarrow> n = 0 \<or> name = ''__proto__''"
  by (simp add: counted_def split: jsval.splits)

lemma one_more_counted:
  assumes "name \<noteq> ''__proto__''"
  shows "one_more (if n = 0 then inherited_text name else counted name n) = counted name (Suc n)"
  using assms by (auto simp: counted_def inherited_text_def replicate_append_same)

lemma count_name_counts:
  assumes "counts_are name_of population counts"
  shows "counts_are name_of (population @ [item]) (count_name (name_of item) counts)"
proof -
  have get: "obj_get counts name = counted name (named name_of name population)"
    and own: "name \<in> fst ` set counts \<longleftrightarrow> counted name (named name_of name population) \<noteq> JUndef" for name
    using assms by (simp_all add: counts_are_def)
  show ?thesis
  proof (cases "name_of item = ''__proto__''")
    case True
    then show ?thesis
      by (auto simp: counts_are_def count_name_def obj_assign_def get own counted_zero) (auto simp: counted_def)
  next
    case False
    let ?n = "named name_of (name_of item) population"
    have "one_more (if name_of item \<in> set (map fst counts) then obj_get counts (name_of item) else inherited_text (name_of item)) =
        counted (name_of item) (Suc ?n)"
      using one_more_counted [OF False, of ?n] False by (simp only: set_map own get counted_zero) (cases "?n = 0"; simp)
    then have "count_name (name_of item) counts = obj_put (name_of item) (counted (name_of item) (Suc ?n)) counts"
      using False by (simp only: count_name_def obj_assign_def if_False)
    then show ?thesis
      using False counted_zero [of "name_of item" "Suc ?n"] by (simp add: counts_are_def get own)
  qed
qed

lemma count_outcomes_counts:
  assumes "count_outcomes outcomes statuses population = Inr (outcomes', statuses')"
    and "counts_are outcome_name done outcomes" and "counts_are status_name done statuses"
  shows "counts_are outcome_name (done @ population) outcomes' \<and> counts_are status_name (done @ population) statuses'"
  using assms
proof (induction population arbitrary: "done" outcomes statuses)
  case (Cons item population)
  then have "count_outcomes (count_name (outcome_name item) outcomes) (count_name (status_name item) statuses) population =
      Inr (outcomes', statuses')"
    by (auto split: sum.splits)
  from Cons.IH [OF this, of "done @ [item]"] Cons.prems(2,3) show ?case by (simp add: count_name_counts)
qed simp

text \<open>A summary of proof verifications counts every outcome and every status exactly: it holds under a name the number of
  verifications with it, unless every object inherits a property of that name. Then it holds a text (the inherited property
  with a digit appended per verification), and under \<open>__proto__\<close> nothing.\<close>

theorem outcome_counts_exact:
  assumes "summarizeProofVerifications population = Inr summary"
  shows "js_get summary ''recorded_count'' = JInt (int (length population)) \<and>
    js_get (js_get summary ''outcome_counts'') name = counted name (named outcome_name name population) \<and>
    js_get (js_get summary ''status_counts'') name = counted name (named status_name name population)"
proof -
  from assms obtain outcomes statuses recent where c: "count_outcomes [] [] population = Inr (outcomes, statuses)"
    and s: "summary = JObj [(''schema_version'', JStr ''managed-attempt-proof-verification-summary.v1''),
      (''recorded_count'', JInt (int (length population))), (''outcome_counts'', JObj outcomes),
      (''status_counts'', JObj statuses), (''last_recorded_invocation'', recent)]"
    by (auto simp: summarizeProofVerifications_def split: sum.splits)
  have "counts_are name_of [] []" for name_of by (simp add: counts_are_def named_def counted_def)
  from count_outcomes_counts [OF c this this]
  have "obj_get outcomes name = counted name (named outcome_name name population)"
    "obj_get statuses name = counted name (named status_name name population)"
    by (simp_all add: counts_are_def)
  then show ?thesis by (simp add: s)
qed

definition demo_verifications :: "recorded_item list" where
  "demo_verifications = map (\<lambda>(i, t). \<lparr>ri_invocation_id = JStr ''i'', ri_value = JObj [(''outcome'', JStr t)], ri_sequence = JInt i,
     ri_digest = JStr ''d''\<rparr>) [(1, ''passed''), (2, ''constructor''), (3, ''passed'')]"

lemma demo_summary: "case summarizeProofVerifications demo_verifications of Inl _ \<Rightarrow> False | Inr _ \<Rightarrow> True"
  by code_simp

theorem outcome_counts_exact_witness:
  "\<exists>summary. summarizeProofVerifications demo_verifications = Inr summary \<and>
     js_get (js_get summary ''outcome_counts'') ''passed'' = JInt 2 \<and>
     js_get (js_get summary ''outcome_counts'') ''constructor'' = JStr ''function Object() { [native code] }1''"
proof -
  obtain summary where s: "summarizeProofVerifications demo_verifications = Inr summary"
    using demo_summary by (auto split: sum.splits)
  have n: "counted ''passed'' (named outcome_name ''passed'' demo_verifications) = JInt 2"
    "counted ''constructor'' (named outcome_name ''constructor'' demo_verifications) = JStr ''function Object() { [native code] }1''"
    by code_simp+
  show ?thesis
    using s outcome_counts_exact [OF s, of "''passed''"] outcome_counts_exact [OF s, of "''constructor''"] unfolding n by blast
qed

end
