(* ===== verification/RoleGuardPaths.thy ===== *)
theory RoleGuardPaths
  imports PosixPaths TemporalWorkflow
begin

text \<open>
  The path policy of the role guard, \<open>role-guard-path-policy.mjs\<close>, and the trust in the evidence it is given,
  \<open>role-guard-provenance.mjs\<close>: normal repository paths, glob patterns, the paths of a write and the payload that names them,
  and which source may grant a role or a scope.

  What throws is the left alternative of a sum: a \<open>RoleGuardError\<close> with its message and code, or another exception
  (\<open>OtherThrown\<close>: a TypeError of the language or an error of the file system). The file system is a parameter: what
  \<open>realpath\<close>, \<open>lstat\<close> and \<open>readFile\<close> answer during one decision.
\<close>

section \<open>Errors and assertions\<close>

datatype guard_error = RoleGuardError (ge_message: string) (ge_code: string) | OtherThrown

text \<open>The first check that fails.\<close>

fun first_error :: "guard_error option list \<Rightarrow> guard_error option" where
  "first_error [] = None"
| "first_error (None # checks) = first_error checks"
| "first_error (Some e # checks) = Some e"

definition reject_if :: "bool \<Rightarrow> string \<Rightarrow> string \<Rightarrow> guard_error option" where
  "reject_if b message code = (if b then Some (RoleGuardError message code) else None)"

text \<open>A message with the text of a value: the conversion to a text can throw.\<close>

definition reject_value_if :: "bool \<Rightarrow> string \<Rightarrow> jsval \<Rightarrow> string \<Rightarrow> guard_error option" where
  "reject_value_if b message v code =
     (if \<not> b then None
      else case to_property_key v of None \<Rightarrow> Some OtherThrown | Some t \<Rightarrow> Some (RoleGuardError (message @ t) code))"

definition checked :: "guard_error option \<Rightarrow> 'a \<Rightarrow> guard_error + 'a" where
  "checked e x = (case e of None \<Rightarrow> Inr x | Some e \<Rightarrow> Inl e)"

text \<open>When no check fails.\<close>

lemma first_error_None: "first_error es = None \<longleftrightarrow> (\<forall>e \<in> set es. e = None)"
  by (induction es rule: first_error.induct) auto

lemma reject_if_None: "reject_if b m c = None \<longleftrightarrow> \<not> b"
  by (simp add: reject_if_def)

lemma reject_value_if_None: "reject_value_if b m v c = None \<longleftrightarrow> \<not> b"
  by (simp add: reject_value_if_def split: option.splits)

lemma checked_Inr: "checked e x = Inr y \<longleftrightarrow> e = None \<and> x = y"
  by (auto simp: checked_def split: option.splits)

lemmas checks = first_error_None reject_if_None reject_value_if_None checked_Inr and_then_Inr

definition assertPlainObject :: "jsval \<Rightarrow> string \<Rightarrow> guard_error option" where
  "assertPlainObject v name = reject_if (\<not> is_plain_object v) (name @ '' must be an object'') ''schema_invalid''"

definition assertString :: "jsval \<Rightarrow> string \<Rightarrow> guard_error option" where
  "assertString v name = reject_if (\<not> is_nonempty_string v) (name @ '' must be a non-empty string'') ''schema_invalid''"

definition rejectUnknownKeys :: "jsval \<Rightarrow> string list \<Rightarrow> string \<Rightarrow> guard_error option" where
  "rejectUnknownKeys v allowed name =
     (case filter (\<lambda>k. k \<notin> set allowed) (own_keys v) of
        [] \<Rightarrow> None
      | k # _ \<Rightarrow> Some (RoleGuardError (''Unsupported '' @ name @ '' key: '' @ k) ''schema_unknown_key''))"

text \<open>\<open>String(v).startsWith(prefix)\<close>; \<open>None\<close> when the conversion throws.\<close>

definition text_starts_with :: "jsval \<Rightarrow> string \<Rightarrow> bool option" where
  "text_starts_with v pre = map_option (\<lambda>t. starts_with t pre) (to_property_key v)"

definition reject_unless_digest :: "jsval \<Rightarrow> string \<Rightarrow> string \<Rightarrow> guard_error option" where
  "reject_unless_digest v message code =
     (case text_starts_with v ''sha256:'' of None \<Rightarrow> Some OtherThrown | Some b \<Rightarrow> reject_if (\<not> b) message code)"

section \<open>Patterns and paths\<close>

definition slashes :: "string \<Rightarrow> string" where
  "slashes s = map (\<lambda>c. if c = CHR 0x5C then CHR ''/'' else c) s"

definition validatePattern :: "jsval \<Rightarrow> string \<Rightarrow> guard_error + string" where
  "validatePattern pattern name =
     (case pattern of
        JStr (c # s) \<Rightarrow>
          let slashPattern = slashes (c # s);
              normalized = (if last slashPattern = CHR ''/'' then slashPattern @ ''**'' else slashPattern) in
          if normalized \<in> {''.'', ''/'', ''**'', ''**/*''}
          then Inl (RoleGuardError (name @ '' is repo-wide and rejected'') ''repo_wide_pattern_rejected'')
          else if js_includes normalized ''..''
          then Inl (RoleGuardError (name @ '' must not contain dot segments'') ''path_pattern_invalid'')
          else Inr normalized
      | _ \<Rightarrow> Inl (RoleGuardError (name @ '' must be a non-empty glob string'') ''path_pattern_invalid''))"

definition is_letter :: "char \<Rightarrow> bool" where
  "is_letter c \<longleftrightarrow> c \<in> set ''ABCDEFGHIJKLMNOPQRSTUVWXYZabcdefghijklmnopqrstuvwxyz''"

text \<open>\<open>/^[A-Za-z]:\//\<close>\<close>

fun drive_path :: "string \<Rightarrow> bool" where
  "drive_path (a # b # c # s) \<longleftrightarrow> is_letter a \<and> b = CHR '':'' \<and> c = CHR ''/''"
| "drive_path _ \<longleftrightarrow> False"

definition normalizeRepoRelativePath :: "jsval \<Rightarrow> string \<Rightarrow> guard_error + string" where
  "normalizeRepoRelativePath input name =
     (case input of
        JStr (c # s) \<Rightarrow>
          let slashPath = slashes (c # s); normalized = path_normalize slashPath in
          if starts_with slashPath ''/'' \<or> drive_path slashPath
          then Inl (RoleGuardError (name @ '' must be repo-relative'') ''path_absolute_rejected'')
          else if normalized = ''.'' \<or> starts_with normalized ''../'' \<or> normalized = ''..''
          then Inl (RoleGuardError (name @ '' must remain inside repo'') ''path_outside_repo'')
          else if CHR 0x00 \<in> set normalized
          then Inl (RoleGuardError (name @ '' contains a NUL byte'') ''path_invalid'')
          else Inr normalized
      | _ \<Rightarrow> Inl (RoleGuardError (name @ '' must be a non-empty string'') ''schema_invalid''))"

text \<open>The regular expression of a pattern, as the list of its atoms: \<open>.*\<close>, \<open>[^/]*\<close>, or a character; it is anchored at both ends.\<close>

datatype glob_atom = AnyText | AnyInSegment | Exactly char

fun glob_atoms :: "string \<Rightarrow> glob_atom list" where
  "glob_atoms [] = []"
| "glob_atoms (c # s) =
     (if c \<noteq> CHR ''*'' then Exactly c # glob_atoms s
      else case s of
        [] \<Rightarrow> [AnyInSegment]
      | d # r \<Rightarrow> if d = CHR ''*'' then AnyText # glob_atoms r else AnyInSegment # glob_atoms s)"

definition globToRegExp :: "jsval \<Rightarrow> guard_error + glob_atom list" where
  "globToRegExp pattern = and_then (validatePattern pattern ''glob'') (\<lambda>normalized. Inr (glob_atoms normalized))"

text \<open>A dot stands for every character but a line terminator.\<close>

definition line_terminator :: "char \<Rightarrow> bool" where
  "line_terminator c \<longleftrightarrow> c = CHR 0x0A \<or> c = CHR 0x0D"

function regex_test :: "glob_atom list \<Rightarrow> string \<Rightarrow> bool" where
  "regex_test [] s = (s = [])"
| "regex_test (Exactly c # ts) s = (case s of [] \<Rightarrow> False | d # r \<Rightarrow> d = c \<and> regex_test ts r)"
| "regex_test (AnyText # ts) s =
     (regex_test ts s \<or> (case s of [] \<Rightarrow> False | d # r \<Rightarrow> \<not> line_terminator d \<and> regex_test (AnyText # ts) r))"
| "regex_test (AnyInSegment # ts) s =
     (regex_test ts s \<or> (case s of [] \<Rightarrow> False | d # r \<Rightarrow> d \<noteq> CHR ''/'' \<and> regex_test (AnyInSegment # ts) r))"
  by pat_completeness auto
termination by (relation "measure (\<lambda>(ts, s). length ts + length s)") auto

text \<open>\<open>patterns.some(...)\<close>: the patterns after the first that matches are not looked at.\<close>

fun matches_some :: "string \<Rightarrow> jsval list \<Rightarrow> guard_error + bool" where
  "matches_some p [] = Inr False"
| "matches_some p (pattern # patterns) =
     (case globToRegExp pattern of
        Inl e \<Rightarrow> Inl e
      | Inr atoms \<Rightarrow> if regex_test atoms p then Inr True else matches_some p patterns)"

definition matchesAny :: "string \<Rightarrow> jsval \<Rightarrow> guard_error + bool" where
  "matchesAny p patterns = (case patterns of JArr xs \<Rightarrow> matches_some p xs | _ \<Rightarrow> Inl OtherThrown)"

definition scopeAllowsPath :: "jsval \<Rightarrow> string \<Rightarrow> guard_error + bool" where
  "scopeAllowsPath scopePatterns p = matchesAny p scopePatterns"

definition assertPathInside :: "string \<Rightarrow> string \<Rightarrow> string \<Rightarrow> guard_error option" where
  "assertPathInside root candidate name =
     (let relative = path_relative root candidate in
      reject_if (\<not> (relative = [] \<or> (\<not> starts_with relative ''..'' \<and> \<not> starts_with relative ''/'')))
        (name @ '' must remain inside repo root'') ''path_outside_repo'')"

section \<open>The paths of a write\<close>

datatype lstat_answer = SymbolicLink | OtherEntry | NoEntry | LstatFails

datatype file_answer = FileMissing | FileFails | FileText string

text \<open>\<open>fs_realpath\<close> is \<open>None\<close> when the call rejects.\<close>

record guard_fs =
  fs_realpath :: "jsval \<Rightarrow> string option"
  fs_lstat :: "string \<Rightarrow> lstat_answer"
  fs_readFile :: "string \<Rightarrow> file_answer"

fun reject_symlinks :: "guard_fs \<Rightarrow> string \<Rightarrow> string \<Rightarrow> string list \<Rightarrow> guard_error option" where
  "reject_symlinks fs relativePath current [] = None"
| "reject_symlinks fs relativePath current (part # parts) =
     (let entry = path_join [current, part] in
      case fs_lstat fs entry of
        SymbolicLink \<Rightarrow> Some (RoleGuardError (''write target uses symlinked component: '' @ relativePath) ''path_symlink_rejected'')
      | NoEntry \<Rightarrow> None
      | LstatFails \<Rightarrow> Some OtherThrown
      | OtherEntry \<Rightarrow> reject_symlinks fs relativePath entry parts)"

definition rejectSymlinkedExistingComponents :: "guard_fs \<Rightarrow> string \<Rightarrow> string \<Rightarrow> guard_error option" where
  "rejectSymlinkedExistingComponents fs repoRoot relativePath =
     reject_symlinks fs relativePath repoRoot (split_on (CHR ''/'') relativePath)"

definition evaluate_path :: "guard_fs \<Rightarrow> string \<Rightarrow> jsval \<Rightarrow> jsval \<Rightarrow> guard_error + string" where
  "evaluate_path fs root deny rawPath =
     and_then (normalizeRepoRelativePath rawPath ''target path'') (\<lambda>normalized.
     and_then (checked (assertPathInside root (path_resolve root normalized) ''target path'') ()) (\<lambda>_.
     and_then (matchesAny normalized deny) (\<lambda>denied.
     if denied then Inl (RoleGuardError (''target path is denied by path_policy: '' @ normalized) ''path_policy_denied'')
     else checked (rejectSymlinkedExistingComponents fs root normalized) normalized)))"

fun evaluate_paths :: "guard_fs \<Rightarrow> string \<Rightarrow> jsval \<Rightarrow> jsval list \<Rightarrow> guard_error + string list" where
  "evaluate_paths fs root deny [] = Inr []"
| "evaluate_paths fs root deny (rawPath # rawPaths) =
     and_then (evaluate_path fs root deny rawPath) (\<lambda>p.
     and_then (evaluate_paths fs root deny rawPaths) (\<lambda>ps. Inr (p # ps)))"

definition normalizeAndValidateEvaluatedPaths :: "guard_fs \<Rightarrow> jsval \<Rightarrow> jsval \<Rightarrow> jsval list \<Rightarrow> guard_error + string list" where
  "normalizeAndValidateEvaluatedPaths fs repoRoot config paths =
     (case fs_realpath fs repoRoot of
        None \<Rightarrow> Inl OtherThrown
      | Some root \<Rightarrow> evaluate_paths fs root (js_get (js_get config ''path_policy'') ''deny'') paths)"

section \<open>The payload that names the targets\<close>

definition TARGET_SOURCES :: "string list" where
  "TARGET_SOURCES = [''adapter_observed'', ''repo_config_static'', ''launcher_metadata'', ''user_supplied'', ''model_supplied'',
     ''test_fixture'']"

record change_rule =
  ru_required :: "string list"
  ru_forbidden :: "string list"
  ru_equal :: bool
  ru_evaluated :: "string list"

definition CHANGE_ENDPOINTS :: "(string \<times> change_rule) list" where
  "CHANGE_ENDPOINTS =
    [(''create'', \<lparr>ru_required = [''new_path''], ru_forbidden = [''old_path''], ru_equal = False, ru_evaluated = [''new_path'']\<rparr>),
     (''modify'', \<lparr>ru_required = [''new_path''], ru_forbidden = [], ru_equal = True, ru_evaluated = [''new_path'']\<rparr>),
     (''delete'', \<lparr>ru_required = [''old_path''], ru_forbidden = [''new_path''], ru_equal = False, ru_evaluated = [''old_path'']\<rparr>),
     (''rename'', \<lparr>ru_required = [''old_path'', ''new_path''], ru_forbidden = [], ru_equal = False,
        ru_evaluated = [''old_path'', ''new_path'']\<rparr>),
     (''copy'', \<lparr>ru_required = [''old_path'', ''new_path''], ru_forbidden = [], ru_equal = False,
        ru_evaluated = [''old_path'', ''new_path'']\<rparr>)]"

text \<open>\<open>CHANGE_ENDPOINTS[change_kind]\<close>. What every object inherits has no list \<open>required\<close>, so iterating over it throws.\<close>

definition change_rule_of :: "jsval \<Rightarrow> guard_error + change_rule" where
  "change_rule_of kind =
     (case to_property_key kind of
        None \<Rightarrow> Inl OtherThrown
      | Some name \<Rightarrow>
          (case map_of CHANGE_ENDPOINTS name of
             Some rule \<Rightarrow> Inr rule
           | None \<Rightarrow> if name \<in> set object_prototype_keys then Inl OtherThrown
               else Inl (RoleGuardError (''Unsupported change_kind: '' @ name) ''change_kind_invalid'')))"

definition kind_text :: "jsval \<Rightarrow> string" where
  "kind_text kind = (case to_property_key kind of None \<Rightarrow> [] | Some t \<Rightarrow> t)"

definition endpoint_errors :: "change_rule \<Rightarrow> jsval \<Rightarrow> guard_error option list" where
  "endpoint_errors rule target =
     (let kind = kind_text (js_get target ''change_kind'') in
      map (\<lambda>endpoint. reject_if (\<not> has_own target endpoint) (kind @ '' target missing '' @ endpoint) ''target_endpoint_missing'')
        (ru_required rule) @
      map (\<lambda>endpoint. reject_if (has_own target endpoint) (kind @ '' target must not include '' @ endpoint)
        ''target_endpoint_contradiction'') (ru_forbidden rule))"

definition normalize_endpoint :: "jsval \<Rightarrow> string \<Rightarrow> guard_error + jsobj" where
  "normalize_endpoint target endpoint =
     (if js_get target endpoint = JUndef then Inr []
      else and_then (normalizeRepoRelativePath (js_get target endpoint) endpoint) (\<lambda>p. Inr [(endpoint, JStr p)]))"

definition normalize_target :: "change_rule \<Rightarrow> jsval \<Rightarrow> guard_error + jsval" where
  "normalize_target rule target =
     and_then (normalize_endpoint target ''old_path'') (\<lambda>old.
     and_then (normalize_endpoint target ''new_path'') (\<lambda>new.
     let normalized = JObj ((''change_kind'', js_get target ''change_kind'') # old @ new) in
     checked (reject_if (ru_equal rule \<and> truthy (js_get normalized ''old_path'') \<and>
         \<not> strict_eq (js_get normalized ''old_path'') (js_get normalized ''new_path''))
       ''modify old_path must equal new_path when supplied'' ''target_endpoint_contradiction'') normalized))"

text \<open>\<open>seen\<close> and \<open>evaluatedPaths\<close> have the same members; \<open>undefined\<close> is one when the payload names an endpoint and gives it no value.\<close>

fun add_endpoints :: "jsval \<Rightarrow> jsval list \<Rightarrow> string list \<Rightarrow> guard_error + jsval list" where
  "add_endpoints normalized seen [] = Inr seen"
| "add_endpoints normalized seen (endpoint # endpoints) =
     (let p = js_get normalized endpoint in
      if p \<in> set seen then Inl (RoleGuardError (''Duplicate target endpoint: '' @ kind_text p) ''target_duplicate'')
      else add_endpoints normalized (seen @ [p]) endpoints)"

definition validate_target :: "nat \<Rightarrow> jsval \<Rightarrow> jsval list \<Rightarrow> guard_error + (jsval \<times> jsval list)" where
  "validate_target index target seen =
     (let name = ''targets['' @ dec_nat index @ '']'' in
      and_then (checked (first_error [assertPlainObject target name,
        rejectUnknownKeys target [''change_kind'', ''old_path'', ''new_path''] name]) ()) (\<lambda>_.
      and_then (change_rule_of (js_get target ''change_kind'')) (\<lambda>rule.
      and_then (checked (first_error (endpoint_errors rule target)) ()) (\<lambda>_.
      and_then (normalize_target rule target) (\<lambda>normalized.
      and_then (add_endpoints normalized seen (ru_evaluated rule)) (\<lambda>seen. Inr (normalized, seen)))))))"

fun validate_targets :: "nat \<Rightarrow> jsval list \<Rightarrow> jsval list \<Rightarrow> guard_error + (jsval list \<times> jsval list)" where
  "validate_targets index [] seen = Inr ([], seen)"
| "validate_targets index (target # targets) seen =
     and_then (validate_target index target seen) (\<lambda>(normalized, seen).
     and_then (validate_targets (Suc index) targets seen) (\<lambda>(rest, seen). Inr (normalized # rest, seen)))"

record target_payload =
  tp_source :: jsval
  tp_targets :: "jsval list"
  tp_evaluated :: "jsval list"
  tp_proof :: jsval

definition payload_errors :: "jsval \<Rightarrow> string option \<Rightarrow> bool \<Rightarrow> guard_error option list" where
  "payload_errors payload expectedSource allowTestFixture =
     (let source = js_get payload ''target_source''; targets = js_get payload ''targets'' in
     [assertPlainObject payload ''target payload'',
      rejectUnknownKeys payload [''target_source'', ''targets'', ''trusted_target_proof''] ''target payload'',
      reject_value_if (\<not> set_has TARGET_SOURCES source) ''Unsupported target_source: '' source ''target_source_invalid'',
      reject_if (source = JStr ''test_fixture'' \<and> \<not> allowTestFixture) ''test_fixture targets are test-only'' ''test_fixture_rejected'',
      (case expectedSource of None \<Rightarrow> None
       | Some s \<Rightarrow> reject_if (source \<noteq> JStr s) (''target_source must be '' @ s) ''target_source_invalid''),
      reject_if (js_items targets = []) ''targets must be a non-empty array'' ''targets_missing''])"

definition validateTargetPayload :: "jsval \<Rightarrow> string option \<Rightarrow> bool \<Rightarrow> guard_error + target_payload" where
  "validateTargetPayload payload expectedSource allowTestFixture =
     and_then (checked (first_error (payload_errors payload expectedSource allowTestFixture)) ()) (\<lambda>_.
     and_then (validate_targets 0 (js_items (js_get payload ''targets'')) []) (\<lambda>(targets, evaluated).
     Inr \<lparr>tp_source = js_get payload ''target_source'', tp_targets = targets, tp_evaluated = evaluated,
       tp_proof = js_or_nullish (js_get payload ''trusted_target_proof'') JNull\<rparr>))"

section \<open>Evidence and its sources\<close>

definition ROLE_GUARD_CALLERS :: "string list" where
  "ROLE_GUARD_CALLERS = [''agent_launch'', ''codex_hook'', ''claude_hook'', ''shell_wrapper'', ''repo_script'', ''test_fixture'']"

definition ROLE_GUARD_SOURCES :: "string list" where
  "ROLE_GUARD_SOURCES = [''launcher_metadata'', ''launcher_env'', ''operator_config'', ''repo_config'', ''wk_frontmatter'',
     ''ambient_env'', ''session_name'', ''absent'', ''test_fixture'']"

text \<open>The authorities are properties under symbols of the module, so no parsed document has them: they are the flags of the
  record.\<close>

record provenance =
  pv_fields :: jsval
  pv_launcher_authority :: bool
  pv_operator_authority :: bool

definition pv_get :: "provenance \<Rightarrow> string \<Rightarrow> jsval" where
  "pv_get p k = js_get (pv_fields p) k"

definition pv_put :: "string \<Rightarrow> jsval \<Rightarrow> provenance \<Rightarrow> provenance" where
  "pv_put k v p = p\<lparr>pv_fields := js_put k v (pv_fields p)\<rparr>"

definition normalizeSource :: "jsval \<Rightarrow> string \<Rightarrow> guard_error + jsval" where
  "normalizeSource v name =
     (if \<not> is_plain_object v then Inr (JObj [(''value'', JNull), (''source'', JStr ''absent'')])
      else
      let source = js_or_nullish (js_get v ''source'') (JStr ''absent'') in
      checked (reject_value_if (\<not> set_has ROLE_GUARD_SOURCES source) (''Unsupported '' @ name @ '' source: '') source
          ''provenance_source_invalid'')
        (JObj [(''value'', js_or_nullish (js_get v ''value'') JNull), (''source'', source),
           (''trusted'', JBool (truthy (js_get v ''trusted'')))]))"

definition assertKnownCaller :: "jsval \<Rightarrow> bool \<Rightarrow> guard_error option" where
  "assertKnownCaller caller allowTestFixture = first_error
     [reject_value_if (\<not> set_has ROLE_GUARD_CALLERS caller) ''Unsupported caller: '' caller ''provenance_caller_invalid'',
      reject_if (caller = JStr ''test_fixture'' \<and> \<not> allowTestFixture) ''test_fixture caller is test-only'' ''test_fixture_rejected'']"

definition hasTrustedLauncherContext :: "provenance \<Rightarrow> bool" where
  "hasTrustedLauncherContext p = pv_launcher_authority p"

definition hasTrustedOperatorConfigContext :: "provenance \<Rightarrow> bool" where
  "hasTrustedOperatorConfigContext p \<longleftrightarrow> hasTrustedLauncherContext p \<or> pv_operator_authority p"

definition launcherSourceMayGrant :: "jsval \<Rightarrow> provenance \<Rightarrow> bool" where
  "launcherSourceMayGrant source p =
     (if source = JStr ''launcher_metadata'' then hasTrustedLauncherContext p
      else if source = JStr ''launcher_env'' then pv_get p ''caller'' = JStr ''agent_launch'' \<and> hasTrustedLauncherContext p
      else False)"

definition sourceMayGrantRole :: "jsval \<Rightarrow> provenance \<Rightarrow> bool \<Rightarrow> bool" where
  "sourceMayGrantRole source p allowTestFixture =
     (if source = JStr ''session_name''
      then truthy (js_get (pv_get p ''session_name'') ''trusted'') \<and> hasTrustedLauncherContext p
      else if source = JStr ''test_fixture'' then allowTestFixture
      else launcherSourceMayGrant source p)"

definition sourceMayGrantWk :: "jsval \<Rightarrow> provenance \<Rightarrow> bool \<Rightarrow> bool" where
  "sourceMayGrantWk source p allowTestFixture =
     (if source = JStr ''test_fixture'' then allowTestFixture else launcherSourceMayGrant source p)"

definition sourceMayGrantOperatorScope :: "jsval \<Rightarrow> provenance \<Rightarrow> bool \<Rightarrow> bool" where
  "sourceMayGrantOperatorScope source p allowTestFixture =
     (if source = JStr ''operator_config'' then allowTestFixture \<or> hasTrustedOperatorConfigContext p
      else if source = JStr ''test_fixture'' then allowTestFixture
      else False)"

end
