(* ===== verification/RoleGuardConfig.thy ===== *)
theory RoleGuardConfig
  imports RoleGuardPaths JsonParse
begin

text \<open>
  The configuration of the role guard: \<open>validateRoleGuardConfig\<close> of \<open>role-guard-config.mjs\<close> with every check it makes, in
  order, and the normalized configuration it returns. \<open>loadRoleGuardConfig\<close> reads the file.

  Regular expressions that a configuration brings are the parameter \<open>RX\<close>: for a pattern, \<open>None\<close> when the constructor
  \<open>RegExp\<close> throws, and otherwise its test.
\<close>

type_synonym regexps = "jsval \<Rightarrow> (jsval \<Rightarrow> bool) option"

definition ROLE_GUARD_SCHEMA_VERSION :: jsval where
  "ROLE_GUARD_SCHEMA_VERSION = JInt 1"

definition ROLE_GUARD_ROLES :: "string list" where
  "ROLE_GUARD_ROLES = [''orchestrator'', ''worker'', ''reviewer'', ''redteam'', ''operator'', ''unknown'']"

definition EFFECTIVE_ROLES :: "string list" where
  "EFFECTIVE_ROLES = [''orchestrator'', ''worker'', ''reviewer'', ''unknown'', ''operator'']"

definition COMMAND_CATEGORIES :: "string list" where
  "COMMAND_CATEGORIES = [''denied'', ''read_only'', ''runtime'', ''repo_mutating_bounded'', ''operator_reviewed_broad'']"

definition COMMAND_ACTIONS :: "string list" where
  "COMMAND_ACTIONS = [''deny'', ''allow'', ''allow_from_wk_frontmatter'', ''allow_with_operator_write_scope'']"

definition TARGET_REQUIREMENTS :: "string list" where
  "TARGET_REQUIREMENTS = [''none'', ''trusted_targets'', ''static_targets'']"

definition PACKAGE_MANAGER_EXECUTABLES :: "string list" where
  "PACKAGE_MANAGER_EXECUTABLES = [''npm'', ''pnpm'', ''yarn'', ''npx'']"

fun error_of :: "guard_error + 'a \<Rightarrow> guard_error option" where
  "error_of (Inl e) = Some e"
| "error_of (Inr x) = None"

section \<open>Command patterns\<close>

definition token_error :: "nat \<Rightarrow> jsval \<Rightarrow> guard_error option" where
  "token_error index token = first_error
     [reject_if (\<not> is_nonempty_string token) (''command argv token '' @ dec_nat index @ '' must be a non-empty string'')
        ''command_pattern_invalid'',
      reject_if (token \<noteq> JStr ''*'' \<and> (case token of JStr t \<Rightarrow> js_includes t ''*'' | _ \<Rightarrow> False))
        ''substring wildcards are rejected in v1 command patterns'' ''command_pattern_invalid'']"

definition input_error :: "jsval \<Rightarrow> guard_error option" where
  "input_error input = first_error
     [reject_if (\<not> is_plain_object input) ''implementation_inputs entries must be objects with path and digest''
        ''implementation_inputs_invalid'',
      error_of (normalizeRepoRelativePath (js_get input ''path'') ''implementation input path''),
      reject_unless_digest (js_get input ''digest'') ''implementation input digest must use sha256:''
        ''implementation_input_digest_invalid'']"

definition validateInstallStateManifest :: "jsval \<Rightarrow> guard_error option" where
  "validateInstallStateManifest manifest = first_error (
     [assertPlainObject manifest ''install_state_manifest'',
      reject_if (\<not> set_has [''trusted_installer'', ''launcher_context'', ''package_manager_integrity''] (js_get manifest ''provenance''))
        ''install_state_manifest provenance is not trusted'' ''install_state_manifest_untrusted''] @
     map (\<lambda>field. reject_unless_digest (js_get manifest field) (''install_state_manifest.'' @ field @ '' must use sha256:'')
        ''install_state_manifest_invalid'') [''lockfile_digest'', ''package_content_digest'', ''bin_shims_digest'', ''lifecycle_hooks_digest''] @
     [assertString (js_get manifest ''package_manager'') ''install_state_manifest.package_manager''])"

text \<open>\<open>path.basename\<close> of a token that was checked to be a text.\<close>

definition executable_name :: "jsval \<Rightarrow> string" where
  "executable_name token = (case token of JStr t \<Rightarrow> path_basename t | _ \<Rightarrow> [])"

definition static_error :: "jsval \<Rightarrow> guard_error option" where
  "static_error pattern = first_error (
     [error_of (validateTargetPayload (js_get pattern ''expected_targets'') (Some ''repo_config_static'') True),
      reject_if (js_items (js_get pattern ''implementation_inputs'') = []) ''static_targets requires non-empty implementation_inputs''
        ''implementation_inputs_missing''] @
     map input_error (js_items (js_get pattern ''implementation_inputs'')) @
     [if executable_name (hd (js_items (js_get pattern ''argv''))) \<in> set PACKAGE_MANAGER_EXECUTABLES
      then validateInstallStateManifest (js_get pattern ''install_state_manifest'') else None])"

definition target_requirement :: "jsval \<Rightarrow> jsval" where
  "target_requirement pattern = js_or_nullish (js_get pattern ''target_requirement'') (JStr ''none'')"

definition pattern_error :: "nat \<Rightarrow> jsval \<Rightarrow> guard_error option" where
  "pattern_error index pattern =
     (let name = ''command_policy.patterns['' @ dec_nat index @ '']''; argv = js_items (js_get pattern ''argv'');
          category = js_get pattern ''category''; requirement = target_requirement pattern in
      first_error (
      [assertPlainObject pattern name,
       rejectUnknownKeys pattern [''argv'', ''category'', ''target_requirement'', ''expected_targets'', ''implementation_inputs'',
         ''install_state_manifest''] name,
       reject_if (argv = []) (name @ ''.argv must be a non-empty array'') ''command_pattern_invalid''] @
      map (\<lambda>(i, token). token_error i token) (enumerate 0 argv) @
      [reject_value_if (\<not> set_has COMMAND_CATEGORIES category) ''Unsupported command category: '' category ''command_category_invalid'',
       reject_value_if (\<not> set_has TARGET_REQUIREMENTS requirement) ''Unsupported target_requirement: '' requirement
         ''target_requirement_invalid'',
       reject_if (category = JStr ''repo_mutating_bounded'' \<and> requirement = JStr ''none'')
         ''repo_mutating_bounded commands require trusted_targets or static_targets'' ''target_requirement_invalid'',
       reject_if (category \<noteq> JStr ''repo_mutating_bounded'' \<and> requirement \<noteq> JStr ''none'')
         ''only repo_mutating_bounded commands may require targets'' ''target_requirement_invalid'',
       if requirement = JStr ''static_targets'' then static_error pattern else None,
       reject_if (requirement \<noteq> JStr ''static_targets'' \<and> js_get pattern ''expected_targets'' \<noteq> JUndef)
         ''expected_targets is valid only with static_targets'' ''expected_targets_invalid'']))"

definition validateCommandPattern :: "nat \<Rightarrow> jsval \<Rightarrow> guard_error + jsval" where
  "validateCommandPattern index pattern =
     checked (pattern_error index pattern) (js_put ''target_requirement'' (target_requirement pattern) pattern)"

section \<open>The sections of a configuration\<close>

definition regexp_error :: "regexps \<Rightarrow> jsval \<Rightarrow> string \<Rightarrow> string \<Rightarrow> guard_error option" where
  "regexp_error RX pattern message code = reject_if (RX pattern = None) message code"

definition rule_error :: "regexps \<Rightarrow> nat \<Rightarrow> jsval \<Rightarrow> guard_error option" where
  "rule_error RX index rule = first_error (
     [assertPlainObject rule (''session-name rule '' @ dec_nat index),
      reject_value_if (\<not> set_has ROLE_GUARD_ROLES (js_get rule ''role'') \<or> js_get rule ''role'' \<in> {JStr ''redteam'', JStr ''unknown''})
        ''Invalid session-name derived role: '' (js_get rule ''role'') ''session_name_role_invalid'',
      reject_if (js_items (js_get rule ''patterns'') = []) ''session-name rule patterns must be non-empty'' ''session_name_rules_invalid''] @
     map (\<lambda>pattern. reject_value_if (RX pattern = None) ''Malformed session-name pattern: '' pattern ''session_name_pattern_invalid'')
       (js_items (js_get rule ''patterns'')))"

definition derivation_error :: "regexps \<Rightarrow> jsval \<Rightarrow> guard_error option" where
  "derivation_error RX derivation =
     (if derivation = JUndef then None
      else first_error (
        [assertPlainObject derivation ''roles.derive_from_session_name'',
         reject_if (js_get derivation ''trusted_source_required'' \<noteq> JBool True)
           ''session-name derivation requires trusted_source_required: true'' ''session_name_trust_invalid'',
         reject_if (\<not> is_array (js_get derivation ''rules'')) ''session-name derivation rules must be an array''
           ''session_name_rules_invalid''] @
        map (\<lambda>(i, rule). rule_error RX i rule) (enumerate 0 (js_items (js_get derivation ''rules'')))))"

definition roles_errors :: "regexps \<Rightarrow> jsval \<Rightarrow> guard_error option list" where
  "roles_errors RX roles =
     [assertPlainObject roles ''roles'', assertPlainObject (js_get roles ''aliases'') ''roles.aliases'',
      reject_if (js_get (js_get roles ''aliases'') ''redteam'' \<noteq> JStr ''reviewer'')
        ''schema v1 requires roles.aliases.redteam === \"reviewer\"'' ''redteam_alias_invalid'',
      derivation_error RX (js_get roles ''derive_from_session_name'')]"

definition worker_errors :: "regexps \<Rightarrow> jsval \<Rightarrow> guard_error option list" where
  "worker_errors RX worker =
     [assertPlainObject worker ''worker'', assertString (js_get worker ''wk_env'') ''worker.wk_env'',
      assertString (js_get worker ''wk_id_pattern'') ''worker.wk_id_pattern'',
      regexp_error RX (js_get worker ''wk_id_pattern'') ''worker.wk_id_pattern must be a valid regexp'' ''wk_pattern_invalid'',
      assertString (js_get worker ''issue_path_template'') ''worker.issue_path_template'',
      reject_if (case js_get worker ''issue_path_template'' of JStr t \<Rightarrow> \<not> js_includes t ''{wk}'' | _ \<Rightarrow> True)
        ''worker.issue_path_template must include {wk}'' ''issue_path_template_invalid'',
      assertString (js_get worker ''write_scope_frontmatter_key'') ''worker.write_scope_frontmatter_key'',
      reject_if (js_get worker ''allow_wk_page_write'' \<noteq> JUndef \<and> \<not> is_bool (js_get worker ''allow_wk_page_write''))
        ''worker.allow_wk_page_write must be boolean'' ''schema_invalid'']"

definition operator_errors :: "jsval \<Rightarrow> guard_error option list" where
  "operator_errors operator =
     [assertPlainObject operator ''operator'', assertString (js_get operator ''write_scope_env'') ''operator.write_scope_env'',
      reject_if (js_get operator ''write_scope_env_format'' \<noteq> JStr ''json_array'')
        ''operator.write_scope_env_format must be json_array'' ''operator_scope_format_invalid'']"

definition denied_patterns :: "jsval \<Rightarrow> jsval" where
  "denied_patterns path_policy = js_or_nullish (js_get path_policy ''deny'') (JArr [])"

definition path_policy_errors :: "jsval \<Rightarrow> guard_error option list" where
  "path_policy_errors path_policy =
     [assertPlainObject path_policy ''path_policy'',
      reject_if (\<not> is_array (denied_patterns path_policy)) ''path_policy.deny must be an array'' ''path_policy_invalid''] @
     map (\<lambda>entry. error_of (validatePattern entry ''path_policy.deny'')) (js_items (denied_patterns path_policy)) @
     [reject_if (js_get path_policy ''reject_repo_wide_patterns'' \<noteq> JBool True)
        ''path_policy.reject_repo_wide_patterns must be true in v1'' ''path_policy_invalid'']"

definition command_policy_errors :: "jsval \<Rightarrow> guard_error option list" where
  "command_policy_errors command_policy =
     [assertPlainObject command_policy ''command_policy'',
      reject_if (json_stringify (js_get command_policy ''categories'') \<noteq> json_stringify (JArr (map JStr COMMAND_CATEGORIES)))
        ''command_policy.categories must exactly match the v1 enum'' ''command_categories_invalid'',
      reject_if (\<not> is_array (js_get command_policy ''patterns'')) ''command_policy.patterns must be an array''
        ''command_patterns_invalid''] @
     map (\<lambda>(i, pattern). pattern_error i pattern) (enumerate 0 (js_items (js_get command_policy ''patterns''))) @
     [reject_if (js_get command_policy ''default_category'' \<noteq> JUndef \<and>
          \<not> set_has COMMAND_CATEGORIES (js_get command_policy ''default_category''))
        ''command_policy.default_category is invalid'' ''command_category_invalid'',
      if js_get command_policy ''environment_pins'' = JUndef then None
      else assertPlainObject (js_get command_policy ''environment_pins'') ''command_policy.environment_pins'']"

definition command_key_error :: "string \<Rightarrow> jsval \<Rightarrow> string \<Rightarrow> guard_error option" where
  "command_key_error role commands key =
     (let action = js_get commands key in first_error
     [reject_if (key \<notin> set (''default'' # COMMAND_CATEGORIES)) (''Unsupported command policy key: '' @ key) ''command_policy_key_invalid'',
      reject_value_if (\<not> set_has COMMAND_ACTIONS action) ''Unsupported command policy action: '' action ''command_policy_action_invalid'',
      reject_if (action = JStr ''allow_from_wk_frontmatter'' \<and> \<not> (role = ''worker'' \<and> key = ''runtime''))
        ''allow_from_wk_frontmatter is valid only for worker runtime'' ''command_policy_action_invalid'',
      reject_if (action = JStr ''allow_with_operator_write_scope'' \<and> key \<noteq> ''repo_mutating_bounded'')
        ''allow_with_operator_write_scope is valid only for repo_mutating_bounded'' ''command_policy_action_invalid''])"

definition role_errors :: "jsval \<Rightarrow> string \<Rightarrow> guard_error option list" where
  "role_errors policies role =
     (let policy = js_get policies role; name = ''policies.'' @ role; commands = js_get policy ''commands'' in
     [assertPlainObject policy name, assertPlainObject (js_get policy ''write'') (name @ ''.write''),
      assertPlainObject commands (name @ ''.commands'')] @
     map (command_key_error role commands) (own_keys commands) @
     map (\<lambda>entry. error_of (validatePattern entry (name @ ''.write.allow''))) (js_items (js_get (js_get policy ''write'') ''allow'')))"

definition policies_errors :: "jsval \<Rightarrow> guard_error option list" where
  "policies_errors policies =
     [assertPlainObject policies ''policies'',
      reject_if (has_own policies ''redteam'') ''schema v1 rejects policies.redteam; redteam normalizes to reviewer'' ''redteam_policy_invalid''] @
     concat (map (role_errors policies) EFFECTIVE_ROLES)"

definition config_errors :: "regexps \<Rightarrow> jsval \<Rightarrow> guard_error option list" where
  "config_errors RX config =
     [assertPlainObject config ''config'',
      rejectUnknownKeys config [''schema_version'', ''roles'', ''worker'', ''operator'', ''path_policy'', ''command_policy'', ''policies''] ''config'',
      reject_value_if (\<not> strict_eq (js_get config ''schema_version'') ROLE_GUARD_SCHEMA_VERSION)
        ''Unsupported role guard schema_version: '' (js_get config ''schema_version'') ''schema_version_unsupported''] @
     roles_errors RX (js_get config ''roles'') @ worker_errors RX (js_get config ''worker'') @
     operator_errors (js_get config ''operator'') @ path_policy_errors (js_get config ''path_policy'') @
     command_policy_errors (js_get config ''command_policy'') @ policies_errors (js_get config ''policies'')"

section \<open>The normalized configuration\<close>

text \<open>What \<open>validatePattern\<close> returns for patterns that passed.\<close>

definition normalized_patterns :: "jsval list \<Rightarrow> jsval" where
  "normalized_patterns ps = JArr (map (\<lambda>p. case validatePattern p [] of Inl _ \<Rightarrow> p | Inr t \<Rightarrow> JStr t) ps)"

text \<open>\<open>write.allow = write.allow.map(...)\<close>, which changes the policy of the role in place.\<close>

definition normalize_policy :: "jsval \<Rightarrow> string \<Rightarrow> jsval" where
  "normalize_policy policies role =
     (let policy = js_get policies role; write = js_get policy ''write'' in
      case js_get write ''allow'' of
        JArr ps \<Rightarrow> js_put role (js_put ''write'' (js_put ''allow'' (normalized_patterns ps) write) policy) policies
      | _ \<Rightarrow> policies)"

definition normalize_config :: "jsval \<Rightarrow> jsval" where
  "normalize_config config =
     (let path_policy = js_get config ''path_policy''; command_policy = js_get config ''command_policy'' in
      js_put ''policies'' (foldl normalize_policy (js_get config ''policies'') EFFECTIVE_ROLES)
        (js_put ''command_policy''
          (js_put ''default_category'' (js_or_nullish (js_get command_policy ''default_category'') (JStr ''denied''))
            (js_put ''patterns'' (JArr (map (\<lambda>p. js_put ''target_requirement'' (target_requirement p) p)
              (js_items (js_get command_policy ''patterns'')))) command_policy))
          (js_put ''path_policy''
            (js_put ''deny'' (normalized_patterns (js_items (denied_patterns path_policy))) path_policy) config)))"

definition validateRoleGuardConfig :: "regexps \<Rightarrow> jsval \<Rightarrow> guard_error + jsval" where
  "validateRoleGuardConfig RX config = checked (first_error (config_errors RX config)) (normalize_config config)"

text \<open>A text that is not JSON makes the parser throw; so does, in the model, one outside the JSON that it reads.\<close>

definition loadRoleGuardConfig ::
  "regexps \<Rightarrow> number_reader \<Rightarrow> guard_fs \<Rightarrow> jsval \<Rightarrow> jsval \<Rightarrow> jsval \<Rightarrow> bool \<Rightarrow> guard_error + jsval" where
  "loadRoleGuardConfig RX NUM fs repoRoot configPath0 fixtureConfig allowTestFixture =
     (let configPath = js_default (JStr ''.agent-role-guard.json'') configPath0 in
      if fixtureConfig \<noteq> JUndef
      then (if \<not> allowTestFixture then Inl (RoleGuardError ''built-in or supplied fixtures are test-only'' ''test_fixture_rejected'')
            else validateRoleGuardConfig RX fixtureConfig)
      else
      and_then (checked (first_error [assertString repoRoot ''repoRoot'', assertString configPath ''configPath'']) ()) (\<lambda>_.
      case fs_realpath fs repoRoot of
        None \<Rightarrow> Inl OtherThrown
      | Some root \<Rightarrow>
          and_then (normalizeRepoRelativePath configPath ''configPath'') (\<lambda>relativeConfig.
          and_then (checked (assertPathInside root (path_resolve root relativeConfig) ''configPath'') ()) (\<lambda>_.
          case fs_readFile fs (path_resolve root relativeConfig) of
            FileMissing \<Rightarrow> Inl (RoleGuardError ''role guard config is missing'' ''config_missing'')
          | FileFails \<Rightarrow> Inl OtherThrown
          | FileText text \<Rightarrow>
              (case json_parse NUM text of Read parsed r \<Rightarrow> validateRoleGuardConfig RX parsed | _ \<Rightarrow> Inl OtherThrown)))))"

end
