(* ===== verification/RoleGuard.thy ===== *)
theory RoleGuard
  imports RoleGuardConfig
begin

text \<open>
  The role guard, \<open>role-guard.mjs\<close>: which role an action runs under, what a worker may write, how a command is classified,
  and the decision \<open>evaluateRoleGuardAction\<close>.

  Parameters beside those of RoleGuardPaths and RoleGuardConfig: \<open>H\<close>, the hash of a file's content, and \<open>ADAPTER\<close>, which
  tells the proofs that carry the adapter authority (a property under a symbol of the module, which no parsed document has).
\<close>

section \<open>The role\<close>

definition BEHAVIOR_AFFECTING_ENV :: "string list" where
  "BEHAVIOR_AFFECTING_ENV = [''NODE_OPTIONS'', ''npm_config_script_shell'', ''BASH_ENV'', ''PYTHONPATH'', ''HOME'', ''XDG_CONFIG_HOME'']"

record role_context =
  rc_role :: string
  rc_effective_role :: string
  rc_role_source :: jsval

definition normalizeEffectiveRole :: "string \<Rightarrow> string" where
  "normalizeEffectiveRole role = (if role = ''redteam'' then ''reviewer'' else role)"

definition explicit_role :: "jsval \<Rightarrow> provenance \<Rightarrow> bool \<Rightarrow> guard_error + string option" where
  "explicit_role evidence p allowTestFixture =
     (case js_get evidence ''value'' of
        JNull \<Rightarrow> Inr None
      | v \<Rightarrow> checked (first_error
          [reject_value_if (\<not> set_has ROLE_GUARD_ROLES v) ''Unsupported role: '' v ''role_invalid'',
           reject_if (\<not> sourceMayGrantRole (js_get evidence ''source'') p allowTestFixture)
             (''Source '' @ kind_text (js_get evidence ''source'') @ '' may not grant role'') ''role_source_untrusted''])
          (Some (kind_text v)))"

definition matched_roles :: "regexps \<Rightarrow> jsval list \<Rightarrow> jsval \<Rightarrow> jsval list" where
  "matched_roles RX rules name =
     remdups (map (\<lambda>rule. js_get rule ''role'') (filter (\<lambda>rule. list_ex (\<lambda>pattern.
       case RX pattern of None \<Rightarrow> False | Some test \<Rightarrow> test name) (js_items (js_get rule ''patterns''))) rules))"

definition derived_role :: "regexps \<Rightarrow> jsval \<Rightarrow> jsval \<Rightarrow> provenance \<Rightarrow> bool \<Rightarrow> guard_error + string option" where
  "derived_role RX derivation evidence p allowTestFixture =
     (if \<not> truthy (js_get evidence ''value'') \<or> \<not> truthy derivation then Inr None
      else if \<not> sourceMayGrantRole (js_get evidence ''source'') (pv_put ''session_name'' evidence p) allowTestFixture
      then Inl (RoleGuardError ''session-name role derivation requires trusted launcher evidence'' ''session_name_source_untrusted'')
      else (case matched_roles RX (js_items (js_get derivation ''rules'')) (js_get evidence ''value'') of
              [] \<Rightarrow> Inr None
            | [role] \<Rightarrow> Inr (Some (kind_text role))
            | _ \<Rightarrow> Inl (RoleGuardError ''session-name role derivation is ambiguous'' ''role_ambiguous'')))"

definition caller_of :: "provenance \<Rightarrow> jsval" where
  "caller_of p = js_or_nullish (pv_get p ''caller'') (JStr ''shell_wrapper'')"

definition role_context_of :: "string option \<Rightarrow> string option \<Rightarrow> jsval \<Rightarrow> jsval \<Rightarrow> role_context" where
  "role_context_of explicit derived roleEvidence sessionEvidence =
     (let role = (case explicit of Some r \<Rightarrow> r | None \<Rightarrow> (case derived of Some r \<Rightarrow> r | None \<Rightarrow> ''unknown'')) in
      \<lparr>rc_role = role, rc_effective_role = normalizeEffectiveRole role,
       rc_role_source = (if explicit \<noteq> None then js_get roleEvidence ''source''
         else if derived \<noteq> None then js_get sessionEvidence ''source'' else JStr ''absent'')\<rparr>)"

definition resolveAgentRole :: "regexps \<Rightarrow> jsval \<Rightarrow> provenance \<Rightarrow> bool \<Rightarrow> guard_error + role_context" where
  "resolveAgentRole RX config p allowTestFixture =
     and_then (validateRoleGuardConfig RX config) (\<lambda>normalizedConfig.
     and_then (checked (assertKnownCaller (caller_of p) allowTestFixture) ()) (\<lambda>_.
     and_then (normalizeSource (pv_get p ''role'') ''role'') (\<lambda>roleEvidence.
     and_then (normalizeSource (pv_get p ''session_name'') ''session_name'') (\<lambda>sessionEvidence.
     let q = pv_put ''caller'' (caller_of p) p in
     and_then (explicit_role roleEvidence q allowTestFixture) (\<lambda>explicit.
     and_then (derived_role RX (js_get (js_get normalizedConfig ''roles'') ''derive_from_session_name'') sessionEvidence q
       allowTestFixture) (\<lambda>derived.
     case (explicit, derived) of
       (Some e, Some d) \<Rightarrow>
         if normalizeEffectiveRole e \<noteq> normalizeEffectiveRole d
         then Inl (RoleGuardError ''explicit and derived role evidence conflict'' ''role_conflict'')
         else Inr (role_context_of explicit derived roleEvidence sessionEvidence)
     | _ \<Rightarrow> Inr (role_context_of explicit derived roleEvidence sessionEvidence)))))))"

section \<open>The scope of a worker\<close>

definition parseFrontmatterValue :: "string \<Rightarrow> jsval" where
  "parseFrontmatterValue raw =
     (let trimmed = js_trim raw in
      if 2 \<le> length trimmed \<and> hd trimmed = CHR ''['' \<and> last trimmed = CHR '']''
      then JArr (map JStr (filter (\<lambda>t. t \<noteq> []) (map js_trim (split_on (CHR '','') (js_trim (butlast (tl trimmed)))))))
      else if trimmed = ''true'' then JBool True
      else if trimmed = ''false'' then JBool False
      else JStr trimmed)"

text \<open>\<open>/^---\n([\s\S]*?)\n---\n?/\<close>\<close>

fun until_fence :: "string \<Rightarrow> string option" where
  "until_fence s =
     (if starts_with s (CHR 0x0A # ''---'') then Some []
      else case s of [] \<Rightarrow> None | c # r \<Rightarrow> map_option ((#) c) (until_fence r))"

declare until_fence.simps [simp del]

definition frontmatter_text :: "string \<Rightarrow> string option" where
  "frontmatter_text content =
     (if starts_with content (''---'' @ [CHR 0x0A]) then until_fence (drop 4 content) else None)"

text \<open>\<open>/^\s+-\s+(.+)$/\<close>: the text after the white space behind the dash, or its last character when there is nothing else.\<close>

definition list_item :: "string \<Rightarrow> string option" where
  "list_item line =
     (case dropWhile is_space line of
        [] \<Rightarrow> None
      | d # t \<Rightarrow>
          let u = dropWhile is_space t; m = (if u = [] then drop (length t - 1) t else u) in
          if line = d # t \<or> d \<noteq> CHR ''-'' \<or> (if u = [] then length t < 2 else u = t) \<or> list_ex line_terminator m then None
          else Some m)"

text \<open>\<open>result[key] = value\<close>. For \<open>__proto__\<close> the setter makes an array the prototype, which \<open>result[key]\<close> then is and \<open>push\<close>
  extends, and ignores a text or a boolean. The entry under that name stands for such a prototype; what it inherits itself, as
  \<open>length\<close>, is not represented.\<close>

definition frontmatter_assign :: "string \<Rightarrow> jsval \<Rightarrow> jsobj \<Rightarrow> jsobj" where
  "frontmatter_assign key v entries = (if key = ''__proto__'' \<and> \<not> is_array v then entries else obj_put key v entries)"

text \<open>\<open>currentKey\<close> is \<open>None\<close> for \<open>null\<close>; an empty key is as false.\<close>

definition frontmatter_line :: "jsobj \<times> string option \<Rightarrow> string \<Rightarrow> guard_error + (jsobj \<times> string option)" where
  "frontmatter_line state line =
     (case state of (entries, currentKey) \<Rightarrow>
      if js_trim line = [] \<or> starts_with (dropWhile is_space line) ''#'' then Inr (entries, currentKey)
      else (case (list_item line, currentKey) of
        (Some item, Some (c # k)) \<Rightarrow>
          Inr (frontmatter_assign (c # k) (JArr (js_items (obj_get entries (c # k)) @ [parseFrontmatterValue item])) entries, currentKey)
      | _ \<Rightarrow>
          if CHR '':'' \<notin> set line
          then Inl (RoleGuardError (''Invalid issue frontmatter line: '' @ line) ''wk_frontmatter_invalid'')
          else
          let key = js_trim (takeWhile (\<lambda>c. c \<noteq> CHR '':'') line); raw = tl (dropWhile (\<lambda>c. c \<noteq> CHR '':'') line) in
          Inr (frontmatter_assign key (if js_trim raw = [] then JArr [] else parseFrontmatterValue raw) entries, Some key)))"

fun frontmatter_lines :: "jsobj \<times> string option \<Rightarrow> string list \<Rightarrow> guard_error + jsobj" where
  "frontmatter_lines state [] = Inr (fst state)"
| "frontmatter_lines state (line # ls) = and_then (frontmatter_line state line) (\<lambda>state. frontmatter_lines state ls)"

definition parseIssueFrontmatter :: "string \<Rightarrow> guard_error + jsval" where
  "parseIssueFrontmatter content =
     (case frontmatter_text content of
        None \<Rightarrow> Inr (JObj [])
      | Some t \<Rightarrow> and_then (frontmatter_lines ([], None) (split_on (CHR 0x0A) t)) (\<lambda>entries. Inr (JObj entries)))"

text \<open>\<open>template.replace("{wk}", text)\<close>: the first occurrence, and the patterns \<open>$$\<close>, \<open>$&\<close>, \<open>$`\<close> and \<open>$'\<close> of the replacement.\<close>

fun replacement :: "string \<Rightarrow> string \<Rightarrow> string \<Rightarrow> string" where
  "replacement prior rest [] = []"
| "replacement prior rest (c # s) =
     (if c \<noteq> CHR ''$'' then c # replacement prior rest s
      else case s of
        [] \<Rightarrow> ''$''
      | d # r \<Rightarrow>
          if d = CHR ''$'' then CHR ''$'' # replacement prior rest r
          else if d = CHR ''&'' then ''{wk}'' @ replacement prior rest r
          else if d = CHR 0x60 then prior @ replacement prior rest r
          else if d = CHR 0x27 then rest @ replacement prior rest r
          else CHR ''$'' # replacement prior rest s)"

fun replace_wk :: "string \<Rightarrow> string \<Rightarrow> string \<Rightarrow> string" where
  "replace_wk prior t [] = []"
| "replace_wk prior t (c # s) =
     (if starts_with (c # s) ''{wk}'' then replacement prior (drop 4 (c # s)) t @ drop 4 (c # s)
      else c # replace_wk (prior @ [c]) t s)"

text \<open>\<open>String(v)\<close>, as the value it is in a key or a replacement.\<close>

definition text_of :: "jsval \<Rightarrow> guard_error + string" where
  "text_of v = (case to_property_key v of None \<Rightarrow> Inl OtherThrown | Some t \<Rightarrow> Inr t)"

fun validate_patterns :: "string \<Rightarrow> jsval list \<Rightarrow> guard_error + jsval list" where
  "validate_patterns name [] = Inr []"
| "validate_patterns name (p # ps) =
     and_then (validatePattern p name) (\<lambda>t. and_then (validate_patterns name ps) (\<lambda>ts. Inr (JStr t # ts)))"

definition readWorkerScope :: "regexps \<Rightarrow> guard_fs \<Rightarrow> jsval \<Rightarrow> jsval \<Rightarrow> jsval \<Rightarrow> guard_error + jsval" where
  "readWorkerScope RX fs repoRoot config wkId =
     and_then (validateRoleGuardConfig RX config) (\<lambda>normalizedConfig.
     let worker = js_get normalizedConfig ''worker'' in
     if (case RX (js_get worker ''wk_id_pattern'') of None \<Rightarrow> True | Some test \<Rightarrow> \<not> test wkId)
     then Inl (RoleGuardError ''worker WK id is invalid'' ''wk_invalid'')
     else case fs_realpath fs repoRoot of
       None \<Rightarrow> Inl OtherThrown
     | Some root \<Rightarrow>
         and_then (text_of wkId) (\<lambda>wk.
         and_then (normalizeRepoRelativePath (JStr (replace_wk [] wk (string_of (js_get worker ''issue_path_template''))))
           ''worker issue path'') (\<lambda>issuePath.
         and_then (checked (assertPathInside root (path_resolve root issuePath) ''worker issue path'') ()) (\<lambda>_.
         case fs_readFile fs (path_resolve root issuePath) of
           FileText content \<Rightarrow>
             and_then (parseIssueFrontmatter content) (\<lambda>frontmatter.
             case js_items (js_get frontmatter (string_of (js_get worker ''write_scope_frontmatter_key''))) of
               [] \<Rightarrow> Inl (RoleGuardError ''worker issue write_scope is missing or empty'' ''worker_scope_missing'')
             | rawScope \<Rightarrow>
                 and_then (validate_patterns ''worker write_scope'' rawScope) (\<lambda>scope.
                 and_then (text_of (js_get worker ''runtime_command_frontmatter_key'')) (\<lambda>key.
                 Inr (JObj [(''wk_id'', wkId), (''issue_path'', JStr issuePath), (''write_scope'', JArr scope),
                   (''runtime_command_policy'', js_or_nullish (js_get frontmatter key) JNull), (''frontmatter'', frontmatter)]))))
         | _ \<Rightarrow> Inl OtherThrown))))"

definition operator_scope_invalid :: guard_error where
  "operator_scope_invalid = RoleGuardError ''operator write scope must be a JSON array'' ''operator_scope_invalid''"

text \<open>A text outside the JSON that the model reads counts as one that is not JSON.\<close>

definition normalizeOperatorScope :: "number_reader \<Rightarrow> jsval \<Rightarrow> guard_error + jsval list" where
  "normalizeOperatorScope NUM v =
     (case v of
        JNull \<Rightarrow> Inr []
      | JUndef \<Rightarrow> Inr []
      | JArr xs \<Rightarrow> validate_patterns ''operator write scope'' xs
      | JStr s \<Rightarrow>
          (case json_parse NUM s of
             Read parsed r \<Rightarrow>
               (case parsed of JArr xs \<Rightarrow> validate_patterns ''operator write scope'' xs | _ \<Rightarrow> Inl operator_scope_invalid)
           | _ \<Rightarrow> Inl operator_scope_invalid)
      | _ \<Rightarrow> Inl operator_scope_invalid)"

section \<open>Commands\<close>

definition commandPolicyEffect :: "jsval \<Rightarrow> string \<Rightarrow> jsval \<Rightarrow> guard_error + jsval" where
  "commandPolicyEffect config role category =
     (let policy = js_get (js_get (js_get config ''policies'') role) ''commands'' in
      if \<not> truthy policy then Inl (RoleGuardError (''Missing command policy for role '' @ role) ''policy_missing'')
      else Inr (js_or_nullish (js_get policy (string_of category)) (js_or_nullish (js_get policy ''default'') (JStr ''deny''))))"

definition normalizedCommandArgv :: "jsval \<Rightarrow> guard_error + jsval list" where
  "normalizedCommandArgv argv =
     (case js_items argv of
        [] \<Rightarrow> Inl (RoleGuardError ''command argv must be a non-empty string array'' ''command_argv_invalid'')
      | token # tokens \<Rightarrow>
          if list_all is_nonempty_string (token # tokens) then Inr (JStr (executable_name token) # tokens)
          else Inl (RoleGuardError ''command argv must be a non-empty string array'' ''command_argv_invalid''))"

definition patternMatches :: "jsval list \<Rightarrow> jsval list \<Rightarrow> bool" where
  "patternMatches pattern argv \<longleftrightarrow>
     length pattern = length argv \<and> list_all (\<lambda>(token, arg). token = JStr ''*'' \<or> strict_eq token arg) (zip pattern argv)"

text \<open>\<open>entry.trim().split(/\s+/).filter(Boolean)\<close>\<close>

fun words_of :: "string \<Rightarrow> string \<Rightarrow> string list" where
  "words_of w [] = (if w = [] then [] else [w])"
| "words_of w (c # s) = (if is_space c then (if w = [] then words_of [] s else w # words_of [] s) else words_of (w @ [c]) s)"

definition runtime_entries :: "jsval \<Rightarrow> jsval list" where
  "runtime_entries policy = (case policy of JArr xs \<Rightarrow> xs | JStr s \<Rightarrow> [JStr s] | _ \<Rightarrow> [])"

definition entry_allows :: "jsval list \<Rightarrow> jsval \<Rightarrow> bool" where
  "entry_allows normalizedArgv entry =
     (case entry of
        JStr s \<Rightarrow> (let argv = words_of [] s in argv \<noteq> [] \<and> patternMatches (map JStr argv) normalizedArgv)
      | _ \<Rightarrow> False)"

definition runtimeCommandPolicyAllows :: "jsval \<Rightarrow> jsval list \<Rightarrow> bool" where
  "runtimeCommandPolicyAllows policy normalizedArgv \<longleftrightarrow> list_ex (entry_allows normalizedArgv) (runtime_entries policy)"

definition effectKey :: "jsval \<Rightarrow> string \<Rightarrow> jsval \<Rightarrow> guard_error + string option" where
  "effectKey config role pattern =
     and_then (commandPolicyEffect config role (js_get pattern ''category'')) (\<lambda>effect.
     Inr (json_stringify (JObj [(''category'', js_get pattern ''category''), (''target_requirement'', js_get pattern ''target_requirement''),
       (''expected_targets'', js_or_nullish (js_get pattern ''expected_targets'') JNull), (''policy_effect'', effect)])))"

fun effect_keys :: "jsval \<Rightarrow> string \<Rightarrow> jsval list \<Rightarrow> guard_error + string option list" where
  "effect_keys config role [] = Inr []"
| "effect_keys config role (pattern # patterns) =
     and_then (effectKey config role pattern) (\<lambda>key. and_then (effect_keys config role patterns) (\<lambda>keys. Inr (key # keys)))"

record classification =
  cl_category :: jsval
  cl_target_requirement :: jsval
  cl_expected_targets :: jsval
  cl_implementation_inputs :: "jsval list"
  cl_matched_patterns :: "jsval list"
  cl_normalized_argv :: "jsval list"

definition classifyCommand :: "regexps \<Rightarrow> jsval \<Rightarrow> string \<Rightarrow> jsval \<Rightarrow> guard_error + classification" where
  "classifyCommand RX config role argv =
     and_then (validateRoleGuardConfig RX config) (\<lambda>normalizedConfig.
     and_then (normalizedCommandArgv argv) (\<lambda>normalizedArgv.
     let command_policy = js_get normalizedConfig ''command_policy'' in
     case filter (\<lambda>pattern. patternMatches (js_items (js_get pattern ''argv'')) normalizedArgv) (js_items (js_get command_policy ''patterns'')) of
       [] \<Rightarrow> Inr \<lparr>cl_category = js_get command_policy ''default_category'', cl_target_requirement = JStr ''none'',
         cl_expected_targets = JUndef, cl_implementation_inputs = [], cl_matched_patterns = [], cl_normalized_argv = normalizedArgv\<rparr>
     | match # matches \<Rightarrow>
         and_then (effect_keys normalizedConfig role (match # matches)) (\<lambda>keys.
         if 1 < length (remdups keys)
         then Inl (RoleGuardError ''command pattern matches are ambiguous'' ''command_pattern_ambiguous'')
         else Inr \<lparr>cl_category = js_get match ''category'', cl_target_requirement = js_get match ''target_requirement'',
           cl_expected_targets = js_or_nullish (js_get match ''expected_targets'') JNull,
           cl_implementation_inputs = js_items (js_get match ''implementation_inputs''),
           cl_matched_patterns = map (\<lambda>p. js_get p ''argv'') (match # matches), cl_normalized_argv = normalizedArgv\<rparr>)))"

definition behavior_affecting :: "string \<Rightarrow> bool" where
  "behavior_affecting key \<longleftrightarrow> key \<in> set BEHAVIOR_AFFECTING_ENV \<or> starts_with key ''GIT_CONFIG_''"

definition variable_error :: "jsval \<Rightarrow> jsval \<Rightarrow> string \<Rightarrow> guard_error option" where
  "variable_error pins variables key =
     reject_if (behavior_affecting key \<and> (\<not> has_own pins key \<or> \<not> strict_eq (js_get pins key) (js_get variables key)))
       (''behavior-affecting env var is not pinned: '' @ key) ''environment_variable_unpinned''"

definition execution_proof_errors :: "(jsval \<Rightarrow> bool) \<Rightarrow> jsval \<Rightarrow> jsval \<Rightarrow> jsval \<Rightarrow> bool \<Rightarrow> guard_error option list" where
  "execution_proof_errors ADAPTER proof argv config allowTestFixture =
     (let executable = js_get proof ''executable''; spawn = js_get proof ''spawn''; environment = js_get proof ''environment'';
          variables = js_or_nullish (js_get environment ''variables'') (JObj []);
          pins = js_or_nullish (js_get (js_get config ''command_policy'') ''environment_pins'') (JObj []) in
     [assertPlainObject proof ''command execution proof'',
      rejectUnknownKeys proof [''executable'', ''spawn'', ''environment''] ''command execution proof'',
      reject_if (\<not> allowTestFixture \<and> \<not> ADAPTER proof) ''command execution proof requires trusted adapter or launcher authority''
        ''execution_proof_untrusted'',
      assertPlainObject executable ''command execution proof executable'',
      rejectUnknownKeys executable [''resolved_realpath'', ''digest'', ''resolution_inputs_digest''] ''command execution proof executable'',
      assertString (js_get executable ''resolved_realpath'') ''executable.resolved_realpath'',
      reject_unless_digest (js_get executable ''digest'') ''executable.digest must use sha256:'' ''executable_identity_missing'',
      assertString (js_get executable ''resolution_inputs_digest'') ''executable.resolution_inputs_digest'',
      assertPlainObject spawn ''command execution proof spawn'',
      rejectUnknownKeys spawn [''shell_mode'', ''cwd'', ''raw_argv'', ''resolved_argv0''] ''command execution proof spawn'',
      reject_if (js_get spawn ''shell_mode'' \<noteq> JBool False) ''v1 command proof requires shell_mode: false'' ''spawn_primitive_invalid'',
      reject_if (json_stringify (js_get spawn ''raw_argv'') \<noteq> json_stringify argv) ''spawn raw_argv does not match command argv''
        ''spawn_primitive_mismatch'',
      assertString (js_get spawn ''cwd'') ''spawn.cwd'',
      assertString (js_get spawn ''resolved_argv0'') ''spawn.resolved_argv0'',
      assertPlainObject environment ''command execution proof environment'',
      rejectUnknownKeys environment [''mode'', ''digest'', ''variables''] ''command execution proof environment'',
      reject_if (js_get environment ''mode'' \<noteq> JStr ''closed'') ''command environment must be closed'' ''environment_policy_invalid'',
      assertString (js_get environment ''digest'') ''environment.digest'',
      assertPlainObject variables ''environment.variables''] @
     map (variable_error pins variables) (own_keys variables))"

definition validateCommandExecutionProof :: "(jsval \<Rightarrow> bool) \<Rightarrow> jsval \<Rightarrow> jsval \<Rightarrow> jsval \<Rightarrow> bool \<Rightarrow> guard_error option" where
  "validateCommandExecutionProof ADAPTER proof argv config allowTestFixture =
     first_error (execution_proof_errors ADAPTER proof argv config allowTestFixture)"

fun verify_inputs :: "hash \<Rightarrow> guard_fs \<Rightarrow> string \<Rightarrow> jsval list \<Rightarrow> guard_error option" where
  "verify_inputs H fs root [] = None"
| "verify_inputs H fs root (input # inputs) =
     (case normalizeRepoRelativePath (js_get input ''path'') ''implementation input path'' of
        Inl e \<Rightarrow> Some e
      | Inr relativePath \<Rightarrow>
          (case assertPathInside root (path_resolve root relativePath) ''implementation input path'' of
             Some e \<Rightarrow> Some e
           | None \<Rightarrow>
               (case fs_readFile fs (path_resolve root relativePath) of
                  FileText content \<Rightarrow>
                    if strict_eq (JStr (''sha256:'' @ H content)) (js_get input ''digest'') then verify_inputs H fs root inputs
                    else Some (RoleGuardError (''implementation input digest mismatch: '' @ relativePath)
                      ''implementation_input_digest_mismatch'')
                | _ \<Rightarrow> Some OtherThrown)))"

definition verifyImplementationInputs :: "hash \<Rightarrow> guard_fs \<Rightarrow> jsval \<Rightarrow> jsval list \<Rightarrow> guard_error option" where
  "verifyImplementationInputs H fs repoRoot inputs =
     (case fs_realpath fs repoRoot of None \<Rightarrow> Some OtherThrown | Some root \<Rightarrow> verify_inputs H fs root inputs)"

definition validateTrustedTargetProof :: "(jsval \<Rightarrow> bool) \<Rightarrow> jsval \<Rightarrow> bool \<Rightarrow> guard_error option" where
  "validateTrustedTargetProof ADAPTER proof allowTestFixture =
     (let mode = js_get proof ''containment_mode'' in
      first_error
     [assertPlainObject proof ''trusted_target_proof'',
      rejectUnknownKeys proof [''adapter_id'', ''capability_id'', ''containment_mode'', ''bounded_write_primitive_id'', ''ledger_digest'',
        ''observed_write_set''] ''trusted_target_proof'',
      reject_if (\<not> allowTestFixture \<and> \<not> ADAPTER proof) ''trusted target proof requires trusted adapter or launcher authority''
        ''trusted_target_proof_untrusted'',
      assertString (js_get proof ''adapter_id'') ''trusted_target_proof.adapter_id'',
      assertString (js_get proof ''capability_id'') ''trusted_target_proof.capability_id'',
      reject_if (\<not> set_has [''bounded_write_primitive'', ''write_ledger''] mode)
        ''trusted_target_proof.containment_mode is invalid'' ''trusted_target_proof_invalid'',
      if mode = JStr ''bounded_write_primitive''
      then assertString (js_get proof ''bounded_write_primitive_id'') ''trusted_target_proof.bounded_write_primitive_id'' else None,
      if mode = JStr ''write_ledger'' then assertString (js_get proof ''ledger_digest'') ''trusted_target_proof.ledger_digest'' else None,
      reject_if (mode = JStr ''write_ledger'' \<and> js_items (js_get proof ''observed_write_set'') = [])
        ''write_ledger proof requires observed_write_set'' ''trusted_target_proof_invalid''])"

section \<open>The decision\<close>

record target_decision =
  td_path :: string
  td_allowed :: bool
  td_matched_rules :: "jsval list"

text \<open>How the guarded block ends.\<close>

datatype verdict = Allow string | Deny string string | Raised guard_error

record guard_decision =
  gd_allowed :: bool
  gd_decision_code :: string
  gd_reason :: "string option"
  gd_category :: jsval
  gd_role :: role_context
  gd_action :: jsval
  gd_targets :: "target_decision list"

text \<open>What one decision is made with.\<close>

record guard_request =
  gq_config :: jsval
  gq_repoRoot :: jsval
  gq_provenance :: provenance
  gq_action :: jsval
  gq_workerScope :: jsval
  gq_allowTestFixture :: bool

record guard_world =
  gw_fs :: guard_fs
  gw_regexps :: regexps
  gw_numbers :: number_reader
  gw_hash :: hash
  gw_adapter :: "jsval \<Rightarrow> bool"

definition resolve_worker_scope :: "guard_world \<Rightarrow> guard_request \<Rightarrow> jsval \<Rightarrow> guard_error + jsval" where
  "resolve_worker_scope w q config =
     and_then (normalizeSource (pv_get (gq_provenance q) ''wk'') ''wk'') (\<lambda>evidence.
     if \<not> sourceMayGrantWk (js_get evidence ''source'') (pv_put ''caller'' (caller_of (gq_provenance q)) (gq_provenance q)) (gq_allowTestFixture q)
     then Inl (RoleGuardError ''worker WK source is not trusted'' ''wk_source_untrusted'')
     else if \<not> nullish (gq_workerScope q) then Inr (gq_workerScope q)
     else readWorkerScope (gw_regexps w) (gw_fs w) (gq_repoRoot q) config (js_get evidence ''value''))"

definition resolve_operator_scope :: "guard_world \<Rightarrow> guard_request \<Rightarrow> guard_error + jsval list" where
  "resolve_operator_scope w q =
     and_then (normalizeSource (pv_get (gq_provenance q) ''operator_write_scope'') ''operator_write_scope'') (\<lambda>evidence.
     if \<not> sourceMayGrantOperatorScope (js_get evidence ''source'') (pv_put ''caller'' (caller_of (gq_provenance q)) (gq_provenance q))
          (gq_allowTestFixture q)
     then Inl (RoleGuardError ''operator write scope is not trusted'' ''operator_scope_untrusted'')
     else and_then (normalizeOperatorScope (gw_numbers w) (js_get evidence ''value'')) (\<lambda>patterns.
     if patterns = [] then Inl (RoleGuardError ''operator write scope is absent or empty'' ''operator_scope_missing'')
     else Inr patterns))"

text \<open>\<open>[...scope.write_scope]\<close>\<close>

definition spread_items :: "jsval \<Rightarrow> guard_error + jsval list" where
  "spread_items v = (case v of JArr xs \<Rightarrow> Inr xs | JStr s \<Rightarrow> Inr (map (\<lambda>c. JStr [c]) s) | _ \<Rightarrow> Inl OtherThrown)"

text \<open>The patterns a role may write to; \<open>Inr None\<close>: the role is read-only.\<close>

definition allowed_patterns :: "guard_world \<Rightarrow> guard_request \<Rightarrow> jsval \<Rightarrow> string \<Rightarrow> guard_error + jsval option" where
  "allowed_patterns w q config role =
     (if role = ''worker''
      then and_then (resolve_worker_scope w q config) (\<lambda>scope.
           and_then (spread_items (js_get scope ''write_scope'')) (\<lambda>patterns.
           Inr (Some (JArr (patterns @
             (if truthy (js_get (js_get config ''worker'') ''allow_wk_page_write'') then [js_get scope ''issue_path''] else []))))))
      else if role = ''orchestrator''
      then Inr (Some (js_or_nullish (js_get (js_get (js_get (js_get config ''policies'') ''orchestrator'') ''write'') ''allow'') (JArr [])))
      else if role = ''operator'' then and_then (resolve_operator_scope w q) (\<lambda>patterns. Inr (Some (JArr patterns)))
      else Inr None)"

fun matched_rules :: "string \<Rightarrow> jsval list \<Rightarrow> guard_error + jsval list" where
  "matched_rules p [] = Inr []"
| "matched_rules p (pattern # patterns) =
     and_then (globToRegExp pattern) (\<lambda>atoms. and_then (matched_rules p patterns) (\<lambda>rules.
     Inr (if regex_test atoms p then pattern # rules else rules)))"

definition decide_target :: "jsval \<Rightarrow> string \<Rightarrow> guard_error + target_decision" where
  "decide_target patterns p =
     and_then (scopeAllowsPath patterns p) (\<lambda>allowed.
     and_then (if allowed then matched_rules p (js_items patterns) else Inr []) (\<lambda>rules.
     Inr \<lparr>td_path = p, td_allowed = allowed, td_matched_rules = rules\<rparr>))"

text \<open>The decisions up to the path at which a pattern throws.\<close>

fun decide_targets :: "jsval \<Rightarrow> string list \<Rightarrow> target_decision list \<times> guard_error option" where
  "decide_targets patterns [] = ([], None)"
| "decide_targets patterns (p # ps) =
     (case decide_target patterns p of
        Inl e \<Rightarrow> ([], Some e)
      | Inr d \<Rightarrow> (case decide_targets patterns ps of (ds, e) \<Rightarrow> (d # ds, e)))"

definition raw_paths :: "guard_request \<Rightarrow> guard_error + jsval" where
  "raw_paths q =
     (if js_get (gq_action q) ''type'' = JStr ''check-write'' then Inr (js_get (gq_action q) ''paths'')
      else and_then (validateTargetPayload (js_get (gq_action q) ''target_payload'') None (gq_allowTestFixture q)) (\<lambda>payload.
        Inr (JArr (tp_evaluated payload))))"

definition write_verdict :: "target_decision list \<times> guard_error option \<Rightarrow> target_decision list \<times> verdict" where
  "write_verdict r =
     (case r of
        (ds, Some e) \<Rightarrow> (ds, Raised e)
      | (ds, None) \<Rightarrow> (ds, if list_all td_allowed ds then Allow ''write_allowed''
          else Deny ''write_scope_denied'' ''one or more targets are outside write scope''))"

definition raised :: "guard_error + (target_decision list \<times> verdict) \<Rightarrow> target_decision list \<times> verdict" where
  "raised r = (case r of Inl e \<Rightarrow> ([], Raised e) | Inr x \<Rightarrow> x)"

definition decide_write :: "guard_world \<Rightarrow> guard_request \<Rightarrow> jsval \<Rightarrow> role_context \<Rightarrow> target_decision list \<times> verdict" where
  "decide_write w q config rc = raised (
     and_then (raw_paths q) (\<lambda>rawPaths.
     if js_items rawPaths = [] then Inr ([], Deny ''targets_missing'' ''write action requires targets'')
     else
     and_then (normalizeAndValidateEvaluatedPaths (gw_fs w) (gq_repoRoot q) config (js_items rawPaths)) (\<lambda>paths.
     and_then (allowed_patterns w q config (rc_effective_role rc)) (\<lambda>patterns.
     case patterns of
       None \<Rightarrow> Inr ([], Deny ''role_read_only'' ''role is read-only'')
     | Some patterns \<Rightarrow> Inr (write_verdict (decide_targets patterns paths))))))"

text \<open>\<open>paths.every(p => scopeAllowsPath(operatorScope, p))\<close>\<close>

fun all_within :: "jsval \<Rightarrow> string list \<Rightarrow> guard_error + bool" where
  "all_within scope [] = Inr True"
| "all_within scope (p # ps) = and_then (scopeAllowsPath scope p) (\<lambda>b. if b then all_within scope ps else Inr False)"

definition recorded_targets :: "string list \<Rightarrow> jsval \<Rightarrow> target_decision list" where
  "recorded_targets paths rule = map (\<lambda>p. \<lparr>td_path = p, td_allowed = True, td_matched_rules = [rule]\<rparr>) paths"

definition authorize_targets :: "guard_world \<Rightarrow> guard_request \<Rightarrow> jsval \<Rightarrow> jsval list option \<Rightarrow> target_payload \<Rightarrow> jsval \<Rightarrow>
    guard_error + (target_decision list \<times> verdict)" where
  "authorize_targets w q config operatorScope payload rule =
     and_then (normalizeAndValidateEvaluatedPaths (gw_fs w) (gq_repoRoot q) config (tp_evaluated payload)) (\<lambda>paths.
     and_then (case operatorScope of None \<Rightarrow> Inr True | Some patterns \<Rightarrow> all_within (JArr patterns) paths) (\<lambda>within.
     if \<not> within then Inl (RoleGuardError ''repo-mutating command target is outside operator write scope'' ''operator_scope_denied'')
     else Inr (recorded_targets paths rule, Allow ''command_allowed'')))"

definition source_denial :: "guard_request \<Rightarrow> target_payload \<Rightarrow> string option" where
  "source_denial q payload =
     (if set_has [''user_supplied'', ''model_supplied''] (tp_source payload)
      then Some ''user/model target lists cannot authorize repo-mutating commands''
      else if tp_source payload = JStr ''repo_config_static'' then Some ''payload-supplied repo_config_static targets reject''
      else if tp_source payload = JStr ''launcher_metadata'' \<and> \<not> hasTrustedLauncherContext (gq_provenance q)
      then Some ''launcher_metadata targets require verified launcher context'' else None)"

definition command_targets :: "guard_world \<Rightarrow> guard_request \<Rightarrow> jsval \<Rightarrow> classification \<Rightarrow> jsval list option \<Rightarrow>
    guard_error + (target_decision list \<times> verdict)" where
  "command_targets w q config cl operatorScope =
     (if cl_target_requirement cl = JStr ''static_targets''
      then and_then (checked (verifyImplementationInputs (gw_hash w) (gw_fs w) (gq_repoRoot q) (cl_implementation_inputs cl)) ()) (\<lambda>_.
           and_then (validateTargetPayload (cl_expected_targets cl) (Some ''repo_config_static'') (gq_allowTestFixture q)) (\<lambda>payload.
           authorize_targets w q config operatorScope payload (JStr ''repo_config_static'')))
      else if cl_target_requirement cl = JStr ''trusted_targets''
      then and_then (validateTargetPayload (js_get (gq_action q) ''target_payload'') None (gq_allowTestFixture q)) (\<lambda>payload.
           case source_denial q payload of
             Some reason \<Rightarrow> Inr ([], Deny ''target_source_untrusted'' reason)
           | None \<Rightarrow>
               and_then (checked (validateTrustedTargetProof (gw_adapter w) (tp_proof payload) (gq_allowTestFixture q)) ()) (\<lambda>_.
               authorize_targets w q config operatorScope payload (tp_source payload)))
      else Inr ([], Allow ''command_allowed''))"

text \<open>The policy of the task a worker runs for; \<open>None\<close>: it allows the command.\<close>

definition worker_policy_denial :: "guard_world \<Rightarrow> guard_request \<Rightarrow> jsval \<Rightarrow> jsval list \<Rightarrow> guard_error + (string \<times> string) option" where
  "worker_policy_denial w q config argv =
     and_then (resolve_worker_scope w q config) (\<lambda>scope.
     let policy = js_get scope ''runtime_command_policy'' in
     Inr (if \<not> truthy policy then Some (''wk_runtime_policy_missing'', ''worker runtime command policy is missing'')
       else if \<not> runtimeCommandPolicyAllows policy argv
       then Some (''wk_runtime_policy_denied'', ''worker runtime command policy does not allow argv'') else None))"

definition decide_classified :: "guard_world \<Rightarrow> guard_request \<Rightarrow> jsval \<Rightarrow> role_context \<Rightarrow> classification \<Rightarrow>
    guard_error + (target_decision list \<times> verdict)" where
  "decide_classified w q config rc cl =
     (if set_has [''denied'', ''operator_reviewed_broad''] (cl_category cl)
      then Inr ([], Deny ''command_denied'' ''command category denies execution'')
      else
      and_then (checked (validateCommandExecutionProof (gw_adapter w) (js_get (gq_action q) ''execution_proof'')
        (js_get (gq_action q) ''argv'') config (gq_allowTestFixture q)) ()) (\<lambda>_.
      and_then (commandPolicyEffect config (rc_effective_role rc) (cl_category cl)) (\<lambda>effect.
      if effect = JStr ''deny'' then Inr ([], Deny ''command_policy_denied'' ''role policy denies command category'')
      else
      and_then (if effect = JStr ''allow_from_wk_frontmatter'' then worker_policy_denial w q config (cl_normalized_argv cl) else Inr None)
        (\<lambda>denial.
      case denial of
        Some (code, reason) \<Rightarrow> Inr ([], Deny code reason)
      | None \<Rightarrow>
          and_then (if effect = JStr ''allow_with_operator_write_scope'' then and_then (resolve_operator_scope w q) (\<lambda>ps. Inr (Some ps))
            else Inr None) (\<lambda>operatorScope.
          command_targets w q config cl operatorScope)))))"

definition decide_command :: "guard_world \<Rightarrow> guard_request \<Rightarrow> jsval \<Rightarrow> role_context \<Rightarrow> jsval \<times> target_decision list \<times> verdict" where
  "decide_command w q config rc =
     (case classifyCommand (gw_regexps w) config (rc_effective_role rc) (js_get (gq_action q) ''argv'') of
        Inl e \<Rightarrow> (JStr ''denied'', [], Raised e)
      | Inr cl \<Rightarrow> (cl_category cl, raised (decide_classified w q config rc cl)))"

definition guard_block :: "guard_world \<Rightarrow> guard_request \<Rightarrow> jsval \<Rightarrow> role_context \<Rightarrow> jsval \<times> target_decision list \<times> verdict" where
  "guard_block w q config rc =
     (let type = js_get (gq_action q) ''type'' in
      if type = JStr ''check-write'' \<or> type = JStr ''check-diff'' then (JStr ''denied'', decide_write w q config rc)
      else if type = JStr ''check-command'' then decide_command w q config rc
      else (JStr ''denied'', [], Deny ''action_type_unsupported'' (''Unsupported action type: '' @ kind_text type)))"

definition decision :: "role_context \<Rightarrow> jsval \<Rightarrow> jsval \<Rightarrow> target_decision list \<Rightarrow> bool \<Rightarrow> string \<Rightarrow> string option \<Rightarrow> guard_decision" where
  "decision rc type category targets allowed code reason = \<lparr>gd_allowed = allowed, gd_decision_code = code, gd_reason = reason,
     gd_category = category, gd_role = rc, gd_action = type, gd_targets = targets\<rparr>"

text \<open>A \<open>RoleGuardError\<close> of the guarded block denies; another exception leaves the function.\<close>

definition conclude :: "role_context \<Rightarrow> jsval \<Rightarrow> jsval \<times> target_decision list \<times> verdict \<Rightarrow> guard_error + guard_decision" where
  "conclude rc type r =
     (case r of (category, targets, v) \<Rightarrow>
      case v of
        Allow code \<Rightarrow> Inr (decision rc type category targets True code None)
      | Deny code reason \<Rightarrow> Inr (decision rc type category targets False code (Some reason))
      | Raised (RoleGuardError message code) \<Rightarrow> Inr (decision rc type category targets False code (Some message))
      | Raised OtherThrown \<Rightarrow> Inl OtherThrown)"

definition evaluateRoleGuardAction :: "guard_world \<Rightarrow> guard_request \<Rightarrow> guard_error + guard_decision" where
  "evaluateRoleGuardAction w q =
     and_then (validateRoleGuardConfig (gw_regexps w) (gq_config q)) (\<lambda>config.
     and_then (checked (first_error [assertPlainObject (gq_action q) ''action'',
       assertKnownCaller (caller_of (gq_provenance q)) (gq_allowTestFixture q)]) ()) (\<lambda>_.
     and_then (resolveAgentRole (gw_regexps w) config (pv_put ''caller'' (caller_of (gq_provenance q)) (gq_provenance q))
       (gq_allowTestFixture q)) (\<lambda>rc.
     conclude rc (js_get (gq_action q) ''type'') (guard_block w q config rc))))"

end
