(* ===== verification/LauncherContext.thy ===== *)
theory LauncherContext
  imports RoleGuard
begin

text \<open>
  The context by which a launcher proves its authority to the role guard: its signature and verification
  (\<open>role-guard-launcher-context.mjs\<close>), how it is minted, what it is bound to, and the store of the nonces that were used
  (\<open>launcher-context-mint.mjs\<close>).

  Parameters: \<open>MAC\<close>, from a secret and a text to the code of \<open>createHmac("sha256")\<close> in base64url; \<open>H64\<close>, the SHA-256 hash in
  base64url; \<open>BYTES\<close>, what \<open>Buffer.from\<close> makes of a value (\<open>None\<close>: it throws); \<open>DATE\<close>, the time in milliseconds that
  \<open>Date.parse\<close> gives (\<open>None\<close>: NaN), and \<open>ISO\<close>, the text of \<open>toISOString\<close>; \<open>NUM\<close>, the numerals that are no integers. The
  store is the list of its files, each with its content; the file system lets the store create, read and remove them.
\<close>

type_synonym mac = "string \<Rightarrow> string \<Rightarrow> string"
type_synonym bytes_of = "jsval \<Rightarrow> nat list option"
type_synonym dates = "jsval \<Rightarrow> int option"
type_synonym nonce_files = "(string \<times> string) list"

section \<open>The canonical text\<close>

text \<open>How \<open>join\<close> and a template show a value that may be \<open>undefined\<close>.\<close>

definition joined_text :: "string option \<Rightarrow> string" where
  "joined_text t = (case t of None \<Rightarrow> [] | Some s \<Rightarrow> s)"

fun labelled_text :: "string \<times> string option \<Rightarrow> string" where
  "labelled_text (k, t) = quote_json k @ CHR '':'' # (case t of None \<Rightarrow> ''undefined'' | Some s \<Rightarrow> s)"

primrec canonicalizeJson :: "jsval \<Rightarrow> string option" where
  "canonicalizeJson JUndef = None"
| "canonicalizeJson JNull = Some ''null''"
| "canonicalizeJson (JBool b) = Some (if b then ''true'' else ''false'')"
| "canonicalizeJson (JNum n) = Some (num_json n)"
| "canonicalizeJson (JStr s) = Some (quote_json s)"
| "canonicalizeJson (JArr xs) = Some (''['' @ join_with '','' (map joined_text (map canonicalizeJson xs)) @ '']'')"
| "canonicalizeJson (JObj kvs) =
     Some (''{'' @ join_with '','' (map labelled_text (sort_key fst (map (map_prod id canonicalizeJson) kvs))) @ ''}'')"

text \<open>\<open>structuredClone\<close> of an object of plain values, without its member \<open>integrity\<close>.\<close>

definition canonicalizeLauncherContext :: "jsval \<Rightarrow> string" where
  "canonicalizeLauncherContext context = joined_text (canonicalizeJson (JObj (obj_remove ''integrity'' (js_spread context))))"

definition signLauncherContext :: "mac \<Rightarrow> jsval \<Rightarrow> jsval \<Rightarrow> guard_error + string" where
  "signLauncherContext MAC context secret =
     and_then (checked (assertString secret ''launcher context secret'') ()) (\<lambda>_.
     Inr (''hmac-sha256:'' @ MAC (string_of secret) (canonicalizeLauncherContext context)))"

definition safeIntegrityEqual :: "bytes_of \<Rightarrow> jsval \<Rightarrow> jsval \<Rightarrow> guard_error + bool" where
  "safeIntegrityEqual BYTES left right =
     (case (BYTES left, BYTES right) of (Some l, Some r) \<Rightarrow> Inr (l = r) | _ \<Rightarrow> Inl OtherThrown)"

section \<open>The nonces\<close>

definition nonce_char :: "char \<Rightarrow> bool" where
  "nonce_char c \<longleftrightarrow> is_letter c \<or> is_digit c \<or> c = CHR ''_'' \<or> c = CHR ''-''"

text \<open>\<open>NONCE_PATTERN\<close>\<close>

definition nonce_pattern :: "string \<Rightarrow> bool" where
  "nonce_pattern s \<longleftrightarrow> 1 \<le> length s \<and> length s \<le> 128 \<and> list_all nonce_char s"

definition checkAndMark :: "jsval \<Rightarrow> jsval \<Rightarrow> nonce_files \<Rightarrow> bool \<times> nonce_files" where
  "checkAndMark nonce expiresAt files =
     (case nonce of
        JStr s \<Rightarrow>
          if \<not> nonce_pattern s then (False, files)
          else if s \<in> set (map fst files) then (False, files)
          else (True, files @ [(s, or_null_text (json_stringify (JObj [(''expires_at'', js_or_nullish expiresAt JNull)])))])
      | _ \<Rightarrow> (False, files))"

text \<open>Whether a nonce file has expired; \<open>None\<close> when reading its content throws.\<close>

definition nonce_expired :: "number_reader \<Rightarrow> dates \<Rightarrow> int \<Rightarrow> string \<Rightarrow> bool option" where
  "nonce_expired NUM DATE nowMs content =
     (case json_parse NUM content of
        Read parsed r \<Rightarrow>
          if parsed = JNull then None
          else Some (case DATE (js_get parsed ''expires_at'') of None \<Rightarrow> False | Some expiresAt \<Rightarrow> \<not> nowMs < expiresAt)
      | _ \<Rightarrow> None)"

text \<open>The files that are left, and whether the collection throws: every file is looked at even when one of them throws.\<close>

definition gcExpiredNonces :: "number_reader \<Rightarrow> dates \<Rightarrow> int \<Rightarrow> nonce_files \<Rightarrow> guard_error option \<times> nonce_files" where
  "gcExpiredNonces NUM DATE nowMs files =
     (if list_ex (\<lambda>(s, content). nonce_pattern s \<and> nonce_expired NUM DATE nowMs content = None) files then Some OtherThrown else None,
      filter (\<lambda>(s, content). \<not> (nonce_pattern s \<and> nonce_expired NUM DATE nowMs content = Some True)) files)"

section \<open>Verification\<close>

definition CONTEXT_KEYS :: "string list" where
  "CONTEXT_KEYS = [''schema_version'', ''kind'', ''review_id'', ''run_id'', ''handoff_id'', ''mode'', ''repo_root'', ''input_manifest_hash'',
     ''registry_hash'', ''created_at'', ''expires_at'', ''nonce'', ''role_context'', ''action_binding'', ''integrity'']"

definition REVIEWED_FIELDS :: "string list" where
  "REVIEWED_FIELDS = [''review_id'', ''handoff_id'', ''mode'', ''repo_root'', ''input_manifest_hash'', ''registry_hash'']"

definition integrity_error :: "mac \<Rightarrow> bytes_of \<Rightarrow> jsval \<Rightarrow> jsval \<Rightarrow> guard_error option" where
  "integrity_error MAC BYTES context secret =
     (let bad = RoleGuardError ''launcher context integrity is invalid'' ''launcher_context_bad_integrity'' in
      if \<not> truthy (js_get context ''integrity'') then Some bad
      else case signLauncherContext MAC context secret of
        Inl e \<Rightarrow> Some e
      | Inr signature \<Rightarrow>
          (case safeIntegrityEqual BYTES (js_get context ''integrity'') (JStr signature) of
             Inl e \<Rightarrow> Some e
           | Inr same \<Rightarrow> if same then None else Some bad))"

text \<open>\<open>String(value ?? "") !== String(expected)\<close>\<close>

definition mismatch_error :: "jsval \<Rightarrow> jsval \<Rightarrow> string \<Rightarrow> guard_error option" where
  "mismatch_error v expected message =
     (case (to_property_key (js_or_nullish v (JStr [])), to_property_key expected) of
        (Some s, Some t) \<Rightarrow> reject_if (s \<noteq> t) message ''launcher_context_metadata_mismatch''
      | _ \<Rightarrow> Some OtherThrown)"

definition reviewed_field_errors :: "jsval \<Rightarrow> jsval \<Rightarrow> string \<Rightarrow> guard_error option list" where
  "reviewed_field_errors context expectedReviewedMetadata field =
     [assertString (js_get expectedReviewedMetadata field) (''expected reviewed metadata '' @ field),
      mismatch_error (js_get context field) (js_get expectedReviewedMetadata field) (''launcher context '' @ field @ '' mismatch'')]"

definition run_id_error :: "jsval \<Rightarrow> jsval \<Rightarrow> guard_error option" where
  "run_id_error context expectedReviewedMetadata =
     (if \<not> nullish (js_get expectedReviewedMetadata ''run_id'')
      then mismatch_error (js_get context ''run_id'') (js_get expectedReviewedMetadata ''run_id'') ''launcher context run_id mismatch''
      else reject_if (\<not> nullish (js_get context ''run_id'')) ''launcher context run_id is not expected''
        ''launcher_context_metadata_mismatch'')"

definition lifetime_error :: "dates \<Rightarrow> int \<Rightarrow> jsval \<Rightarrow> guard_error option" where
  "lifetime_error DATE nowMs context =
     reject_if (case (DATE (js_get context ''created_at''), DATE (js_get context ''expires_at'')) of
         (Some createdAt, Some expiresAt) \<Rightarrow> nowMs < createdAt \<or> expiresAt \<le> nowMs
       | _ \<Rightarrow> True)
       ''launcher context is expired or not yet valid'' ''launcher_context_expired''"

definition context_errors :: "mac \<Rightarrow> bytes_of \<Rightarrow> dates \<Rightarrow> jsval \<Rightarrow> jsval \<Rightarrow> jsval \<Rightarrow> jsval \<Rightarrow> int \<Rightarrow> guard_error option list" where
  "context_errors MAC BYTES DATE context secret expectedReviewedMetadata expectedActionBinding nowMs =
     [assertPlainObject context ''launcher context'',
      rejectUnknownKeys context CONTEXT_KEYS ''launcher context'',
      reject_if (\<not> strict_eq (js_get context ''schema_version'') (JInt 1) \<or>
          js_get context ''kind'' \<noteq> JStr ''launcher_role_guard_context'')
        ''launcher context kind or schema is invalid'' ''launcher_context_invalid'',
      assertPlainObject expectedReviewedMetadata ''expected reviewed metadata'',
      assertPlainObject expectedActionBinding ''expected action binding'',
      integrity_error MAC BYTES context secret] @
     concat (map (reviewed_field_errors context expectedReviewedMetadata) REVIEWED_FIELDS) @
     [run_id_error context expectedReviewedMetadata,
      reject_if (canonicalizeJson (js_get context ''role_context'') \<noteq> canonicalizeJson (js_get expectedReviewedMetadata ''role_context''))
        ''launcher context role context mismatch'' ''launcher_context_metadata_mismatch'',
      reject_if (js_get context ''action_binding'' = JUndef) ''launcher context action binding is missing''
        ''launcher_context_action_mismatch'',
      lifetime_error DATE nowMs context,
      assertString (js_get context ''nonce'') ''launcher context nonce'']"

text \<open>The result is a provenance with the authority of the launcher. \<open>nonces\<close> is \<open>None\<close> when there is no store. The nonce is
  marked before the action is compared.\<close>

definition verifyLauncherContext :: "mac \<Rightarrow> bytes_of \<Rightarrow> dates \<Rightarrow> jsval \<Rightarrow> jsval \<Rightarrow> jsval \<Rightarrow> jsval \<Rightarrow> nonce_files option \<Rightarrow> int \<Rightarrow>
    (guard_error + provenance) \<times> nonce_files option" where
  "verifyLauncherContext MAC BYTES DATE context secret expectedReviewedMetadata expectedActionBinding nonces nowMs =
     (case first_error (context_errors MAC BYTES DATE context secret expectedReviewedMetadata expectedActionBinding nowMs) of
        Some e \<Rightarrow> (Inl e, nonces)
      | None \<Rightarrow>
          (case nonces of
             None \<Rightarrow> (Inl (RoleGuardError ''launcher context nonce store is unavailable'' ''launcher_context_nonce_store_unavailable''), None)
           | Some files \<Rightarrow>
               (case checkAndMark (js_get context ''nonce'') (js_get context ''expires_at'') files of
                  (nonceAccepted, marked) \<Rightarrow>
                    (if \<not> nonceAccepted
                     then Inl (RoleGuardError ''launcher context nonce was already used'' ''launcher_context_replay'')
                     else if canonicalizeJson (js_get context ''action_binding'') \<noteq> canonicalizeJson expectedActionBinding
                     then Inl (RoleGuardError ''launcher context action binding mismatch'' ''launcher_context_action_mismatch'')
                     else Inr \<lparr>pv_fields = JObj [(''caller'', JStr ''agent_launch''), (''context'', context)],
                       pv_launcher_authority = True, pv_operator_authority = False\<rparr>,
                     Some marked))))"

section \<open>Minting\<close>

definition computeActionPayloadHash :: "hash \<Rightarrow> jsval \<Rightarrow> string" where
  "computeActionPayloadHash H64 payload = ''sha256:'' @ H64 (joined_text (canonicalizeJson payload))"

definition buildLauncherContextActionBinding :: "jsval \<Rightarrow> jsval \<Rightarrow> jsval \<Rightarrow> jsval \<Rightarrow> jsval \<Rightarrow> jsval \<Rightarrow> jsval \<Rightarrow> jsval \<Rightarrow> guard_error + jsval" where
  "buildLauncherContextActionBinding actionType repoRoot configPath role wk rawArgv0 targetSource0 targetHash0 =
     (let rawArgv = js_default JNull rawArgv0; targetSource = js_default JNull targetSource0; targetHash = js_default JNull targetHash0;
          normalizedWk = js_or_nullish wk JNull; command = (actionType = JStr ''check-command'') in
      checked (first_error
        [reject_if (\<not> is_nonempty_string actionType) ''action binding requires actionType'' ''launcher_context_invalid'',
         reject_if (\<not> is_nonempty_string repoRoot) ''action binding requires repoRoot'' ''launcher_context_invalid'',
         reject_if (\<not> is_nonempty_string configPath) ''action binding requires configPath'' ''launcher_context_invalid'',
         reject_if (\<not> is_nonempty_string role) ''action binding requires role'' ''launcher_context_invalid'',
         reject_if (normalizedWk \<noteq> JNull \<and> \<not> is_nonempty_string normalizedWk) ''action binding wk must be null or non-empty string''
           ''launcher_context_invalid'',
         reject_if (command \<and> js_items rawArgv = []) ''check-command action binding requires raw_argv'' ''launcher_context_invalid''])
       (JObj ([(''action_type'', actionType), (''config_path'', configPath), (''repo_root'', repoRoot), (''role'', role), (''wk'', normalizedWk)] @
          (if command then [(''raw_argv'', rawArgv)] else []) @
          (if targetSource \<noteq> JNull then [(''target_source'', targetSource)] else []) @
          (if targetHash \<noteq> JNull then [(''target_hash'', targetHash)] else []))))"

definition is_object_value :: "jsval \<Rightarrow> bool" where
  "is_object_value v \<longleftrightarrow> is_plain_object v \<or> is_array v"

text \<open>The context before it is signed.\<close>

definition unsigned_context :: "(int \<Rightarrow> string) \<Rightarrow> jsval \<Rightarrow> jsval \<Rightarrow> jsval \<Rightarrow> int \<Rightarrow> int \<Rightarrow> jsobj" where
  "unsigned_context ISO reviewedMetadata actionBinding nonce ttlMs nowMs =
     [(''schema_version'', JInt 1), (''kind'', JStr ''launcher_role_guard_context'')] @
     map (\<lambda>field. (field, js_get reviewedMetadata field)) (REVIEWED_FIELDS @ [''role_context'']) @
     [(''created_at'', JStr (ISO nowMs)), (''expires_at'', JStr (ISO (nowMs + ttlMs))), (''nonce'', nonce),
      (''action_binding'', actionBinding)] @
     (if nullish (js_get reviewedMetadata ''run_id'') then [] else [(''run_id'', js_get reviewedMetadata ''run_id'')])"

text \<open>\<open>random\<close> is the text of the random bytes, \<open>ttlSeconds\<close> a whole number.\<close>

definition mintLauncherContext :: "mac \<Rightarrow> (int \<Rightarrow> string) \<Rightarrow> string \<Rightarrow> jsval \<Rightarrow> jsval \<Rightarrow> jsval \<Rightarrow> int \<Rightarrow> int \<Rightarrow> jsval \<Rightarrow> guard_error + jsval" where
  "mintLauncherContext MAC ISO random secret reviewedMetadata actionBinding ttlSeconds nowMs nonce =
     and_then (checked (first_error
       [reject_if (\<not> is_nonempty_string secret) ''mintLauncherContext requires secret'' ''launcher_context_invalid'',
        reject_if (\<not> is_object_value reviewedMetadata) ''mintLauncherContext requires reviewedMetadata'' ''launcher_context_invalid'',
        reject_if (\<not> is_object_value actionBinding) ''mintLauncherContext requires actionBinding'' ''launcher_context_invalid'']) ()) (\<lambda>_.
     let context = unsigned_context ISO reviewedMetadata actionBinding (js_or_nullish nonce (JStr random)) (ttlSeconds * 1000) nowMs in
     and_then (signLauncherContext MAC (JObj context) secret) (\<lambda>integrity.
     Inr (JObj (context @ [(''integrity'', JStr integrity)]))))"

definition deriveExpectedReviewedMetadataFromContext :: "jsval \<Rightarrow> jsval" where
  "deriveExpectedReviewedMetadataFromContext context = JObj (
     map (\<lambda>field. (field, js_get context field)) (REVIEWED_FIELDS @ [''role_context'']) @
     (if nullish (js_get context ''run_id'') then [] else [(''run_id'', js_get context ''run_id'')]))"

end
