(* ===== verification/RoleGuardCommand.thy ===== *)
theory RoleGuardCommand
  imports LauncherContext
begin

text \<open>
  The command \<open>agent-launch role-guard\<close>, \<open>commands/role-guard.mjs\<close> of agent-launch-cli: its arguments, the action they name, the
  provenance from a JSON file or from a verified launcher context, and the decision. What it prints is left out, and so is the
  exit code, which is 1 unless the decision allows.

  The world of a run holds the files it reads by name, the directory it runs in, the parameters of the guard and of the launcher
  context, and the two times it reads from the clock (the collection of nonces, the verification). The state is the nonce files of
  each directory.
\<close>

datatype cli_error = RoleGuardCliError (ce_message: string) (ce_code: string) | GuardThrew guard_error

definition cli_fail :: "string \<Rightarrow> string \<Rightarrow> cli_error + 'a" where
  "cli_fail message code = Inl (RoleGuardCliError message code)"

fun from_guard :: "guard_error + 'a \<Rightarrow> cli_error + 'a" where
  "from_guard (Inl e) = Inl (GuardThrew e)"
| "from_guard (Inr x) = Inr x"

type_synonym cli_options = "(string \<times> jsval) list"
type_synonym nonce_dirs = "string \<Rightarrow> nonce_files"

record cli_world =
  cw_guard :: guard_world
  cw_file :: "string \<Rightarrow> file_answer"
  cw_cwd :: string
  cw_test_env :: bool
  cw_mac :: mac
  cw_bytes :: bytes_of
  cw_date :: dates
  cw_hash64 :: hash
  cw_secret_path :: string
  cw_nonce_dir :: string
  cw_collect_time :: int
  cw_verify_time :: int

section \<open>Arguments\<close>

definition SUBCOMMANDS :: "string list" where
  "SUBCOMMANDS = [''check-write'', ''check-diff'', ''check-command'', ''explain'']"

definition GLOBAL_OPTIONS :: "string list" where
  "GLOBAL_OPTIONS = [''repo-root'', ''config'', ''json'', ''provenance-json'', ''launcher-context'', ''allow-test-fixture'',
     ''launcher-context-secret-path'', ''launcher-context-nonce-dir'']"

definition SUBCOMMAND_OPTIONS :: "(string \<times> string list) list" where
  "SUBCOMMAND_OPTIONS = [(''check-write'', [''path'']), (''check-diff'', [''targets-json'']),
     (''check-command'', [''targets-json'', ''execution-proof-json'']), (''explain'', [])]"

definition allowed_options :: "string \<Rightarrow> string list" where
  "allowed_options subcommand = GLOBAL_OPTIONS @ (case map_of SUBCOMMAND_OPTIONS subcommand of None \<Rightarrow> [] | Some names \<Rightarrow> names)"

definition addOption :: "cli_options \<Rightarrow> string \<Rightarrow> jsval \<Rightarrow> cli_error + cli_options" where
  "addOption options name v =
     (case map_of options name of
        None \<Rightarrow> Inr (options @ [(name, if name = ''path'' then JArr [v] else v)])
      | Some current \<Rightarrow>
          if name = ''path'' then Inr (map (\<lambda>(k, w). (k, if k = name then JArr (js_items w @ [v]) else w)) options)
          else cli_fail (''Option may be supplied only once: --'' @ name) ''option_duplicate'')"

definition option_value :: "cli_options \<Rightarrow> string \<Rightarrow> jsval \<Rightarrow> jsval" where
  "option_value options name fallback = (case map_of options name of None \<Rightarrow> fallback | Some v \<Rightarrow> v)"

definition has_option :: "cli_options \<Rightarrow> string \<Rightarrow> bool" where
  "has_option options name \<longleftrightarrow> name \<in> set (map fst options)"

text \<open>\<open>token.slice(2).split("=", 2)\<close>: what follows a second equals sign is dropped.\<close>

definition split_option :: "string \<Rightarrow> string \<times> string option" where
  "split_option token = (case split_on (CHR ''='') (drop 2 token) of
     name # v # _ \<Rightarrow> (name, Some v) | [name] \<Rightarrow> (name, None) | [] \<Rightarrow> ([], None))"

definition value_missing :: "string \<Rightarrow> cli_error + 'a" where
  "value_missing name = cli_fail (''--'' @ name @ '' requires a value'') ''option_value_missing''"

fun parse_tokens :: "string \<Rightarrow> cli_options \<Rightarrow> string list \<Rightarrow> cli_error + cli_options" where
  "parse_tokens subcommand options [] = Inr options"
| "parse_tokens subcommand options (token # tokens) =
     (if \<not> starts_with token ''--'' then cli_fail (''Unexpected positional argument: '' @ token) ''unexpected_positional''
      else let name = fst (split_option token); inlineValue = snd (split_option token) in
        if name \<notin> set (allowed_options subcommand)
        then cli_fail (''Unknown option for role-guard '' @ subcommand @ '': --'' @ name) ''option_unknown''
        else if name = ''json'' \<or> name = ''allow-test-fixture''
        then (if inlineValue \<noteq> None then cli_fail (''--'' @ name @ '' does not take a value'') ''option_value_invalid''
              else and_then (addOption options name (JBool True)) (\<lambda>options. parse_tokens subcommand options tokens))
        else (case inlineValue of
            Some v \<Rightarrow>
              if starts_with v ''--'' then value_missing name
              else and_then (addOption options name (JStr v)) (\<lambda>options. parse_tokens subcommand options tokens)
          | None \<Rightarrow>
              (case tokens of
                 [] \<Rightarrow> value_missing name
               | v # others \<Rightarrow>
                   if starts_with v ''--'' then value_missing name
                   else and_then (addOption options name (JStr v)) (\<lambda>options. parse_tokens subcommand options others))))"

definition parseRoleGuardArgs :: "string list \<Rightarrow> cli_error + (string \<times> cli_options \<times> string list)" where
  "parseRoleGuardArgs argv =
     (let optionTokens = takeWhile (\<lambda>t. t \<noteq> ''--'') argv; separated = (''--'' \<in> set argv);
          commandArgv = tl (dropWhile (\<lambda>t. t \<noteq> ''--'') argv) in
      case optionTokens of
        [] \<Rightarrow> cli_fail ''Unknown or missing role-guard subcommand: <missing>'' ''subcommand_invalid''
      | subcommand # tokens \<Rightarrow>
          if subcommand \<notin> set SUBCOMMANDS
          then cli_fail (''Unknown or missing role-guard subcommand: '' @ subcommand) ''subcommand_invalid''
          else and_then (parse_tokens subcommand [] tokens) (\<lambda>options.
            if separated \<and> subcommand \<noteq> ''check-command''
            then cli_fail ''-- argv separator is valid only for check-command'' ''argv_separator_invalid''
            else if subcommand = ''check-command'' \<and> \<not> separated
            then cli_fail ''check-command requires -- followed by argv tokens'' ''command_argv_missing''
            else Inr (subcommand, options, commandArgv)))"

section \<open>Payloads\<close>

text \<open>A text outside the JSON that the model reads counts as one that is not JSON.\<close>

definition readJsonPayload :: "cli_world \<Rightarrow> jsval \<Rightarrow> string \<Rightarrow> cli_error + jsval" where
  "readJsonPayload w filePath name =
     (if \<not> truthy filePath then cli_fail (name @ '' is required'') ''json_payload_missing''
      else case cw_file w (string_of filePath) of
        FileMissing \<Rightarrow> cli_fail (name @ '' file not found: '' @ string_of filePath) ''json_payload_missing''
      | FileFails \<Rightarrow> Inl (GuardThrew OtherThrown)
      | FileText raw \<Rightarrow>
          (case json_parse (gw_numbers (cw_guard w)) raw of
             Read parsed r \<Rightarrow> Inr parsed
           | _ \<Rightarrow> cli_fail (name @ '' must contain valid JSON'') ''json_payload_malformed''))"

fun validateCommandArgv :: "string list \<Rightarrow> cli_error option" where
  "validateCommandArgv [] = None"
| "validateCommandArgv (token # tokens) =
     (if token = [] then Some (RoleGuardCliError ''command argv tokens must be non-empty strings'' ''command_argv_invalid'')
      else if list_ex is_space token
      then Some (RoleGuardCliError ''shell-string command payloads are ambiguous; pass argv tokens after --'' ''command_shell_string_rejected'')
      else validateCommandArgv tokens)"

definition command_argv_error :: "string list \<Rightarrow> cli_error option" where
  "command_argv_error commandArgv =
     (if commandArgv = [] then Some (RoleGuardCliError ''check-command requires at least one argv token'' ''command_argv_missing'')
      else validateCommandArgv commandArgv)"

definition buildAction :: "cli_world \<Rightarrow> string \<Rightarrow> cli_options \<Rightarrow> string list \<Rightarrow> cli_error + jsval" where
  "buildAction w subcommand options commandArgv =
     (if subcommand = ''check-write''
      then (let paths = option_value options ''path'' (JArr []) in
        if js_items paths = [] then cli_fail ''check-write requires at least one --path'' ''targets_missing''
        else Inr (JObj [(''type'', JStr ''check-write''), (''paths'', paths)]))
      else if subcommand = ''check-diff''
      then and_then (readJsonPayload w (option_value options ''targets-json'' JUndef) ''--targets-json'') (\<lambda>payload.
        Inr (JObj [(''type'', JStr ''check-diff''), (''target_payload'', payload)]))
      else if subcommand = ''check-command''
      then (case command_argv_error commandArgv of
          Some e \<Rightarrow> Inl e
        | None \<Rightarrow>
            and_then (readJsonPayload w (option_value options ''execution-proof-json'' JUndef) ''--execution-proof-json'') (\<lambda>proof.
            and_then (if has_option options ''targets-json''
              then and_then (readJsonPayload w (option_value options ''targets-json'' JUndef) ''--targets-json'') (\<lambda>payload.
                Inr [(''target_payload'', payload)])
              else Inr []) (\<lambda>targets.
            Inr (JObj ([(''type'', JStr ''check-command''), (''argv'', JArr (map JStr commandArgv)), (''execution_proof'', proof)] @ targets)))))
      else cli_fail (''Unsupported role-guard action: '' @ subcommand) ''subcommand_invalid'')"

section \<open>Provenance\<close>

definition authority_unverified :: "string \<Rightarrow> cli_error" where
  "authority_unverified message = RoleGuardCliError message ''launcher_authority_unverified''"

fun first_some :: "'a option list \<Rightarrow> 'a option" where
  "first_some [] = None"
| "first_some (None # xs) = first_some xs"
| "first_some (Some x # xs) = Some x"

text \<open>\<open>assertNoSerializableLauncherAuthorityKeys\<close>, for the name of a value.\<close>

primrec authority_key_error :: "jsval \<Rightarrow> string \<Rightarrow> cli_error option" where
  "authority_key_error JUndef = (\<lambda>name. None)"
| "authority_key_error JNull = (\<lambda>name. None)"
| "authority_key_error (JBool b) = (\<lambda>name. None)"
| "authority_key_error (JNum n) = (\<lambda>name. None)"
| "authority_key_error (JStr s) = (\<lambda>name. None)"
| "authority_key_error (JArr xs) = (\<lambda>name.
     first_some (map (\<lambda>(i, check). check (name @ ''['' @ dec_nat i @ '']'')) (enumerate 0 (map authority_key_error xs))))"
| "authority_key_error (JObj kvs) = (\<lambda>name. first_some (map (\<lambda>(key, check).
     if key = ''launcher_context_verified'' \<or> key = ''launcher_capability''
     then Some (authority_unverified (name @ ''.'' @ key @ '' cannot assert launcher authority through JSON''))
     else check (name @ ''.'' @ key)) (map (map_prod id authority_key_error) kvs)))"

definition source_authority_error :: "jsval \<Rightarrow> string \<Rightarrow> cli_error option" where
  "source_authority_error provenance field =
     (let source = js_get (js_get provenance field) ''source'' in
      if source = JStr ''launcher_metadata'' \<or> source = JStr ''launcher_env''
      then Some (authority_unverified (field @ '' source '' @ string_of source @ '' requires verified launcher context'')) else None)"

definition assertNoSerializableLauncherAuthority :: "jsval \<Rightarrow> cli_error option" where
  "assertNoSerializableLauncherAuthority provenance = first_some (
     [authority_key_error provenance ''provenance'',
      if js_get provenance ''caller'' = JStr ''agent_launch''
      then Some (authority_unverified ''caller agent_launch requires verified launcher context'') else None] @
     map (source_authority_error provenance) [''role'', ''wk'', ''operator_write_scope'', ''session_name''])"

text \<open>The command has a \<open>normalizeRepoRelativePath\<close> of its own.\<close>

definition cli_normalize_path :: "jsval \<Rightarrow> string \<Rightarrow> cli_error + string" where
  "cli_normalize_path input name =
     (case input of
        JStr (c # s) \<Rightarrow>
          let slashPath = slashes (c # s); normalized = path_normalize slashPath in
          if starts_with slashPath ''/'' then cli_fail (name @ '' must be repo-relative'') ''path_absolute_rejected''
          else if normalized = ''.'' \<or> starts_with normalized ''../'' \<or> normalized = ''..''
          then cli_fail (name @ '' must remain inside repo'') ''path_outside_repo''
          else Inr normalized
      | _ \<Rightarrow> cli_fail (name @ '' must be a non-empty string'') ''path_invalid'')"

fun cli_normalize_paths :: "jsval list \<Rightarrow> cli_error + string list" where
  "cli_normalize_paths [] = Inr []"
| "cli_normalize_paths (p # ps) =
     and_then (cli_normalize_path p ''check-write path'') (\<lambda>n. and_then (cli_normalize_paths ps) (\<lambda>ns. Inr (n # ns)))"

text \<open>The hash of a validated payload: its source and its normalized targets.\<close>

definition payload_hash :: "cli_world \<Rightarrow> target_payload \<Rightarrow> jsval" where
  "payload_hash w validated = JStr (computeActionPayloadHash (cw_hash64 w)
     (JObj [(''target_source'', tp_source validated), (''targets'', JArr (tp_targets validated))]))"

definition buildExpectedActionBinding :: "cli_world \<Rightarrow> jsval \<Rightarrow> jsval \<Rightarrow> jsval \<Rightarrow> jsval \<Rightarrow> jsval \<Rightarrow> cli_error + jsval" where
  "buildExpectedActionBinding w action repoRoot configPath role wk =
     (let type = js_get action ''type''; payload = js_get action ''target_payload'' in
      if type = JStr ''check-write''
      then and_then (cli_normalize_paths (js_items (js_get action ''paths''))) (\<lambda>normalizedPaths.
        from_guard (buildLauncherContextActionBinding type repoRoot configPath role wk JUndef JUndef
          (JStr (computeActionPayloadHash (cw_hash64 w) (JArr (map JStr (sort normalizedPaths)))))))
      else if type = JStr ''check-diff''
      then and_then (from_guard (validateTargetPayload payload None True)) (\<lambda>validated.
        from_guard (buildLauncherContextActionBinding type repoRoot configPath role wk JUndef (tp_source validated) (payload_hash w validated)))
      else if type = JStr ''check-command''
      then and_then (from_guard (buildLauncherContextActionBinding type repoRoot configPath role wk (js_get action ''argv'') JUndef JUndef))
        (\<lambda>binding.
        if payload = JUndef then Inr binding
        else and_then (from_guard (validateTargetPayload payload None True)) (\<lambda>validated.
          Inr (js_put ''target_hash'' (payload_hash w validated) (js_put ''target_source'' (tp_source validated) binding))))
      else cli_fail (''Unsupported launcher-context action type: '' @ kind_text type) ''subcommand_invalid'')"

definition evidence :: "jsval \<Rightarrow> string \<Rightarrow> jsval" where
  "evidence v source = JObj [(''value'', v), (''source'', JStr source)]"

definition context_role :: "jsval \<Rightarrow> jsval" where
  "context_role context = js_get (js_get context ''role_context'') ''role''"

definition context_wk :: "jsval \<Rightarrow> jsval" where
  "context_wk context = js_or_nullish (js_get (js_get context ''role_context'') ''wk'') JNull"

definition launcherProvenanceFromContext :: "jsval \<Rightarrow> jsval \<Rightarrow> cli_error + provenance" where
  "launcherProvenanceFromContext context configPath =
     (let wk = context_wk context in
      if \<not> is_nonempty_string (context_role context) then cli_fail ''launcher context role_context.role is required'' ''launcher_context_invalid''
      else Inr \<lparr>pv_fields = JObj
          [(''caller'', JStr ''agent_launch''), (''role'', evidence (context_role context) ''launcher_metadata''),
           (''wk'', if truthy wk then evidence wk ''launcher_metadata'' else evidence JNull ''absent''),
           (''operator_write_scope'', evidence JNull ''absent''),
           (''config'', JObj [(''path'', configPath), (''source'', JStr ''repo_config'')]),
           (''session_name'', JObj [(''value'', JNull), (''source'', JStr ''absent''), (''trusted'', JBool False)])],
         pv_launcher_authority = True, pv_operator_authority = False\<rparr>)"

definition read_secret :: "cli_world \<Rightarrow> string \<Rightarrow> string \<Rightarrow> cli_error + jsval" where
  "read_secret w secretPath hint =
     (case cw_file w secretPath of
        FileMissing \<Rightarrow> Inl (GuardThrew (RoleGuardError (''launcher role-guard secret missing at '' @ secretPath @ hint) ''launcher_context_secret_missing''))
      | FileFails \<Rightarrow> Inl (GuardThrew OtherThrown)
      | FileText raw \<Rightarrow>
          if js_trim raw = []
          then Inl (GuardThrew (RoleGuardError (''launcher role-guard secret at '' @ secretPath @ '' is empty'') ''launcher_context_secret_missing''))
          else Inr (JStr (js_trim raw)))"

definition context_secret :: "cli_world \<Rightarrow> cli_options \<Rightarrow> cli_error + jsval" where
  "context_secret w options =
     (case option_value options ''launcher-context-secret-path'' JUndef of
        JUndef \<Rightarrow> read_secret w (cw_secret_path w) ''; run agent-launch init-config''
      | secretPath \<Rightarrow> read_secret w (string_of secretPath) [])"

definition nonce_dir :: "cli_world \<Rightarrow> cli_options \<Rightarrow> string" where
  "nonce_dir w options =
     (case option_value options ''launcher-context-nonce-dir'' JUndef of JUndef \<Rightarrow> cw_nonce_dir w | dir \<Rightarrow> string_of dir)"

text \<open>The part before the nonce store: the context, the binding it must have, and the secret.\<close>

definition context_inputs :: "cli_world \<Rightarrow> cli_options \<Rightarrow> jsval \<Rightarrow> jsval \<Rightarrow> jsval \<Rightarrow> bool \<Rightarrow> cli_error + (jsval \<times> jsval \<times> jsval)" where
  "context_inputs w options action repoRoot configPath allowTestFixture =
     and_then (readJsonPayload w (option_value options ''launcher-context'' JUndef) ''--launcher-context'') (\<lambda>ctx.
     if \<not> is_nonempty_string (context_role ctx) then cli_fail ''launcher context role_context.role is required'' ''launcher_context_invalid''
     else and_then (buildExpectedActionBinding w action repoRoot configPath (context_role ctx) (context_wk ctx)) (\<lambda>binding.
     if (has_option options ''launcher-context-secret-path'' \<or> has_option options ''launcher-context-nonce-dir'') \<and> \<not> allowTestFixture
     then cli_fail ''launcher context overrides are test-only'' ''test_fixture_rejected''
     else and_then (context_secret w options) (\<lambda>secret. Inr (ctx, binding, secret))))"

definition loadVerifiedLauncherContext :: "cli_world \<Rightarrow> cli_options \<Rightarrow> jsval \<Rightarrow> jsval \<Rightarrow> jsval \<Rightarrow> bool \<Rightarrow> nonce_dirs \<Rightarrow>
    (cli_error + jsval) \<times> nonce_dirs" where
  "loadVerifiedLauncherContext w options action repoRoot configPath allowTestFixture dirs =
     (case context_inputs w options action repoRoot configPath allowTestFixture of
        Inl e \<Rightarrow> (Inl e, dirs)
      | Inr (ctx, binding, secret) \<Rightarrow>
          let dir = nonce_dir w options in
          (case gcExpiredNonces (gw_numbers (cw_guard w)) (cw_date w) (cw_collect_time w) (dirs dir) of
             (Some e, files) \<Rightarrow> (Inl (GuardThrew e), dirs(dir := files))
           | (None, files) \<Rightarrow>
               (case verifyLauncherContext (cw_mac w) (cw_bytes w) (cw_date w) ctx secret
                   (deriveExpectedReviewedMetadataFromContext ctx) binding (Some files) (cw_verify_time w) of
                  (answer, marked) \<Rightarrow>
                    (case answer of Inl e \<Rightarrow> Inl (GuardThrew e) | Inr p \<Rightarrow> Inr ctx,
                     dirs(dir := case marked of None \<Rightarrow> files | Some fs \<Rightarrow> fs)))))"

section \<open>The run\<close>

definition testFixtureFlagEnabled :: "cli_world \<Rightarrow> cli_options \<Rightarrow> bool" where
  "testFixtureFlagEnabled w options \<longleftrightarrow> truthy (option_value options ''allow-test-fixture'' (JBool False)) \<and> cw_test_env w"

text \<open>A provenance that is \<open>null\<close> makes the guard throw; no other JSON value does.\<close>

definition json_provenance :: "cli_world \<Rightarrow> cli_options \<Rightarrow> cli_error + provenance" where
  "json_provenance w options =
     and_then (readJsonPayload w (option_value options ''provenance-json'' JUndef) ''--provenance-json'') (\<lambda>fields.
     case assertNoSerializableLauncherAuthority fields of
       Some e \<Rightarrow> Inl e
     | None \<Rightarrow>
         if fields = JNull then Inl (GuardThrew OtherThrown)
         else Inr \<lparr>pv_fields = fields, pv_launcher_authority = False, pv_operator_authority = False\<rparr>)"

definition run_provenance :: "cli_world \<Rightarrow> cli_options \<Rightarrow> jsval \<Rightarrow> jsval \<Rightarrow> jsval \<Rightarrow> nonce_dirs \<Rightarrow> (cli_error + provenance) \<times> nonce_dirs" where
  "run_provenance w options action repoRoot configPath dirs =
     (if has_option options ''launcher-context''
      then (if has_option options ''provenance-json''
            then (cli_fail ''--launcher-context and --provenance-json are mutually exclusive'' ''option_conflict'', dirs)
            else (case loadVerifiedLauncherContext w options action repoRoot configPath (testFixtureFlagEnabled w options) dirs of
                (loaded, dirs') \<Rightarrow> (and_then loaded (\<lambda>ctx. launcherProvenanceFromContext ctx configPath), dirs')))
      else (json_provenance w options, dirs))"

definition guarded_action :: "cli_world \<Rightarrow> string \<Rightarrow> cli_options \<Rightarrow> string list \<Rightarrow> jsval \<Rightarrow> jsval \<Rightarrow> cli_error + (jsval \<times> jsval)" where
  "guarded_action w subcommand options commandArgv repoRoot configPath =
     and_then (from_guard (loadRoleGuardConfig (gw_regexps (cw_guard w)) (gw_numbers (cw_guard w)) (gw_fs (cw_guard w)) repoRoot configPath
       JUndef False)) (\<lambda>config.
     and_then (buildAction w subcommand options commandArgv) (\<lambda>action. Inr (config, action)))"

definition guard_request_of :: "cli_world \<Rightarrow> cli_options \<Rightarrow> jsval \<Rightarrow> jsval \<Rightarrow> jsval \<Rightarrow> provenance \<Rightarrow> guard_request" where
  "guard_request_of w options config repoRoot action p = \<lparr>gq_config = config, gq_repoRoot = repoRoot, gq_provenance = p,
     gq_action = action, gq_workerScope = JNull, gq_allowTestFixture = testFixtureFlagEnabled w options\<rparr>"

text \<open>\<open>Inr None\<close>: the run explained itself.\<close>

definition runRoleGuard :: "cli_world \<Rightarrow> string list \<Rightarrow> nonce_dirs \<Rightarrow> (cli_error + guard_decision option) \<times> nonce_dirs" where
  "runRoleGuard w argv dirs =
     (case parseRoleGuardArgs argv of
        Inl e \<Rightarrow> (Inl e, dirs)
      | Inr (subcommand, options, commandArgv) \<Rightarrow>
          if subcommand = ''explain'' then (Inr None, dirs)
          else
          let repoRoot = option_value options ''repo-root'' (JStr (cw_cwd w));
              configPath = option_value options ''config'' (JStr ''.agent-role-guard.json'') in
          (case guarded_action w subcommand options commandArgv repoRoot configPath of
             Inl e \<Rightarrow> (Inl e, dirs)
           | Inr (config, action) \<Rightarrow>
               (case run_provenance w options action repoRoot configPath dirs of
                  (p, dirs') \<Rightarrow>
                    (and_then p (\<lambda>p. and_then (from_guard (evaluateRoleGuardAction (cw_guard w)
                       (guard_request_of w options config repoRoot action p))) (\<lambda>d. Inr (Some d))), dirs'))))"

end
