(* ===== verification/GuardPathProperties.thy ===== *)
theory GuardPathProperties
  imports RoleGuardPaths
begin

text \<open>
  Properties of the path policy: the meaning of the glob patterns, what a directory pattern covers, and that an accepted path is
  normal and stays inside the repository.
\<close>

section \<open>Patterns\<close>

fun atom_accepts :: "glob_atom \<Rightarrow> string \<Rightarrow> bool" where
  "atom_accepts AnyText s \<longleftrightarrow> \<not> list_ex line_terminator s"
| "atom_accepts AnyInSegment s \<longleftrightarrow> CHR ''/'' \<notin> set s"
| "atom_accepts (Exactly c) s \<longleftrightarrow> s = [c]"

text \<open>A text is spelled by a list of atoms when it is cut into one piece for each of them.\<close>

definition spelled :: "glob_atom list \<Rightarrow> string \<Rightarrow> bool" where
  "spelled atoms s \<longleftrightarrow> (\<exists>pieces. list_all2 atom_accepts atoms pieces \<and> concat pieces = s)"

lemma spelled_Nil [simp]: "spelled [] s \<longleftrightarrow> s = []"
  by (auto simp: spelled_def)

lemma spelled_Cons: "spelled (a # atoms) s \<longleftrightarrow> (\<exists>x y. s = x @ y \<and> atom_accepts a x \<and> spelled atoms y)"
  unfolding spelled_def list_all2_Cons1 by (metis concat.simps(2))

lemma split_first:
  "(\<exists>x y. s = x @ y \<and> P x \<and> Q y) \<longleftrightarrow>
   P [] \<and> Q s \<or> (case s of [] \<Rightarrow> False | d # r \<Rightarrow> \<exists>x y. r = x @ y \<and> P (d # x) \<and> Q y)"
proof
  assume "\<exists>x y. s = x @ y \<and> P x \<and> Q y"
  then obtain x y where "s = x @ y" "P x" "Q y" by blast
  then show "P [] \<and> Q s \<or> (case s of [] \<Rightarrow> False | d # r \<Rightarrow> \<exists>x y. r = x @ y \<and> P (d # x) \<and> Q y)" by (cases x) auto
next
  assume "P [] \<and> Q s \<or> (case s of [] \<Rightarrow> False | d # r \<Rightarrow> \<exists>x y. r = x @ y \<and> P (d # x) \<and> Q y)"
  then show "\<exists>x y. s = x @ y \<and> P x \<and> Q y"
  proof
    assume "P [] \<and> Q s"
    then show ?thesis by (intro exI [of _ "[]"] exI [of _ s]) simp
  next
    assume "case s of [] \<Rightarrow> False | d # r \<Rightarrow> \<exists>x y. r = x @ y \<and> P (d # x) \<and> Q y"
    then obtain d x y where "s = (d # x) @ y" "P (d # x)" "Q y" by (auto split: list.splits)
    then show ?thesis by blast
  qed
qed

lemma spelled_many:
  assumes "\<And>d x. atom_accepts a (d # x) \<longleftrightarrow> ok d \<and> atom_accepts a x" and "atom_accepts a []"
  shows "spelled (a # atoms) s \<longleftrightarrow>
    spelled atoms s \<or> (case s of [] \<Rightarrow> False | d # r \<Rightarrow> ok d \<and> spelled (a # atoms) r)"
  unfolding spelled_Cons by (subst split_first) (auto simp: assms split: list.split)

lemma regex_test_spelled: "regex_test atoms s \<longleftrightarrow> spelled atoms s"
proof (induction atoms s rule: regex_test.induct)
  case (2 c ts s)
  then show ?case by (auto simp: spelled_Cons split: list.split)
next
  case (3 ts s)
  have "spelled (AnyText # ts) s \<longleftrightarrow>
      spelled ts s \<or> (case s of [] \<Rightarrow> False | d # r \<Rightarrow> \<not> line_terminator d \<and> spelled (AnyText # ts) r)"
    by (rule spelled_many) simp_all
  then show ?case using 3 by (auto split: list.splits)
next
  case (4 ts s)
  have "spelled (AnyInSegment # ts) s \<longleftrightarrow>
      spelled ts s \<or> (case s of [] \<Rightarrow> False | d # r \<Rightarrow> d \<noteq> CHR ''/'' \<and> spelled (AnyInSegment # ts) r)"
    by (rule spelled_many) auto
  then show ?case using 4 by (auto split: list.splits)
qed simp

text \<open>What a pattern means: \<open>**\<close> stands for any text of one line, a star that is not doubled for any text within a segment, and
  every other character for itself.\<close>

inductive glob_matches :: "string \<Rightarrow> string \<Rightarrow> bool" where
  glob_end: "glob_matches [] []"
| glob_char: "c \<noteq> CHR ''*'' \<Longrightarrow> glob_matches p s \<Longrightarrow> glob_matches (c # p) (c # s)"
| glob_star: "p = [] \<or> hd p \<noteq> CHR ''*'' \<Longrightarrow> CHR ''/'' \<notin> set x \<Longrightarrow> glob_matches p s \<Longrightarrow> glob_matches (CHR ''*'' # p) (x @ s)"
| glob_stars: "\<not> list_ex line_terminator x \<Longrightarrow> glob_matches p s \<Longrightarrow> glob_matches (CHR ''*'' # CHR ''*'' # p) (x @ s)"

inductive_simps glob_matches_Nil [simp]: "glob_matches [] s"
inductive_simps glob_matches_Cons: "glob_matches (c # p) s"

lemma spelled_glob: "spelled (glob_atoms p) s \<longleftrightarrow> glob_matches p s"
proof (induction p arbitrary: s rule: glob_atoms.induct)
  case (2 c p)
  then show ?case
    by (cases p) (auto simp: glob_matches_Cons [of c] spelled_Cons)
qed simp

text \<open>C22: The regular expression that the guard builds from a pattern accepts exactly the texts that the pattern means: two stars
  stand for any text without a line end, one star for any text within a segment, every other character for itself.\<close>

theorem glob_matches_reference: "regex_test (glob_atoms pattern) s \<longleftrightarrow> glob_matches pattern s"
  unfolding regex_test_spelled by (rule spelled_glob)

lemma regex_exactly: "regex_test (map Exactly x @ atoms) (x @ s) = regex_test atoms s"
  by (induction x) simp_all

lemma regex_any_text: "regex_test [AnyText] s \<longleftrightarrow> \<not> list_ex line_terminator s"
  by (auto simp: regex_test_spelled spelled_Cons)

lemma glob_atoms_literal: "CHR ''*'' \<notin> set x \<Longrightarrow> glob_atoms (x @ s) = map Exactly x @ glob_atoms s"
  by (induction x) auto

lemma slashes_none: "CHR 0x5C \<notin> set s \<Longrightarrow> slashes s = s"
  unfolding slashes_def by (induction s) auto

lemma no_dots_append: "\<not> js_includes x ''..'' \<Longrightarrow> \<not> js_includes (x @ ''/**'') ''..''"
proof (induction x)
  case (Cons c s)
  then show ?case by (cases s) auto
qed simp

text \<open>The pattern \<open>dir/**\<close> covers what lies below the directory, as far as the path has no line end: a path below it
  that contains a line feed or a carriage return is not matched, so that a deny pattern of this form lets it pass.\<close>

theorem directory_pattern_covers:
  assumes "CHR ''*'' \<notin> set dir" and "CHR 0x5C \<notin> set dir" and "\<not> js_includes dir ''..''"
  shows "matchesAny (dir @ CHR ''/'' # rest) (JArr [JStr (dir @ ''/**'')]) = Inr (\<not> list_ex line_terminator rest)"
proof -
  have "validatePattern (JStr (dir @ ''/**'')) name = Inr (dir @ ''/**'')" for name
    using assms no_dots_append [OF assms(3)]
    by (cases dir) (auto simp: validatePattern_def slashes_none Let_def)
  moreover have "glob_atoms (dir @ ''/**'') = map Exactly dir @ [Exactly (CHR ''/''), AnyText]"
    using glob_atoms_literal [OF assms(1)] by simp
  ultimately show ?thesis
    using regex_exactly [of dir "[Exactly (CHR ''/''), AnyText]" "CHR ''/'' # rest"]
    by (simp add: matchesAny_def globToRegExp_def regex_any_text del: regex_test.simps(3))
   
qed

lemma directory_pattern_covers_witness:
  "matchesAny ''keys/a'' (JArr [JStr ''keys/**'']) = Inr True \<and>
   matchesAny (''keys/a'' @ [CHR 0x0A]) (JArr [JStr ''keys/**'']) = Inr False"
  using directory_pattern_covers [of "''keys''" "''a''"] directory_pattern_covers [of "''keys''" "''a'' @ [CHR 0x0A]"]
  by (simp add: line_terminator_def)

section \<open>Normal paths\<close>

lemma plain_not_up: "plain_segment x \<Longrightarrow> x \<noteq> ''..''"
  by (simp add: plain_segment_def)

lemma normal_segments_relative:
  assumes "list_all plain_segment ps" and "list_all (\<lambda>x. CHR ''/'' \<notin> set x) xs"
  shows "\<exists>n qs. normal_segments True (ps @ replicate n0 ''..'') xs = replicate n ''..'' @ qs \<and> list_all plain_segment qs"
  using assms
proof (induction xs arbitrary: ps n0)
  case Nil
  then show ?case by (intro exI [of _ n0] exI [of _ "rev ps"]) (simp add: list_all_iff)
next
  case (Cons x xs)
  note rest = Cons.IH [OF _ conjunct2 [OF Cons.prems(2) [unfolded list.pred_inject(2)]]]
  consider "x = [] \<or> x = ''.''" | "x = ''..''" | "plain_segment x"
    using Cons.prems(2) by (auto simp: plain_segment_def)
  then show ?case
  proof cases
    case 2
    then show ?thesis
    proof (cases ps)
      case Nil
      have "normal_segments True (replicate n0 ''..'') (x # xs) = normal_segments True (replicate (Suc n0) ''..'') xs"
        using 2 by (cases n0) simp_all
      then show ?thesis using Nil rest [of "[]" "Suc n0"] by (simp del: replicate_Suc normal_segments.simps)
    next
      case (Cons y ys)
      then show ?thesis using 2 rest [of ys n0] \<open>list_all plain_segment ps\<close> plain_not_up [of y] by simp
    qed
  next
    case 3
    then show ?thesis using rest [of "x # ps" n0] Cons.prems(1) by (auto simp: plain_segment_def)
  qed (use rest [OF Cons.prems(1)] in auto)
qed

lemma normal_segments_through:
  "list_all plain_segment xs \<Longrightarrow> normal_segments a acc (xs @ ys) = normal_segments a (rev xs @ acc) ys"
  by (induction xs arbitrary: acc) (auto simp: plain_segment_def)

lemma join_ups:
  assumes "join_with ''/'' (''..'' # zs) = p"
  shows "p = ''..'' \<or> starts_with p ''../''" and "starts_with (p @ ''/'') ''../''"
  using assms by (cases zs; auto)+

lemma normalize_relative:
  assumes "p \<noteq> []" and "hd p \<noteq> CHR ''/''" and "path_normalize p = r"
    and "r \<noteq> ''.''" and "\<not> starts_with r ''../''" and "r \<noteq> ''..''"
  shows "\<exists>xs. list_all plain_segment xs \<and> (xs = [] \<and> r = ''./'' \<or> xs \<noteq> [] \<and> (r = join_with ''/'' xs \<or> r = join_with ''/'' xs @ ''/''))"
proof -
  let ?xs = "normal_segments True [] (split_on (CHR ''/'') p)"
  obtain n qs where xs: "?xs = replicate n ''..'' @ qs" and qs: "list_all plain_segment qs"
    using normal_segments_relative [of "[]" "split_on (CHR ''/'') p" 0] split_on_clean by auto
  have r: "r = (if join_with ''/'' ?xs = [] then (if last p = CHR ''/'' then ''./'' else ''.'')
      else join_with ''/'' ?xs @ (if last p = CHR ''/'' then ''/'' else []))"
    using assms(1,2,3) by (auto simp: path_normalize_def Let_def)
  have "n = 0"
  proof (rule ccontr)
    assume "n \<noteq> 0"
    then obtain zs where zs: "?xs = ''..'' # zs" using xs by (cases n) auto
    have "join_with ''/'' ?xs \<noteq> []" unfolding zs by (cases zs) auto
    then show False using r assms(5,6) join_ups [OF refl, of zs] unfolding zs by (auto split: if_splits)
  qed
  then show ?thesis using xs qs r assms(4) join_nonempty [of qs]
    by (intro exI [of _ qs]) (cases "qs = []"; auto split: if_splits)
qed

lemma resolve_plain:
  assumes "list_all plain_segment root" and "list_all plain_segment xs"
    and "split_on (CHR ''/'') p = xs @ ys" and "set ys \<subseteq> {[], ''.''}"
  shows "path_resolve (abs_path root) p = abs_path (root @ xs)"
proof -
  have skip: "set zs \<subseteq> {[], ''.''} \<Longrightarrow> normal_segments a acc zs = rev acc" for a acc zs by (induction zs) auto
  have "split_on (CHR ''/'') (join_with ''/'' root) = (if root = [] then [[]] else root)"
    using split_on_join [OF plain_no_slash [OF assms(1)]] by (cases "root = []") simp_all
  then have "split_on (CHR ''/'') (abs_path root @ CHR ''/'' # p) = [] # (if root = [] then [[]] else root) @ xs @ ys"
    by (simp add: abs_path_def split_on_append assms(3))
  then show ?thesis
    using normal_segments_through [OF assms(1), of False "[]" "xs @ ys"] normal_segments_through [OF assms(2), of False _ ys] skip [OF assms(4)]
    by (simp add: path_resolve_def abs_path_def)
qed

lemma slashes_Cons: "slashes (c # s) = (if c = CHR 0x5C then CHR ''/'' else c) # slashes s"
  by (simp add: slashes_def)

text \<open>C21: A path the guard accepts is normal and stays inside: it is \<open>./\<close> or plain segments, none of them empty, a dot or two
  dots, with no NUL byte, and resolving it against a directory gives the entry that its segments name under that directory.\<close>

theorem normal_paths_stay_inside:
  assumes "normalizeRepoRelativePath v name = Inr p"
  shows "\<exists>xs. list_all plain_segment xs \<and> CHR 0x00 \<notin> set p \<and>
    (xs = [] \<and> p = ''./'' \<or> xs \<noteq> [] \<and> (p = join_with ''/'' xs \<or> p = join_with ''/'' xs @ ''/'')) \<and>
    (\<forall>root. list_all plain_segment root \<longrightarrow> path_resolve (abs_path root) p = abs_path (root @ xs))"
proof -
  obtain c s where v: "v = JStr (c # s)" using assms by (auto simp: normalizeRepoRelativePath_def split: jsval.splits list.splits)
  have p: "p = path_normalize (slashes (c # s))" "\<not> starts_with (slashes (c # s)) ''/''"
      "p \<noteq> ''.''" "\<not> starts_with p ''../''" "p \<noteq> ''..''" "CHR 0x00 \<notin> set p"
    using assms by (auto simp: v normalizeRepoRelativePath_def Let_def split: if_splits)
  obtain xs where xs: "list_all plain_segment xs"
      "xs = [] \<and> p = ''./'' \<or> xs \<noteq> [] \<and> (p = join_with ''/'' xs \<or> p = join_with ''/'' xs @ ''/'')"
    using normalize_relative [of "slashes (c # s)" p] p by (auto simp: slashes_Cons split: if_splits)
  have "\<exists>ys. split_on (CHR ''/'') p = xs @ ys \<and> set ys \<subseteq> {[], ''.''}"
    using xs(2) split_on_join [OF plain_no_slash [OF xs(1)]] split_on_append [of "CHR ''/''" "join_with ''/'' xs" "[]"] by auto
  then show ?thesis using xs p(6) resolve_plain by blast
qed

lemma normal_paths_stay_inside_witness:
  "\<exists>xs. path_resolve (abs_path [''repo'']) ''src/a.ts'' = abs_path ([''repo''] @ xs)"
proof -
  have "normalizeRepoRelativePath (JStr ''src/x/../a.ts'') ''path'' = Inr ''src/a.ts''" by code_simp
  moreover have "list_all plain_segment [''repo'']" by (simp add: plain_segment_def)
  ultimately show ?thesis using normal_paths_stay_inside [of "JStr ''src/x/../a.ts''" "''path''"] by blast
qed

end
