(* ===== verification/RoleGuardProperties.thy ===== *)
theory RoleGuardProperties
  imports RoleGuard GuardPathProperties
begin

text \<open>
  Properties of the role guard: where a role comes from, what holds of a write or a command that is allowed, the meaning of the deny
  list, and the targets that a payload names. The last sections evaluate the guard on an example.
\<close>

section \<open>The targets of a write\<close>

text \<open>The path of each component below the root, and: none is a symbolic link as far as the path exists.\<close>

definition component_path :: "string \<Rightarrow> string list \<Rightarrow> string" where
  "component_path root parts = foldl (\<lambda>dir part. path_join [dir, part]) root parts"

definition free_of_symlinks :: "guard_fs \<Rightarrow> string \<Rightarrow> string \<Rightarrow> bool" where
  "free_of_symlinks fs root p \<longleftrightarrow> (let parts = split_on (CHR ''/'') p in
     \<forall>k < length parts. (\<forall>j < k. fs_lstat fs (component_path root (take (Suc j) parts)) = OtherEntry) \<longrightarrow>
       fs_lstat fs (component_path root (take (Suc k) parts)) \<noteq> SymbolicLink)"

lemma reject_symlinks_None:
  "reject_symlinks fs name dir parts = None \<Longrightarrow> k < length parts \<Longrightarrow>
   (\<forall>j < k. fs_lstat fs (component_path dir (take (Suc j) parts)) = OtherEntry) \<Longrightarrow>
   fs_lstat fs (component_path dir (take (Suc k) parts)) \<noteq> SymbolicLink"
proof (induction parts arbitrary: dir k)
  case (Cons part parts)
  let ?entry = "path_join [dir, part]"
  have step: "component_path dir (take (Suc j) (part # parts)) = component_path ?entry (take j parts)" for j
    by (simp add: component_path_def)
  show ?case
  proof (cases k)
    case 0
    then show ?thesis using Cons.prems(1) by (auto simp: component_path_def Let_def)
  next
    case (Suc m)
    have "fs_lstat fs ?entry = OtherEntry" using Cons.prems(3) Suc by (auto simp: component_path_def)
    then have "reject_symlinks fs name ?entry parts = None" using Cons.prems(1) by (simp add: Let_def)
    moreover have "\<forall>j < m. fs_lstat fs (component_path ?entry (take (Suc j) parts)) = OtherEntry"
      using Cons.prems(3) Suc by (auto simp: step simp del: take_Suc_Cons)
    ultimately show ?thesis using Cons.IH [of ?entry m] Cons.prems(2) Suc by (simp only: step) simp
  qed
qed simp

text \<open>What every target of an allowed write, or of an allowed command with targets, fulfils.\<close>

definition safe_target :: "guard_fs \<Rightarrow> string \<Rightarrow> jsval \<Rightarrow> string \<Rightarrow> bool" where
  "safe_target fs root deny p \<longleftrightarrow> (\<exists>v. normalizeRepoRelativePath v ''target path'' = Inr p) \<and>
     matchesAny p deny = Inr False \<and> free_of_symlinks fs root p"

lemma evaluated_path_safe: "evaluate_path fs root deny v = Inr p \<Longrightarrow> safe_target fs root deny p"
  unfolding evaluate_path_def safe_target_def free_of_symlinks_def
  using reject_symlinks_None
  by (auto simp: and_then_Inr checked_Inr rejectSymlinkedExistingComponents_def Let_def split: if_splits)

lemma evaluated_paths_safe:
  "evaluate_paths fs root deny vs = Inr ps \<Longrightarrow> length ps = length vs \<and> (\<forall>p \<in> set ps. safe_target fs root deny p)"
  by (induction vs arbitrary: ps) (auto simp: and_then_Inr dest: evaluated_path_safe)

lemma validated_paths_safe:
  assumes "normalizeAndValidateEvaluatedPaths fs repoRoot config vs = Inr ps"
  shows "\<exists>root. fs_realpath fs repoRoot = Some root \<and> length ps = length vs \<and>
    (\<forall>p \<in> set ps. safe_target fs root (js_get (js_get config ''path_policy'') ''deny'') p)"
  using assms evaluated_paths_safe unfolding normalizeAndValidateEvaluatedPaths_def by (auto split: option.splits)

section \<open>The role\<close>

lemma role_grant: "sourceMayGrantRole source p False \<Longrightarrow> pv_launcher_authority p"
  by (auto simp: sourceMayGrantRole_def launcherSourceMayGrant_def hasTrustedLauncherContext_def split: if_splits)

lemma pv_put_authority [simp]: "pv_launcher_authority (pv_put k v p) = pv_launcher_authority p"
    "pv_operator_authority (pv_put k v p) = pv_operator_authority p"
  by (simp_all add: pv_put_def)

lemma explicit_role_grant: "explicit_role evidence p False = Inr (Some r) \<Longrightarrow> pv_launcher_authority p \<and> r \<in> set ROLE_GUARD_ROLES"
  unfolding explicit_role_def by (auto simp: checks set_has.simps kind_text_def dest!: role_grant split: jsval.splits)

lemma derived_role_grant: "derived_role RX d evidence p False = Inr (Some r) \<Longrightarrow> pv_launcher_authority p"
  unfolding derived_role_def by (auto dest!: role_grant split: if_splits)

lemma role_of_context: "rc_role (role_context_of e d x y) \<noteq> ''unknown'' \<Longrightarrow> e \<noteq> None \<or> d \<noteq> None"
  by (cases e; cases d) (simp_all add: role_context_of_def Let_def)

lemma resolved_role:
  assumes "resolveAgentRole RX config p t = Inr rc"
  shows "\<exists>e d dv ev sv. normalizeSource (pv_get p ''role'') ''role'' = Inr ev \<and> explicit_role ev (pv_put ''caller'' (caller_of p) p) t = Inr e \<and>
    derived_role RX dv sv (pv_put ''caller'' (caller_of p) p) t = Inr d \<and> rc = role_context_of e d ev sv"
proof -
  obtain config' ev sv e d where "normalizeSource (pv_get p ''role'') ''role'' = Inr ev" "explicit_role ev (pv_put ''caller'' (caller_of p) p) t = Inr e"
      "derived_role RX (js_get (js_get config' ''roles'') ''derive_from_session_name'') sv (pv_put ''caller'' (caller_of p) p) t = Inr d"
      "(case (e, d) of
         (Some e', Some d') \<Rightarrow>
           if normalizeEffectiveRole e' \<noteq> normalizeEffectiveRole d'
           then Inl (RoleGuardError ''explicit and derived role evidence conflict'' ''role_conflict'')
           else Inr (role_context_of e d ev sv)
       | _ \<Rightarrow> Inr (role_context_of e d ev sv)) = Inr rc"
    using assms unfolding resolveAgentRole_def and_then_Inr checked_Inr Let_def by blast
  moreover from this(4) have "rc = role_context_of e d ev sv" by (cases e; cases d) (simp_all split: if_splits)
  ultimately show ?thesis by blast
qed

lemma launcher_granted:
  assumes "resolveAgentRole RX config p False = Inr rc" and "rc_role rc \<noteq> ''unknown''"
  shows "pv_launcher_authority p"
proof -
  let ?q = "pv_put ''caller'' (caller_of p) p"
  obtain e d dv ev sv where e: "explicit_role ev ?q False = Inr e" and d: "derived_role RX dv sv ?q False = Inr d"
      and rc: "rc = role_context_of e d ev sv"
    using resolved_role [OF assms(1)] by blast
  show ?thesis
    using role_of_context [of e d ev sv] assms(2) e d explicit_role_grant derived_role_grant pv_put_authority(1) unfolding rc
    by (cases e; cases d) force+
qed

text \<open>C15: No evidence grants a role by itself: outside of tests, every role but \<open>unknown\<close> comes from a launcher whose authority
  was verified, whatever the evidence says of its source.\<close>

theorem role_needs_launcher_authority:
  assumes "resolveAgentRole RX config p False = Inr rc" and "rc_role rc \<noteq> ''unknown''"
  shows "pv_launcher_authority p"
  by (rule launcher_granted [OF assms])

section \<open>Decisions\<close>

lemma concluded:
  assumes "conclude rc type r = Inr d" and "gd_allowed d"
  shows "\<exists>category targets code. r = (category, targets, Allow code) \<and> gd_targets d = targets \<and> gd_category d = category \<and> gd_role d = rc"
proof -
  obtain category targets v where r: "r = (category, targets, v)" by (cases r) auto
  show ?thesis
  proof (cases v)
    case (Raised e)
    then show ?thesis using assms r by (cases e) (auto simp: conclude_def decision_def)
  qed (use assms r in \<open>auto simp: conclude_def decision_def\<close>)
qed

text \<open>What an allowed decision was made from.\<close>

lemma allowed_decision:
  assumes "evaluateRoleGuardAction w q = Inr d" and "gd_allowed d"
  shows "\<exists>config code. validateRoleGuardConfig (gw_regexps w) (gq_config q) = Inr config \<and>
    resolveAgentRole (gw_regexps w) config (pv_put ''caller'' (caller_of (gq_provenance q)) (gq_provenance q)) (gq_allowTestFixture q) = Inr (gd_role d) \<and>
    guard_block w q config (gd_role d) = (gd_category d, gd_targets d, Allow code)"
proof -
  obtain config rc where *: "validateRoleGuardConfig (gw_regexps w) (gq_config q) = Inr config"
      "resolveAgentRole (gw_regexps w) config (pv_put ''caller'' (caller_of (gq_provenance q)) (gq_provenance q)) (gq_allowTestFixture q) = Inr rc"
      "conclude rc (js_get (gq_action q) ''type'') (guard_block w q config rc) = Inr d"
    using assms(1) unfolding evaluateRoleGuardAction_def and_then_Inr by blast
  then show ?thesis using concluded [OF *(3) assms(2)] by auto
qed

lemma decided_target: "decide_target patterns p = Inr t \<Longrightarrow> td_path t = p \<and> (td_allowed t \<longrightarrow> matchesAny p patterns = Inr True)"
  by (auto simp: decide_target_def and_then_Inr scopeAllowsPath_def split: if_splits)

lemma decided_targets:
  "decide_targets patterns ps = (ts, None) \<Longrightarrow> list_all td_allowed ts \<Longrightarrow>
   map td_path ts = ps \<and> (\<forall>t \<in> set ts. matchesAny (td_path t) patterns = Inr True)"
proof (induction ps arbitrary: ts)
  case (Cons p ps)
  then show ?case by (auto split: sum.splits prod.splits dest!: decided_target)
qed simp

lemma raised_Allow: "raised r = (ts, Allow code) \<longleftrightarrow> r = Inr (ts, Allow code)"
  by (cases r) (auto simp: raised_def)

lemma write_verdict_Allow: "write_verdict r = (ts, Allow code) \<Longrightarrow> r = (ts, None) \<and> list_all td_allowed ts"
  by (cases r) (auto simp: write_verdict_def split: option.splits if_splits)

lemma evaluated_normal:
  "evaluate_paths fs root deny vs = Inr ps \<Longrightarrow> list_all2 (\<lambda>v p. normalizeRepoRelativePath v ''target path'' = Inr p) vs ps"
  by (induction vs arbitrary: ps) (auto simp: and_then_Inr evaluate_path_def checked_Inr split: if_splits)

lemma validated_normal:
  "normalizeAndValidateEvaluatedPaths fs repoRoot config vs = Inr ps \<Longrightarrow>
   list_all2 (\<lambda>v p. normalizeRepoRelativePath v ''target path'' = Inr p) vs ps"
  by (auto simp: normalizeAndValidateEvaluatedPaths_def split: option.splits intro: evaluated_normal)

text \<open>The decision has one target for each path, its normal form, in the order of the request.\<close>

definition targets_of_paths :: "jsval list \<Rightarrow> target_decision list \<Rightarrow> bool" where
  "targets_of_paths vs ts \<longleftrightarrow> list_all2 (\<lambda>v t. normalizeRepoRelativePath v ''target path'' = Inr (td_path t)) vs ts"

lemma targets_of_normal:
  "list_all2 (\<lambda>v p. normalizeRepoRelativePath v ''target path'' = Inr p) vs (map td_path ts) \<Longrightarrow> targets_of_paths vs ts"
  by (simp add: targets_of_paths_def list.rel_map)

lemma allowed_write:
  assumes "decide_write w q config rc = (ts, Allow code)"
  shows "\<exists>root patterns raw. fs_realpath (gw_fs w) (gq_repoRoot q) = Some root \<and>
    allowed_patterns w q config (rc_effective_role rc) = Inr (Some patterns) \<and> ts \<noteq> [] \<and>
    raw_paths q = Inr raw \<and> targets_of_paths (js_items raw) ts \<and>
    (\<forall>t \<in> set ts. safe_target (gw_fs w) root (js_get (js_get config ''path_policy'') ''deny'') (td_path t) \<and>
       matchesAny (td_path t) patterns = Inr True)"
proof -
  obtain vs where raw: "raw_paths q = Inr vs" and "js_items vs \<noteq> []"
      "and_then (normalizeAndValidateEvaluatedPaths (gw_fs w) (gq_repoRoot q) config (js_items vs)) (\<lambda>paths.
       and_then (allowed_patterns w q config (rc_effective_role rc)) (\<lambda>patterns.
       case patterns of
         None \<Rightarrow> Inr ([], Deny ''role_read_only'' ''role is read-only'')
       | Some patterns \<Rightarrow> Inr (write_verdict (decide_targets patterns paths)))) = Inr (ts, Allow code)"
    using assms unfolding decide_write_def raised_Allow and_then_Inr [of "raw_paths q"] by (auto split: if_splits)
  then obtain paths patterns where paths: "normalizeAndValidateEvaluatedPaths (gw_fs w) (gq_repoRoot q) config (js_items vs) = Inr paths"
      and patterns: "allowed_patterns w q config (rc_effective_role rc) = Inr (Some patterns)"
      and ts: "write_verdict (decide_targets patterns paths) = (ts, Allow code)" and vs: "js_items vs \<noteq> []"
    by (auto simp: and_then_Inr split: option.splits)
  have t: "map td_path ts = paths \<and> (\<forall>t \<in> set ts. matchesAny (td_path t) patterns = Inr True)"
    using write_verdict_Allow [OF ts] decided_targets by blast
  then have all: "targets_of_paths (js_items vs) ts" using validated_normal [OF paths] by (intro targets_of_normal) simp
  then have "ts \<noteq> []" using vs by (auto simp: targets_of_paths_def)
  moreover obtain root where "fs_realpath (gw_fs w) (gq_repoRoot q) = Some root"
      "\<forall>p \<in> set paths. safe_target (gw_fs w) root (js_get (js_get config ''path_policy'') ''deny'') p"
    using validated_paths_safe [OF paths] by blast
  moreover from this(2) have "\<forall>t \<in> set ts. safe_target (gw_fs w) root (js_get (js_get config ''path_policy'') ''deny'') (td_path t)"
    using t by auto
  ultimately show ?thesis using all t patterns raw by blast
qed

lemma allowed_patterns_role:
  "allowed_patterns w q config role = Inr (Some patterns) \<Longrightarrow> role \<in> {''worker'', ''orchestrator'', ''operator''}"
  by (auto simp: allowed_patterns_def split: if_splits)

lemma effective_unknown: "rc_effective_role (role_context_of e d x y) = ''worker'' \<or> rc_effective_role (role_context_of e d x y) = ''orchestrator'' \<or>
    rc_effective_role (role_context_of e d x y) = ''operator'' \<Longrightarrow> rc_role (role_context_of e d x y) \<noteq> ''unknown''"
  by (auto simp: role_context_of_def normalizeEffectiveRole_def Let_def split: if_splits)

lemma allowed_write_safe:
  assumes "evaluateRoleGuardAction w q = Inr d" and "gd_allowed d"
    and "js_get (gq_action q) ''type'' \<in> {JStr ''check-write'', JStr ''check-diff''}"
  shows "\<exists>config root patterns raw. validateRoleGuardConfig (gw_regexps w) (gq_config q) = Inr config \<and>
    fs_realpath (gw_fs w) (gq_repoRoot q) = Some root \<and>
    (gq_allowTestFixture q \<or> pv_launcher_authority (gq_provenance q)) \<and>
    rc_effective_role (gd_role d) \<in> {''worker'', ''orchestrator'', ''operator''} \<and>
    allowed_patterns w q config (rc_effective_role (gd_role d)) = Inr (Some patterns) \<and>
    raw_paths q = Inr raw \<and> gd_targets d \<noteq> [] \<and> targets_of_paths (js_items raw) (gd_targets d) \<and>
    (\<forall>t \<in> set (gd_targets d). safe_target (gw_fs w) root (js_get (js_get config ''path_policy'') ''deny'') (td_path t) \<and>
       matchesAny (td_path t) patterns = Inr True)"
proof -
  obtain config code where config: "validateRoleGuardConfig (gw_regexps w) (gq_config q) = Inr config"
      and role: "resolveAgentRole (gw_regexps w) config (pv_put ''caller'' (caller_of (gq_provenance q)) (gq_provenance q))
        (gq_allowTestFixture q) = Inr (gd_role d)"
      and block: "guard_block w q config (gd_role d) = (gd_category d, gd_targets d, Allow code)"
    using allowed_decision [OF assms(1,2)] by blast
  have "decide_write w q config (gd_role d) = (gd_targets d, Allow code)"
    using block assms(3) by (auto simp: guard_block_def)
  then obtain root patterns raw where safe: "fs_realpath (gw_fs w) (gq_repoRoot q) = Some root"
      "allowed_patterns w q config (rc_effective_role (gd_role d)) = Inr (Some patterns)" "gd_targets d \<noteq> []"
      "raw_paths q = Inr raw" "targets_of_paths (js_items raw) (gd_targets d)"
      "\<forall>t \<in> set (gd_targets d). safe_target (gw_fs w) root (js_get (js_get config ''path_policy'') ''deny'') (td_path t) \<and>
         matchesAny (td_path t) patterns = Inr True"
    using allowed_write by blast
  have r: "rc_effective_role (gd_role d) \<in> {''worker'', ''orchestrator'', ''operator''}"
    by (rule allowed_patterns_role [OF safe(2)])
  then have "rc_role (gd_role d) \<noteq> ''unknown''"
    using resolved_role [OF role] effective_unknown by auto
  then have "gq_allowTestFixture q \<or> pv_launcher_authority (gq_provenance q)"
    using role launcher_granted [of "gw_regexps w" config "pv_put ''caller'' (caller_of (gq_provenance q)) (gq_provenance q)"]
    by (cases "gq_allowTestFixture q") auto
  then show ?thesis using config r safe by blast
qed


text \<open>C4: An allowed write is safe. Its role is one that may write and, outside of tests, was granted by a verified launcher; its
  targets are the normal forms of exactly the paths of the request, one for each, and there are some; and each of them is a normal
  path inside the repository that no deny pattern matches, with no symbolic link on the way to it, and that a pattern of the role's
  own scope matches.\<close>

theorem write_allowed_is_safe:
  assumes "evaluateRoleGuardAction w q = Inr d" and "gd_allowed d"
    and "js_get (gq_action q) ''type'' \<in> {JStr ''check-write'', JStr ''check-diff''}"
  shows "\<exists>config root patterns raw. validateRoleGuardConfig (gw_regexps w) (gq_config q) = Inr config \<and>
    fs_realpath (gw_fs w) (gq_repoRoot q) = Some root \<and>
    (gq_allowTestFixture q \<or> pv_launcher_authority (gq_provenance q)) \<and>
    rc_effective_role (gd_role d) \<in> {''worker'', ''orchestrator'', ''operator''} \<and>
    allowed_patterns w q config (rc_effective_role (gd_role d)) = Inr (Some patterns) \<and>
    raw_paths q = Inr raw \<and> gd_targets d \<noteq> [] \<and> targets_of_paths (js_items raw) (gd_targets d) \<and>
    (\<forall>t \<in> set (gd_targets d). safe_target (gw_fs w) root (js_get (js_get config ''path_policy'') ''deny'') (td_path t) \<and>
       matchesAny (td_path t) patterns = Inr True)"
  by (rule allowed_write_safe [OF assms])

section \<open>Commands\<close>

text \<open>What a proof of execution shows for the command that is checked.\<close>

definition proved_execution :: "bool \<Rightarrow> jsval \<Rightarrow> jsval \<Rightarrow> jsval \<Rightarrow> bool" where
  "proved_execution trusted proof argv config \<longleftrightarrow>
     (let spawn = js_get proof ''spawn''; environment = js_get proof ''environment'';
          variables = js_or_nullish (js_get environment ''variables'') (JObj []);
          pins = js_or_nullish (js_get (js_get config ''command_policy'') ''environment_pins'') (JObj []) in
      trusted \<and> js_get spawn ''shell_mode'' = JBool False \<and>
      json_stringify (js_get spawn ''raw_argv'') = json_stringify argv \<and> js_get environment ''mode'' = JStr ''closed'' \<and>
      (\<forall>key \<in> set (own_keys variables). behavior_affecting key \<longrightarrow>
         has_own pins key \<and> js_get pins key = js_get variables key))"

lemma strict_eq_same: "strict_eq a b \<Longrightarrow> a = b"
  by (induction a b rule: strict_eq.induct) simp_all

lemma execution_proved:
  assumes "validateCommandExecutionProof ADAPTER proof argv config t = None"
  shows "proved_execution (t \<or> ADAPTER proof) proof argv config"
proof -
  have "\<forall>e \<in> set (execution_proof_errors ADAPTER proof argv config t). e = None"
    using assms by (simp add: validateCommandExecutionProof_def first_error_None)
  then show ?thesis
    unfolding execution_proof_errors_def proved_execution_def Let_def
    by (simp add: reject_if_None variable_error_def strict_eq_same ball_Un)
qed

lemma authorized:
  assumes "authorize_targets w q config scope payload rule = Inr (ts, Allow code)"
  shows "targets_of_paths (tp_evaluated payload) ts \<and> (\<exists>root. fs_realpath (gw_fs w) (gq_repoRoot q) = Some root \<and>
    (\<forall>t \<in> set ts. safe_target (gw_fs w) root (js_get (js_get config ''path_policy'') ''deny'') (td_path t) \<and>
       (\<forall>patterns. scope = Some patterns \<longrightarrow> matchesAny (td_path t) (JArr patterns) = Inr True)))"
proof -
  obtain paths where paths: "normalizeAndValidateEvaluatedPaths (gw_fs w) (gq_repoRoot q) config (tp_evaluated payload) = Inr paths"
      and ts: "ts = recorded_targets paths rule"
      and scope: "(case scope of None \<Rightarrow> Inr True | Some patterns \<Rightarrow> all_within (JArr patterns) paths) = Inr True"
    using assms by (auto simp: authorize_targets_def and_then_Inr split: if_splits)
  have within: "all_within s ps = Inr True \<Longrightarrow> p \<in> set ps \<Longrightarrow> matchesAny p s = Inr True" for s ps p
    by (induction ps) (auto simp: and_then_Inr scopeAllowsPath_def split: if_splits)
  have "map td_path ts = paths" by (simp add: ts recorded_targets_def comp_def)
  then have "targets_of_paths (tp_evaluated payload) ts" using validated_normal [OF paths] by (intro targets_of_normal) simp
  then show ?thesis using validated_paths_safe [OF paths] ts scope within by (auto simp: recorded_targets_def)
qed

text \<open>The paths a classified command writes to: those its rule names, those its payload names, or none.\<close>

definition required_targets :: "guard_request \<Rightarrow> classification \<Rightarrow> guard_error + jsval list" where
  "required_targets q cl =
     (if cl_target_requirement cl = JStr ''static_targets''
      then and_then (validateTargetPayload (cl_expected_targets cl) (Some ''repo_config_static'') (gq_allowTestFixture q)) (\<lambda>p. Inr (tp_evaluated p))
      else if cl_target_requirement cl = JStr ''trusted_targets''
      then and_then (validateTargetPayload (js_get (gq_action q) ''target_payload'') None (gq_allowTestFixture q)) (\<lambda>p. Inr (tp_evaluated p))
      else Inr [])"

definition targets_safe :: "guard_world \<Rightarrow> guard_request \<Rightarrow> jsval \<Rightarrow> jsval list option \<Rightarrow> target_decision list \<Rightarrow> bool" where
  "targets_safe w q config scope ts \<longleftrightarrow> (\<forall>t \<in> set ts. \<exists>root. fs_realpath (gw_fs w) (gq_repoRoot q) = Some root \<and>
     safe_target (gw_fs w) root (js_get (js_get config ''path_policy'') ''deny'') (td_path t) \<and>
     (\<forall>patterns. scope = Some patterns \<longrightarrow> matchesAny (td_path t) (JArr patterns) = Inr True))"

lemma command_targets_safe:
  assumes "command_targets w q config cl scope = Inr (ts, Allow code)"
  shows "targets_safe w q config scope ts \<and> (\<exists>vs. required_targets q cl = Inr vs \<and> targets_of_paths vs ts)"
  using assms unfolding command_targets_def targets_safe_def required_targets_def
  by (auto simp: and_then_Inr targets_of_paths_def split: if_splits option.splits dest!: authorized)


text \<open>The policy of the role lets a classified command pass: with the effect it names, the condition of that effect, and targets that
  are safe.\<close>

definition granted_by_policy :: "guard_world \<Rightarrow> guard_request \<Rightarrow> jsval \<Rightarrow> string \<Rightarrow> classification \<Rightarrow> target_decision list \<Rightarrow> bool" where
  "granted_by_policy w q config role cl ts \<longleftrightarrow> (\<exists>effect scope.
     commandPolicyEffect config role (cl_category cl) = Inr effect \<and> effect \<noteq> JStr ''deny'' \<and>
     (effect = JStr ''allow_from_wk_frontmatter'' \<longrightarrow> worker_policy_denial w q config (cl_normalized_argv cl) = Inr None) \<and>
     (effect = JStr ''allow_with_operator_write_scope'' \<longrightarrow> (\<exists>ps. scope = Some ps \<and> resolve_operator_scope w q = Inr ps)) \<and>
     targets_safe w q config scope ts \<and> (\<exists>vs. required_targets q cl = Inr vs \<and> targets_of_paths vs ts))"

lemma allowed_classified:
  assumes "decide_classified w q config rc cl = Inr (ts, Allow code)"
  shows "\<not> set_has [''denied'', ''operator_reviewed_broad''] (cl_category cl) \<and>
    proved_execution (gq_allowTestFixture q \<or> gw_adapter w (js_get (gq_action q) ''execution_proof'')) (js_get (gq_action q) ''execution_proof'')
      (js_get (gq_action q) ''argv'') config \<and>
    granted_by_policy w q config (rc_effective_role rc) cl ts"
proof -
  have category: "\<not> set_has [''denied'', ''operator_reviewed_broad''] (cl_category cl)"
    using assms by (auto simp: decide_classified_def split: if_splits)
  obtain effect denial where proved: "validateCommandExecutionProof (gw_adapter w) (js_get (gq_action q) ''execution_proof'')
        (js_get (gq_action q) ''argv'') config (gq_allowTestFixture q) = None"
      and effect: "commandPolicyEffect config (rc_effective_role rc) (cl_category cl) = Inr effect" "effect \<noteq> JStr ''deny''"
      and denial: "(if effect = JStr ''allow_from_wk_frontmatter'' then worker_policy_denial w q config (cl_normalized_argv cl) else Inr None) = Inr denial"
      and rest: "(case denial of
          Some (code, reason) \<Rightarrow> Inr ([], Deny code reason)
        | None \<Rightarrow>
            and_then (if effect = JStr ''allow_with_operator_write_scope'' then and_then (resolve_operator_scope w q) (\<lambda>ps. Inr (Some ps))
              else Inr None) (\<lambda>operatorScope. command_targets w q config cl operatorScope)) = Inr (ts, Allow code)"
    using assms category unfolding decide_classified_def
    by (auto simp: and_then_Inr checked_Inr split: if_splits)
  from rest obtain scope where "denial = None"
      "(if effect = JStr ''allow_with_operator_write_scope'' then and_then (resolve_operator_scope w q) (\<lambda>ps. Inr (Some ps)) else Inr None) = Inr scope"
      "command_targets w q config cl scope = Inr (ts, Allow code)"
    by (auto simp: and_then_Inr split: option.splits prod.splits)
  then show ?thesis
    using category execution_proved [OF proved] effect denial command_targets_safe unfolding granted_by_policy_def
    by (intro conjI exI [of _ effect] exI [of _ scope]) (auto simp: and_then_Inr split: if_splits)
qed

text \<open>C10: An allowed command was proved. Its category is neither denied nor left to the operator, the policy of the role does
  not deny it, and where the policy asks for it the task or the operator's scope allows it; the proof of its execution comes from an
  adapter (or a test), runs no shell, spawns exactly the words that were checked, in a closed environment whose variables that change
  the behaviour of commands are all pinned; and its targets are exactly the paths its rule or its payload names, each safe and inside
  the operator's scope when one is needed.\<close>

theorem command_allowed_is_proved:
  assumes "evaluateRoleGuardAction w q = Inr d" and "gd_allowed d" and "js_get (gq_action q) ''type'' = JStr ''check-command''"
  shows "\<exists>config cl. validateRoleGuardConfig (gw_regexps w) (gq_config q) = Inr config \<and>
    classifyCommand (gw_regexps w) config (rc_effective_role (gd_role d)) (js_get (gq_action q) ''argv'') = Inr cl \<and>
    gd_category d = cl_category cl \<and> \<not> set_has [''denied'', ''operator_reviewed_broad''] (cl_category cl) \<and>
    proved_execution (gq_allowTestFixture q \<or> gw_adapter w (js_get (gq_action q) ''execution_proof'')) (js_get (gq_action q) ''execution_proof'')
      (js_get (gq_action q) ''argv'') config \<and>
    granted_by_policy w q config (rc_effective_role (gd_role d)) cl (gd_targets d)"
proof -
  obtain config code where config: "validateRoleGuardConfig (gw_regexps w) (gq_config q) = Inr config"
      and block: "guard_block w q config (gd_role d) = (gd_category d, gd_targets d, Allow code)"
    using allowed_decision [OF assms(1,2)] by blast
  have "decide_command w q config (gd_role d) = (gd_category d, gd_targets d, Allow code)"
    using block assms(3) by (simp add: guard_block_def)
  then obtain cl where cl: "classifyCommand (gw_regexps w) config (rc_effective_role (gd_role d)) (js_get (gq_action q) ''argv'') = Inr cl"
      "gd_category d = cl_category cl" "decide_classified w q config (gd_role d) cl = Inr (gd_targets d, Allow code)"
    by (auto simp: decide_command_def raised_Allow split: sum.splits)
  then show ?thesis using config allowed_classified [OF cl(3)] by blast
qed

section \<open>The deny list\<close>

lemma valid_pattern_stable:
  assumes "validatePattern v name = Inr t"
  shows "validatePattern (JStr t) name' = Inr t"
proof -
  obtain c s where v: "v = JStr (c # s)" using assms by (auto simp: validatePattern_def split: jsval.splits list.splits)
  have slash: "slashes (slashes x) = slashes x" "slashes (x @ y) = slashes x @ slashes y" for x y by (auto simp: slashes_def)
  have "slashes t = t" "t \<noteq> []" "last t \<noteq> CHR ''/''" "t \<notin> {''.'', ''/'', ''**'', ''**/*''}" "\<not> js_includes t ''..''"
    using assms by (auto simp: v validatePattern_def Let_def slash split: if_splits) (auto simp: slashes_def)
  then show ?thesis by (cases t) (auto simp: validatePattern_def Let_def)
qed

lemma glob_of_valid: "validatePattern v name = Inr t \<Longrightarrow> globToRegExp (JStr t) = Inr (glob_atoms t)"
  by (simp add: globToRegExp_def valid_pattern_stable)

lemma matches_valid:
  "\<forall>t \<in> set ts. \<exists>v name. validatePattern v name = Inr t \<Longrightarrow>
   matchesAny p (JArr (map JStr ts)) = Inr (list_ex (\<lambda>t. regex_test (glob_atoms t) p) ts)"
  by (induction ts) (auto simp: matchesAny_def dest!: glob_of_valid)

lemma valid_pattern_name: "validatePattern v name = Inr t \<Longrightarrow> validatePattern v name' = Inr t"
  by (auto simp: validatePattern_def Let_def split: jsval.splits list.splits if_splits)

lemma normalized_valid:
  assumes "\<forall>v \<in> set vs. error_of (validatePattern v name) = None"
  shows "\<exists>ts. normalized_patterns vs = JArr (map JStr ts) \<and> list_all2 (\<lambda>v t. validatePattern v name = Inr t) vs ts"
proof -
  have "\<exists>t. validatePattern v name = Inr t" if "v \<in> set vs" for v using assms that by (cases "validatePattern v name") auto
  then obtain t where t: "\<forall>v \<in> set vs. validatePattern v name = Inr (t v)" by metis
  then have "\<forall>v \<in> set vs. validatePattern v [] = Inr (t v)" using valid_pattern_name by blast
  then have "normalized_patterns vs = JArr (map JStr (map t vs))" by (auto simp: normalized_patterns_def)
  moreover have "list_all2 (\<lambda>v t. validatePattern v name = Inr t) vs (map t vs)"
    using t by (auto simp: list.rel_map intro: list.rel_refl_strong)
  ultimately show ?thesis by blast
qed

lemma list_all2_right: "list_all2 P xs ys \<Longrightarrow> \<forall>y \<in> set ys. \<exists>x. P x y"
  by (induction rule: list_all2_induct) auto

text \<open>C26: The deny list of an accepted configuration means what its patterns say: each entry is a valid pattern (with \<open>**\<close>
  appended when it ends in a slash), deciding about a path never throws, and a path is denied exactly when one of the patterns
  matches it.\<close>

theorem deny_list_is_exact:
  assumes "validateRoleGuardConfig RX config = Inr normalized"
  shows "\<exists>patterns. list_all2 (\<lambda>entry t. validatePattern entry ''path_policy.deny'' = Inr t)
      (js_items (denied_patterns (js_get config ''path_policy''))) patterns \<and>
    (\<forall>p. matchesAny p (js_get (js_get normalized ''path_policy'') ''deny'') = Inr (\<exists>t \<in> set patterns. glob_matches t p))"
proof -
  let ?vs = "js_items (denied_patterns (js_get config ''path_policy''))"
  have n: "normalized = normalize_config config" and ok: "\<forall>e \<in> set (config_errors RX config). e = None"
    using assms by (simp_all add: validateRoleGuardConfig_def checked_Inr first_error_None)
  have "set (path_policy_errors (js_get config ''path_policy'')) \<subseteq> set (config_errors RX config)" by (auto simp: config_errors_def)
  with ok have pp: "\<forall>e \<in> set (path_policy_errors (js_get config ''path_policy'')). e = None" by blast
  have "is_plain_object config" "is_plain_object (js_get config ''path_policy'')"
    using ok pp by (auto simp: config_errors_def path_policy_errors_def assertPlainObject_def reject_if_None)
  moreover have "\<forall>v \<in> set ?vs. error_of (validatePattern v ''path_policy.deny'') = None"
    using pp by (simp add: path_policy_errors_def)
  ultimately obtain ts where ts: "js_get (js_get normalized ''path_policy'') ''deny'' = JArr (map JStr ts)"
      and valid: "list_all2 (\<lambda>v t. validatePattern v ''path_policy.deny'' = Inr t) ?vs ts"
    using normalized_valid [of ?vs "''path_policy.deny''"] unfolding n normalize_config_def Let_def by auto
  have "matchesAny p (JArr (map JStr ts)) = Inr (\<exists>t \<in> set ts. glob_matches t p)" for p
  proof -
    have "\<forall>t \<in> set ts. \<exists>v name. validatePattern v name = Inr t" using list_all2_right [OF valid] by blast
    then show ?thesis using matches_valid [of ts p] by (simp add: list_ex_iff regex_test_spelled spelled_glob)
  qed
  then show ?thesis using ts valid by auto
qed

section \<open>The payload of a command\<close>

definition endpoints_of :: "jsval \<Rightarrow> jsval list" where
  "endpoints_of target = (case change_rule_of (js_get target ''change_kind'') of
     Inl e \<Rightarrow> [] | Inr rule \<Rightarrow> map (js_get target) (ru_evaluated rule))"

lemma added_endpoints:
  "add_endpoints t seen es = Inr seen' \<Longrightarrow> distinct seen \<Longrightarrow> seen' = seen @ map (js_get t) es \<and> distinct seen'"
proof (induction es arbitrary: seen)
  case (Cons e es)
  have new: "js_get t e \<notin> set seen" and add: "add_endpoints t (seen @ [js_get t e]) es = Inr seen'"
    using Cons.prems(1) by (auto simp: Let_def split: if_splits)
  have "distinct (seen @ [js_get t e])" using new Cons.prems(2) by simp
  from Cons.IH [OF add this] show ?case by (auto simp del: distinct_append)
qed simp

lemma validated_target:
  assumes "validate_target i target seen = Inr (t, seen')" and "distinct seen"
  shows "seen' = seen @ endpoints_of t \<and> distinct seen'"
proof -
  obtain rule where rule: "change_rule_of (js_get target ''change_kind'') = Inr rule" and t: "normalize_target rule target = Inr t"
      and add: "add_endpoints t seen (ru_evaluated rule) = Inr seen'"
    using assms(1) unfolding validate_target_def Let_def and_then_Inr checked_Inr sum.inject prod.inject by blast
  have "js_get t ''change_kind'' = js_get target ''change_kind''"
    using t by (auto simp: normalize_target_def Let_def and_then_Inr checked_Inr)
  then have "endpoints_of t = map (js_get t) (ru_evaluated rule)" by (simp add: endpoints_of_def rule)
  then show ?thesis using added_endpoints [OF add assms(2)] by (auto simp del: distinct_append)
qed

lemma validated_targets:
  "validate_targets i targets seen = Inr (ts, seen') \<Longrightarrow> distinct seen \<Longrightarrow>
   seen' = seen @ concat (map endpoints_of ts) \<and> distinct seen' \<and> length ts = length targets"
proof (induction targets arbitrary: i seen ts)
  case (Cons target targets)
  then obtain t seen1 rest where t: "validate_target i target seen = Inr (t, seen1)"
      and rest: "validate_targets (Suc i) targets seen1 = Inr (rest, seen')" and ts: "ts = t # rest"
    by (auto simp: and_then_Inr)
  note seen1 = validated_target [OF t Cons.prems(2)]
  show ?case using seen1 Cons.IH [OF rest conjunct2 [OF seen1]] ts by (auto simp del: distinct_append)
qed simp

text \<open>A payload that is accepted names its targets completely and without repetition: the paths to evaluate are exactly the
  endpoints that the kinds of its changes require, in order, and no two of them are the same.\<close>

theorem payload_endpoints_exact:
  assumes "validateTargetPayload payload expected t = Inr tp"
  shows "tp_evaluated tp = concat (map endpoints_of (tp_targets tp)) \<and> distinct (tp_evaluated tp) \<and>
    length (tp_targets tp) = length (js_items (js_get payload ''targets'')) \<and> tp_targets tp \<noteq> []"
proof -
  obtain targets where "validate_targets 0 (js_items (js_get payload ''targets'')) [] = Inr (targets, tp_evaluated tp)"
      "tp_targets tp = targets" "js_items (js_get payload ''targets'') \<noteq> []"
    using assms by (auto simp: validateTargetPayload_def payload_errors_def Let_def and_then_Inr checks)
  then show ?thesis using validated_targets by fastforce
qed

section \<open>An example\<close>

definition demo_policy :: jsval where
  "demo_policy = JObj [(''write'', JObj [(''allow'', JArr [JStr ''docs/''])]),
     (''commands'', JObj [(''default'', JStr ''deny''), (''read_only'', JStr ''allow'')])]"

definition demo_config :: jsval where
  "demo_config = JObj
    [(''schema_version'', JInt 1),
     (''roles'', JObj [(''aliases'', JObj [(''redteam'', JStr ''reviewer'')])]),
     (''worker'', JObj [(''wk_env'', JStr ''WK''), (''wk_id_pattern'', JStr ''^WK''), (''issue_path_template'', JStr ''wk/{wk}.md''),
        (''write_scope_frontmatter_key'', JStr ''write_scope'')]),
     (''operator'', JObj [(''write_scope_env'', JStr ''SCOPE''), (''write_scope_env_format'', JStr ''json_array'')]),
     (''path_policy'', JObj [(''deny'', JArr [JStr ''keys/'']), (''reject_repo_wide_patterns'', JBool True)]),
     (''command_policy'', JObj [(''categories'', JArr (map JStr COMMAND_CATEGORIES)),
        (''patterns'', JArr [JObj [(''argv'', JArr [JStr ''ls'', JStr ''*'']), (''category'', JStr ''read_only'')]])]),
     (''policies'', JObj (map (\<lambda>role. (role, demo_policy)) EFFECTIVE_ROLES))]"

definition demo_regexps :: regexps where
  "demo_regexps pattern = Some (\<lambda>v. True)"

definition demo_guard_fs :: guard_fs where
  "demo_guard_fs = \<lparr>fs_realpath = (\<lambda>v. Some ''/repo''), fs_lstat = (\<lambda>p. if p = ''/repo/docs'' then OtherEntry else NoEntry),
     fs_readFile = (\<lambda>p. FileMissing)\<rparr>"

definition demo_world :: guard_world where
  "demo_world = \<lparr>gw_fs = demo_guard_fs, gw_regexps = demo_regexps, gw_numbers = NFrac, gw_hash = id,
     gw_adapter = (\<lambda>v. True)\<rparr>"

definition demo_provenance :: provenance where
  "demo_provenance = \<lparr>pv_fields = JObj [(''caller'', JStr ''agent_launch''),
       (''role'', JObj [(''value'', JStr ''orchestrator''), (''source'', JStr ''launcher_metadata'')])],
     pv_launcher_authority = True, pv_operator_authority = False\<rparr>"

definition demo_guard_request :: "jsval \<Rightarrow> guard_request" where
  "demo_guard_request action = \<lparr>gq_config = demo_config, gq_repoRoot = JStr ''/repo'', gq_provenance = demo_provenance, gq_action = action,
     gq_workerScope = JNull, gq_allowTestFixture = False\<rparr>"

definition demo_write :: jsval where
  "demo_write = JObj [(''type'', JStr ''check-write''), (''paths'', JArr [JStr ''docs/x/../a.md''])]"

definition demo_check_command :: jsval where
  "demo_check_command = JObj [(''type'', JStr ''check-command''), (''argv'', JArr [JStr ''/bin/ls'', JStr ''docs'']),
     (''execution_proof'', JObj
       [(''executable'', JObj [(''resolved_realpath'', JStr ''/bin/ls''), (''digest'', JStr ''sha256:1''),
           (''resolution_inputs_digest'', JStr ''sha256:2'')]),
        (''spawn'', JObj [(''shell_mode'', JBool False), (''cwd'', JStr ''/repo''), (''raw_argv'', JArr [JStr ''/bin/ls'', JStr ''docs'']),
           (''resolved_argv0'', JStr ''/bin/ls'')]),
        (''environment'', JObj [(''mode'', JStr ''closed''), (''digest'', JStr ''sha256:3'')])])]"

lemma demo_config_accepted: "first_error (config_errors demo_regexps demo_config) = None"
  by code_simp

definition demo_rc :: role_context where
  "demo_rc = \<lparr>rc_role = ''orchestrator'', rc_effective_role = ''orchestrator'', rc_role_source = JStr ''launcher_metadata''\<rparr>"

lemma demo_role: "resolveAgentRole demo_regexps demo_config demo_provenance False = Inr demo_rc"
  by code_simp

definition demo_normal_policy :: jsval where
  "demo_normal_policy = JObj [(''write'', JObj [(''allow'', JArr [JStr ''docs/**''])]),
     (''commands'', JObj [(''default'', JStr ''deny''), (''read_only'', JStr ''allow'')])]"

definition demo_normal :: jsval where
  "demo_normal = JObj
    [(''schema_version'', JInt 1),
     (''roles'', JObj [(''aliases'', JObj [(''redteam'', JStr ''reviewer'')])]),
     (''worker'', JObj [(''wk_env'', JStr ''WK''), (''wk_id_pattern'', JStr ''^WK''), (''issue_path_template'', JStr ''wk/{wk}.md''),
        (''write_scope_frontmatter_key'', JStr ''write_scope'')]),
     (''operator'', JObj [(''write_scope_env'', JStr ''SCOPE''), (''write_scope_env_format'', JStr ''json_array'')]),
     (''path_policy'', JObj [(''deny'', JArr [JStr ''keys/**'']), (''reject_repo_wide_patterns'', JBool True)]),
     (''command_policy'', JObj [(''categories'', JArr (map JStr COMMAND_CATEGORIES)),
        (''patterns'', JArr [JObj [(''argv'', JArr [JStr ''ls'', JStr ''*'']), (''category'', JStr ''read_only''),
          (''target_requirement'', JStr ''none'')]]), (''default_category'', JStr ''denied'')]),
     (''policies'', JObj (map (\<lambda>role. (role, demo_normal_policy)) EFFECTIVE_ROLES))]"

lemma demo_normalized: "normalize_config demo_config = demo_normal"
  by code_simp

lemma demo_role_normal: "resolveAgentRole demo_regexps demo_normal (pv_put ''caller'' (caller_of demo_provenance) demo_provenance) False = Inr demo_rc"
  by code_simp

lemma demo_valid_config: "validateRoleGuardConfig demo_regexps demo_config = Inr demo_normal"
  by (simp add: validateRoleGuardConfig_def demo_config_accepted demo_normalized checked_def)

lemma demo_caller: "assertKnownCaller (caller_of demo_provenance) False = None"
  by code_simp

lemma demo_evaluated:
  assumes "is_plain_object action"
  shows "evaluateRoleGuardAction demo_world (demo_guard_request action) =
    conclude demo_rc (js_get action ''type'') (guard_block demo_world (demo_guard_request action) demo_normal demo_rc)"
  using assms demo_valid_config demo_caller demo_role_normal
  by (simp add: evaluateRoleGuardAction_def demo_world_def demo_guard_request_def assertPlainObject_def reject_if_def checked_def)

lemma conclude_Allow: "snd (snd r) = Allow code \<Longrightarrow> \<exists>d. conclude rc type r = Inr d \<and> gd_allowed d"
  by (cases r) (simp add: conclude_def decision_def)

lemma demo_write_allowed: "\<exists>d. evaluateRoleGuardAction demo_world (demo_guard_request demo_write) = Inr d \<and> gd_allowed d"
proof -
  have "snd (snd (guard_block demo_world (demo_guard_request demo_write) demo_normal demo_rc)) = Allow ''write_allowed''" by code_simp
  moreover have "is_plain_object demo_write" by code_simp
  ultimately show ?thesis using demo_evaluated conclude_Allow by simp
qed

lemma demo_command_allowed: "\<exists>d. evaluateRoleGuardAction demo_world (demo_guard_request demo_check_command) = Inr d \<and> gd_allowed d"
proof -
  have "snd (snd (guard_block demo_world (demo_guard_request demo_check_command) demo_normal demo_rc)) = Allow ''command_allowed''" by code_simp
  moreover have "is_plain_object demo_check_command" by code_simp
  ultimately show ?thesis using demo_evaluated conclude_Allow by simp
qed

section \<open>Witnesses\<close>

lemma role_needs_launcher_authority_witness:
  "rc_role demo_rc \<noteq> ''unknown'' \<and> pv_launcher_authority demo_provenance"
proof -
  have "rc_role demo_rc \<noteq> ''unknown''" by code_simp
  then show ?thesis using role_needs_launcher_authority [OF demo_role] by simp
qed

lemma write_allowed_is_safe_witness:
  "\<exists>d. evaluateRoleGuardAction demo_world (demo_guard_request demo_write) = Inr d \<and> gd_targets d \<noteq> [] \<and>
     rc_effective_role (gd_role d) \<in> {''worker'', ''orchestrator'', ''operator''}"
proof -
  obtain d where d: "evaluateRoleGuardAction demo_world (demo_guard_request demo_write) = Inr d" "gd_allowed d"
    using demo_write_allowed by blast
  have "js_get (gq_action (demo_guard_request demo_write)) ''type'' \<in> {JStr ''check-write'', JStr ''check-diff''}"
    by (simp add: demo_guard_request_def demo_write_def)
  then show ?thesis using d write_allowed_is_safe [OF d] by blast
qed

lemma command_allowed_is_proved_witness:
  "\<exists>d (cl :: classification). evaluateRoleGuardAction demo_world (demo_guard_request demo_check_command) = Inr d \<and> gd_category d = cl_category cl \<and>
     \<not> set_has [''denied'', ''operator_reviewed_broad''] (cl_category cl)"
proof -
  obtain d where d: "evaluateRoleGuardAction demo_world (demo_guard_request demo_check_command) = Inr d" "gd_allowed d"
    using demo_command_allowed by blast
  have type: "js_get (gq_action (demo_guard_request demo_check_command)) ''type'' = JStr ''check-command''"
    by (simp add: demo_guard_request_def demo_check_command_def)
  obtain cl :: classification where "gd_category d = cl_category cl" "\<not> set_has [''denied'', ''operator_reviewed_broad''] (cl_category cl)"
    using command_allowed_is_proved [OF d type] by blast
  then show ?thesis using d(1) by blast
qed

lemma deny_list_is_exact_witness:
  "\<exists>b. matchesAny ''keys/a'' (js_get (js_get demo_normal ''path_policy'') ''deny'') = Inr b"
  using deny_list_is_exact [OF demo_valid_config] by blast

lemma payload_endpoints_exact_witness:
  "distinct [JStr ''a'', JStr ''b'', JStr ''c'']"
proof -
  have "validateTargetPayload (JObj [(''target_source'', JStr ''adapter_observed''), (''targets'', JArr
      [JObj [(''change_kind'', JStr ''rename''), (''old_path'', JStr ''a''), (''new_path'', JStr ''./b'')],
       JObj [(''change_kind'', JStr ''create''), (''new_path'', JStr ''c'')]])]) None False =
    Inr \<lparr>tp_source = JStr ''adapter_observed'', tp_targets =
        [JObj [(''change_kind'', JStr ''rename''), (''old_path'', JStr ''a''), (''new_path'', JStr ''b'')],
         JObj [(''change_kind'', JStr ''create''), (''new_path'', JStr ''c'')]],
      tp_evaluated = [JStr ''a'', JStr ''b'', JStr ''c''], tp_proof = JNull\<rparr>"
    by code_simp
  from payload_endpoints_exact [OF this, THEN conjunct2, THEN conjunct1] show ?thesis
    by (simp only: target_payload.select_convs)
qed

end
