(* ===== verification/LauncherContextProperties.thy ===== *)
theory LauncherContextProperties
  imports LauncherContext
begin

text \<open>
  Properties of the launcher context: a signature stands for one content, a context is accepted once, and what is minted verifies
  during its lifetime.
\<close>

section \<open>The canonical text\<close>

text \<open>A value with the members of its objects in the order of their keys.\<close>

primrec sorted_members :: "jsval \<Rightarrow> jsval" where
  "sorted_members JUndef = JUndef"
| "sorted_members JNull = JNull"
| "sorted_members (JBool b) = JBool b"
| "sorted_members (JNum n) = JNum n"
| "sorted_members (JStr s) = JStr s"
| "sorted_members (JArr xs) = JArr (map sorted_members xs)"
| "sorted_members (JObj kvs) = JObj (sort_key fst (map (map_prod id sorted_members) kvs))"

lemma insort_keys: "(\<And>x. fst (g x) = fst x) \<Longrightarrow> insort_key fst (g x) (map g xs) = map g (insort_key fst x xs)"
  by (induction xs) simp_all

lemma sort_keys: "(\<And>x. fst (g x) = fst x) \<Longrightarrow> sort_key fst (map g xs) = map g (sort_key fst xs)"
  by (induction xs) (simp_all add: insort_keys)

lemma sort_map: "sort_key fst (map (map_prod id f) kvs) = map (map_prod id f) (sort_key fst kvs)"
  by (rule sort_keys) simp

lemma sorted_members_value: "json_value v \<Longrightarrow> json_value (sorted_members v)"
proof (induction v)
  case (JObj kvs)
  then have "distinct (map fst (sort_key fst kvs))" by (intro distinct_keys_sort) simp
  moreover have "json_value (sorted_members v)" if "(k, v) \<in> set kvs" for k v using JObj that by fastforce
  ultimately show ?case by (simp only: sorted_members.simps sort_map json_value_obj fst_map_prod_id) auto
qed auto

lemma canonicalizeJson_text: "json_value v \<Longrightarrow> canonicalizeJson v = Some (json_text (sorted_members v))"
proof (induction v)
  case (JArr xs)
  then have "map joined_text (map canonicalizeJson xs) = map json_text (map sorted_members xs)"
    by (auto simp: joined_text_def)
  then show ?case by (simp only: canonicalizeJson.simps sorted_members.simps json_text_simps)
next
  case (JObj kvs)
  have ok: "json_value (sorted_members (JObj kvs))" by (rule sorted_members_value [OF JObj.prems])
  have "labelled_text (map_prod id canonicalizeJson kv) = member_text (map_prod id sorted_members kv)" if "kv \<in> set kvs" for kv
    using JObj that by (cases kv) (fastforce simp: member_text_def)
  then have "map labelled_text (sort_key fst (map (map_prod id canonicalizeJson) kvs)) =
      map member_text (sort_key fst (map (map_prod id sorted_members) kvs))"
    by (simp add: sort_map)
  then show ?case using json_text_obj_value [OF ok [unfolded sorted_members.simps]] by simp
qed (simp_all add: json_text_simps)

lemma canonicalizeJson_inj:
  assumes "json_value v" and "json_value w" and "canonicalizeJson v = canonicalizeJson w"
  shows "sorted_members v = sorted_members w"
  using assms json_text_inj sorted_members_value by (auto simp: canonicalizeJson_text)

lemma sorted_members_get:
  assumes "distinct (own_keys v)"
  shows "js_get (sorted_members v) k = sorted_members (js_get v k)"
proof (cases v)
  case (JObj kvs)
  then have d: "distinct (map fst kvs)" using assms by simp
  let ?s = "sort_key fst (map (map_prod id sorted_members) kvs)"
  have ds: "distinct (map fst ?s)" using distinct_keys_sort [of "map (map_prod id sorted_members) kvs"] d by simp
  from obj_get_cases [OF d, of k] show ?thesis
  proof
    assume a: "k \<notin> set (map fst kvs) \<and> obj_get kvs k = JUndef"
    then have "k \<notin> set (map fst ?s)" by (auto simp: image_iff)
    with a show ?thesis by (simp add: JObj obj_get_absent)
  next
    assume "(k, obj_get kvs k) \<in> set kvs"
    then have "(k, sorted_members (obj_get kvs k)) \<in> set ?s" by force
    with obj_get_in [OF ds] show ?thesis by (simp add: JObj)
  qed
qed auto

lemma sorted_canonical: "json_value v \<Longrightarrow> json_value w \<Longrightarrow> sorted_members v = sorted_members w \<Longrightarrow> canonicalizeJson v = canonicalizeJson w"
  by (simp add: canonicalizeJson_text)

text \<open>The canonical text that is signed and hashed stands for one value: two JSON values have the same text exactly when they
  are equal up to the order of the members of their objects.\<close>

theorem launcher_text_identity:
  assumes "json_value v" and "json_value w"
  shows "canonicalizeJson v = canonicalizeJson w \<longleftrightarrow> sorted_members v = sorted_members w"
  using assms canonicalizeJson_inj sorted_canonical by blast

lemma launcher_text_identity_witness:
  "canonicalizeJson (JObj [(''b'', JNull), (''a'', JStr [])]) = canonicalizeJson (JObj [(''a'', JStr []), (''b'', JNull)])"
proof -
  have "json_value (JObj [(''b'', JNull), (''a'', JStr [])])" "json_value (JObj [(''a'', JStr []), (''b'', JNull)])" by simp_all
  moreover have "sorted_members (JObj [(''b'', JNull), (''a'', JStr [])]) = sorted_members (JObj [(''a'', JStr []), (''b'', JNull)])"
    by code_simp
  ultimately show ?thesis using launcher_text_identity by blast
qed

section \<open>Verified contexts\<close>

lemma verified:
  assumes "verifyLauncherContext MAC BYTES DATE context secret meta binding (Some files) nowMs = (Inr p, st)"
  shows "\<forall>e \<in> set (context_errors MAC BYTES DATE context secret meta binding nowMs). e = None"
    and "\<exists>s. js_get context ''nonce'' = JStr s \<and> nonce_pattern s \<and> s \<notin> set (map fst files) \<and>
      st = Some (files @ [(s, or_null_text (json_stringify (JObj [(''expires_at'', js_or_nullish (js_get context ''expires_at'') JNull)])))])"
    and "canonicalizeJson (js_get context ''action_binding'') = canonicalizeJson binding"
    and "pv_launcher_authority p"
proof -
  have none: "first_error (context_errors MAC BYTES DATE context secret meta binding nowMs) = None"
    using assms unfolding verifyLauncherContext_def by (cases "first_error (context_errors MAC BYTES DATE context secret meta binding nowMs)") auto
  then show "\<forall>e \<in> set (context_errors MAC BYTES DATE context secret meta binding nowMs). e = None" by (simp add: first_error_None)
  obtain ok marked where cm: "checkAndMark (js_get context ''nonce'') (js_get context ''expires_at'') files = (ok, marked)" by force
  have r: "ok" "st = Some marked" "canonicalizeJson (js_get context ''action_binding'') = canonicalizeJson binding" "pv_launcher_authority p"
    using assms none cm unfolding verifyLauncherContext_def by (auto split: if_splits)
  show "canonicalizeJson (js_get context ''action_binding'') = canonicalizeJson binding" "pv_launcher_authority p" by (rule r)+
  show "\<exists>s. js_get context ''nonce'' = JStr s \<and> nonce_pattern s \<and> s \<notin> set (map fst files) \<and>
      st = Some (files @ [(s, or_null_text (json_stringify (JObj [(''expires_at'', js_or_nullish (js_get context ''expires_at'') JNull)])))])"
    using cm r(1,2) unfolding checkAndMark_def by (auto split: jsval.splits if_splits)
qed

section \<open>A context is accepted once\<close>

text \<open>What happens to the store from one time on: collections of expired nonces and verifications of any context, at times that do
  not decrease.\<close>

inductive nonce_history :: "number_reader \<Rightarrow> dates \<Rightarrow> mac \<Rightarrow> bytes_of \<Rightarrow> int \<Rightarrow> nonce_files \<Rightarrow> int \<Rightarrow> nonce_files \<Rightarrow> bool"
  for NUM DATE MAC BYTES t0 files0 where
  history_start: "nonce_history NUM DATE MAC BYTES t0 files0 t0 files0"
| history_collect: "nonce_history NUM DATE MAC BYTES t0 files0 t files \<Longrightarrow> t \<le> t' \<Longrightarrow>
    nonce_history NUM DATE MAC BYTES t0 files0 t' (snd (gcExpiredNonces NUM DATE t' files))"
| history_verify: "nonce_history NUM DATE MAC BYTES t0 files0 t files \<Longrightarrow> t \<le> t' \<Longrightarrow>
    snd (verifyLauncherContext MAC BYTES DATE context secret meta binding (Some files) t') = Some files' \<Longrightarrow>
    nonce_history NUM DATE MAC BYTES t0 files0 t' files'"

lemma marked_superset:
  assumes "checkAndMark nonce expiresAt files = (ok, marked)"
  shows "set files \<subseteq> set marked"
  using assms unfolding checkAndMark_def by (auto split: jsval.splits if_splits)

lemma verify_superset:
  assumes "snd (verifyLauncherContext MAC BYTES DATE context secret meta binding (Some files) t) = Some files'"
  shows "set files \<subseteq> set files'"
  using assms marked_superset unfolding verifyLauncherContext_def
  by (auto split: option.splits prod.splits)

lemma kept_until_expiry:
  assumes "nonce_history NUM DATE MAC BYTES t0 files0 t files" and "(s, content) \<in> set files0"
    and "\<And>t. nonce_expired NUM DATE t content = Some (\<not> t < e)"
  shows "e \<le> t \<or> (s, content) \<in> set files"
  using assms(1)
proof induction
  case (history_collect t files t')
  then show ?case using assms(3) [of t'] by (auto simp: gcExpiredNonces_def)
next
  case (history_verify t files t' ctx secret meta binding files')
  then show ?case using verify_superset [OF history_verify.hyps(3)] by auto
qed (rule disjI2, rule assms(2))

text \<open>The content of a nonce file gives back the time at which its context expires.\<close>

lemma nonce_file_expiry:
  assumes "readable NUM v" and "DATE v = Some e"
  shows "nonce_expired NUM DATE t (or_null_text (json_stringify (JObj [(''expires_at'', js_or_nullish v JNull)]))) = Some (\<not> t < e)"
proof -
  have v: "js_or_nullish v JNull = v" using assms(1) by (cases v) (simp_all add: js_or_nullish_def nullish_def)
  have "readable NUM (JObj [(''expires_at'', v)])" using assms(1) by (simp add: own_key_order_def)
  from json_parse_text [OF this]
  have "json_parse NUM (or_null_text (json_stringify (JObj [(''expires_at'', v)]))) = Read (JObj [(''expires_at'', v)]) []"
    unfolding json_text_def .
  then show ?thesis using assms(2) v by (simp add: nonce_expired_def del: json_stringify.simps)
qed

text \<open>C9: A launcher context is accepted once. After a verification that succeeded, no later one of the same context succeeds
  against the same store, whatever contexts are verified and whatever expired nonces are collected in between, as long as the clock
  does not go back: its nonce is kept until the context has expired.\<close>

theorem context_single_use:
  assumes "verifyLauncherContext MAC BYTES DATE context secret meta binding (Some files) t1 = (Inr p, Some files1)"
    and "nonce_history NUM DATE MAC BYTES t1 files1 t files2" and "t \<le> t2" and "readable NUM (js_get context ''expires_at'')"
  shows "\<exists>e. fst (verifyLauncherContext MAC BYTES DATE context secret' meta' binding' (Some files2) t2) = Inl e"
proof (rule ccontr)
  assume "\<nexists>e. fst (verifyLauncherContext MAC BYTES DATE context secret' meta' binding' (Some files2) t2) = Inl e"
  then obtain p' st where again: "verifyLauncherContext MAC BYTES DATE context secret' meta' binding' (Some files2) t2 = (Inr p', st)"
    by (metis obj_sumE prod.collapse)
  have alive: "\<exists>e. DATE (js_get context ''expires_at'') = Some e \<and> now < e"
    if "\<forall>e \<in> set (context_errors MAC BYTES DATE context sec m b now). e = None" for sec m b now
    using that by (auto simp: context_errors_def lifetime_error_def reject_if_None split: option.splits)
  obtain e where e: "DATE (js_get context ''expires_at'') = Some e" using alive [OF verified(1) [OF assms(1)]] by blast
  have "t2 < e" using alive [OF verified(1) [OF again]] e by auto
  moreover obtain s where s: "js_get context ''nonce'' = JStr s"
      "files1 = files @ [(s, or_null_text (json_stringify (JObj [(''expires_at'', js_or_nullish (js_get context ''expires_at'') JNull)])))]"
    using verified(2) [OF assms(1)] by auto
  ultimately have "s \<in> set (map fst files2)"
    using kept_until_expiry [OF assms(2), of s _ e] nonce_file_expiry [where DATE = DATE, OF assms(4) e] assms(3) by force
  then show False using verified(2) [OF again] s(1) by auto
qed

section \<open>A signature stands for one content\<close>

lemma signed:
  assumes "\<forall>e \<in> set (context_errors MAC BYTES DATE context secret meta binding nowMs). e = None"
  shows "\<exists>kvs l. context = JObj kvs \<and> BYTES (js_get context ''integrity'') = Some l \<and>
    BYTES (JStr (''hmac-sha256:'' @ MAC (string_of secret) (canonicalizeLauncherContext context))) = Some l"
proof -
  have "integrity_error MAC BYTES context secret = None" and "is_plain_object context"
    using assms by (auto simp: context_errors_def assertPlainObject_def reject_if_None)
  then show ?thesis
    unfolding integrity_error_def signLauncherContext_def safeIntegrityEqual_def
    by (cases "context") (auto simp: Let_def and_then_Inr checked_Inr split: if_splits sum.splits option.splits)
qed

lemma member_value: "json_value v \<Longrightarrow> js_get v k \<noteq> JUndef \<Longrightarrow> json_value (js_get v k)"
  using obj_get_cases [of "js_spread v" k] by (cases v) fastforce+

text \<open>C14: A signature stands for one content. When the authentication code has no collision on the two texts, contexts with the
  same signature that both verify agree on every member, up to the order of keys, so they are for the same action: a signature
  cannot be moved to another action, role or lifetime.\<close>

theorem signature_binds_context:
  assumes "verifyLauncherContext MAC BYTES DATE c1 secret m1 b1 (Some files1) t1 = (Inr p1, st1)"
    and "verifyLauncherContext MAC BYTES DATE c2 secret m2 b2 (Some files2) t2 = (Inr p2, st2)"
    and "js_get c1 ''integrity'' = js_get c2 ''integrity''" and "json_value c1" and "json_value c2"
    and "\<And>x y. BYTES (JStr x) = BYTES (JStr y) \<Longrightarrow> x = y"
    and "MAC (string_of secret) (canonicalizeLauncherContext c1) = MAC (string_of secret) (canonicalizeLauncherContext c2) \<Longrightarrow>
      canonicalizeLauncherContext c1 = canonicalizeLauncherContext c2"
  shows "sorted_members (js_get c1 k) = sorted_members (js_get c2 k) \<and> canonicalizeJson b1 = canonicalizeJson b2"
proof -
  obtain k1 l1 where 1: "c1 = JObj k1" "BYTES (js_get c1 ''integrity'') = Some l1"
      "BYTES (JStr (''hmac-sha256:'' @ MAC (string_of secret) (canonicalizeLauncherContext c1))) = Some l1"
    using signed [OF verified(1) [OF assms(1)]] by blast
  obtain k2 l2 where 2: "c2 = JObj k2" "BYTES (js_get c2 ''integrity'') = Some l2"
      "BYTES (JStr (''hmac-sha256:'' @ MAC (string_of secret) (canonicalizeLauncherContext c2))) = Some l2"
    using signed [OF verified(1) [OF assms(2)]] by blast
  have "''hmac-sha256:'' @ MAC (string_of secret) (canonicalizeLauncherContext c1) =
      ''hmac-sha256:'' @ MAC (string_of secret) (canonicalizeLauncherContext c2)"
    using 1(2,3) 2(2,3) assms(3) by (intro assms(6)) simp
  then have same_text: "canonicalizeLauncherContext c1 = canonicalizeLauncherContext c2" using assms(7) by simp
  let ?r1 = "JObj (obj_remove ''integrity'' k1)"
  let ?r2 = "JObj (obj_remove ''integrity'' k2)"
  have v: "json_value ?r1" "json_value ?r2" using assms(4,5) unfolding 1 2 obj_remove_def
    by (auto simp: distinct_map_filter)
  have "canonicalizeJson ?r1 = canonicalizeJson ?r2"
    using same_text canonicalizeJson_text [OF v(1)] canonicalizeJson_text [OF v(2)]
    by (simp add: canonicalizeLauncherContext_def 1(1) 2(1) joined_text_def del: sorted_members.simps canonicalizeJson.simps)
  then have same: "sorted_members ?r1 = sorted_members ?r2" by (rule canonicalizeJson_inj [OF v])
  have d: "distinct (own_keys ?r1)" "distinct (own_keys ?r2)" using v by simp_all
  have rest: "k \<noteq> ''integrity'' \<Longrightarrow> js_get ?r1 k = js_get c1 k \<and> js_get ?r2 k = js_get c2 k" for k
    unfolding 1(1) 2(1) by (simp add: obj_get_remove)
  have fields: "sorted_members (js_get c1 k) = sorted_members (js_get c2 k)" for k
  proof (cases "k = ''integrity''")
    case False
    then show ?thesis using rest [OF False] sorted_members_get [OF d(1), of k] sorted_members_get [OF d(2), of k] same by simp
  qed (simp add: assms(3))
  have bound: "js_get c1 ''action_binding'' \<noteq> JUndef" "js_get c2 ''action_binding'' \<noteq> JUndef"
    using verified(1) [OF assms(1)] verified(1) [OF assms(2)] by (simp_all add: context_errors_def reject_if_None)
  have "canonicalizeJson (js_get c1 ''action_binding'') = canonicalizeJson (js_get c2 ''action_binding'')"
    by (rule sorted_canonical [OF member_value [OF assms(4) bound(1)] member_value [OF assms(5) bound(2)] fields])
  then show ?thesis using fields verified(3) [OF assms(1)] verified(3) [OF assms(2)] by simp
qed

section \<open>A minted context verifies\<close>

lemma minted:
  assumes "mintLauncherContext MAC ISO random secret meta binding ttl now nonce = Inr minted"
  shows "is_nonempty_string secret \<and> minted = JObj (unsigned_context ISO meta binding (js_or_nullish nonce (JStr random)) (ttl * 1000) now @
    [(''integrity'', JStr (''hmac-sha256:'' @ MAC (string_of secret) (canonicalizeLauncherContext minted)))])"
proof -
  let ?kvs = "unsigned_context ISO meta binding (js_or_nullish nonce (JStr random)) (ttl * 1000) now"
  have free: "obj_remove ''integrity'' ?kvs = ?kvs" by (simp add: unsigned_context_def obj_remove_def REVIEWED_FIELDS_def)
  then have "canonicalizeLauncherContext (JObj (?kvs @ [(''integrity'', v)])) = canonicalizeLauncherContext (JObj ?kvs)" for v
    by (simp add: canonicalizeLauncherContext_def obj_remove_def)
  then show ?thesis
    using assms unfolding mintLauncherContext_def signLauncherContext_def Let_def
    by (auto simp: and_then_Inr checked_Inr first_error_None reject_if_None)
qed

definition reviewed :: "jsval \<Rightarrow> bool" where
  "reviewed meta \<longleftrightarrow> is_plain_object meta \<and> (\<forall>field \<in> set REVIEWED_FIELDS. is_nonempty_string (js_get meta field)) \<and>
     (nullish (js_get meta ''run_id'') \<or> is_nonempty_string (js_get meta ''run_id''))"

lemma mismatch_same: "is_nonempty_string v \<Longrightarrow> mismatch_error v v m = None"
  by (cases v) (simp_all add: mismatch_error_def js_or_nullish_def nullish_def reject_if_None)

lemma nonce_nonempty: "nonce_pattern s \<Longrightarrow> s \<noteq> []"
  by (auto simp: nonce_pattern_def)

lemma minted_verifies:
  assumes "mintLauncherContext MAC ISO random secret meta binding ttl now nonce = Inr minted"
    and "reviewed meta" and "is_plain_object binding"
    and "js_or_nullish nonce (JStr random) = JStr s" and "nonce_pattern s" and "s \<notin> set (map fst files)"
    and "DATE (JStr (ISO now)) = Some now" and "DATE (JStr (ISO (now + ttl * 1000))) = Some (now + ttl * 1000)"
    and "now \<le> t" and "t < now + ttl * 1000" and "\<And>x. BYTES (JStr x) \<noteq> None"
  shows "\<exists>p st. verifyLauncherContext MAC BYTES DATE minted secret meta binding (Some files) t = (Inr p, st) \<and> pv_launcher_authority p"
proof -
  let ?sig = "''hmac-sha256:'' @ MAC (string_of secret) (canonicalizeLauncherContext minted)"
  let ?kvs = "unsigned_context ISO meta binding (JStr s) (ttl * 1000) now @ [(''integrity'', JStr ?sig)]"
  have secret: "is_nonempty_string secret" and m: "minted = JObj ?kvs" using minted [OF assms(1)] assms(4) by simp_all
  note kvs = unsigned_context_def REVIEWED_FIELDS_def
  have get: "js_get minted ''schema_version'' = JInt 1" "js_get minted ''kind'' = JStr ''launcher_role_guard_context''"
      "js_get minted ''integrity'' = JStr ?sig" "js_get minted ''role_context'' = js_get meta ''role_context''"
      "js_get minted ''action_binding'' = binding" "js_get minted ''created_at'' = JStr (ISO now)"
      "js_get minted ''expires_at'' = JStr (ISO (now + ttl * 1000))" "js_get minted ''nonce'' = JStr s"
    by (subst m, simp add: kvs)+
  have run: "js_get minted ''run_id'' = (if nullish (js_get meta ''run_id'') then JUndef else js_get meta ''run_id'')"
    by (subst m, simp add: kvs)
  have field: "field \<in> set REVIEWED_FIELDS \<Longrightarrow> js_get minted field = js_get meta field" for field
    by (subst m) (auto simp: kvs)
  have keys: "rejectUnknownKeys minted CONTEXT_KEYS ''launcher context'' = None"
    by (subst m) (simp add: rejectUnknownKeys_def kvs CONTEXT_KEYS_def)
  have plain: "is_plain_object minted" by (subst m) simp
  obtain l where l: "BYTES (JStr ?sig) = Some l" using assms(11) by blast
  have integrity: "integrity_error MAC BYTES minted secret = None"
    using l secret unfolding integrity_error_def get signLauncherContext_def safeIntegrityEqual_def
    by (simp add: assertString_def reject_if_def checked_def)
  have fields: "\<forall>e \<in> set (reviewed_field_errors minted meta field). e = None" if "field \<in> set REVIEWED_FIELDS" for field
    using that assms(2) field [OF that]
    by (simp add: reviewed_field_errors_def reviewed_def assertString_def reject_if_None mismatch_same)
  have "run_id_error minted meta = None"
    using assms(2) run by (auto simp: run_id_error_def reviewed_def mismatch_same reject_if_None nullish_def)
  moreover have "lifetime_error DATE t minted = None"
    using assms(7-10) by (simp add: lifetime_error_def get reject_if_None)
  ultimately have "first_error (context_errors MAC BYTES DATE minted secret meta binding t) = None"
    using keys integrity fields assms(2,3) plain
    unfolding first_error_None context_errors_def
    by (auto simp: get reject_if_None assertPlainObject_def assertString_def reviewed_def nonce_nonempty [OF assms(5)])
  then show ?thesis
    using assms(5,6) unfolding verifyLauncherContext_def by (simp add: get checkAndMark_def)
qed

text \<open>C27: What the launcher mints is accepted: with the reviewed metadata and the action it was minted for, a context with a fresh
  nonce verifies at every time of its lifetime, and gives the authority of the launcher.\<close>

theorem minted_context_verifies:
  assumes "mintLauncherContext MAC ISO random secret meta binding ttl now nonce = Inr minted"
    and "reviewed meta" and "is_plain_object binding"
    and "js_or_nullish nonce (JStr random) = JStr s" and "nonce_pattern s" and "s \<notin> set (map fst files)"
    and "DATE (JStr (ISO now)) = Some now" and "DATE (JStr (ISO (now + ttl * 1000))) = Some (now + ttl * 1000)"
    and "now \<le> t" and "t < now + ttl * 1000" and "\<And>x. BYTES (JStr x) \<noteq> None"
  shows "\<exists>p st. verifyLauncherContext MAC BYTES DATE minted secret meta binding (Some files) t = (Inr p, st) \<and> pv_launcher_authority p"
  by (rule minted_verifies [of MAC ISO random secret meta binding ttl now nonce minted s files DATE t BYTES, OF assms])

section \<open>A nonce file that was not written completely\<close>

lemma parse_empty: "json_parse NUM [] = SyntaxError"
  by (simp add: json_parse_def read_value.simps [of NUM "[]"])

lemma torn_unreadable:
  assumes "readable NUM v" and "json_text (JObj [(''expires_at'', v)]) = torn @ rest" and "rest \<noteq> []"
  shows "nonce_expired NUM DATE t torn = None"
proof -
  have r: "readable NUM (JObj [(''expires_at'', v)])" using assms(1) by (simp add: own_key_order_def)
  have "json_parse NUM torn = SyntaxError"
  proof (cases "torn = []")
    case False
    show ?thesis by (rule json_parse_torn [OF r assms(2) False assms(3)])
  qed (simp add: parse_empty)
  then show ?thesis by (simp add: nonce_expired_def)
qed

text \<open>C28: A nonce file that was cut short blocks the store for good: when a process stops between creating the file of a nonce and
  the end of writing it, every later collection throws, and leaves the file where it is, so no store can be created any more.\<close>

theorem torn_nonce_blocks_store:
  assumes "(s, torn) \<in> set files" and "nonce_pattern s" and "readable NUM v"
    and "json_text (JObj [(''expires_at'', v)]) = torn @ rest" and "rest \<noteq> []"
  shows "fst (gcExpiredNonces NUM DATE t files) = Some OtherThrown \<and> (s, torn) \<in> set (snd (gcExpiredNonces NUM DATE t files))"
  using assms(1,2) torn_unreadable [OF assms(3-5), of DATE t] by (auto simp: gcExpiredNonces_def list_ex_iff)

lemma torn_nonce_blocks_store_witness:
  "fst (gcExpiredNonces NFrac (\<lambda>v. None) 5 [(''n1'', [])]) = Some OtherThrown"
proof -
  have "json_text (JObj [(''expires_at'', JNull)]) = [] @ json_text (JObj [(''expires_at'', JNull)])"
      "json_text (JObj [(''expires_at'', JNull)]) \<noteq> []"
    by (simp_all add: json_text_obj_value)
  moreover have "nonce_pattern ''n1''" by code_simp
  ultimately show ?thesis
    using torn_nonce_blocks_store [of "''n1''" "[]" "[(''n1'', [])]" NFrac JNull "json_text (JObj [(''expires_at'', JNull)])"]
    by simp
qed

section \<open>An example\<close>

definition demo_mac :: mac where
  "demo_mac secret t = secret @ t"

definition demo_bytes :: bytes_of where
  "demo_bytes v = (case v of JStr s \<Rightarrow> Some (map of_char s) | _ \<Rightarrow> None)"

definition demo_date :: dates where
  "demo_date v = (case v of JStr s \<Rightarrow> Some (int (nat_of_digits s)) | _ \<Rightarrow> None)"

definition demo_meta :: jsval where
  "demo_meta = JObj [(''review_id'', JStr ''R''), (''handoff_id'', JStr ''H''), (''mode'', JStr ''launch''), (''repo_root'', JStr ''/repo''),
     (''input_manifest_hash'', JStr ''i''), (''registry_hash'', JStr ''g''), (''role_context'', JObj [(''role'', JStr ''worker'')])]"

definition demo_binding :: jsval where
  "demo_binding = JObj [(''action_type'', JStr ''check-write''), (''role'', JStr ''worker'')]"

definition demo_launcher_context :: jsval where
  "demo_launcher_context = (case mintLauncherContext demo_mac dec_int ''n1'' (JStr ''key'') demo_meta demo_binding 60 0 JNull of
     Inl e \<Rightarrow> JNull | Inr minted \<Rightarrow> minted)"

lemma demo_minted: "mintLauncherContext demo_mac dec_int ''n1'' (JStr ''key'') demo_meta demo_binding 60 0 JNull = Inr demo_launcher_context"
proof -
  have "\<exists>c. mintLauncherContext demo_mac dec_int ''n1'' (JStr ''key'') demo_meta demo_binding 60 0 JNull = Inr c"
    by (simp add: mintLauncherContext_def signLauncherContext_def checked_def reject_if_def is_object_value_def demo_meta_def
      demo_binding_def assertString_def Let_def)
  then show ?thesis by (auto simp: demo_launcher_context_def)
qed

lemma demo_reviewed: "reviewed demo_meta" by code_simp

lemma demo_nonce: "nonce_pattern ''n1''" by code_simp

lemma demo_bytes_inj: "demo_bytes (JStr x) = demo_bytes (JStr y) \<Longrightarrow> x = y"
proof -
  assume "demo_bytes (JStr x) = demo_bytes (JStr y)"
  moreover have "inj (of_char :: char \<Rightarrow> nat)" by (simp add: inj_def)
  ultimately show "x = y" unfolding demo_bytes_def by (simp add: inj_map_eq_map)
qed

lemma demo_dates: "demo_date (JStr (dec_int 0)) = Some 0" "demo_date (JStr (dec_int (0 + 60 * 1000))) = Some (0 + 60 * 1000)"
  by (simp_all add: demo_date_def dec_int_def)

lemma demo_hypotheses:
  "is_plain_object demo_binding" "js_or_nullish JNull (JStr ''n1'') = JStr ''n1''" "demo_bytes (JStr x) \<noteq> None"
  "''n1'' \<notin> set (map fst [])"
  by (simp_all add: demo_binding_def demo_bytes_def js_or_nullish_def nullish_def)

lemma demo_verified:
  "\<exists>p files. verifyLauncherContext demo_mac demo_bytes demo_date demo_launcher_context (JStr ''key'') demo_meta demo_binding (Some []) 7 = (Inr p, Some files)"
proof -
  obtain p st where v: "verifyLauncherContext demo_mac demo_bytes demo_date demo_launcher_context (JStr ''key'') demo_meta demo_binding (Some []) 7 = (Inr p, st)"
    using minted_verifies [of demo_mac dec_int "''n1''" "JStr ''key''" demo_meta demo_binding 60 0 JNull demo_launcher_context "''n1''" "[]" demo_date 7 demo_bytes,
      OF demo_minted demo_reviewed demo_hypotheses(1,2) demo_nonce demo_hypotheses(4) demo_dates _ _ demo_hypotheses(3)]
    by auto
  then show ?thesis using verified(2) [OF v] by auto
qed

lemma demo_context_value: "json_value demo_launcher_context" "js_get demo_launcher_context ''expires_at'' = JStr (dec_int 60000)"
proof -
  have "demo_launcher_context = JObj (unsigned_context dec_int demo_meta demo_binding (JStr ''n1'') 60000 0 @
      [(''integrity'', JStr (''hmac-sha256:'' @ demo_mac (string_of (JStr ''key'')) (canonicalizeLauncherContext demo_launcher_context)))])"
    using minted [OF demo_minted] by (simp add: js_or_nullish_def nullish_def)
  then obtain sig where c: "demo_launcher_context = JObj (unsigned_context dec_int demo_meta demo_binding (JStr ''n1'') 60000 0 @ [(''integrity'', JStr sig)])"
    by blast
  show "json_value demo_launcher_context" "js_get demo_launcher_context ''expires_at'' = JStr (dec_int 60000)"
    unfolding c by (simp_all add: unsigned_context_def REVIEWED_FIELDS_def demo_meta_def demo_binding_def nullish_def)
qed

lemma context_single_use_witness:
  "\<exists>files e. fst (verifyLauncherContext demo_mac demo_bytes demo_date demo_launcher_context (JStr ''key'') demo_meta demo_binding (Some files) 9) = Inl e"
proof -
  obtain p files where v: "verifyLauncherContext demo_mac demo_bytes demo_date demo_launcher_context (JStr ''key'') demo_meta demo_binding
      (Some []) 7 = (Inr p, Some files)"
    using demo_verified by blast
  have "nonce_history NFrac demo_date demo_mac demo_bytes 7 files 8 (snd (gcExpiredNonces NFrac demo_date 8 files))"
    by (rule history_collect [OF history_start]) simp
  from context_single_use [OF v this, of 9 "JStr ''key''" demo_meta demo_binding]
  have "\<exists>e. fst (verifyLauncherContext demo_mac demo_bytes demo_date demo_launcher_context (JStr ''key'') demo_meta demo_binding
      (Some (snd (gcExpiredNonces NFrac demo_date 8 files))) 9) = Inl e"
    by (simp add: demo_context_value(2))
  then show ?thesis by blast
qed

lemma signature_binds_context_witness:
  "sorted_members (js_get demo_launcher_context ''nonce'') = sorted_members (js_get demo_launcher_context ''nonce'') \<and>
   canonicalizeJson demo_binding = canonicalizeJson demo_binding"
proof -
  obtain p files where v: "verifyLauncherContext demo_mac demo_bytes demo_date demo_launcher_context (JStr ''key'') demo_meta demo_binding
      (Some []) 7 = (Inr p, Some files)"
    using demo_verified by blast
  show ?thesis by (rule signature_binds_context [OF v v refl demo_context_value(1) demo_context_value(1) demo_bytes_inj refl])
qed

lemma minted_context_verifies_witness:
  "\<exists>p st. verifyLauncherContext demo_mac demo_bytes demo_date demo_launcher_context (JStr ''key'') demo_meta demo_binding (Some []) 7 = (Inr p, st) \<and>
     pv_launcher_authority p"
  by (rule minted_context_verifies [of demo_mac dec_int "''n1''" "JStr ''key''" demo_meta demo_binding 60 0 JNull demo_launcher_context "''n1''" "[]" demo_date 7 demo_bytes,
      OF demo_minted demo_reviewed demo_hypotheses(1,2) demo_nonce demo_hypotheses(4) demo_dates _ _ demo_hypotheses(3)])
    simp_all

end
