(* ===== verification/RoleGuardCommandProperties.thy ===== *)
theory RoleGuardCommandProperties
  imports RoleGuardCommand RoleGuardProperties LauncherContextProperties
begin

text \<open>
  Properties of the command \<open>role-guard\<close>: a provenance from a JSON file grants no role, and what a launcher context allows is what
  its signature covers.
\<close>

section \<open>Runs that decide\<close>

lemma from_guard_Inr: "from_guard r = Inr x \<longleftrightarrow> r = Inr x"
  by (cases r) simp_all

lemma decided_run:
  assumes "runRoleGuard w argv dirs = (Inr (Some d), dirs')" and "parseRoleGuardArgs argv = Inr (subcommand, options, commandArgv)"
  shows "\<exists>config action p. buildAction w subcommand options commandArgv = Inr action \<and>
    run_provenance w options action (option_value options ''repo-root'' (JStr (cw_cwd w)))
      (option_value options ''config'' (JStr ''.agent-role-guard.json'')) dirs = (Inr p, dirs') \<and>
    evaluateRoleGuardAction (cw_guard w) (guard_request_of w options config
      (option_value options ''repo-root'' (JStr (cw_cwd w))) action p) = Inr d"
proof -
  let ?repoRoot = "option_value options ''repo-root'' (JStr (cw_cwd w))"
  let ?configPath = "option_value options ''config'' (JStr ''.agent-role-guard.json'')"
  have "subcommand \<noteq> ''explain''" using assms by (auto simp: runRoleGuard_def)
  then obtain config action where 1: "guarded_action w subcommand options commandArgv ?repoRoot ?configPath = Inr (config, action)"
    using assms by (cases "guarded_action w subcommand options commandArgv ?repoRoot ?configPath") (auto simp: runRoleGuard_def Let_def)
  obtain p dirs'' where 2: "run_provenance w options action ?repoRoot ?configPath dirs = (p, dirs'')" by force
  have "and_then p (\<lambda>p. and_then (from_guard (evaluateRoleGuardAction (cw_guard w)
      (guard_request_of w options config ?repoRoot action p))) (\<lambda>d. Inr (Some d))) = Inr (Some d)" "dirs'' = dirs'"
    using assms \<open>subcommand \<noteq> ''explain''\<close> 1 2 by (simp_all add: runRoleGuard_def Let_def)
  then show ?thesis using 1 2 by (auto simp: guarded_action_def and_then_Inr from_guard_Inr)
qed

lemma decided_role:
  assumes "evaluateRoleGuardAction w q = Inr d"
  shows "\<exists>config. resolveAgentRole (gw_regexps w) config (pv_put ''caller'' (caller_of (gq_provenance q)) (gq_provenance q))
    (gq_allowTestFixture q) = Inr (gd_role d)"
proof -
  obtain config rc where 1: "resolveAgentRole (gw_regexps w) config (pv_put ''caller'' (caller_of (gq_provenance q)) (gq_provenance q))
      (gq_allowTestFixture q) = Inr rc"
    and 2: "conclude rc (js_get (gq_action q) ''type'') (guard_block w q config rc) = Inr d"
    using assms unfolding evaluateRoleGuardAction_def and_then_Inr by blast
  have "gd_role d = rc" using 2 by (auto simp: conclude_def decision_def split: prod.splits verdict.splits guard_error.splits)
  then show ?thesis using 1 by blast
qed

lemma built_type: "buildAction w subcommand options commandArgv = Inr action \<Longrightarrow> js_get action ''type'' = JStr subcommand"
  by (auto simp: buildAction_def and_then_Inr Let_def cli_fail_def split: if_splits option.splits)

text \<open>C16: A JSON file grants nothing. A run of the command that is given a provenance file, outside of tests, decides under the
  role \<open>unknown\<close> whatever the file says, never allows a write or a diff, and marks no nonce.\<close>

theorem json_provenance_grants_nothing:
  assumes "runRoleGuard w argv dirs = (Inr (Some d), dirs')" and "parseRoleGuardArgs argv = Inr (subcommand, options, commandArgv)"
    and "\<not> has_option options ''launcher-context''" and "\<not> testFixtureFlagEnabled w options"
  shows "rc_role (gd_role d) = ''unknown'' \<and> dirs' = dirs \<and> (gd_allowed d \<longrightarrow> subcommand = ''check-command'')"
proof -
  let ?repoRoot = "option_value options ''repo-root'' (JStr (cw_cwd w))"
  obtain config action p configPath where action: "buildAction w subcommand options commandArgv = Inr action"
      and p: "run_provenance w options action ?repoRoot configPath dirs = (Inr p, dirs')"
      and d: "evaluateRoleGuardAction (cw_guard w) (guard_request_of w options config ?repoRoot action p) = Inr d"
    using decided_run [OF assms(1,2)] by blast
  let ?q = "guard_request_of w options config ?repoRoot action p"
  have q: "gq_provenance ?q = p" "gq_allowTestFixture ?q = False" "gq_action ?q = action"
    using assms(4) by (simp_all add: guard_request_of_def)
  have authority: "\<not> pv_launcher_authority p" and dirs: "dirs' = dirs"
    using p assms(3) by (auto simp: run_provenance_def json_provenance_def and_then_Inr split: option.splits if_splits)
  have role: "rc_role (gd_role d) = ''unknown''"
    using decided_role [OF d] launcher_granted authority unfolding q by (metis pv_put_authority(1))
  have "subcommand = ''check-command''" if "gd_allowed d"
  proof (rule ccontr)
    assume "subcommand \<noteq> ''check-command''"
    then have "subcommand \<in> {''check-write'', ''check-diff''}"
      using action by (auto simp: buildAction_def cli_fail_def split: if_splits)
    then have "js_get (gq_action ?q) ''type'' \<in> {JStr ''check-write'', JStr ''check-diff''}" using built_type [OF action] q by simp
    from allowed_write_safe [OF d that this] have "gq_allowTestFixture ?q \<or> pv_launcher_authority (gq_provenance ?q)" by blast
    then show False using authority q by simp
  qed
  then show ?thesis using role dirs by blast
qed

section \<open>What a launcher context allows\<close>

text \<open>What a loaded context is, outside of tests.\<close>

lemma loaded_context:
  assumes "loadVerifiedLauncherContext w options action repoRoot configPath False dirs = (Inr ctx, dirs')"
  shows "\<exists>raw binding files p marked. readJsonPayload w (option_value options ''launcher-context'' JUndef) ''--launcher-context'' = Inr ctx \<and>
    cw_file w (cw_secret_path w) = FileText raw \<and>
    gcExpiredNonces (gw_numbers (cw_guard w)) (cw_date w) (cw_collect_time w) (dirs (cw_nonce_dir w)) = (None, files) \<and>
    verifyLauncherContext (cw_mac w) (cw_bytes w) (cw_date w) ctx (JStr (js_trim raw))
      (deriveExpectedReviewedMetadataFromContext ctx) binding (Some files) (cw_verify_time w) = (Inr p, Some marked) \<and>
    dirs' = dirs(cw_nonce_dir w := marked) \<and>
    buildExpectedActionBinding w action repoRoot configPath (context_role ctx) (context_wk ctx) = Inr binding"
proof -
  obtain c binding secret where inputs: "context_inputs w options action repoRoot configPath False = Inr (c, binding, secret)"
    using assms by (cases "context_inputs w options action repoRoot configPath False") (auto simp: loadVerifiedLauncherContext_def)
  then have payload: "readJsonPayload w (option_value options ''launcher-context'' JUndef) ''--launcher-context'' = Inr c"
      and b: "buildExpectedActionBinding w action repoRoot configPath (context_role c) (context_wk c) = Inr binding"
      and none: "\<not> has_option options ''launcher-context-secret-path''" "\<not> has_option options ''launcher-context-nonce-dir''"
      and secret: "context_secret w options = Inr secret"
    by (auto simp: context_inputs_def and_then_Inr cli_fail_def split: if_splits)
  have absent: "\<not> has_option options name \<Longrightarrow> option_value options name JUndef = JUndef" for name
    using map_of_eq_None_iff [of options name] by (simp add: has_option_def option_value_def)
  have dir: "nonce_dir w options = cw_nonce_dir w" by (simp add: nonce_dir_def absent [OF none(2)])
  obtain raw where raw: "cw_file w (cw_secret_path w) = FileText raw" "secret = JStr (js_trim raw)"
    using secret by (auto simp: context_secret_def absent [OF none(1)] read_secret_def split: file_answer.splits if_splits)
  obtain e files where gc: "gcExpiredNonces (gw_numbers (cw_guard w)) (cw_date w) (cw_collect_time w) (dirs (cw_nonce_dir w)) = (e, files)"
    by force
  obtain answer marked where v: "verifyLauncherContext (cw_mac w) (cw_bytes w) (cw_date w) c secret
      (deriveExpectedReviewedMetadataFromContext c) binding (Some files) (cw_verify_time w) = (answer, marked)" by force
  have r: "e = None" "c = ctx" "\<exists>p. answer = Inr p" "dirs' = dirs(cw_nonce_dir w := case marked of None \<Rightarrow> files | Some fs \<Rightarrow> fs)"
    using assms inputs gc v by (auto simp: loadVerifiedLauncherContext_def dir Let_def split: option.splits sum.splits)
  then obtain p where p: "answer = Inr p" by blast
  from verified(2) [OF v [unfolded p]] obtain fs where fs: "marked = Some fs" by blast
  show ?thesis
    using payload b raw gc v r(4) unfolding p r(1,2) fs raw(2) by (intro exI conjI) (assumption | simp)+
qed

lemma context_alive:
  assumes "\<forall>e \<in> set (context_errors MAC BYTES DATE context secret meta binding nowMs). e = None"
  shows "\<exists>created expires. DATE (js_get context ''created_at'') = Some created \<and> DATE (js_get context ''expires_at'') = Some expires \<and>
    created \<le> nowMs \<and> nowMs < expires"
proof -
  have "lifetime_error DATE nowMs context = None" using assms by (simp add: context_errors_def)
  then show ?thesis by (auto simp: lifetime_error_def reject_if_None not_less not_le split: option.splits)
qed

lemma launcher_role:
  assumes "launcherProvenanceFromContext ctx configPath = Inr p"
    and "resolveAgentRole RX config (pv_put ''caller'' (caller_of p) p) t = Inr rc"
  shows "context_role ctx = JStr (rc_role rc)"
proof -
  obtain s where s: "context_role ctx = JStr s" and ev: "pv_get p ''role'' = evidence (JStr s) ''launcher_metadata''"
    using assms(1) by (cases "context_role ctx") (auto simp: launcherProvenanceFromContext_def cli_fail_def pv_get_def Let_def split: if_splits)
  have "is_plain_object (pv_fields p)"
    using assms(1) by (auto simp: launcherProvenanceFromContext_def cli_fail_def Let_def split: if_splits)
  then have "pv_get (pv_put ''caller'' (caller_of p) p) ''role'' = evidence (JStr s) ''launcher_metadata''"
    using ev by (cases "pv_fields p") (simp_all add: pv_get_def pv_put_def)
  moreover obtain e d x sv where x: "normalizeSource (pv_get (pv_put ''caller'' (caller_of p) p) ''role'') ''role'' = Inr x"
      and e: "\<exists>q. explicit_role x q t = Inr e" and rc: "rc = role_context_of e d x sv"
    using resolved_role [OF assms(2)] by blast
  ultimately have "js_get x ''value'' = JStr s"
    by (auto simp: evidence_def normalizeSource_def checked_Inr js_or_nullish_def nullish_def Let_def)
  then have "e = Some s" using e by (auto simp: explicit_role_def checked_Inr kind_text_def)
  then show ?thesis using s rc by (simp add: role_context_of_def)
qed

lemma evaluated_same:
  assumes "normalizeRepoRelativePath v name' = Inr p" and "cli_normalize_path v name = Inr n"
  shows "n = p"
  using assms
  by (auto simp: checked_Inr normalizeRepoRelativePath_def cli_normalize_path_def cli_fail_def Let_def
    split: jsval.splits list.splits if_splits)

lemma targets_same:
  assumes "targets_of_paths vs ts" and "cli_normalize_paths vs = Inr ns"
  shows "ns = map td_path ts"
  using assms unfolding targets_of_paths_def
proof (induction vs arbitrary: ts ns)
  case (Cons v vs)
  then obtain t ts' where "ts = t # ts'" by (cases ts) auto
  with Cons show ?case by (auto simp: and_then_Inr dest: evaluated_same)
qed simp

text \<open>What the launcher must have signed for a write with these options.\<close>

definition signed_write :: "cli_world \<Rightarrow> cli_options \<Rightarrow> string \<Rightarrow> jsval \<Rightarrow> string list \<Rightarrow> jsval" where
  "signed_write w options role wk paths = JObj [(''action_type'', JStr ''check-write''),
     (''config_path'', option_value options ''config'' (JStr ''.agent-role-guard.json'')),
     (''repo_root'', option_value options ''repo-root'' (JStr (cw_cwd w))), (''role'', JStr role), (''wk'', wk),
     (''target_hash'', JStr (computeActionPayloadHash (cw_hash64 w) (JArr (map JStr (sort paths)))))]"

text \<open>C5: A write that a launcher context allows is the one the launcher signed. Outside of tests, when a run with a context allows
  a write, the JSON of the context file carries the authentication code of its own content under the launcher's secret, is alive at
  that time, and its nonce was not in the launcher's nonce store and is in it afterwards; what it signs is a write under the role of
  the decision, in this repository and with this configuration, of the normal forms of exactly the paths that were given, which are
  the targets of the decision.\<close>

theorem launcher_context_signs_targets:
  assumes "runRoleGuard w argv dirs = (Inr (Some d), dirs')" and "gd_allowed d"
    and "parseRoleGuardArgs argv = Inr (''check-write'', options, commandArgv)" and "has_option options ''launcher-context''"
    and "\<not> testFixtureFlagEnabled w options"
  shows "\<exists>ctx raw code files nonce content created expires.
    readJsonPayload w (option_value options ''launcher-context'' JUndef) ''--launcher-context'' = Inr ctx \<and>
    cw_file w (cw_secret_path w) = FileText raw \<and>
    cw_bytes w (js_get ctx ''integrity'') = Some code \<and>
    cw_bytes w (JStr (''hmac-sha256:'' @ cw_mac w (js_trim raw) (canonicalizeLauncherContext ctx))) = Some code \<and>
    cw_date w (js_get ctx ''created_at'') = Some created \<and> cw_date w (js_get ctx ''expires_at'') = Some expires \<and>
    created \<le> cw_verify_time w \<and> cw_verify_time w < expires \<and>
    snd (gcExpiredNonces (gw_numbers (cw_guard w)) (cw_date w) (cw_collect_time w) (dirs (cw_nonce_dir w))) = files \<and>
    js_get ctx ''nonce'' = JStr nonce \<and> nonce \<notin> fst ` set files \<and> dirs' = dirs(cw_nonce_dir w := files @ [(nonce, content)]) \<and>
    context_role ctx = JStr (rc_role (gd_role d)) \<and>
    canonicalizeJson (js_get ctx ''action_binding'') =
      canonicalizeJson (signed_write w options (rc_role (gd_role d)) (context_wk ctx) (map td_path (gd_targets d))) \<and>
    targets_of_paths (js_items (option_value options ''path'' (JArr []))) (gd_targets d)"
proof -
  let ?repoRoot = "option_value options ''repo-root'' (JStr (cw_cwd w))"
  let ?configPath = "option_value options ''config'' (JStr ''.agent-role-guard.json'')"
  obtain config action p where action: "buildAction w ''check-write'' options commandArgv = Inr action"
      and p: "run_provenance w options action ?repoRoot ?configPath dirs = (Inr p, dirs')"
      and d: "evaluateRoleGuardAction (cw_guard w) (guard_request_of w options config ?repoRoot action p) = Inr d"
    using decided_run [OF assms(1,3)] by blast
  let ?q = "guard_request_of w options config ?repoRoot action p"
  have q: "gq_provenance ?q = p" "gq_action ?q = action" by (simp_all add: guard_request_of_def)
  have paths: "action = JObj [(''type'', JStr ''check-write''), (''paths'', option_value options ''path'' (JArr []))]"
    using action by (auto simp: buildAction_def cli_fail_def Let_def split: if_splits)
  obtain ctx where ctx: "loadVerifiedLauncherContext w options action ?repoRoot ?configPath False dirs = (Inr ctx, dirs')"
      and prov: "launcherProvenanceFromContext ctx ?configPath = Inr p"
    using p assms(4,5) by (auto simp: run_provenance_def cli_fail_def and_then_Inr split: if_splits prod.splits)
  from loaded_context [OF ctx] obtain raw binding files pv marked where
    loaded: "readJsonPayload w (option_value options ''launcher-context'' JUndef) ''--launcher-context'' = Inr ctx"
      "cw_file w (cw_secret_path w) = FileText raw" "dirs' = dirs(cw_nonce_dir w := marked)"
      "gcExpiredNonces (gw_numbers (cw_guard w)) (cw_date w) (cw_collect_time w) (dirs (cw_nonce_dir w)) = (None, files)"
    and v: "verifyLauncherContext (cw_mac w) (cw_bytes w) (cw_date w) ctx (JStr (js_trim raw))
      (deriveExpectedReviewedMetadataFromContext ctx) binding (Some files) (cw_verify_time w) = (Inr pv, Some marked)"
    and binding: "buildExpectedActionBinding w action ?repoRoot ?configPath (context_role ctx) (context_wk ctx) = Inr binding"
    by blast
  have role: "context_role ctx = JStr (rc_role (gd_role d))"
    using decided_role [OF d] launcher_role [OF prov] unfolding q by blast
  have "js_get (gq_action ?q) ''type'' \<in> {JStr ''check-write'', JStr ''check-diff''}" by (simp add: guard_request_of_def paths)
  from allowed_write_safe [OF d assms(2) this]
  have targets: "targets_of_paths (js_items (option_value options ''path'' (JArr []))) (gd_targets d)"
    by (auto simp: raw_paths_def guard_request_of_def paths)
  obtain ns where ns: "cli_normalize_paths (js_items (option_value options ''path'' (JArr []))) = Inr ns"
      and b: "buildLauncherContextActionBinding (JStr ''check-write'') ?repoRoot ?configPath (context_role ctx) (context_wk ctx) JUndef JUndef
        (JStr (computeActionPayloadHash (cw_hash64 w) (JArr (map JStr (sort ns))))) = Inr binding"
    using binding by (auto simp: paths buildExpectedActionBinding_def and_then_Inr from_guard_Inr)
  have wk: "js_or_nullish (context_wk ctx) JNull = context_wk ctx" by (simp add: context_wk_def js_or_nullish_def nullish_def)
  have "binding = signed_write w options (rc_role (gd_role d)) (context_wk ctx) (map td_path (gd_targets d))"
    using b targets_same [OF targets ns] role wk
    by (auto simp: buildLauncherContextActionBinding_def checked_Inr js_default_def signed_write_def Let_def)
  with verified(3) [OF v]
  have signs: "canonicalizeJson (js_get ctx ''action_binding'') =
      canonicalizeJson (signed_write w options (rc_role (gd_role d)) (context_wk ctx) (map td_path (gd_targets d)))" by simp
  from signed [OF verified(1) [OF v]] obtain code where code: "cw_bytes w (js_get ctx ''integrity'') = Some code"
    "cw_bytes w (JStr (''hmac-sha256:'' @ cw_mac w (js_trim raw) (canonicalizeLauncherContext ctx))) = Some code" by auto
  from context_alive [OF verified(1) [OF v]] obtain created expires where alive:
    "cw_date w (js_get ctx ''created_at'') = Some created" "cw_date w (js_get ctx ''expires_at'') = Some expires"
    "created \<le> cw_verify_time w" "cw_verify_time w < expires" by blast
  from verified(2) [OF v] obtain nonce content where nonce: "js_get ctx ''nonce'' = JStr nonce" "nonce \<notin> fst ` set files"
    "marked = files @ [(nonce, content)]" by auto
  show ?thesis
    using loaded code alive nonce role signs targets
    by (intro exI [of _ ctx] exI [of _ raw] exI [of _ code] exI [of _ files] exI [of _ nonce] exI [of _ content]
      exI [of _ created] exI [of _ expires] conjI) simp_all
qed

section \<open>An example\<close>

definition demo_cli_meta :: jsval where
  "demo_cli_meta = JObj [(''review_id'', JStr ''R''), (''handoff_id'', JStr ''H''), (''mode'', JStr ''launch''), (''repo_root'', JStr ''/repo''),
     (''input_manifest_hash'', JStr ''i''), (''registry_hash'', JStr ''g''), (''role_context'', JObj [(''role'', JStr ''orchestrator'')])]"

definition demo_cli_binding :: jsval where
  "demo_cli_binding = JObj [(''action_type'', JStr ''check-write''), (''config_path'', JStr ''.agent-role-guard.json''),
     (''repo_root'', JStr ''/repo''), (''role'', JStr ''orchestrator''), (''wk'', JNull),
     (''target_hash'', JStr (computeActionPayloadHash id (JArr [JStr ''docs/a.md''])))]"

definition demo_cli_context :: jsval where
  "demo_cli_context = JObj (unsigned_context dec_int demo_cli_meta demo_cli_binding (JStr ''n1'') 60000 0 @
     [(''integrity'', JStr (''hmac-sha256:'' @ demo_mac ''key''
        (canonicalizeLauncherContext (JObj (unsigned_context dec_int demo_cli_meta demo_cli_binding (JStr ''n1'') 60000 0)))))])"

definition demo_files :: "string \<Rightarrow> file_answer" where
  "demo_files name =
     (if name = ''p.json'' then FileText (json_text (JObj [(''caller'', JStr ''codex_hook'')]))
      else if name = ''context.json'' then FileText (json_text demo_cli_context)
      else if name = ''secret'' then FileText ''key'' else FileMissing)"

definition demo_cli_guard :: guard_world where
  "demo_cli_guard = demo_world\<lparr>gw_fs := demo_guard_fs\<lparr>fs_readFile := (\<lambda>p. FileText (json_text demo_config))\<rparr>\<rparr>"

definition demo_cli_world :: cli_world where
  "demo_cli_world = \<lparr>cw_guard = demo_cli_guard, cw_file = demo_files, cw_cwd = ''/repo'', cw_test_env = False, cw_mac = demo_mac,
     cw_bytes = demo_bytes, cw_date = demo_date, cw_hash64 = id, cw_secret_path = ''secret'', cw_nonce_dir = ''nonces'',
     cw_collect_time = 5, cw_verify_time = 7\<rparr>"

lemma demo_config_loaded:
  "loadRoleGuardConfig demo_regexps NFrac (gw_fs demo_cli_guard) (JStr ''/repo'') (JStr ''.agent-role-guard.json'') JUndef False = Inr demo_normal"
proof -
  have "normalizeRepoRelativePath (JStr ''.agent-role-guard.json'') ''configPath'' = Inr ''.agent-role-guard.json''"
      "assertPathInside ''/repo'' (path_resolve ''/repo'' ''.agent-role-guard.json'') ''configPath'' = None"
    by code_simp+
  moreover have "readable NFrac demo_config"
    by code_simp
  ultimately show ?thesis
    by (simp add: loadRoleGuardConfig_def demo_cli_guard_def demo_world_def demo_guard_fs_def js_default_def assertString_def reject_if_def
      checked_def json_parse_text demo_valid_config)
qed

definition demo_options :: "string \<Rightarrow> string \<Rightarrow> cli_options" where
  "demo_options name file = [(''path'', JArr [JStr ''docs/a.md'']), (name, JStr file)]"

definition demo_argv :: "string \<Rightarrow> string \<Rightarrow> string list" where
  "demo_argv name file = [''check-write'', ''--path'', ''docs/a.md'', ''--'' @ name, file]"

definition demo_action :: jsval where
  "demo_action = JObj [(''type'', JStr ''check-write''), (''paths'', JArr [JStr ''docs/a.md''])]"

lemma demo_parsed:
  "parseRoleGuardArgs (demo_argv ''provenance-json'' ''p.json'') = Inr (''check-write'', demo_options ''provenance-json'' ''p.json'', [])"
  "parseRoleGuardArgs (demo_argv ''launcher-context'' ''context.json'') = Inr (''check-write'', demo_options ''launcher-context'' ''context.json'', [])"
  by code_simp+

lemma demo_world_parts [simp]:
  "cw_guard demo_cli_world = demo_cli_guard" "gw_regexps demo_cli_guard = demo_regexps" "gw_numbers demo_cli_guard = NFrac"
  "cw_file demo_cli_world = demo_files" "cw_cwd demo_cli_world = ''/repo''" "\<not> cw_test_env demo_cli_world"
  by (simp_all add: demo_cli_world_def demo_cli_guard_def demo_world_def)

lemma demo_cli_run:
  assumes "run_provenance demo_cli_world options demo_action (JStr ''/repo'') (JStr ''.agent-role-guard.json'') dirs = (Inr p, dirs')"
    and "parseRoleGuardArgs argv = Inr (''check-write'', options, [])" and "options = demo_options name file"
    and "name \<noteq> ''repo-root''" and "name \<noteq> ''config''" and "name \<noteq> ''path''"
    and "\<exists>d. evaluateRoleGuardAction demo_cli_guard (guard_request_of demo_cli_world options demo_normal (JStr ''/repo'') demo_action p) = Inr d \<and> Q d"
  shows "\<exists>d. runRoleGuard demo_cli_world argv dirs = (Inr (Some d), dirs') \<and> Q d"
proof -
  have o: "option_value options ''repo-root'' x = x" "option_value options ''config'' x = x" "option_value options ''path'' x = JArr [JStr ''docs/a.md'']"
      for x
    using assms(3-6) by (simp_all add: option_value_def demo_options_def)
  have "guarded_action demo_cli_world ''check-write'' options [] (JStr ''/repo'') (JStr ''.agent-role-guard.json'') = Inr (demo_normal, demo_action)"
    by (simp add: guarded_action_def demo_config_loaded buildAction_def o demo_action_def)
  then show ?thesis using assms(1,2,7) by (auto simp: runRoleGuard_def o Let_def)
qed

lemma conclude_decides:
  "snd (snd r) \<noteq> Raised OtherThrown \<Longrightarrow> \<exists>d. conclude rc type r = Inr d \<and> (gd_allowed d \<longleftrightarrow> (\<exists>code. snd (snd r) = Allow code))"
  by (cases r) (auto simp: conclude_def decision_def split: verdict.splits guard_error.splits)

lemma demo_evaluates:
  assumes "assertKnownCaller (caller_of p) False = None"
    and "resolveAgentRole demo_regexps demo_normal (pv_put ''caller'' (caller_of p) p) False = Inr rc"
    and "snd (snd (guard_block demo_cli_guard (guard_request_of demo_cli_world options demo_normal (JStr ''/repo'') demo_action p) demo_normal rc)) = v"
    and "v \<noteq> Raised OtherThrown"
  shows "\<exists>d. evaluateRoleGuardAction demo_cli_guard (guard_request_of demo_cli_world options demo_normal (JStr ''/repo'') demo_action p) = Inr d \<and>
    (gd_allowed d \<longleftrightarrow> (\<exists>code. v = Allow code))"
proof -
  let ?q = "guard_request_of demo_cli_world options demo_normal (JStr ''/repo'') demo_action p"
  have "\<not> testFixtureFlagEnabled demo_cli_world options" by (simp add: testFixtureFlagEnabled_def)
  then have q: "gq_config ?q = demo_normal" "gq_provenance ?q = p" "gq_action ?q = demo_action" "\<not> gq_allowTestFixture ?q"
    by (simp_all add: guard_request_of_def)
  have "first_error (config_errors demo_regexps demo_normal) = None" "normalize_config demo_normal = demo_normal" by code_simp+
  then have "validateRoleGuardConfig demo_regexps demo_normal = Inr demo_normal"
    by (simp add: validateRoleGuardConfig_def checked_def)
  then have e: "evaluateRoleGuardAction demo_cli_guard ?q = conclude rc (js_get demo_action ''type'') (guard_block demo_cli_guard ?q demo_normal rc)"
    using assms(1,2) q by (simp add: evaluateRoleGuardAction_def assertPlainObject_def reject_if_def checked_def demo_action_def)
  show ?thesis unfolding e assms(3) [symmetric] by (rule conclude_decides) (simp add: assms(3,4))
qed

definition demo_json_provenance :: provenance where
  "demo_json_provenance = \<lparr>pv_fields = JObj [(''caller'', JStr ''codex_hook'')], pv_launcher_authority = False, pv_operator_authority = False\<rparr>"

lemma demo_json_loaded:
  "run_provenance demo_cli_world (demo_options ''provenance-json'' ''p.json'') demo_action repoRoot configPath dirs = (Inr demo_json_provenance, dirs)"
proof -
  have "readable NFrac (JObj [(''caller'', JStr ''codex_hook'')])" by code_simp
  moreover have "assertNoSerializableLauncherAuthority (JObj [(''caller'', JStr ''codex_hook'')]) = None" by code_simp
  ultimately show ?thesis
    by (simp add: run_provenance_def json_provenance_def has_option_def demo_options_def option_value_def readJsonPayload_def demo_files_def
      json_parse_text demo_json_provenance_def)
qed

lemma demo_json_run: "\<exists>d. runRoleGuard demo_cli_world (demo_argv ''provenance-json'' ''p.json'') dirs = (Inr (Some d), dirs)"
proof -
  let ?rc = "\<lparr>rc_role = ''unknown'', rc_effective_role = ''unknown'', rc_role_source = JStr ''absent''\<rparr>"
  have caller: "assertKnownCaller (caller_of demo_json_provenance) False = None" by code_simp
  have role: "resolveAgentRole demo_regexps demo_normal (pv_put ''caller'' (caller_of demo_json_provenance) demo_json_provenance) False = Inr ?rc"
    by code_simp
  have denied: "snd (snd (guard_block demo_cli_guard (guard_request_of demo_cli_world (demo_options ''provenance-json'' ''p.json'') demo_normal
      (JStr ''/repo'') demo_action demo_json_provenance) demo_normal ?rc)) = Deny ''role_read_only'' ''role is read-only''"
    by code_simp
  from demo_cli_run [OF demo_json_loaded demo_parsed(1) refl _ _ _ demo_evaluates [OF caller role denied]] show ?thesis by auto
qed

definition demo_launcher_provenance :: provenance where
  "demo_launcher_provenance = \<lparr>pv_fields = JObj
      [(''caller'', JStr ''agent_launch''), (''role'', evidence (JStr ''orchestrator'') ''launcher_metadata''),
       (''wk'', evidence JNull ''absent''), (''operator_write_scope'', evidence JNull ''absent''),
       (''config'', JObj [(''path'', JStr ''.agent-role-guard.json''), (''source'', JStr ''repo_config'')]),
       (''session_name'', JObj [(''value'', JNull), (''source'', JStr ''absent''), (''trusted'', JBool False)])],
     pv_launcher_authority = True, pv_operator_authority = False\<rparr>"

lemma demo_cli_context_get [simp]:
  "js_get demo_cli_context ''role_context'' = JObj [(''role'', JStr ''orchestrator'')]"
  "deriveExpectedReviewedMetadataFromContext demo_cli_context = demo_cli_meta"
  by (simp_all add: demo_cli_context_def unsigned_context_def REVIEWED_FIELDS_def demo_cli_meta_def deriveExpectedReviewedMetadataFromContext_def
    nullish_def)

lemma demo_cli_minted: "mintLauncherContext demo_mac dec_int ''n1'' (JStr ''key'') demo_cli_meta demo_cli_binding 60 0 JNull = Inr demo_cli_context"
proof -
  have "is_plain_object demo_cli_meta" "is_plain_object demo_cli_binding" by (simp_all add: demo_cli_meta_def demo_cli_binding_def)
  then show ?thesis
    by (simp add: mintLauncherContext_def signLauncherContext_def checked_def reject_if_def is_object_value_def assertString_def
      js_or_nullish_def nullish_def demo_cli_context_def Let_def)
qed

lemma demo_cli_verified:
  "\<exists>p st. verifyLauncherContext demo_mac demo_bytes demo_date demo_cli_context (JStr ''key'') demo_cli_meta demo_cli_binding (Some []) 7 = (Inr p, st)"
proof -
  have "reviewed demo_cli_meta" by code_simp
  moreover have "is_plain_object demo_cli_binding" by (simp add: demo_cli_binding_def)
  ultimately show ?thesis
    using minted_verifies [of demo_mac dec_int "''n1''" "JStr ''key''" demo_cli_meta demo_cli_binding 60 0 JNull demo_cli_context "''n1''" "[]"
      demo_date 7 demo_bytes, OF demo_cli_minted _ _ demo_hypotheses(2) demo_nonce demo_hypotheses(4) demo_dates _ _ demo_hypotheses(3)]
    by auto
qed

lemma demo_cli_readable: "readable NFrac demo_cli_context"
proof -
  obtain sig where c: "demo_cli_context = JObj (unsigned_context dec_int demo_cli_meta demo_cli_binding (JStr ''n1'') 60000 0 @ [(''integrity'', JStr sig)])"
    unfolding demo_cli_context_def by blast
  have one: "reads_number NFrac (NInt 1)" by code_simp
  have meta: "readable NFrac (JObj [(''role'', JStr ''orchestrator'')])" by code_simp
  have binding: "readable NFrac demo_cli_binding" by code_simp
  have keys: "own_key_order [''schema_version'', ''kind'', ''review_id'', ''handoff_id'', ''mode'', ''repo_root'', ''input_manifest_hash'', ''registry_hash'',
      ''role_context'', ''created_at'', ''expires_at'', ''nonce'', ''action_binding'', ''integrity'']" by code_simp
  show ?thesis unfolding c using one meta binding keys
    by (simp add: unsigned_context_def REVIEWED_FIELDS_def demo_cli_meta_def nullish_def)
qed

lemma demo_context_loaded:
  "\<exists>dirs'. run_provenance demo_cli_world (demo_options ''launcher-context'' ''context.json'') demo_action (JStr ''/repo'')
     (JStr ''.agent-role-guard.json'') (\<lambda>dir. []) = (Inr demo_launcher_provenance, dirs')"
proof -
  let ?o = "demo_options ''launcher-context'' ''context.json''"
  have parts: "cw_mac demo_cli_world = demo_mac" "cw_bytes demo_cli_world = demo_bytes" "cw_date demo_cli_world = demo_date"
      "cw_hash64 demo_cli_world = id" "cw_secret_path demo_cli_world = ''secret''" "cw_verify_time demo_cli_world = 7"
    by (simp_all add: demo_cli_world_def)
  have o: "has_option ?o ''launcher-context''" "\<not> has_option ?o ''provenance-json''" "\<not> has_option ?o ''launcher-context-secret-path''"
      "\<not> has_option ?o ''launcher-context-nonce-dir''" "option_value ?o ''launcher-context'' JUndef = JStr ''context.json''"
      "option_value ?o ''launcher-context-secret-path'' JUndef = JUndef"
    by (simp_all add: has_option_def option_value_def demo_options_def)
  have role: "context_role demo_cli_context = JStr ''orchestrator''" "context_wk demo_cli_context = JNull"
    by (simp_all add: context_role_def context_wk_def js_or_nullish_def nullish_def)
  have "cli_normalize_paths [JStr ''docs/a.md''] = Inr [''docs/a.md'']" by code_simp
  then have binding: "buildExpectedActionBinding demo_cli_world demo_action (JStr ''/repo'') (JStr ''.agent-role-guard.json'') (JStr ''orchestrator'') JNull =
      Inr demo_cli_binding"
    by (simp add: buildExpectedActionBinding_def demo_action_def buildLauncherContextActionBinding_def checked_def reject_if_def js_default_def
      js_or_nullish_def nullish_def parts demo_cli_binding_def)
  have key: "js_trim ''key'' = ''key''" by code_simp
  have "context_inputs demo_cli_world ?o demo_action (JStr ''/repo'') (JStr ''.agent-role-guard.json'') False =
      Inr (demo_cli_context, demo_cli_binding, JStr ''key'')"
    using json_parse_text [OF demo_cli_readable]
    by (simp add: context_inputs_def o role binding readJsonPayload_def demo_files_def context_secret_def read_secret_def parts key)
  moreover have "gcExpiredNonces NFrac demo_date t [] = (None, [])" for t by (simp add: gcExpiredNonces_def)
  ultimately obtain dirs' where "loadVerifiedLauncherContext demo_cli_world ?o demo_action (JStr ''/repo'') (JStr ''.agent-role-guard.json'') False (\<lambda>dir. []) =
      (Inr demo_cli_context, dirs')"
    using demo_cli_verified by (auto simp: loadVerifiedLauncherContext_def parts Let_def)
  moreover have "\<not> testFixtureFlagEnabled demo_cli_world ?o" by (simp add: testFixtureFlagEnabled_def)
  moreover have "launcherProvenanceFromContext demo_cli_context (JStr ''.agent-role-guard.json'') = Inr demo_launcher_provenance"
    by (simp add: launcherProvenanceFromContext_def role demo_launcher_provenance_def)
  ultimately show ?thesis by (simp add: run_provenance_def o)
qed

lemma demo_context_run:
  "\<exists>d dirs'. runRoleGuard demo_cli_world (demo_argv ''launcher-context'' ''context.json'') (\<lambda>dir. []) = (Inr (Some d), dirs') \<and> gd_allowed d"
proof -
  obtain dirs' where loaded: "run_provenance demo_cli_world (demo_options ''launcher-context'' ''context.json'') demo_action (JStr ''/repo'')
     (JStr ''.agent-role-guard.json'') (\<lambda>dir. []) = (Inr demo_launcher_provenance, dirs')"
    using demo_context_loaded by blast
  have caller: "assertKnownCaller (caller_of demo_launcher_provenance) False = None" by code_simp
  have role: "resolveAgentRole demo_regexps demo_normal (pv_put ''caller'' (caller_of demo_launcher_provenance) demo_launcher_provenance) False = Inr demo_rc"
    by code_simp
  have allowed: "snd (snd (guard_block demo_cli_guard (guard_request_of demo_cli_world (demo_options ''launcher-context'' ''context.json'') demo_normal
      (JStr ''/repo'') demo_action demo_launcher_provenance) demo_normal demo_rc)) = Allow ''write_allowed''"
    by code_simp
  from demo_cli_run [OF loaded demo_parsed(2) refl _ _ _ demo_evaluates [OF caller role allowed]] show ?thesis by auto
qed

section \<open>Witnesses\<close>

lemma json_provenance_grants_nothing_witness:
  "\<exists>d. runRoleGuard demo_cli_world (demo_argv ''provenance-json'' ''p.json'') (\<lambda>dir. []) = (Inr (Some d), \<lambda>dir. []) \<and>
     rc_role (gd_role d) = ''unknown''"
proof -
  obtain d where d: "runRoleGuard demo_cli_world (demo_argv ''provenance-json'' ''p.json'') (\<lambda>dir. []) = (Inr (Some d), \<lambda>dir. [])"
    using demo_json_run by blast
  have "\<not> has_option (demo_options ''provenance-json'' ''p.json'') ''launcher-context''"
      "\<not> testFixtureFlagEnabled demo_cli_world (demo_options ''provenance-json'' ''p.json'')"
    by (simp_all add: has_option_def demo_options_def testFixtureFlagEnabled_def)
  then show ?thesis using json_provenance_grants_nothing [OF d demo_parsed(1)] d by blast
qed

lemma launcher_context_signs_targets_witness:
  "\<exists>d dirs' ctx. runRoleGuard demo_cli_world (demo_argv ''launcher-context'' ''context.json'') (\<lambda>dir. []) = (Inr (Some d), dirs') \<and>
     readJsonPayload demo_cli_world (JStr ''context.json'') ''--launcher-context'' = Inr ctx \<and>
     context_role ctx = JStr (rc_role (gd_role d)) \<and> (\<exists>nonce content. dirs' ''nonces'' = [(nonce, content)])"
proof -
  let ?options = "demo_options ''launcher-context'' ''context.json''"
  obtain d dirs' where d: "runRoleGuard demo_cli_world (demo_argv ''launcher-context'' ''context.json'') (\<lambda>dir. []) = (Inr (Some d), dirs')" "gd_allowed d"
    using demo_context_run by blast
  have o: "has_option ?options ''launcher-context''" "\<not> testFixtureFlagEnabled demo_cli_world ?options"
      "option_value ?options ''launcher-context'' JUndef = JStr ''context.json''" "cw_nonce_dir demo_cli_world = ''nonces''"
    by (simp_all add: has_option_def demo_options_def option_value_def testFixtureFlagEnabled_def demo_cli_world_def)
  from launcher_context_signs_targets [OF d demo_parsed(2) o(1,2)] o(3,4)
  obtain ctx files nonce content where "readJsonPayload demo_cli_world (JStr ''context.json'') ''--launcher-context'' = Inr ctx"
      "context_role ctx = JStr (rc_role (gd_role d))" "dirs' ''nonces'' = files @ [(nonce, content)]"
      "snd (gcExpiredNonces (gw_numbers (cw_guard demo_cli_world)) (cw_date demo_cli_world) (cw_collect_time demo_cli_world) []) = files"
    by (elim exE conjE) simp
  then show ?thesis using d(1) by (auto simp: gcExpiredNonces_def)
qed

end
