(* ===== verification/Spec2Isabelle.thy ===== *)
theory Spec2Isabelle
  imports JournalEvidence JournalFile SettlementProperties ObservationProperties WorkflowProperties RunnerFailures DetailProperties
    RoleGuardCommandProperties
begin

text \<open>
  Verification of the decision core of agent-launch-core (\<open>packages/agent-launch-core/src/lib\<close>), the library that launches
  worker agents, records what became of every attempt, decides what may happen next, and guards what a role may do. The modelled
  modules take records, statuses, events and tool calls as JavaScript values and return a decision or the next record. What
  holds locks, writes the journals, runs git or talks to a forge calls them.

  \<^bold>\<open>The parts of the program and the theories that model them\<close>

  \<^item> JsPrelude: the JavaScript the modules use: values, property access, assignment and spread, strict equality, truthiness,
    exceptions as sums, strings, and \<open>JSON.stringify\<close>. JsonParse: \<open>JSON.parse\<close>, and that it reads back what was written and
    refuses what was cut short. PosixPaths: \<open>path.posix\<close>. CanonicalJson: \<open>canonicalize\<close>, \<open>canonicalJson\<close> and \<open>digestOf\<close>. The hash
    function (SHA-256 of node:crypto) is the parameter \<open>H\<close> of every definition that computes a digest; where a property needs it
    to have no collision it says on which contents. A character stands for a UTF-16 code unit below 256, so the two line
    terminators and the white space above that are not represented.

  \<^item> AttemptJournal, JournalCommands and JournalFile: \<open>managed-worker-attempt-journal.mjs\<close>. An attempt of a managed worker is
    a sequence of events in an append-only journal, each chained to its predecessor by its digest. AttemptJournal has the
    event vocabulary, the payload checks, \<open>mintAttemptEvent\<close> and \<open>validateAttemptJournal\<close>; JournalCommands has the projection of
    the events to attempts, the reducer that proposes the next command, the admission of a command and the import of legacy
    evidence; JournalFile has the paths of the journal files, writing and \<open>parseAttemptJournal\<close>. A journal is a list of values, a
    refusal is the left alternative of a sum.

  \<^item> IntegrationSettlement: \<open>managed-worker-integration-settlement.mjs\<close>. It reads the integration events of a journal as
    hops (intent, git effect, status effect, completion) and decides from the last one and from fresh observations which
    effect is still to be done.

  \<^item> ManagedObservation and ManagedDetail: \<open>managed-run-observation.mjs\<close>. The observations of a journal, the selection of
    the attempt a question is about, the summary of proof verifications, the paged detail view with its cursors (their text in
    Base64Text), and the log of review originals.

  \<^item> TemporalContracts: \<open>temporal-contracts.mjs\<close>. The validators of handoff envelopes, launch records and final statuses. A
    check returns the errors it pushes; a document is valid when there is none.

  \<^item> TemporalWorkflow: \<open>temporal-workflow-state.mjs\<close>. The state machine of a dispatched attempt: the state is an object, an
    event is accepted with the next state, rejected with errors, or the reducer throws.

  \<^item> TemporalRunner: \<open>temporal-workflow-runner.mjs\<close>. The run of an attempt: it calls its five activities (a parameter: what each
    answers), turns what they report into events, and feeds them to the state machine. The context it mutates is passed along.

  \<^item> RoleGuardPaths, RoleGuardConfig and RoleGuard: \<open>role-guard-path-policy.mjs\<close>, \<open>role-guard-provenance.mjs\<close>,
    \<open>role-guard-config.mjs\<close> and \<open>role-guard.mjs\<close>. A write or a command of a role is checked against the configuration of the
    repository: the role is resolved from evidence, the targets are normalized and compared with the deny list and the scope of
    the role, a command is classified and its proof of execution checked. The file system and the regular expressions of the
    configuration are parameters.

  \<^item> LauncherContext: \<open>role-guard-launcher-context.mjs\<close> and \<open>launcher-context-mint.mjs\<close>. The signed context that gives the guard a
    trusted provenance: minting, verification, and the store of used nonces, whose files are the state.

  \<^item> RoleGuardCommand: \<open>commands/role-guard.mjs\<close> of agent-launch-cli, the command that puts the guard and the launcher context
    together: its arguments, the action, the provenance from a file or from a verified context, and the decision.

  The journal gives the settlement and the observations their events; the runner drives the workflow state through validated
  contracts; the launcher context yields the provenance that the role guard trusts.

  \<^bold>\<open>The interfaces\<close>

  \<^item> HashChain: the locale of a log whose entries carry the digest of their predecessor. The journal (JournalProperties,
    interpretation \<open>jc\<close>) and the review log (ObservationProperties, interpretation \<open>rc\<close>) are its instances; both inherit that
    equal last digests mean equal contents.

  \<^item> KeyedProjection: the locale of a fold that groups events by key. The projection to attempts (JournalFacts,
    interpretation \<open>jp\<close>) and the observations (ObservationProperties, interpretation \<open>op\<close>) are its instances.

  \<^bold>\<open>What is shown\<close>

  \<^item> JournalFacts, JournalReachable, JournalProgress: the facts of minting and validation; the journals that commands can
    make, as an inductive relation with its invariants; and what can always be recorded next. JournalProperties,
    JournalEvidence and JournalFile state the properties: admission keeps a validating journal valid, at most one reservation is open, the
    lifecycle is legal, a release needs a proof, evidence is idempotent, the chain is tamper evident, legacy import is atomic,
    what the reducer proposes is admitted, a written journal is read back, and an append that was cut short is detected.

  \<^item> SettlementProperties: hops partition the integration events; git is updated only under its condition; a completion is
    authenticated again; and a settlement whose effects are carried out in turn proposes each effect once and is then settled,
    whatever details the effects record.

  \<^item> ObservationProperties and DetailProperties: the observations agree with the journal; the pages of a detail view show
    a recorded prefix, and name it unless a forged cursor holds its position as a text; for a reader that names its attempt they
    enumerate it exactly once and end, however the journal grows; the summary counts exactly.

  \<^item> ContractProperties: what a valid document guarantees: identifiers, dispatch key, refs and branch agree; a launch
    record carries its own handoff; a succeeded status shows all its evidence; touched paths are safe.

  \<^item> WorkflowReducer and WorkflowProperties: the events the reducer accepts as an inductive relation; the lifecycle of an
    attempt as an abstract specification and the reducer as a refinement of it; typed states, final outcomes, append-only logs,
    the write-once binding, the bound on runs without an operator, the one case in which the reducer throws, and that success
    comes only from a trusted status about the attempt itself.

  \<^item> RunnerSteps, RunnerProperties and RunnerFailures: the steps of a run; success needs a trusted status whose proof
    matches; the activities are called in order; a run that returns is complete; and only an activity makes a run fail.

  \<^item> GuardPathProperties and RoleGuardProperties: the patterns mean what their reference says; accepted paths stay inside
    the repository; the deny list is exact; a role needs a verified launcher; an allowed write or command is safe.

  \<^item> LauncherContextProperties: the signed text stands for one content; a context is accepted once; what is minted verifies;
    and a nonce file that was cut short blocks the store.

  \<^item> RoleGuardCommandProperties: a provenance file grants no role; a write that the context file of a launcher allows is
    signed under the launcher's secret, alive and not used before, and is to exactly the paths, and under the role, that its
    signature covers.

  \<^bold>\<open>Bounds and fuel\<close>

  There is no fuel. The reading of JSON recurses on the length of the text that is left, the matching of a pattern on the
  lengths of pattern and text, the page of a detail view on the items that are left; everything else is structural. The bound of
  eight events in the runs of the workflow is proved with a rank on its states. Regular expressions of a configuration are asked
  once per text.

  \<^bold>\<open>Not modelled\<close>

  Of the modelled modules: the exported constants that describe the support state, the copying and printing of a decision, the
  making of the launcher's secret file, and a verification that overlaps with the collection of nonces by another process. Of the library:
  the modules that plan and recover launcher transitions, capture usage, run processes or git, read configuration and
  environment, or render prompts. Of the repository: the other commands and the worktree provisioning (agent-launch-cli), the forge
  of controlled contracts (controlled-contract), the wiki packages (wiki-core, wiki-cli, wiki-mcp) and the distribution package
  (core).
\<close>

end
